(* ===== verification/Prelude.thy ===== *)
theory Prelude
  imports
    Main
    "HOL-Library.Word"
    "HOL-Library.Sublist"
    "HOL-Library.List_Lexorder"
    "HOL-Library.Char_ord"
    "HOL-Library.Product_Lexorder"
begin

text \<open>
  Shared vocabulary of the development: machine integers, results, strings and calendar dates
  as the Rust sources use them, with the generic lemmas the component theories rest on.

  \<^item> \<open>u64\<close>, \<open>u32\<close> and \<open>u16\<close> are machine words. An \<open>i64\<close> is an \<open>int\<close> and every operation that
    could leave the 64-bit range writes its bound out (\<open>i64_checked_add\<close>, \<open>i64_saturating_add\<close>).
  \<^item> A Rust \<open>Result<T, E>\<close> is the sum \<open>E + T\<close>: \<open>Inl\<close> is \<open>Err\<close>, \<open>Inr\<close> is \<open>Ok\<close>.
  \<^item> A Rust \<open>String\<close> is the list of its UTF-8 bytes, ordered bytewise.
  \<^item> A \<open>chrono::NaiveDate\<close> is its day number, ordered chronologically. The calendar itself
    (formatting, parsing, day subtraction, time zones) is third-party code and enters every
    definition that needs it as the record \<open>chrono\<close> of its operations.
\<close>

section \<open>Collections of facts\<close>

named_theorems valid_intros \<open>introduction rules of the validity predicates\<close>
named_theorems frame_simps \<open>what an operation leaves unchanged\<close>

section \<open>Machine integers\<close>

type_synonym u64 = "64 word"
type_synonym u32 = "32 word"
type_synonym u16 = "16 word"
type_synonym i64 = int

definition i64_max :: i64 where
  "i64_max = 9223372036854775807"

definition i64_min :: i64 where
  "i64_min = - 9223372036854775808"

definition in_i64 :: "int \<Rightarrow> bool" where
  "in_i64 x \<longleftrightarrow> i64_min \<le> x \<and> x \<le> i64_max"

definition i64_checked_add :: "i64 \<Rightarrow> i64 \<Rightarrow> i64 option" where
  "i64_checked_add a b = (if in_i64 (a + b) then Some (a + b) else None)"

definition i64_clamp :: "int \<Rightarrow> i64" where
  "i64_clamp x = (if x < i64_min then i64_min else if i64_max < x then i64_max else x)"

definition i64_saturating_add :: "i64 \<Rightarrow> i64 \<Rightarrow> i64" where
  "i64_saturating_add a b = i64_clamp (a + b)"

definition i64_saturating_sub :: "i64 \<Rightarrow> i64 \<Rightarrow> i64" where
  "i64_saturating_sub a b = i64_clamp (a - b)"

definition i64_saturating_mul :: "i64 \<Rightarrow> i64 \<Rightarrow> i64" where
  "i64_saturating_mul a b = i64_clamp (a * b)"

definition u64_checked_add :: "u64 \<Rightarrow> u64 \<Rightarrow> u64 option" where
  "u64_checked_add a b = (if unat a + unat b < 2 ^ 64 then Some (a + b) else None)"

definition u64_checked_mul :: "u64 \<Rightarrow> u64 \<Rightarrow> u64 option" where
  "u64_checked_mul a b = (if unat a * unat b < 2 ^ 64 then Some (a * b) else None)"

definition u64_saturating_add :: "u64 \<Rightarrow> u64 \<Rightarrow> u64" where
  "u64_saturating_add a b = (if unat a + unat b < 2 ^ 64 then a + b else - 1)"

text \<open>\<open>i64::try_from(u64)\<close>, \<open>u64::try_from(i64)\<close> and \<open>u32::try_from(usize)\<close>.\<close>

definition i64_of_u64 :: "u64 \<Rightarrow> i64 option" where
  "i64_of_u64 x = (if uint x \<le> i64_max then Some (uint x) else None)"

definition u64_of_i64 :: "i64 \<Rightarrow> u64 option" where
  "u64_of_i64 x = (if 0 \<le> x then Some (word_of_int x) else None)"

definition u32_of_nat :: "nat \<Rightarrow> u32 option" where
  "u32_of_nat n = (if n < 2 ^ 32 then Some (of_nat n) else None)"

lemma unat_u64_less: "unat (x :: u64) < 2 ^ 64"
  using unsigned_less [of x] by simp

lemma i64_clamp_in [simp]: "in_i64 (i64_clamp x)"
  by (simp add: i64_clamp_def in_i64_def i64_min_def i64_max_def)

lemma i64_clamp_id: "in_i64 x \<Longrightarrow> i64_clamp x = x"
  by (simp add: i64_clamp_def in_i64_def)

lemma i64_checked_add_Some: "i64_checked_add a b = Some c \<longleftrightarrow> in_i64 (a + b) \<and> c = a + b"
  by (auto simp: i64_checked_add_def)

lemma u64_checked_add_Some_unat: "u64_checked_add a b = Some c \<Longrightarrow> unat c = unat a + unat b"
  by (auto simp: u64_checked_add_def unat_word_ariths split: if_splits)

lemma u64_checked_add_None: "u64_checked_add a b = None \<longleftrightarrow> 2 ^ 64 \<le> unat a + unat b"
  by (auto simp: u64_checked_add_def)

lemma u64_checked_mul_Some_unat: "u64_checked_mul a b = Some c \<Longrightarrow> unat c = unat a * unat b"
  by (auto simp: u64_checked_mul_def unat_word_ariths split: if_splits)

lemma u64_saturating_add_unat:
  "unat (u64_saturating_add a b) = min (unat a + unat b) (2 ^ 64 - 1)"
proof (cases "unat a + unat b < 2 ^ 64")
  case True
  then show ?thesis by (simp add: u64_saturating_add_def unat_word_ariths)
next
  case False
  have "unat (- 1 :: u64) = 2 ^ 64 - 1" by (simp add: unsigned_minus_1_eq_mask mask_eq_exp_minus_1)
  with False show ?thesis by (simp add: u64_saturating_add_def)
qed

lemma u64_of_i64_of_u64: "i64_of_u64 x = Some y \<Longrightarrow> u64_of_i64 y = Some x"
  by (auto simp: i64_of_u64_def u64_of_i64_def split: if_splits)

section \<open>Results\<close>

definition bind_res :: "'e + 'a \<Rightarrow> ('a \<Rightarrow> 'e + 'b) \<Rightarrow> 'e + 'b" where
  "bind_res r f = (case r of Inl e \<Rightarrow> Inl e | Inr x \<Rightarrow> f x)"

definition map_err :: "('e \<Rightarrow> 'f) \<Rightarrow> 'e + 'a \<Rightarrow> 'f + 'a" where
  "map_err g r = (case r of Inl e \<Rightarrow> Inl (g e) | Inr x \<Rightarrow> Inr x)"

definition map_ok :: "('a \<Rightarrow> 'b) \<Rightarrow> 'e + 'a \<Rightarrow> 'e + 'b" where
  "map_ok g r = (case r of Inl e \<Rightarrow> Inl e | Inr x \<Rightarrow> Inr (g x))"

definition ok_or :: "'e \<Rightarrow> 'a option \<Rightarrow> 'e + 'a" where
  "ok_or e x = (case x of None \<Rightarrow> Inl e | Some y \<Rightarrow> Inr y)"

definition result_ok :: "'e + 'a \<Rightarrow> 'a option" where
  "result_ok r = (case r of Inl e \<Rightarrow> None | Inr x \<Rightarrow> Some x)"

definition is_ok :: "'e + 'a \<Rightarrow> bool" where
  "is_ok r = (case r of Inl e \<Rightarrow> False | Inr x \<Rightarrow> True)"

text \<open>\<open>Option<Result<T, E>>::transpose\<close> and collecting an iterator of results.\<close>

definition transpose_opt :: "('a \<Rightarrow> 'e + 'b) \<Rightarrow> 'a option \<Rightarrow> 'e + 'b option" where
  "transpose_opt f x = (case x of None \<Rightarrow> Inr None | Some y \<Rightarrow> map_ok Some (f y))"

fun collect_res :: "('a \<Rightarrow> 'e + 'b) \<Rightarrow> 'a list \<Rightarrow> 'e + 'b list" where
  "collect_res f [] = Inr []"
| "collect_res f (x # xs) =
     (case f x of Inl e \<Rightarrow> Inl e
      | Inr y \<Rightarrow> (case collect_res f xs of Inl e \<Rightarrow> Inl e | Inr ys \<Rightarrow> Inr (y # ys)))"

lemma bind_res_simps [simp]: "bind_res (Inl e) f = Inl e" "bind_res (Inr x) f = f x"
  by (simp_all add: bind_res_def)

lemma map_err_simps [simp]: "map_err g (Inl e) = Inl (g e)" "map_err g (Inr x) = Inr x"
  by (simp_all add: map_err_def)

lemma map_ok_simps [simp]: "map_ok g (Inl e) = Inl e" "map_ok g (Inr x) = Inr (g x)"
  by (simp_all add: map_ok_def)

lemma ok_or_simps [simp]: "ok_or e None = Inl e" "ok_or e (Some x) = Inr x"
  by (simp_all add: ok_or_def)

lemma result_ok_simps [simp]: "result_ok (Inl e) = None" "result_ok (Inr x) = Some x"
  by (simp_all add: result_ok_def)

lemma is_ok_simps [simp]: "\<not> is_ok (Inl e)" "is_ok (Inr x)"
  by (simp_all add: is_ok_def)

lemma bind_res_Inr: "bind_res r f = Inr y \<longleftrightarrow> (\<exists>x. r = Inr x \<and> f x = Inr y)"
  by (cases r) simp_all

lemma map_err_Inr: "map_err g r = Inr y \<longleftrightarrow> r = Inr y"
  by (cases r) simp_all

lemma ok_or_Inr: "ok_or e x = Inr y \<longleftrightarrow> x = Some y"
  by (cases x) simp_all

lemma collect_res_Inr: "collect_res f xs = Inr ys \<longleftrightarrow> list_all2 (\<lambda>x y. f x = Inr y) xs ys"
proof (induction xs arbitrary: ys)
  case Nil
  then show ?case by auto
next
  case (Cons x xs)
  show ?case
    by (cases ys) (auto simp: Cons.IH[symmetric] split: sum.splits)
qed

section \<open>Strings\<close>

text \<open>
  \<open>str::trim\<close> removes the characters with the Unicode property White_Space from both ends. On the
  UTF-8 bytes these are the following encodings; on valid UTF-8 a byte prefix (suffix) equal to
  one of them is that character.
\<close>

definition ws_encodings :: "string list" where
  "ws_encodings =
     map (\<lambda>b. [char_of (b :: nat)]) [9, 10, 11, 12, 13, 32]
     @ map (map char_of)
         ([[194, 133], [194, 160], [225, 154, 128]]
          @ map (\<lambda>b. [226, 128, b]) [128, 129, 130, 131, 132, 133, 134, 135, 136, 137, 138]
          @ [[226, 128, 168], [226, 128, 169], [226, 128, 175], [226, 129, 159],
             [227, 128, 128 :: nat]])"

function strip_front :: "string list \<Rightarrow> string \<Rightarrow> string" where
  "strip_front ws s =
     (case find (\<lambda>w. w \<noteq> [] \<and> prefix w s) ws of
        None \<Rightarrow> s
      | Some w \<Rightarrow> strip_front ws (drop (length w) s))"
  by pat_completeness auto
termination
  by (relation "measure (\<lambda>(ws, s). length s)")
     (auto simp: find_Some_iff prefix_def)

declare strip_front.simps [simp del]

definition str_trim_start :: "string \<Rightarrow> string" where
  "str_trim_start s = strip_front ws_encodings s"

definition str_trim_end :: "string \<Rightarrow> string" where
  "str_trim_end s = rev (strip_front (map rev ws_encodings) (rev s))"

definition str_trim :: "string \<Rightarrow> string" where
  "str_trim s = str_trim_end (str_trim_start s)"

text \<open>\<open>value.trim().is_empty()\<close>, the validation most constructors share.\<close>

definition blank :: "string \<Rightarrow> bool" where
  "blank s \<longleftrightarrow> str_trim s = []"

lemma strip_front_suffix: "suffix (strip_front ws s) s"
proof (induction ws s rule: strip_front.induct)
  case (1 ws s)
  show ?case
    by (subst strip_front.simps)
       (auto split: option.splits dest: 1 intro: suffix_order.trans suffix_drop)
qed

lemma strip_front_stuck:
  "find (\<lambda>w. w \<noteq> [] \<and> prefix w (strip_front ws s)) ws = None"
proof (induction ws s rule: strip_front.induct)
  case (1 ws s)
  show ?case
  proof (cases "find (\<lambda>w. w \<noteq> [] \<and> prefix w s) ws")
    case None
    then show ?thesis by (simp add: strip_front.simps [of ws s])
  next
    case (Some w)
    with 1 show ?thesis by (simp add: strip_front.simps [of ws s])
  qed
qed

lemma strip_front_id:
  "find (\<lambda>w. w \<noteq> [] \<and> prefix w s) ws = None \<Longrightarrow> strip_front ws s = s"
  by (subst strip_front.simps) simp

lemma strip_front_prefix_id:
  assumes "strip_front ws s = s" and "prefix t s"
  shows "strip_front ws t = t"
proof (rule strip_front_id)
  have "find (\<lambda>w. w \<noteq> [] \<and> prefix w s) ws = None"
    using strip_front_stuck [of ws s] assms(1) by simp
  with assms(2) show "find (\<lambda>w. w \<noteq> [] \<and> prefix w t) ws = None"
    by (auto simp: find_None_iff dest: prefix_order.trans)
qed

lemma str_trim_idem [simp]: "str_trim (str_trim s) = str_trim s"
proof -
  let ?a = "str_trim_start s"
  have a: "strip_front ws_encodings ?a = ?a"
    unfolding str_trim_start_def by (rule strip_front_id) (rule strip_front_stuck)
  have "suffix (strip_front (map rev ws_encodings) (rev ?a)) (rev ?a)"
    by (rule strip_front_suffix)
  then have "prefix (str_trim_end ?a) ?a"
    by (simp add: str_trim_end_def suffix_to_prefix)
  with a have "strip_front ws_encodings (str_trim_end ?a) = str_trim_end ?a"
    by (rule strip_front_prefix_id)
  then have "str_trim_start (str_trim_end ?a) = str_trim_end ?a"
    by (simp only: str_trim_start_def)
  moreover have "str_trim_end (str_trim_end ?a) = str_trim_end ?a"
    by (simp add: str_trim_end_def strip_front_id [OF strip_front_stuck])
  ultimately show ?thesis by (simp add: str_trim_def)
qed

lemma strip_front_Nil [simp]: "strip_front ws [] = []"
  using strip_front_suffix [of ws "[]"] by simp

lemma blank_Nil [simp]: "blank []"
  unfolding blank_def str_trim_def str_trim_end_def str_trim_start_def by simp

lemma blank_trim [simp]: "blank (str_trim s) = blank s"
  by (simp add: blank_def)

text \<open>Text that starts and ends with a visible ASCII character is its own trimming.\<close>

definition visible :: "char \<Rightarrow> bool" where
  "visible ch \<longleftrightarrow> of_char ch \<in> {33 .. 126 :: nat}"

lemma ws_encodings_invisible:
  "list_all (\<lambda>w. w \<noteq> [] \<and> \<not> visible (hd w) \<and> \<not> visible (last w)) ws_encodings"
  by (simp add: ws_encodings_def visible_def)

lemma strip_front_visible:
  assumes "list_all (\<lambda>w. \<not> visible (hd w)) ws" and "s \<noteq> []" and "visible (hd s)"
  shows "strip_front ws s = s"
proof (rule strip_front_id)
  have "\<not> prefix w s" if "w \<in> set ws" "w \<noteq> []" for w
  proof
    assume "prefix w s"
    with that(2) have "hd w = hd s" by (auto simp: prefix_def)
    with assms(1,3) that(1) show False by (auto simp: list_all_iff)
  qed
  then show "find (\<lambda>w. w \<noteq> [] \<and> prefix w s) ws = None"
    by (auto simp: find_None_iff)
qed

lemma str_trim_visible:
  assumes "s \<noteq> []" and "visible (hd s)" and "visible (last s)"
  shows "str_trim s = s"
proof -
  have ws: "\<forall>w \<in> set ws_encodings. w \<noteq> [] \<and> \<not> visible (hd w) \<and> \<not> visible (last w)"
    using ws_encodings_invisible by (simp only: list_all_iff)
  have "str_trim_start s = s"
    unfolding str_trim_start_def
    by (rule strip_front_visible) (use assms ws in \<open>auto simp: list_all_iff\<close>)
  moreover have "strip_front (map rev ws_encodings) (rev s) = rev s"
    by (rule strip_front_visible)
       (use assms ws in \<open>auto simp: list_all_iff hd_rev simp del: last_rev\<close>)
  ultimately show ?thesis by (simp add: str_trim_def str_trim_end_def)
qed

lemma not_blank_visible:
  "s \<noteq> [] \<Longrightarrow> visible (hd s) \<Longrightarrow> visible (last s) \<Longrightarrow> \<not> blank s"
  by (simp add: blank_def str_trim_visible)

section \<open>Dates and the calendar library\<close>

datatype naive_date = NaiveDate (day_number: int)

instantiation naive_date :: linorder
begin

definition less_eq_naive_date :: "naive_date \<Rightarrow> naive_date \<Rightarrow> bool" where
  "less_eq_naive_date a b \<longleftrightarrow> day_number a \<le> day_number b"

definition less_naive_date :: "naive_date \<Rightarrow> naive_date \<Rightarrow> bool" where
  "less_naive_date a b \<longleftrightarrow> day_number a < day_number b"

instance
  by standard (auto simp: less_eq_naive_date_def less_naive_date_def naive_date.expand)

end

text \<open>A \<open>DateTime<Utc>\<close> is an instant, counted in nanoseconds from the Unix epoch.\<close>

type_synonym utc_instant = int

text \<open>
  The operations of the third-party crates \<open>chrono\<close> and \<open>chrono_tz\<close> that the code calls:
  \<open>NaiveDate::to_string\<close>, \<open>NaiveDate::parse_from_str(_, "%Y-%m-%d")\<close>,
  \<open>NaiveDate::checked_sub_days(Days::new(_))\<close>, \<open>NaiveDate::from_ymd_opt\<close>,
  \<open>DateTime::from_timestamp_millis\<close>, \<open>DateTime::timestamp_millis\<close>,
  \<open>Tz::from_str\<close> followed by \<open>with_timezone(_).date_naive()\<close>, and
  \<open>timestamp_millis_opt(_).single()\<close> followed by \<open>to_rfc3339_opts(Millis, true)\<close>.
\<close>

record chrono =
  date_to_string :: "naive_date \<Rightarrow> string"
  parse_date :: "string \<Rightarrow> naive_date option"
  checked_sub_days :: "naive_date \<Rightarrow> u64 \<Rightarrow> naive_date option"
  from_ymd_opt :: "int \<Rightarrow> nat \<Rightarrow> nat \<Rightarrow> naive_date option"
  from_timestamp_millis :: "i64 \<Rightarrow> utc_instant option"
  timestamp_millis :: "utc_instant \<Rightarrow> i64"
  zoned_date :: "utc_instant \<Rightarrow> string \<Rightarrow> naive_date option"
  millis_to_rfc3339 :: "i64 \<Rightarrow> string option"

end
