(* ===== verification/Gregorian.thy ===== *)
theory Gregorian
  imports Prelude
begin

text \<open>
  A concrete instance of the calendar operations of \<open>Prelude\<close>, the proleptic Gregorian calendar
  with the single time zone \<open>UTC\<close>. The model never depends on it: it is the instance at which the
  theorems that assume something of the calendar library are evaluated.
\<close>

definition days_from_civil :: "int \<Rightarrow> int \<Rightarrow> int \<Rightarrow> int" where
  "days_from_civil y m d =
     (let y' = (if m \<le> 2 then y - 1 else y);
          era = y' div 400;
          yoe = y' - era * 400;
          doy = (153 * (if m > 2 then m - 3 else m + 9) + 2) div 5 + d - 1;
          doe = yoe * 365 + yoe div 4 - yoe div 100 + doy
      in era * 146097 + doe - 719468)"

definition year_of_era :: "int \<Rightarrow> int" where
  "year_of_era doe = (doe - doe div 1460 + doe div 36524 - doe div 146096) div 365"

definition civil_of_year_day :: "int \<Rightarrow> int \<Rightarrow> int \<times> int \<times> int" where
  "civil_of_year_day y doy =
     (if (5 * doy + 2) div 153 < 10
      then (if (5 * doy + 2) div 153 + 3 \<le> 2 then y + 1 else y, (5 * doy + 2) div 153 + 3,
            doy - (153 * ((5 * doy + 2) div 153) + 2) div 5 + 1)
      else (y + 1, (5 * doy + 2) div 153 - 9,
            doy - (153 * ((5 * doy + 2) div 153) + 2) div 5 + 1))"

definition civil_of_era_day :: "int \<Rightarrow> int \<Rightarrow> int \<Rightarrow> int \<times> int \<times> int" where
  "civil_of_era_day era doe yoe =
     civil_of_year_day (yoe + era * 400) (doe - (365 * yoe + yoe div 4 - yoe div 100))"

definition civil_from_days :: "int \<Rightarrow> int \<times> int \<times> int" where
  "civil_from_days n =
     civil_of_era_day ((n + 719468) div 146097) ((n + 719468) mod 146097)
       (year_of_era ((n + 719468) mod 146097))"

definition digit :: "int \<Rightarrow> char" where
  "digit n = ''0123456789'' ! nat (n mod 10)"

definition two_digits :: "int \<Rightarrow> string" where
  "two_digits n = [digit (n div 10), digit n]"

definition four_digits :: "int \<Rightarrow> string" where
  "four_digits n = [digit (n div 1000), digit (n div 100), digit (n div 10), digit n]"

definition gregorian_date :: "naive_date \<Rightarrow> string" where
  "gregorian_date date =
     (case civil_from_days (day_number date) of
        (y, m, d) \<Rightarrow> four_digits y @ ''-'' @ two_digits m @ ''-'' @ two_digits d)"

definition digits_value :: "string \<Rightarrow> int" where
  "digits_value s = foldl (\<lambda>acc ch. acc * 10 + int (of_char ch) - 48) 0 s"

definition gregorian_parse :: "string \<Rightarrow> naive_date option" where
  "gregorian_parse s =
     (let date = NaiveDate (days_from_civil (digits_value (take 4 s))
                   (digits_value (take 2 (drop 5 s))) (digits_value (take 2 (drop 8 s))))
      in if length s = 10 \<and> gregorian_date date = s then Some date else None)"

definition gregorian_rfc3339 :: "i64 \<Rightarrow> string" where
  "gregorian_rfc3339 ms =
     (let t = ms mod 86400000
      in gregorian_date (NaiveDate (ms div 86400000)) @ ''T'' @
         two_digits (t div 3600000) @ '':'' @ two_digits (t div 60000 mod 60) @ '':'' @
         two_digits (t div 1000 mod 60) @ ''.'' @ [digit (t div 100)] @ two_digits t @ ''Z'')"

definition gregorian :: chrono where
  "gregorian =
     \<lparr>date_to_string = gregorian_date,
      parse_date = gregorian_parse,
      checked_sub_days = (\<lambda>d n. Some (NaiveDate (day_number d - uint n))),
      from_ymd_opt = (\<lambda>y m d.
        let n = days_from_civil y (int m) (int d)
        in if civil_from_days n = (y, int m, int d) then Some (NaiveDate n) else None),
      from_timestamp_millis = (\<lambda>ms. Some (ms * 1000000)),
      timestamp_millis = (\<lambda>t. t div 1000000),
      zoned_date = (\<lambda>t tz. if tz = ''UTC'' then Some (NaiveDate (t div 86400000000000)) else None),
      millis_to_rfc3339 = (\<lambda>ms. Some (gregorian_rfc3339 ms))\<rparr>"

lemma gregorian_simps [simp]:
  "date_to_string gregorian = gregorian_date"
  "parse_date gregorian = gregorian_parse"
  "checked_sub_days gregorian d n = Some (NaiveDate (day_number d - uint n))"
  "from_timestamp_millis gregorian ms = Some (ms * 1000000)"
  "timestamp_millis gregorian t = t div 1000000"
  by (simp_all add: gregorian_def)

lemmas gregorian_eval =
  gregorian_date_def civil_from_days_def civil_of_era_day_def civil_of_year_day_def
  year_of_era_def days_from_civil_def four_digits_def two_digits_def
  digit_def Let_def

lemma gregorian_date_example: "gregorian_date (NaiveDate 20618) = ''2026-06-14''"
  by (simp add: gregorian_eval)

end
