(* ===== verification/Domain.thy ===== *)
theory Domain
  imports Prelude Gregorian
begin

text \<open>
  The product rules of \<open>src/src-tauri/src/domain\<close>: source keys (\<open>source.rs\<close>), validated token
  usage, costs and currencies (\<open>usage.rs\<close>), the identity keys of daily and session records
  (\<open>identity.rs\<close>) and the settings document (\<open>settings.rs\<close>). Every constructor that validates
  returns a sum; the lemmas say which inputs each one accepts and what it stores.
\<close>

section \<open>Source keys\<close>

datatype source_key =
    ClaudeCode | Codex | OpenCode | Pi | Cline | ZCode | Antigravity | GrokBuild
  | CommandCode | DeepSeekHarness | Zed

fun source_key_as_str :: "source_key \<Rightarrow> string" where
  "source_key_as_str ClaudeCode = ''claude-code''"
| "source_key_as_str Codex = ''codex''"
| "source_key_as_str OpenCode = ''opencode''"
| "source_key_as_str Pi = ''pi''"
| "source_key_as_str Cline = ''cline''"
| "source_key_as_str ZCode = ''zcode''"
| "source_key_as_str Antigravity = ''antigravity''"
| "source_key_as_str GrokBuild = ''grok-build''"
| "source_key_as_str CommandCode = ''command-code''"
| "source_key_as_str DeepSeekHarness = ''deepseek-harness''"
| "source_key_as_str Zed = ''zed''"

definition source_key_from_storage :: "string \<Rightarrow> source_key option" where
  "source_key_from_storage value =
     (if value = ''claude-code'' then Some ClaudeCode
      else if value = ''codex'' then Some Codex
      else if value = ''opencode'' then Some OpenCode
      else if value = ''pi'' then Some Pi
      else if value = ''cline'' then Some Cline
      else if value = ''zcode'' then Some ZCode
      else if value = ''antigravity'' then Some Antigravity
      else if value = ''grok-build'' then Some GrokBuild
      else if value = ''command-code'' then Some CommandCode
      else if value = ''deepseek-harness'' then Some DeepSeekHarness
      else if value = ''zed'' then Some Zed
      else None)"

section \<open>Token usage\<close>

datatype usage_validation_error =
    TokenOverflow
  | ClassifiedTokensExceedTotal u64 u64
  | InvalidCurrencyCode

record token_usage =
  input_tokens :: "u64 option"
  output_tokens :: "u64 option"
  cache_creation_tokens :: "u64 option"
  cache_read_tokens :: "u64 option"
  total_tokens :: u64
  unclassified_tokens :: "u64 option"

text \<open>\<open>into_iter().flatten().try_fold(0, u64::checked_add)\<close>.\<close>

fun try_sum :: "u64 \<Rightarrow> u64 option list \<Rightarrow> u64 option" where
  "try_sum acc [] = Some acc"
| "try_sum acc (None # xs) = try_sum acc xs"
| "try_sum acc (Some x # xs) =
     (case u64_checked_add acc x of None \<Rightarrow> None | Some s \<Rightarrow> try_sum s xs)"

definition token_usage_new ::
  "u64 option \<Rightarrow> u64 option \<Rightarrow> u64 option \<Rightarrow> u64 option \<Rightarrow> u64
   \<Rightarrow> usage_validation_error + token_usage" where
  "token_usage_new inp outp cc cr tot =
     (case try_sum 0 [inp, outp, cc, cr] of
        None \<Rightarrow> Inl TokenOverflow
      | Some classified \<Rightarrow>
          if tot < classified then Inl (ClassifiedTokensExceedTotal classified tot)
          else
            let all_known = inp \<noteq> None \<and> outp \<noteq> None \<and> cc \<noteq> None \<and> cr \<noteq> None
            in Inr \<lparr>input_tokens = inp, output_tokens = outp, cache_creation_tokens = cc,
                    cache_read_tokens = cr, total_tokens = tot,
                    unclassified_tokens =
                      (if all_known then Some (tot - classified) else None)\<rparr>)"

text \<open>What the fields of a usage value add up to, over the naturals.\<close>

definition known_sum :: "u64 option list \<Rightarrow> nat" where
  "known_sum xs = sum_list (map (\<lambda>x. case x of None \<Rightarrow> 0 | Some t \<Rightarrow> unat t) xs)"

definition categories :: "token_usage \<Rightarrow> u64 option list" where
  "categories t =
     [input_tokens t, output_tokens t, cache_creation_tokens t, cache_read_tokens t]"

definition token_usage_valid :: "token_usage \<Rightarrow> bool" where
  "token_usage_valid t \<longleftrightarrow>
     known_sum (categories t) \<le> unat (total_tokens t) \<and>
     (if None \<in> set (categories t) then unclassified_tokens t = None
      else \<exists>u. unclassified_tokens t = Some u \<and>
             known_sum (categories t) + unat u = unat (total_tokens t))"

section \<open>Costs\<close>

datatype cost_kind =
  SourceReported | CollectorCalculated | CollectorMixed | BurnlyCalculated | UnknownCostKind

datatype valued_cost_status = Available | Estimated

datatype currency_code = CurrencyCode string

definition currency_code_new :: "string \<Rightarrow> usage_validation_error + currency_code" where
  "currency_code_new value =
     (if length value = 3 \<and> list_all (\<lambda>c. CHR ''A'' \<le> c \<and> c \<le> CHR ''Z'') value
      then Inr (CurrencyCode value) else Inl InvalidCurrencyCode)"

fun currency_code_as_str :: "currency_code \<Rightarrow> string" where
  "currency_code_as_str (CurrencyCode s) = s"

datatype usage_cost =
    Valued (amount_micros: u64) (currency: currency_code) (cost_kind: cost_kind)
      (valued_status: valued_cost_status)
  | NotApplicable (cost_kind: cost_kind)
  | Unavailable (cost_kind: cost_kind)

datatype data_quality = QualityComplete | QualityPartial

section \<open>Identity\<close>

datatype identity_error = EmptyAggregationTimezone | EmptySessionId

definition daily_identity_version :: u16 where
  "daily_identity_version = 1"

definition session_identity_version :: u16 where
  "session_identity_version = 1"

text \<open>\<open>{source}:daily:v1:{timezone}:{date}\<close>; the version is formatted as its decimal digits.\<close>

definition daily_source_key ::
  "chrono \<Rightarrow> source_key \<Rightarrow> naive_date \<Rightarrow> string \<Rightarrow> identity_error + string" where
  "daily_source_key c source usage_date tz =
     (if blank tz then Inl EmptyAggregationTimezone
      else Inr (source_key_as_str source @ '':daily:v1:'' @ tz @ '':'' @
                date_to_string c usage_date))"

definition session_source_key :: "source_key \<Rightarrow> string \<Rightarrow> identity_error + string" where
  "session_source_key source session_id =
     (if blank session_id then Inl EmptySessionId
      else Inr (source_key_as_str source @ '':session:v1:'' @ session_id))"

section \<open>Settings\<close>

datatype close_behavior = Hide | Quit

datatype settings_validation_error = InvalidCloseBehavior | InvalidRevision

definition close_behavior_parse :: "string \<Rightarrow> settings_validation_error + close_behavior" where
  "close_behavior_parse value =
     (if value = ''hide'' then Inr Hide else if value = ''quit'' then Inr Quit
      else Inl InvalidCloseBehavior)"

fun close_behavior_as_str :: "close_behavior \<Rightarrow> string" where
  "close_behavior_as_str Hide = ''hide''"
| "close_behavior_as_str Quit = ''quit''"

record settings =
  launch_at_login :: bool
  close_behavior :: close_behavior

record settings_document =
  document_settings :: settings
  revision :: i64

definition settings_new :: "bool \<Rightarrow> string \<Rightarrow> settings_validation_error + settings" where
  "settings_new launch close =
     bind_res (close_behavior_parse close)
       (\<lambda>b. Inr \<lparr>launch_at_login = launch, close_behavior = b\<rparr>)"

definition settings_document_new ::
  "settings \<Rightarrow> i64 \<Rightarrow> settings_validation_error + settings_document" where
  "settings_document_new s rev_no =
     (if rev_no \<le> 0 then Inl InvalidRevision
      else Inr \<lparr>document_settings = s, revision = rev_no\<rparr>)"

section \<open>Lemmas\<close>

lemma source_key_roundtrip [simp]: "source_key_from_storage (source_key_as_str k) = Some k"
  by (cases k) (simp_all add: source_key_from_storage_def)

lemma source_key_from_storage_Some:
  "source_key_from_storage s = Some k \<Longrightarrow> s = source_key_as_str k"
  by (auto simp: source_key_from_storage_def split: if_splits)

lemma source_key_as_str_inject [simp]:
  "source_key_as_str a = source_key_as_str b \<longleftrightarrow> a = b"
  using source_key_roundtrip [of a] source_key_roundtrip [of b] by (metis option.inject)

lemma source_key_no_colon: "CHR '':'' \<notin> set (source_key_as_str k)"
  by (cases k) simp_all

lemma source_key_not_blank [simp]: "source_key_as_str k \<noteq> []"
  by (cases k) simp_all

lemma try_sum_Some_unat: "try_sum acc xs = Some s \<Longrightarrow> unat s = unat acc + known_sum xs"
proof (induction acc xs rule: try_sum.induct)
  case (3 acc x xs)
  then show ?case
    by (auto simp: known_sum_def u64_checked_add_Some_unat split: option.splits)
qed (simp_all add: known_sum_def)

lemma try_sum_None: "try_sum acc xs = None \<longleftrightarrow> 2 ^ 64 \<le> unat acc + known_sum xs"
proof (induction acc xs rule: try_sum.induct)
  case (1 acc)
  show ?case using unat_u64_less [of acc] by (simp add: known_sum_def)
next
  case (2 acc xs)
  then show ?case by (simp add: known_sum_def)
next
  case (3 acc x xs)
  show ?case
  proof (cases "u64_checked_add acc x")
    case None
    then have "2 ^ 64 \<le> unat acc + unat x" by (simp only: u64_checked_add_None)
    with None show ?thesis by (simp add: known_sum_def)
  next
    case (Some s)
    with 3 show ?thesis by (simp add: u64_checked_add_Some_unat known_sum_def add.assoc)
  qed
qed

lemma append_colon_inject:
  assumes "a @ CHR '':'' # x = b @ CHR '':'' # y"
    and "CHR '':'' \<notin> set a" and "CHR '':'' \<notin> set b"
  shows "a = b \<and> x = y"
  using assms
proof (induction a arbitrary: b)
  case Nil
  then show ?case by (cases b) auto
next
  case (Cons c a)
  then show ?case by (cases b) auto
qed

lemma append_last_colon_inject:
  assumes "x @ CHR '':'' # a = y @ CHR '':'' # b"
    and "CHR '':'' \<notin> set a" and "CHR '':'' \<notin> set b"
  shows "x = y \<and> a = b"
proof -
  have "rev a @ CHR '':'' # rev x = rev b @ CHR '':'' # rev y"
    using arg_cong [OF assms(1), of rev] by simp
  then have "rev a = rev b \<and> rev x = rev y"
    by (rule append_colon_inject) (use assms(2,3) in simp_all)
  then show ?thesis by simp
qed

lemma daily_source_key_prefix:
  "daily_source_key c s d tz = Inr k \<Longrightarrow>
     k = source_key_as_str s @ CHR '':'' # ''daily:v1:'' @ tz @ CHR '':'' # date_to_string c d"
  by (auto simp: daily_source_key_def split: if_splits)

lemma session_source_key_prefix:
  "session_source_key s i = Inr k \<Longrightarrow>
     k = source_key_as_str s @ CHR '':'' # ''session:v1:'' @ i"
  by (auto simp: session_source_key_def split: if_splits)

section \<open>Properties\<close>

text \<open>C22: \<open>TokenUsage::new\<close> accepts its arguments exactly when the known categories add up, without
  regard to machine overflow, to at most the authoritative total; the accepted value keeps every
  argument, satisfies the validity invariant of token usage (the unclassified remainder is present
  exactly when all four categories are known, and then completes the total), an overflowing sum is
  reported as such before the comparison, and an excess is reported with both numbers.\<close>

theorem token_usage_new_spec:
  "case token_usage_new inp outp cc cr tot of
     Inl TokenOverflow \<Rightarrow> 2 ^ 64 \<le> known_sum [inp, outp, cc, cr]
   | Inl (ClassifiedTokensExceedTotal classified t) \<Rightarrow>
       t = tot \<and> unat classified = known_sum [inp, outp, cc, cr] \<and>
       unat tot < known_sum [inp, outp, cc, cr]
   | Inl InvalidCurrencyCode \<Rightarrow> False
   | Inr u \<Rightarrow>
       categories u = [inp, outp, cc, cr] \<and> total_tokens u = tot \<and> token_usage_valid u"
proof (cases "try_sum 0 [inp, outp, cc, cr]")
  case None
  then have "2 ^ 64 \<le> known_sum [inp, outp, cc, cr]"
    using try_sum_None [of 0 "[inp, outp, cc, cr]"] by simp
  with None show ?thesis by (simp add: token_usage_new_def)
next
  case (Some s)
  then have s: "unat s = known_sum [inp, outp, cc, cr]"
    using try_sum_Some_unat by fastforce
  show ?thesis
  proof (cases "tot < s")
    case True
    with Some s show ?thesis by (simp add: token_usage_new_def word_less_nat_alt)
  next
    case False
    then have le: "unat s \<le> unat tot" by (simp add: word_less_nat_alt)
    then have diff: "unat (tot - s) = unat tot - unat s" by (rule unat_sub [unfolded word_le_nat_alt])
    show ?thesis
      using Some False s le diff
      by (auto simp: token_usage_new_def categories_def token_usage_valid_def Let_def)
  qed
qed

text \<open>The stable product identity of a source survives storage: reading back what
  \<open>SourceKey::as_str\<close> writes gives the key, and a stored string is accepted only if it is what
  \<open>as_str\<close> writes for the key it is read as.\<close>

lemma source_key_storage_bijection:
  "source_key_from_storage s = Some k \<longleftrightarrow> s = source_key_as_str k"
  by (auto dest: source_key_from_storage_Some)

lemma daily_source_key_inj_aux:
  assumes "daily_source_key c s d tz = Inr k" and "daily_source_key c s' d' tz' = Inr k"
    and "CHR '':'' \<notin> set (date_to_string c d)" and "CHR '':'' \<notin> set (date_to_string c d')"
  shows "s = s' \<and> date_to_string c d = date_to_string c d' \<and> tz = tz'"
proof -
  let ?D = "\<lambda>d. date_to_string c d"
  have "source_key_as_str s @ CHR '':'' # ''daily:v1:'' @ tz @ CHR '':'' # ?D d =
        source_key_as_str s' @ CHR '':'' # ''daily:v1:'' @ tz' @ CHR '':'' # ?D d'"
    using daily_source_key_prefix [OF assms(1)] daily_source_key_prefix [OF assms(2)] by simp
  then have "source_key_as_str s = source_key_as_str s' \<and>
      ''daily:v1:'' @ tz @ CHR '':'' # ?D d = ''daily:v1:'' @ tz' @ CHR '':'' # ?D d'"
    by (rule append_colon_inject) (rule source_key_no_colon)+
  then have s: "s = s'" and "tz @ CHR '':'' # ?D d = tz' @ CHR '':'' # ?D d'"
    by simp_all
  then have "tz = tz' \<and> ?D d = ?D d'"
    using assms(3,4) append_last_colon_inject by blast
  with s show ?thesis by simp
qed

text \<open>C24: daily identity is injective. Records that differ in source, in date or in aggregation
  timezone get different daily keys, whatever characters the timezone names contain (a colon
  included); of the calendar only this is used, that it prints the two dates without a colon and,
  when they differ, differently.\<close>

theorem daily_source_key_injective:
  assumes "daily_source_key c s d tz = Inr k" and "daily_source_key c s' d' tz' = Inr k'"
    and "CHR '':'' \<notin> set (date_to_string c d)" and "CHR '':'' \<notin> set (date_to_string c d')"
    and "d \<noteq> d' \<Longrightarrow> date_to_string c d \<noteq> date_to_string c d'"
    and "(s, d, tz) \<noteq> (s', d', tz')"
  shows "k \<noteq> k'"
  using daily_source_key_inj_aux [of c s d tz k s' d' tz'] assms by auto

theorem daily_source_key_injective_witness:
  "''codex:daily:v1:A:2026-06-13:2026-06-14'' \<noteq> ''codex:daily:v1:A:2026-06-14''"
proof -
  have k: "daily_source_key gregorian Codex (NaiveDate 20618) ''A:2026-06-13'' =
      Inr ''codex:daily:v1:A:2026-06-13:2026-06-14''"
    by (simp add: daily_source_key_def not_blank_visible visible_def gregorian_date_example)
  have k': "daily_source_key gregorian Codex (NaiveDate 20618) ''A'' =
      Inr ''codex:daily:v1:A:2026-06-14''"
    by (simp add: daily_source_key_def not_blank_visible visible_def gregorian_date_example)
  have n: "CHR '':'' \<notin> set (date_to_string gregorian (NaiveDate 20618))"
    by (simp add: gregorian_date_example)
  show ?thesis
    by (rule daily_source_key_injective [OF k k' n n]) simp_all
qed

end
