(* ===== verification/Collection.thy ===== *)
theory Collection
  imports Domain
begin

text \<open>
  The collector contract of \<open>src/src-tauri/src/application/collection\<close>: requests and their scopes
  (\<open>request.rs\<close>), usage candidates (\<open>candidate.rs\<close>), collector descriptors (\<open>descriptor.rs\<close>),
  collection results and their outcome (\<open>result.rs\<close>) and collector failures (\<open>failure.rs\<close>).
\<close>

section \<open>Requests\<close>

datatype request_validation_error =
  EmptyCollectionId | InvalidDateRange | MissingAggregationTimezone

datatype collection_id = CollectionId string

definition collection_id_new :: "string \<Rightarrow> request_validation_error + collection_id" where
  "collection_id_new value = (if blank value then Inl EmptyCollectionId else Inr (CollectionId value))"

datatype collection_projection = Daily | Session

record incremental_scope =
  start_date :: naive_date
  end_date :: naive_date

datatype collection_scope = Full | Incremental incremental_scope

definition collection_scope_incremental ::
  "naive_date \<Rightarrow> naive_date \<Rightarrow> request_validation_error + collection_scope" where
  "collection_scope_incremental start_d end_d =
     (if end_d < start_d then Inl InvalidDateRange
      else Inr (Incremental \<lparr>start_date = start_d, end_date = end_d\<rparr>))"

datatype collection_settings = ClaudeCodeSettings

record collection_request =
  req_collection_id :: collection_id
  req_source :: source_key
  req_projection :: collection_projection
  req_scope :: collection_scope
  req_aggregation_timezone :: "string option"
  req_settings :: collection_settings
  req_requested_at :: utc_instant

definition collection_request_daily ::
  "collection_id \<Rightarrow> source_key \<Rightarrow> collection_scope \<Rightarrow> string \<Rightarrow> utc_instant
   \<Rightarrow> request_validation_error + collection_request" where
  "collection_request_daily cid source scope tz requested_at =
     (if blank tz then Inl MissingAggregationTimezone
      else Inr \<lparr>req_collection_id = cid, req_source = source, req_projection = Daily,
                req_scope = scope, req_aggregation_timezone = Some tz,
                req_settings = ClaudeCodeSettings, req_requested_at = requested_at\<rparr>)"

definition collection_request_session ::
  "collection_id \<Rightarrow> source_key \<Rightarrow> collection_scope \<Rightarrow> utc_instant \<Rightarrow> collection_request" where
  "collection_request_session cid source scope requested_at =
     \<lparr>req_collection_id = cid, req_source = source, req_projection = Session,
      req_scope = scope, req_aggregation_timezone = None,
      req_settings = ClaudeCodeSettings, req_requested_at = requested_at\<rparr>"

section \<open>Descriptors\<close>

datatype descriptor_validation_error = EmptyCollectorKeyDescriptor

datatype collector_key = CollectorKey string

definition collector_key_new :: "string \<Rightarrow> descriptor_validation_error + collector_key" where
  "collector_key_new value =
     (if blank value then Inl EmptyCollectorKeyDescriptor else Inr (CollectorKey value))"

fun collector_key_as_str :: "collector_key \<Rightarrow> string" where
  "collector_key_as_str (CollectorKey s) = s"

datatype collector_integrity = IntegrityVerified | IntegrityMismatch | UnverifiedDevelopment

record profile_descriptor =
  pd_collector :: collector_key
  pd_source :: source_key
  pd_profile_version :: u16
  pd_supported_projections :: "collection_projection list"

record collector_descriptor =
  cd_collector :: collector_key
  cd_display_name :: string
  cd_runtime_version :: string
  cd_expected_version :: string
  cd_adapter_version :: u16
  cd_binary_target :: string
  cd_integrity :: collector_integrity
  cd_profiles :: "profile_descriptor list"

section \<open>Candidates\<close>

record candidate_warning =
  cw_code :: string
  cw_message :: string

record candidate_provenance =
  prov_source :: source_key
  prov_collector :: collector_key
  prov_collector_version :: string
  prov_profile_version :: u16
  prov_collection_id :: collection_id
  prov_observed_at :: utc_instant
  prov_data_quality :: data_quality
  prov_warnings :: "candidate_warning list"

record model_usage_candidate =
  mc_raw_model_id :: string
  mc_tokens :: token_usage
  mc_cost :: usage_cost

record daily_usage_candidate =
  dc_provenance :: candidate_provenance
  dc_source_key :: string
  dc_usage_date :: naive_date
  dc_aggregation_timezone :: string
  dc_tokens :: token_usage
  dc_cost :: usage_cost
  dc_model_breakdowns :: "model_usage_candidate list"

record session_usage_candidate =
  sc_provenance :: candidate_provenance
  sc_source_key :: string
  sc_source_session_id :: string
  sc_project_path :: "string option"
  sc_first_activity_at :: "utc_instant option"
  sc_last_activity_at :: "utc_instant option"
  sc_tokens :: token_usage
  sc_cost :: usage_cost
  sc_model_breakdowns :: "model_usage_candidate list"

section \<open>Results\<close>

datatype collection_outcome = CollectionComplete | CollectionPartial | CollectionEmpty

datatype result_validation_error =
    EmptyCollectorVersion | FinishedBeforeStarted | TooManyRejections | TooManyWarnings
  | AllRecordsRejectedResult

record rejected_record =
  rej_code :: string
  rej_record_index :: "u32 option"

record collection_warning =
  warn_code :: string
  warn_message :: string

record process_summary =
  runtime_ms :: u64
  stdout_bytes :: u64
  stderr_bytes :: u64
  exit_code :: "int option"

record collection_period =
  started_at :: utc_instant
  finished_at :: utc_instant

record collection_metadata =
  md_collection_id :: collection_id
  md_collector :: collector_key
  md_collector_version :: string
  md_source :: source_key
  md_effective_scope :: collection_scope
  md_profile_version :: u16
  md_started_at :: utc_instant
  md_finished_at :: utc_instant

definition collection_metadata_new ::
  "collection_id \<Rightarrow> collector_key \<Rightarrow> string \<Rightarrow> source_key \<Rightarrow> collection_scope \<Rightarrow> u16
   \<Rightarrow> collection_period \<Rightarrow> result_validation_error + collection_metadata" where
  "collection_metadata_new cid collector version source scope profile period =
     (if blank version then Inl EmptyCollectorVersion
      else if finished_at period < started_at period then Inl FinishedBeforeStarted
      else Inr \<lparr>md_collection_id = cid, md_collector = collector,
                md_collector_version = version, md_source = source,
                md_effective_scope = scope, md_profile_version = profile,
                md_started_at = started_at period, md_finished_at = finished_at period\<rparr>)"

record collection_result =
  res_metadata :: collection_metadata
  res_projection :: collection_projection
  res_outcome :: collection_outcome
  res_daily_candidates :: "daily_usage_candidate list"
  res_session_candidates :: "session_usage_candidate list"
  res_rejections :: "rejected_record list"
  res_warnings :: "collection_warning list"
  res_process_summary :: process_summary

definition max_rejections :: nat where "max_rejections = 100"
definition max_warnings :: nat where "max_warnings = 100"

definition collection_result_daily ::
  "collection_metadata \<Rightarrow> daily_usage_candidate list \<Rightarrow> rejected_record list
   \<Rightarrow> collection_warning list \<Rightarrow> process_summary
   \<Rightarrow> result_validation_error + collection_result" where
  "collection_result_daily metadata candidates rejections warnings summary =
     (if max_rejections < length rejections then Inl TooManyRejections
      else if max_warnings < length warnings then Inl TooManyWarnings
      else if candidates = [] \<and> rejections \<noteq> [] then Inl AllRecordsRejectedResult
      else
        let outcome = (if candidates = [] then CollectionEmpty
                       else if rejections = [] then CollectionComplete
                       else CollectionPartial)
        in Inr \<lparr>res_metadata = metadata, res_projection = Daily, res_outcome = outcome,
                res_daily_candidates = candidates, res_session_candidates = [],
                res_rejections = rejections, res_warnings = warnings,
                res_process_summary = summary\<rparr>)"

definition collection_result_session ::
  "collection_metadata \<Rightarrow> session_usage_candidate list \<Rightarrow> rejected_record list
   \<Rightarrow> collection_warning list \<Rightarrow> process_summary
   \<Rightarrow> result_validation_error + collection_result" where
  "collection_result_session metadata candidates rejections warnings summary =
     (if max_rejections < length rejections then Inl TooManyRejections
      else if max_warnings < length warnings then Inl TooManyWarnings
      else if candidates = [] \<and> rejections \<noteq> [] then Inl AllRecordsRejectedResult
      else
        let outcome = (if candidates = [] then CollectionEmpty
                       else if rejections = [] then CollectionComplete
                       else CollectionPartial)
        in Inr \<lparr>res_metadata = metadata, res_projection = Session, res_outcome = outcome,
                res_daily_candidates = [], res_session_candidates = candidates,
                res_rejections = rejections, res_warnings = warnings,
                res_process_summary = summary\<rparr>)"

definition rejection_count :: "collection_result \<Rightarrow> nat" where
  "rejection_count r = length (res_rejections r)"

section \<open>Failures\<close>

datatype collector_failure_category =
    CatConfiguration | CatBinary | CatDetection | CatPermission | CatExecution | CatTimeout
  | CatCancelled | CatOutputLimit | CatIncompatibleOutput | CatValidation | CatUnsupported
  | CatInternal

datatype collector_failure_code =
    BinaryMissing | BinaryChecksumMismatch | VersionMismatch | SpawnFailed | TimedOut
  | CancelledFailure | StdoutLimitExceeded | StderrLimitExceeded | NonUtf8Output | NonzeroExit
  | InvalidJson | IncompatibleEnvelope | UnsupportedSource | UnsupportedProjection
  | ScopeNotRepresentable | SourceNotFound | SourcePermissionDenied | SourceInvalidLocation
  | AllRecordsRejected | InternalFailure

fun failure_code_str :: "collector_failure_code \<Rightarrow> string" where
  "failure_code_str BinaryMissing = ''collector.binary_missing''"
| "failure_code_str BinaryChecksumMismatch = ''collector.binary_checksum_mismatch''"
| "failure_code_str VersionMismatch = ''collector.version_mismatch''"
| "failure_code_str SpawnFailed = ''collector.spawn_failed''"
| "failure_code_str TimedOut = ''collector.timed_out''"
| "failure_code_str CancelledFailure = ''collector.cancelled''"
| "failure_code_str StdoutLimitExceeded = ''collector.stdout_limit_exceeded''"
| "failure_code_str StderrLimitExceeded = ''collector.stderr_limit_exceeded''"
| "failure_code_str NonUtf8Output = ''collector.non_utf8_output''"
| "failure_code_str NonzeroExit = ''collector.nonzero_exit''"
| "failure_code_str InvalidJson = ''collector.invalid_json''"
| "failure_code_str IncompatibleEnvelope = ''collector.incompatible_envelope''"
| "failure_code_str UnsupportedSource = ''collector.unsupported_source''"
| "failure_code_str UnsupportedProjection = ''collector.unsupported_projection''"
| "failure_code_str ScopeNotRepresentable = ''collector.scope_not_representable''"
| "failure_code_str SourceNotFound = ''source.not_found''"
| "failure_code_str SourcePermissionDenied = ''source.permission_denied''"
| "failure_code_str SourceInvalidLocation = ''source.invalid_location''"
| "failure_code_str AllRecordsRejected = ''collection.all_records_rejected''"
| "failure_code_str InternalFailure = ''collector.internal''"

fun failure_category :: "collector_failure_code \<Rightarrow> collector_failure_category" where
  "failure_category BinaryMissing = CatBinary"
| "failure_category BinaryChecksumMismatch = CatBinary"
| "failure_category VersionMismatch = CatBinary"
| "failure_category SpawnFailed = CatExecution"
| "failure_category NonUtf8Output = CatExecution"
| "failure_category NonzeroExit = CatExecution"
| "failure_category TimedOut = CatTimeout"
| "failure_category CancelledFailure = CatCancelled"
| "failure_category StdoutLimitExceeded = CatOutputLimit"
| "failure_category StderrLimitExceeded = CatOutputLimit"
| "failure_category InvalidJson = CatIncompatibleOutput"
| "failure_category IncompatibleEnvelope = CatIncompatibleOutput"
| "failure_category UnsupportedSource = CatUnsupported"
| "failure_category UnsupportedProjection = CatUnsupported"
| "failure_category ScopeNotRepresentable = CatUnsupported"
| "failure_category SourceNotFound = CatDetection"
| "failure_category SourcePermissionDenied = CatPermission"
| "failure_category SourceInvalidLocation = CatConfiguration"
| "failure_category AllRecordsRejected = CatValidation"
| "failure_category InternalFailure = CatInternal"

definition failure_retryable :: "collector_failure_code \<Rightarrow> bool" where
  "failure_retryable code \<longleftrightarrow>
     code = SpawnFailed \<or> code = TimedOut \<or> code = CancelledFailure \<or> code = SourcePermissionDenied"

fun safe_message :: "collector_failure_code \<Rightarrow> string" where
  "safe_message BinaryMissing = ''The collector binary is unavailable.''"
| "safe_message BinaryChecksumMismatch = ''The collector binary failed integrity verification.''"
| "safe_message VersionMismatch = ''The collector version is unsupported.''"
| "safe_message SpawnFailed = ''The collector could not be started.''"
| "safe_message TimedOut = ''The collector exceeded its time limit.''"
| "safe_message CancelledFailure = ''Collection was cancelled.''"
| "safe_message StdoutLimitExceeded = ''The collector produced more output than allowed.''"
| "safe_message StderrLimitExceeded = ''The collector produced more output than allowed.''"
| "safe_message NonUtf8Output = ''The collector returned unreadable output.''"
| "safe_message NonzeroExit = ''The collector reported an execution failure.''"
| "safe_message InvalidJson = ''The collector returned incompatible output.''"
| "safe_message IncompatibleEnvelope = ''The collector returned incompatible output.''"
| "safe_message UnsupportedSource = ''The requested source is unsupported.''"
| "safe_message UnsupportedProjection = ''The requested projection is unsupported.''"
| "safe_message ScopeNotRepresentable = ''The requested collection scope cannot be represented.''"
| "safe_message SourceNotFound = ''The requested source was not found.''"
| "safe_message SourcePermissionDenied = ''Burnly cannot read the requested source.''"
| "safe_message SourceInvalidLocation = ''The configured source location is invalid.''"
| "safe_message AllRecordsRejected = ''The collector returned no usable records.''"
| "safe_message InternalFailure = ''Burnly could not complete collection.''"

record collector_failure_context =
  fctx_runtime_ms :: "u64 option"
  fctx_stdout_bytes :: "u64 option"
  fctx_stderr_bytes :: "u64 option"
  fctx_exit_code :: "int option"

record collector_failure =
  cf_code :: collector_failure_code
  cf_source_key :: "source_key option"
  cf_projection :: "collection_projection option"
  cf_context :: collector_failure_context
  cf_message :: string

definition collector_failure_new ::
  "collector_failure_code \<Rightarrow> source_key option \<Rightarrow> collection_projection option
   \<Rightarrow> collector_failure" where
  "collector_failure_new code source projection =
     \<lparr>cf_code = code, cf_source_key = source, cf_projection = projection,
      cf_context = \<lparr>fctx_runtime_ms = None, fctx_stdout_bytes = None, fctx_stderr_bytes = None,
                    fctx_exit_code = None\<rparr>,
      cf_message = safe_message code\<rparr>"

definition failure_with_context ::
  "collector_failure \<Rightarrow> collector_failure_context \<Rightarrow> collector_failure" where
  "failure_with_context f ctx = f\<lparr>cf_context := ctx\<rparr>"

section \<open>Lemmas\<close>

text \<open>A scope the constructor accepts covers a non-empty range of days.\<close>

fun scope_valid :: "collection_scope \<Rightarrow> bool" where
  "scope_valid Full = True"
| "scope_valid (Incremental r) = (start_date r \<le> end_date r)"

fun scope_covers :: "collection_scope \<Rightarrow> naive_date \<Rightarrow> bool" where
  "scope_covers Full d = True"
| "scope_covers (Incremental r) d = (start_date r \<le> d \<and> d \<le> end_date r)"

lemma collection_scope_incremental_ok:
  "a \<le> b \<Longrightarrow> collection_scope_incremental a b = Inr (Incremental \<lparr>start_date = a, end_date = b\<rparr>)"
  by (simp add: collection_scope_incremental_def)

lemma collection_scope_incremental_valid [valid_intros]:
  "collection_scope_incremental a b = Inr s \<Longrightarrow> scope_valid s"
  by (auto simp: collection_scope_incremental_def split: if_splits)

section \<open>Properties\<close>

text \<open>The invariant the two result constructors establish and their clients rely on.\<close>

definition collection_result_valid :: "collection_result \<Rightarrow> bool" where
  "collection_result_valid r \<longleftrightarrow>
     length (res_rejections r) \<le> 100 \<and> length (res_warnings r) \<le> 100 \<and>
     (res_projection r = Daily \<longrightarrow> res_session_candidates r = []) \<and>
     (res_projection r = Session \<longrightarrow> res_daily_candidates r = []) \<and>
     (let n = length (res_daily_candidates r) + length (res_session_candidates r) in
       (res_outcome r = CollectionEmpty \<longleftrightarrow> n = 0) \<and>
       (res_outcome r = CollectionComplete \<longleftrightarrow> n > 0 \<and> rejection_count r = 0) \<and>
       (res_outcome r = CollectionPartial \<longleftrightarrow> n > 0 \<and> rejection_count r > 0) \<and>
       (n = 0 \<longrightarrow> rejection_count r = 0))"

text \<open>C23: every collection result that \<open>CollectionResult::daily\<close> or \<open>CollectionResult::session\<close>
  accepts is well formed: at most a hundred rejections and warnings, candidates of its own
  projection only, and an outcome that is Empty, Complete or Partial exactly according to its
  candidates and rejections; a result whose records were all rejected is never accepted.\<close>

theorem collection_result_constructors_valid:
  "(case collection_result_daily metadata ds rejections warnings summary of
      Inr r \<Rightarrow> collection_result_valid r \<and> res_daily_candidates r = ds
    | Inl e \<Rightarrow> (e = TooManyRejections \<and> length rejections > 100) \<or>
               (e = TooManyWarnings \<and> length warnings > 100) \<or>
               (e = AllRecordsRejectedResult \<and> ds = [] \<and> rejections \<noteq> [])) \<and>
   (case collection_result_session metadata ss rejections warnings summary of
      Inr r \<Rightarrow> collection_result_valid r \<and> res_session_candidates r = ss
    | Inl e \<Rightarrow> (e = TooManyRejections \<and> length rejections > 100) \<or>
               (e = TooManyWarnings \<and> length warnings > 100) \<or>
               (e = AllRecordsRejectedResult \<and> ss = [] \<and> rejections \<noteq> []))"
  by (auto simp: collection_result_daily_def collection_result_session_def
      collection_result_valid_def rejection_count_def max_rejections_def max_warnings_def Let_def)

end
