(* ===== verification/Runs.thy ===== *)
theory Runs
  imports Collection
begin

text \<open>
  The run lifecycle of \<open>src/src-tauri/src/application/reconciliation\<close>: identifiers, triggers,
  outcomes and validated specifications of refresh and import runs (\<open>run.rs\<close>), the requests and
  summaries of daily and session reconciliation (\<open>daily.rs\<close>, \<open>session.rs\<close>), with the error types
  of the store ports and the types of the baseline-repair port
  (\<open>src/src-tauri/src/application/ports\<close>).
\<close>

section \<open>Validation errors and identifiers\<close>

datatype run_validation_error =
    EmptyJobKey | EmptyAppVersion | EmptyCollectorKey | EmptyRunCollectorVersion
  | InvalidProfileVersion | MissingDailyTimezone | EmptyErrorCode

datatype source_id = SourceId (source_id_value: i64)
datatype refresh_run_id = RefreshRunId (refresh_run_id_value: i64)
datatype import_run_id = ImportRunId (import_run_id_value: i64)

datatype job_key = JobKey (job_key_as_str: string)

definition job_key_new :: "string \<Rightarrow> run_validation_error + job_key" where
  "job_key_new value = (if blank value then Inl EmptyJobKey else Inr (JobKey value))"

section \<open>Triggers, outcomes and errors\<close>

datatype refresh_trigger = Launch | Manual | Scheduled | FileChange | Resume | Reconcile

datatype refresh_outcome =
  RefreshSucceeded | RefreshPartial | RefreshFailed | RefreshCancelled

datatype import_outcome = ImportSucceeded | ImportPartial | ImportFailed | ImportCancelled

text \<open>
  A summary keeps its first 500 characters. On UTF-8 bytes a character starts at every byte that
  is not a continuation byte (\<open>10xxxxxx\<close>).
\<close>

definition starts_char :: "char \<Rightarrow> bool" where
  "starts_char ch \<longleftrightarrow> \<not> (128 \<le> (of_char ch :: nat) \<and> (of_char ch :: nat) < 192)"

fun take_chars :: "nat \<Rightarrow> string \<Rightarrow> string" where
  "take_chars n [] = []"
| "take_chars n (ch # s) =
     (if starts_char ch
      then (case n of 0 \<Rightarrow> [] | Suc m \<Rightarrow> ch # take_chars m s)
      else ch # take_chars n s)"

definition max_summary_chars :: nat where
  "max_summary_chars = 500"

record run_error =
  error_code :: string
  error_summary :: string

definition run_error_new :: "string \<Rightarrow> string \<Rightarrow> run_validation_error + run_error" where
  "run_error_new code summary =
     (if blank code then Inl EmptyErrorCode
      else Inr \<lparr>error_code = code, error_summary = take_chars max_summary_chars summary\<rparr>)"

section \<open>Run specifications\<close>

record refresh_run_spec =
  rrs_job_key :: job_key
  rrs_trigger :: refresh_trigger
  rrs_requested_by_app_version :: string

definition refresh_run_spec_new ::
  "job_key \<Rightarrow> refresh_trigger \<Rightarrow> string \<Rightarrow> run_validation_error + refresh_run_spec" where
  "refresh_run_spec_new key trigger version =
     (if blank version then Inl EmptyAppVersion
      else Inr \<lparr>rrs_job_key = key, rrs_trigger = trigger,
                rrs_requested_by_app_version = version\<rparr>)"

record refresh_run_completion =
  rrc_outcome :: refresh_outcome
  rrc_finished_at_ms :: i64
  rrc_error :: "run_error option"

record import_collector =
  ic_collector_key :: string
  ic_collector_version :: string
  ic_profile_version :: u16

definition import_collector_new ::
  "string \<Rightarrow> string \<Rightarrow> u16 \<Rightarrow> run_validation_error + import_collector" where
  "import_collector_new key version profile =
     (if blank key then Inl EmptyCollectorKey
      else if blank version then Inl EmptyRunCollectorVersion
      else if profile = 0 then Inl InvalidProfileVersion
      else Inr \<lparr>ic_collector_key = key, ic_collector_version = version,
                ic_profile_version = profile\<rparr>)"

definition filter_option :: "('a \<Rightarrow> bool) \<Rightarrow> 'a option \<Rightarrow> 'a option" where
  "filter_option p x = (case x of None \<Rightarrow> None | Some y \<Rightarrow> if p y then Some y else None)"

record import_run_spec =
  irs_refresh_run_id :: refresh_run_id
  irs_source_id :: source_id
  irs_collector :: import_collector
  irs_projection :: collection_projection
  irs_scope :: collection_scope
  irs_aggregation_timezone :: "string option"

definition import_run_spec_new ::
  "refresh_run_id \<Rightarrow> source_id \<Rightarrow> import_collector \<Rightarrow> collection_projection
   \<Rightarrow> collection_scope \<Rightarrow> string option \<Rightarrow> run_validation_error + import_run_spec" where
  "import_run_spec_new rid sid collector projection scope tz =
     bind_res
       (case projection of
          Daily \<Rightarrow>
            map_ok Some (ok_or MissingDailyTimezone (filter_option (\<lambda>t. \<not> blank t) tz))
        | Session \<Rightarrow> Inr (filter_option (\<lambda>t. \<not> blank t) tz))
       (\<lambda>tz'. Inr \<lparr>irs_refresh_run_id = rid, irs_source_id = sid, irs_collector = collector,
                   irs_projection = projection, irs_scope = scope,
                   irs_aggregation_timezone = tz'\<rparr>)"

record import_run_completion =
  irc_outcome :: import_outcome
  irc_records_seen :: u32
  irc_records_rejected :: u32
  irc_finished_at_ms :: i64
  irc_error :: "run_error option"

section \<open>Looking up the latest successful import\<close>

record import_run_lookup =
  lk_source :: source_key
  lk_projection :: collection_projection
  lk_aggregation_timezone :: "string option"
  lk_collector_key :: "string option"
  lk_profile_version :: "u16 option"

definition import_run_lookup_new ::
  "source_key \<Rightarrow> collection_projection \<Rightarrow> string option
   \<Rightarrow> run_validation_error + import_run_lookup" where
  "import_run_lookup_new source projection tz =
     bind_res
       (case projection of
          Daily \<Rightarrow>
            map_ok Some (ok_or MissingDailyTimezone (filter_option (\<lambda>t. \<not> blank t) tz))
        | Session \<Rightarrow> Inr None)
       (\<lambda>tz'. Inr \<lparr>lk_source = source, lk_projection = projection,
                   lk_aggregation_timezone = tz', lk_collector_key = None,
                   lk_profile_version = None\<rparr>)"

definition import_run_lookup_compatible ::
  "source_key \<Rightarrow> collection_projection \<Rightarrow> string option \<Rightarrow> string \<Rightarrow> u16
   \<Rightarrow> run_validation_error + import_run_lookup" where
  "import_run_lookup_compatible source projection tz key profile =
     bind_res (import_run_lookup_new source projection tz)
       (\<lambda>lookup.
          if blank key then Inl EmptyCollectorKey
          else if profile = 0 then Inl InvalidProfileVersion
          else Inr (lookup\<lparr>lk_collector_key := Some key, lk_profile_version := Some profile\<rparr>))"

record successful_import_state =
  sis_source :: source_key
  sis_projection :: collection_projection
  sis_scope :: collection_scope
  sis_finished_at_ms :: i64

fun scope_end_date :: "successful_import_state \<Rightarrow> naive_date option" where
  "scope_end_date s = (case sis_scope s of Full \<Rightarrow> None | Incremental r \<Rightarrow> Some (end_date r))"

section \<open>Reconciliation requests\<close>

record daily_reconciliation_request =
  drr_source_id :: source_id
  drr_import_run_id :: import_run_id
  drr_scope :: collection_scope
  drr_outcome :: collection_outcome
  drr_observed_at_ms :: i64
  drr_candidates :: "daily_usage_candidate list"

record daily_reconciliation_summary =
  drs_upserted_days :: u32
  drs_observed_source_keys :: "string list"

record session_reconciliation_request =
  srr_source_id :: source_id
  srr_import_run_id :: import_run_id
  srr_scope :: collection_scope
  srr_outcome :: collection_outcome
  srr_observed_at_ms :: i64
  srr_candidates :: "session_usage_candidate list"

record session_reconciliation_summary =
  srs_upserted_sessions :: u32
  srs_observed_source_keys :: "string list"

section \<open>Store and repair ports\<close>

datatype run_store_error = DuplicateJobKey | RunNotFound | RunStoreBackend

datatype usage_store_error = ValueOutOfRange | UsageStoreBackend

datatype target_run_outcome = TargetSucceeded | TargetPartial | TargetFailed

record target_execution_outcome =
  teo_source :: source_key
  teo_projection :: collection_projection
  teo_effective_scope :: collection_scope
  teo_outcome :: target_run_outcome

datatype baseline_repair_error = BaselineDatabase string

datatype baseline_repair_stage =
    NotStarted | CacheReclassified | CanonicalCorrected | SyncScheduled | StageComplete | Skipped

fun repair_stage_as_str :: "baseline_repair_stage \<Rightarrow> string" where
  "repair_stage_as_str NotStarted = ''not_started''"
| "repair_stage_as_str CacheReclassified = ''cache_reclassified''"
| "repair_stage_as_str CanonicalCorrected = ''canonical_corrected''"
| "repair_stage_as_str SyncScheduled = ''sync_scheduled''"
| "repair_stage_as_str StageComplete = ''complete''"
| "repair_stage_as_str Skipped = ''skipped''"

definition repair_stage_from_str :: "string \<Rightarrow> baseline_repair_stage option" where
  "repair_stage_from_str s =
     (if s = ''not_started'' then Some NotStarted
      else if s = ''cache_reclassified'' then Some CacheReclassified
      else if s = ''canonical_corrected'' then Some CanonicalCorrected
      else if s = ''sync_scheduled'' then Some SyncScheduled
      else if s = ''complete'' then Some StageComplete
      else if s = ''skipped'' then Some Skipped
      else None)"

section \<open>Lemmas\<close>

lemma repair_stage_roundtrip: "repair_stage_from_str s = Some k \<longleftrightarrow> s = repair_stage_as_str k"
  by (cases k) (auto simp: repair_stage_from_str_def split: if_splits)

lemma filter_option_Some: "filter_option p x = Some y \<longleftrightarrow> x = Some y \<and> p y"
  by (auto simp: filter_option_def split: option.splits)

lemma import_run_spec_new_ok:
  "import_run_spec_new rid sid col proj scope tz = Inr spec \<Longrightarrow>
     irs_refresh_run_id spec = rid \<and> irs_source_id spec = sid \<and> irs_collector spec = col \<and>
     irs_projection spec = proj \<and> irs_scope spec = scope \<and>
     irs_aggregation_timezone spec = filter_option (\<lambda>t. \<not> blank t) tz \<and>
     (proj = Daily \<longrightarrow> irs_aggregation_timezone spec \<noteq> None)"
  by (auto simp: import_run_spec_new_def bind_res_Inr ok_or_def map_ok_def
      split: collection_projection.splits option.splits)

lemma import_collector_new_ok:
  "import_collector_new k v p = Inr c \<Longrightarrow>
     \<not> blank (ic_collector_key c) \<and> \<not> blank (ic_collector_version c) \<and> ic_profile_version c \<noteq> 0"
  by (auto simp: import_collector_new_def split: if_splits)

text \<open>The number of characters a string starts.\<close>

definition char_count :: "string \<Rightarrow> nat" where
  "char_count s = length (filter starts_char s)"

lemma take_chars_prefix: "prefix (take_chars n s) s"
  by (induction n s rule: take_chars.induct) (auto split: nat.splits)

lemma take_chars_count: "char_count (take_chars n s) = min n (char_count s)"
  by (induction n s rule: take_chars.induct) (auto simp: char_count_def split: nat.splits)

lemma take_chars_id: "char_count s \<le> n \<Longrightarrow> take_chars n s = s"
  by (induction n s rule: take_chars.induct) (auto simp: char_count_def split: nat.splits)

lemma take_chars_boundary:
  "take_chars n s \<noteq> s \<Longrightarrow> \<exists>ch rest. s = take_chars n s @ ch # rest \<and> starts_char ch"
  by (induction n s rule: take_chars.induct) (auto split: nat.splits if_splits)

section \<open>Properties\<close>

text \<open>C25: a stored run error is bounded and redacted without corruption. \<open>RunError::new\<close> rejects
  exactly the blank codes; otherwise it stores the code unchanged and a summary of at most 500
  characters that is a prefix of the given one, equal to it when it fits, and cut only in front of
  a byte that starts a character, never inside a multi-byte one.\<close>

theorem run_error_new_bounded:
  "case run_error_new code summary of
     Inl e \<Rightarrow> e = EmptyErrorCode \<and> blank code
   | Inr r \<Rightarrow> \<not> blank code \<and> error_code r = code \<and>
       prefix (error_summary r) summary \<and>
       char_count (error_summary r) = min 500 (char_count summary) \<and>
       (\<exists>rest. summary = error_summary r @ rest \<and> (rest = [] \<or> starts_char (hd rest)))"
proof (cases "blank code")
  case True
  then show ?thesis by (simp add: run_error_new_def)
next
  case False
  let ?t = "take_chars 500 summary"
  have "\<exists>rest. summary = ?t @ rest \<and> (rest = [] \<or> starts_char (hd rest))"
  proof (cases "?t = summary")
    case True
    then show ?thesis by (metis append_Nil2)
  next
    case False
    from take_chars_boundary [OF this] obtain ch rest where
      "summary = ?t @ ch # rest" and "starts_char ch" by blast
    then show ?thesis by (metis list.sel(1))
  qed
  with False show ?thesis
    by (simp add: run_error_new_def max_summary_chars_def take_chars_prefix take_chars_count)
qed

end
