(* ===== verification/Planning.thy ===== *)
theory Planning
  imports Runs
begin

text \<open>
  Refresh planning in \<open>src/src-tauri/src/application/refresh\<close>: the policy planner (\<open>planner.rs\<close>),
  the target catalogue and its helpers (\<open>target.rs\<close>), the construction of a collection request
  (\<open>request_plan.rs\<close>), outcome bookkeeping (\<open>outcome.rs\<close>) and the status values (\<open>state.rs\<close>).
  A call that the source closes with \<open>expect\<close> is an \<open>option\<close> here, \<open>None\<close> being the panic.
\<close>

section \<open>The policy planner\<close>

definition catch_up_lookback_days :: u64 where
  "catch_up_lookback_days = 2"

datatype refresh_plan_mode = CatchUpMode | FreshnessMode

record refresh_plan_target =
  rpt_source :: source_key
  rpt_projection :: collection_projection
  rpt_aggregation_timezone :: "string option"

definition plan_target_daily :: "source_key \<Rightarrow> string \<Rightarrow> refresh_plan_target" where
  "plan_target_daily source tz =
     \<lparr>rpt_source = source, rpt_projection = Daily, rpt_aggregation_timezone = Some tz\<rparr>"

definition plan_target_session :: "source_key \<Rightarrow> refresh_plan_target" where
  "plan_target_session source =
     \<lparr>rpt_source = source, rpt_projection = Session, rpt_aggregation_timezone = None\<rparr>"

record refresh_plan_request =
  rpr_target :: refresh_plan_target
  rpr_mode :: refresh_plan_mode
  rpr_today :: naive_date
  rpr_previous_import :: "successful_import_state option"

record refresh_plan =
  rp_target :: refresh_plan_target
  rp_scope :: collection_scope

definition import_matches_target :: "refresh_plan_target \<Rightarrow> successful_import_state \<Rightarrow> bool" where
  "import_matches_target target previous \<longleftrightarrow>
     sis_source previous = rpt_source target \<and> sis_projection previous = rpt_projection target"

definition catch_up_scope ::
  "chrono \<Rightarrow> naive_date \<Rightarrow> successful_import_state \<Rightarrow> collection_scope option" where
  "catch_up_scope c today previous =
     (let base_date = (case scope_end_date previous of None \<Rightarrow> today | Some d \<Rightarrow> d);
          lookback_start =
            (case checked_sub_days c base_date catch_up_lookback_days of
               None \<Rightarrow> base_date | Some d \<Rightarrow> d);
          start = min lookback_start today
      in result_ok (collection_scope_incremental start today))"

definition today_scope :: "naive_date \<Rightarrow> collection_scope option" where
  "today_scope today = result_ok (collection_scope_incremental today today)"

definition plan_refresh :: "chrono \<Rightarrow> refresh_plan_request \<Rightarrow> refresh_plan option" where
  "plan_refresh c request =
     map_option (\<lambda>scope. \<lparr>rp_target = rpr_target request, rp_scope = scope\<rparr>)
       (case rpr_previous_import request of
          None \<Rightarrow> Some Full
        | Some previous \<Rightarrow>
            if import_matches_target (rpr_target request) previous
            then (case rpr_mode request of
                    CatchUpMode \<Rightarrow> catch_up_scope c (rpr_today request) previous
                  | FreshnessMode \<Rightarrow> today_scope (rpr_today request))
            else Some Full)"

section \<open>Targets\<close>

record refresh_target =
  rt_source :: source_key
  rt_projection :: collection_projection

definition target_plan_target :: "refresh_target \<Rightarrow> string \<Rightarrow> refresh_plan_target" where
  "target_plan_target t tz =
     (case rt_projection t of
        Daily \<Rightarrow> plan_target_daily (rt_source t) tz
      | Session \<Rightarrow> plan_target_session (rt_source t))"

definition target_import_lookup ::
  "refresh_target \<Rightarrow> string \<Rightarrow> profile_descriptor \<Rightarrow> run_validation_error + import_run_lookup" where
  "target_import_lookup t tz profile =
     import_run_lookup_compatible (rt_source t) (rt_projection t)
       (case rt_projection t of Daily \<Rightarrow> Some tz | Session \<Rightarrow> None)
       (collector_key_as_str (pd_collector profile)) (pd_profile_version profile)"

definition refresh_targets :: "refresh_target list" where
  "refresh_targets =
     [\<lparr>rt_source = ClaudeCode, rt_projection = Daily\<rparr>,
      \<lparr>rt_source = ClaudeCode, rt_projection = Session\<rparr>,
      \<lparr>rt_source = Codex, rt_projection = Daily\<rparr>,
      \<lparr>rt_source = Codex, rt_projection = Session\<rparr>,
      \<lparr>rt_source = OpenCode, rt_projection = Daily\<rparr>,
      \<lparr>rt_source = OpenCode, rt_projection = Session\<rparr>,
      \<lparr>rt_source = Pi, rt_projection = Daily\<rparr>,
      \<lparr>rt_source = Pi, rt_projection = Session\<rparr>,
      \<lparr>rt_source = Cline, rt_projection = Daily\<rparr>,
      \<lparr>rt_source = Cline, rt_projection = Session\<rparr>,
      \<lparr>rt_source = ZCode, rt_projection = Daily\<rparr>,
      \<lparr>rt_source = ZCode, rt_projection = Session\<rparr>,
      \<lparr>rt_source = Antigravity, rt_projection = Daily\<rparr>,
      \<lparr>rt_source = Antigravity, rt_projection = Session\<rparr>,
      \<lparr>rt_source = GrokBuild, rt_projection = Daily\<rparr>,
      \<lparr>rt_source = GrokBuild, rt_projection = Session\<rparr>,
      \<lparr>rt_source = CommandCode, rt_projection = Daily\<rparr>,
      \<lparr>rt_source = CommandCode, rt_projection = Session\<rparr>,
      \<lparr>rt_source = DeepSeekHarness, rt_projection = Daily\<rparr>,
      \<lparr>rt_source = DeepSeekHarness, rt_projection = Session\<rparr>,
      \<lparr>rt_source = Zed, rt_projection = Daily\<rparr>,
      \<lparr>rt_source = Zed, rt_projection = Session\<rparr>]"

fun projection_label :: "collection_projection \<Rightarrow> string" where
  "projection_label Daily = ''daily''"
| "projection_label Session = ''session''"

fun import_timezone :: "collection_projection \<Rightarrow> string \<Rightarrow> string option" where
  "import_timezone Daily tz = Some tz"
| "import_timezone Session tz = None"

definition local_date :: "chrono \<Rightarrow> utc_instant \<Rightarrow> string \<Rightarrow> unit + naive_date" where
  "local_date c requested_at tz = ok_or () (zoned_date c requested_at tz)"

section \<open>Outcomes\<close>

datatype refresh_status = Idle | Queued | Running | Cancelling | Succeeded | Partial | Failed

fun status_is_active :: "refresh_status \<Rightarrow> bool" where
  "status_is_active Queued = True"
| "status_is_active Running = True"
| "status_is_active Cancelling = True"
| "status_is_active _ = False"

datatype run_outcome = RunSucceeded | RunPartial | RunFailed

fun run_outcome_from_collection :: "collection_outcome \<Rightarrow> run_outcome" where
  "run_outcome_from_collection CollectionPartial = RunPartial"
| "run_outcome_from_collection CollectionComplete = RunSucceeded"
| "run_outcome_from_collection CollectionEmpty = RunSucceeded"

fun run_outcome_status :: "run_outcome \<Rightarrow> refresh_status" where
  "run_outcome_status RunSucceeded = Succeeded"
| "run_outcome_status RunPartial = Partial"
| "run_outcome_status RunFailed = Failed"

fun run_outcome_refresh :: "run_outcome \<Rightarrow> refresh_outcome" where
  "run_outcome_refresh RunSucceeded = RefreshSucceeded"
| "run_outcome_refresh RunPartial = RefreshPartial"
| "run_outcome_refresh RunFailed = RefreshFailed"

fun run_outcome_import :: "run_outcome \<Rightarrow> import_outcome" where
  "run_outcome_import RunSucceeded = ImportSucceeded"
| "run_outcome_import RunPartial = ImportPartial"
| "run_outcome_import RunFailed = ImportFailed"

record target_run_accumulator =
  acc_succeeded :: u16
  acc_partial :: u16
  acc_failed :: u16

definition accumulator_default :: target_run_accumulator where
  "accumulator_default = \<lparr>acc_succeeded = 0, acc_partial = 0, acc_failed = 0\<rparr>"

fun accumulator_record ::
  "target_run_accumulator \<Rightarrow> run_outcome \<Rightarrow> target_run_accumulator" where
  "accumulator_record a RunSucceeded = a\<lparr>acc_succeeded := acc_succeeded a + 1\<rparr>"
| "accumulator_record a RunPartial = a\<lparr>acc_partial := acc_partial a + 1\<rparr>"
| "accumulator_record a RunFailed = a\<lparr>acc_failed := acc_failed a + 1\<rparr>"

definition accumulator_outcome :: "target_run_accumulator \<Rightarrow> run_outcome" where
  "accumulator_outcome a =
     (if acc_failed a = 0 \<and> acc_partial a = 0 then RunSucceeded
      else if acc_succeeded a = 0 \<and> acc_partial a = 0 then RunFailed
      else RunPartial)"

definition run_error_option :: "string \<Rightarrow> string \<Rightarrow> run_error option" where
  "run_error_option code summary = result_ok (run_error_new code summary)"

definition clamp_count :: "nat \<Rightarrow> u32" where
  "clamp_count n = (case u32_of_nat n of None \<Rightarrow> - 1 | Some w \<Rightarrow> w)"

definition records_seen :: "collection_result \<Rightarrow> u32" where
  "records_seen r =
     clamp_count (case res_projection r of
        Daily \<Rightarrow> length (res_daily_candidates r)
      | Session \<Rightarrow> length (res_session_candidates r))"

section \<open>Building the collection request\<close>

datatype refresh_scope_policy = PolicyFull | PolicyCatchUp | PolicyFreshness

datatype request_plan_error =
  InvalidRequest | InvalidTimezone | InvalidImportState | ImportStateUnavailable

fun request_plan_error_code :: "request_plan_error \<Rightarrow> string" where
  "request_plan_error_code InvalidRequest = ''refresh.request''"
| "request_plan_error_code InvalidTimezone = ''refresh.timezone''"
| "request_plan_error_code InvalidImportState = ''refresh.import_state''"
| "request_plan_error_code ImportStateUnavailable = ''refresh.import_state''"

fun request_plan_error_summary :: "request_plan_error \<Rightarrow> string" where
  "request_plan_error_summary InvalidRequest = ''Refresh request is invalid.''"
| "request_plan_error_summary InvalidTimezone = ''Refresh timezone is invalid.''"
| "request_plan_error_summary InvalidImportState = ''Refresh import state is invalid.''"
| "request_plan_error_summary ImportStateUnavailable =
     ''Could not read the latest successful import state.''"

definition collection_request_for ::
  "string \<Rightarrow> refresh_target \<Rightarrow> collection_scope \<Rightarrow> utc_instant \<Rightarrow> string
   \<Rightarrow> request_plan_error + collection_request" where
  "collection_request_for job_id target scope requested_at tz =
     bind_res
       (map_err (\<lambda>_. InvalidRequest)
          (collection_id_new (job_id @ '':'' @ source_key_as_str (rt_source target) @ '':'' @
                              projection_label (rt_projection target))))
       (\<lambda>cid.
          case rt_projection target of
            Daily \<Rightarrow>
              map_err (\<lambda>_. InvalidRequest)
                (collection_request_daily cid (rt_source target) scope tz requested_at)
          | Session \<Rightarrow>
              Inr (collection_request_session cid (rt_source target) scope requested_at))"

text \<open>
  The run store and the repair coordinator are read through \<open>latest\<close>
  (\<open>RunStore::latest_successful_import\<close>) and \<open>requires_full\<close>
  (\<open>AntigravityBaselineRepairCoordinator::requires_full_scope\<close>).
\<close>

definition planned_scope ::
  "chrono \<Rightarrow> (import_run_lookup \<Rightarrow> run_store_error + successful_import_state option)
   \<Rightarrow> (baseline_repair_error + bool) \<Rightarrow> refresh_target \<Rightarrow> profile_descriptor \<Rightarrow> utc_instant
   \<Rightarrow> string \<Rightarrow> refresh_scope_policy \<Rightarrow> (request_plan_error + collection_scope) option" where
  "planned_scope c latest requires_full target profile requested_at tz policy =
     (let incremental = (\<lambda>mode.
        case local_date c requested_at tz of
          Inl _ \<Rightarrow> Some (Inl InvalidTimezone)
        | Inr today \<Rightarrow>
            (case target_import_lookup target tz profile of
               Inl _ \<Rightarrow> Some (Inl InvalidImportState)
             | Inr lookup \<Rightarrow>
                 (case latest lookup of
                    Inl _ \<Rightarrow> Some (Inl ImportStateUnavailable)
                  | Inr previous \<Rightarrow>
                      map_option (\<lambda>p. Inr (rp_scope p))
                        (plan_refresh c
                           \<lparr>rpr_target = target_plan_target target tz, rpr_mode = mode,
                            rpr_today = today, rpr_previous_import = previous\<rparr>))));
        repairing = (\<lambda>mode.
          if rt_source target = Antigravity
          then (case requires_full of
                  Inl _ \<Rightarrow> Some (Inl ImportStateUnavailable)
                | Inr full \<Rightarrow> if full then Some (Inr Full) else incremental mode)
          else incremental mode)
      in case policy of
           PolicyFull \<Rightarrow> Some (Inr Full)
         | PolicyCatchUp \<Rightarrow> repairing CatchUpMode
         | PolicyFreshness \<Rightarrow> repairing FreshnessMode)"

definition planned_collection_request ::
  "chrono \<Rightarrow> (import_run_lookup \<Rightarrow> run_store_error + successful_import_state option)
   \<Rightarrow> (baseline_repair_error + bool) \<Rightarrow> string \<Rightarrow> refresh_target \<Rightarrow> profile_descriptor
   \<Rightarrow> utc_instant \<Rightarrow> string \<Rightarrow> refresh_scope_policy
   \<Rightarrow> (request_plan_error + collection_request) option" where
  "planned_collection_request c latest requires_full job_id target profile requested_at tz policy =
     map_option
       (\<lambda>r. bind_res r (\<lambda>scope. collection_request_for job_id target scope requested_at tz))
       (planned_scope c latest requires_full target profile requested_at tz policy)"

section \<open>Lemmas on planning\<close>

lemma catch_up_scope_eq:
  "catch_up_scope c today previous =
     (let base = (case scope_end_date previous of None \<Rightarrow> today | Some d \<Rightarrow> d);
          lookback = (case checked_sub_days c base 2 of None \<Rightarrow> base | Some d \<Rightarrow> d)
      in Some (Incremental \<lparr>start_date = min lookback today, end_date = today\<rparr>))"
  by (simp add: catch_up_scope_def catch_up_lookback_days_def Let_def
      collection_scope_incremental_ok)

lemma today_scope_eq: "today_scope today = Some (Incremental \<lparr>start_date = today, end_date = today\<rparr>)"
  by (simp add: today_scope_def collection_scope_incremental_ok)

lemma plan_refresh_no_panic: "plan_refresh c request \<noteq> None"
  by (auto simp: plan_refresh_def catch_up_scope_eq today_scope_eq Let_def
      split: option.splits refresh_plan_mode.splits)

lemma planned_collection_request_no_panic:
  "planned_collection_request c latest full job target profile at tz policy \<noteq> None"
  using plan_refresh_no_panic
  by (auto simp: planned_collection_request_def planned_scope_def Let_def
      split: option.splits sum.splits refresh_scope_policy.splits)

definition matching_import :: "refresh_plan_request \<Rightarrow> successful_import_state option" where
  "matching_import request =
     filter_option (import_matches_target (rpr_target request)) (rpr_previous_import request)"

lemma plan_refresh_cases:
  "plan_refresh c request =
     Some \<lparr>rp_target = rpr_target request,
           rp_scope = (case matching_import request of
              None \<Rightarrow> Full
            | Some p \<Rightarrow> the (case rpr_mode request of
                 CatchUpMode \<Rightarrow> catch_up_scope c (rpr_today request) p
               | FreshnessMode \<Rightarrow> today_scope (rpr_today request)))\<rparr>"
  by (auto simp: plan_refresh_def matching_import_def filter_option_def catch_up_scope_eq
      today_scope_eq Let_def split: option.splits refresh_plan_mode.splits)

lemma accumulator_counts:
  assumes "length outcomes < 2 ^ 16"
  shows "unat (acc_succeeded (foldl accumulator_record accumulator_default outcomes)) =
           count_list outcomes RunSucceeded \<and>
         unat (acc_partial (foldl accumulator_record accumulator_default outcomes)) =
           count_list outcomes RunPartial \<and>
         unat (acc_failed (foldl accumulator_record accumulator_default outcomes)) =
           count_list outcomes RunFailed"
  using assms
proof (induction outcomes rule: rev_induct)
  case Nil
  then show ?case by (simp add: accumulator_default_def)
next
  case (snoc x xs)
  let ?a = "foldl accumulator_record accumulator_default xs"
  have bound: "count_list xs y < 65535" for y
    using snoc.prems count_le_length [of xs y] by simp
  have inc: "unat (w + 1) = Suc (unat w)" if "unat w < 65535" for w :: u16
    using that by (simp add: unat_word_ariths)
  show ?case
    using snoc bound by (cases x) (simp_all add: inc)
qed

text \<open>The first day of a catch-up: the two-day lookback from the end of the earlier import (from
  today after a full import), from that end itself where the calendar has no such day, and never
  after today.\<close>

definition catch_up_start :: "chrono \<Rightarrow> naive_date \<Rightarrow> successful_import_state \<Rightarrow> naive_date" where
  "catch_up_start c today p =
     (let base = (case sis_scope p of Full \<Rightarrow> today | Incremental r \<Rightarrow> end_date r);
          start = (case checked_sub_days c base 2 of None \<Rightarrow> base | Some d \<Rightarrow> d)
      in if start \<le> today then start else today)"

lemma catch_up_start_eq:
  "catch_up_start c today p =
     min (let base = (case scope_end_date p of None \<Rightarrow> today | Some e \<Rightarrow> e)
          in case checked_sub_days c base 2 of None \<Rightarrow> base | Some d \<Rightarrow> d) today"
  by (cases "sis_scope p") (simp_all add: catch_up_start_def min_def Let_def)

text \<open>C19: planning never panics and plans exactly the scope of each branch. Without an earlier
  successful import of the same source and projection the scope is Full; with one, a freshness
  refresh covers exactly today, and a catch-up refresh covers exactly the days from the two-day
  lookback (subtracted from the end of the earlier import, from today when that import was full,
  clamped to today) through today. Where subtracting days does not move forwards, no day between
  the end of the earlier import and today is left out.\<close>

theorem plan_refresh_scope:
  assumes "\<And>d e. checked_sub_days c d 2 = Some e \<Longrightarrow> e \<le> d"
  shows "\<exists>plan. plan_refresh c request = Some plan \<and> rp_target plan = rpr_target request \<and>
    scope_valid (rp_scope plan) \<and>
    (case matching_import request of
       None \<Rightarrow> rp_scope plan = Full
     | Some p \<Rightarrow>
         (case rpr_mode request of
            FreshnessMode \<Rightarrow> (\<forall>d. scope_covers (rp_scope plan) d = (d = rpr_today request))
          | CatchUpMode \<Rightarrow>
              (\<forall>d. scope_covers (rp_scope plan) d =
                 (catch_up_start c (rpr_today request) p \<le> d \<and> d \<le> rpr_today request)) \<and>
              (\<forall>e d. scope_end_date p = Some e \<longrightarrow> e \<le> d \<longrightarrow> d \<le> rpr_today request \<longrightarrow>
                 scope_covers (rp_scope plan) d)))"
proof (cases "matching_import request")
  case None
  then show ?thesis by (simp add: plan_refresh_cases)
next
  case (Some p)
  show ?thesis
  proof (cases "rpr_mode request")
    case CatchUpMode
    have "min (case checked_sub_days c e 2 of None \<Rightarrow> e | Some x \<Rightarrow> x) (rpr_today request) \<le> d"
      if "e \<le> d" for e d
      using that assms [of e] by (auto simp: min_le_iff_disj split: option.splits)
    with Some CatchUpMode show ?thesis
      by (cases "scope_end_date p")
         (auto simp: plan_refresh_cases catch_up_scope_eq catch_up_start_eq Let_def
           simp del: scope_end_date.simps split: option.splits)
  next
    case FreshnessMode
    with Some show ?thesis by (auto simp: plan_refresh_cases today_scope_eq)
  qed
qed

definition demo_import :: "collection_scope \<Rightarrow> successful_import_state" where
  "demo_import scope =
     \<lparr>sis_source = Codex, sis_projection = Daily, sis_scope = scope, sis_finished_at_ms = 100\<rparr>"

definition demo_plan_request ::
  "refresh_plan_mode \<Rightarrow> int \<Rightarrow> collection_scope \<Rightarrow> refresh_plan_request" where
  "demo_plan_request mode today scope =
     \<lparr>rpr_target = plan_target_daily Codex ''UTC'', rpr_mode = mode, rpr_today = NaiveDate today,
      rpr_previous_import = Some (demo_import scope)\<rparr>"

lemmas demo_plan_defs =
  demo_import_def demo_plan_request_def plan_target_daily_def matching_import_def
  filter_option_def import_matches_target_def

theorem plan_refresh_scope_witness:
  "\<exists>plan. plan_refresh gregorian
      (demo_plan_request CatchUpMode 20632
        (Incremental \<lparr>start_date = NaiveDate 20620, end_date = NaiveDate 20624\<rparr>)) = Some plan \<and>
    (\<forall>d. scope_covers (rp_scope plan) d = (NaiveDate 20622 \<le> d \<and> d \<le> NaiveDate 20632))"
  using plan_refresh_scope
    [of gregorian "demo_plan_request CatchUpMode 20632
        (Incremental \<lparr>start_date = NaiveDate 20620, end_date = NaiveDate 20624\<rparr>)"]
  by (auto simp: demo_plan_defs less_eq_naive_date_def catch_up_start_def)

text \<open>C20: a catch-up refresh after a full import looks back from today, not from that import. However
  long ago the full import finished, the planned scope starts at the two-day lookback from today, so
  a day before that start is not collected even when it is later than the full import. The refresh
  policy document derives the start from the last successful import instead.\<close>

theorem catch_up_after_full_import:
  assumes "matching_import request = Some p" and "sis_scope p = Full"
    and "rpr_mode request = CatchUpMode"
    and "checked_sub_days c (rpr_today request) 2 = Some start" and "start \<le> rpr_today request"
  shows "\<exists>plan. plan_refresh c request = Some plan \<and>
    (\<forall>d. scope_covers (rp_scope plan) d = (start \<le> d \<and> d \<le> rpr_today request))"
  using assms by (simp add: plan_refresh_cases catch_up_scope_eq min_absorb1)

theorem catch_up_after_full_import_witness:
  "\<exists>plan. plan_refresh gregorian (demo_plan_request CatchUpMode 20632 Full) = Some plan \<and>
    \<not> scope_covers (rp_scope plan) (NaiveDate 20625)"
  using catch_up_after_full_import
    [of "demo_plan_request CatchUpMode 20632 Full" "demo_import Full" gregorian "NaiveDate 20630"]
  by (auto simp: demo_plan_defs less_eq_naive_date_def)

text \<open>C21: a freshness refresh moves the cursor the next catch-up starts from. When a freshness
  refresh planned on day \<open>t1\<close> succeeds and becomes the latest import, neither it nor any later
  catch-up planned from it covers a day before the two-day lookback of \<open>t1\<close>: the days between the
  import before it and that lookback are never collected by an incremental refresh.\<close>

theorem freshness_moves_catch_up_cursor:
  assumes "matching_import request = Some p" and "rpr_mode request = FreshnessMode"
    and "plan_refresh c request = Some fresh"
    and "checked_sub_days c (rpr_today request) 2 = Some start" and "start \<le> rpr_today request"
    and "rpr_today request \<le> later" and "d < start"
  shows "\<not> scope_covers (rp_scope fresh) d \<and>
    (\<exists>plan. plan_refresh c (request\<lparr>rpr_mode := CatchUpMode, rpr_today := later,
                  rpr_previous_import := Some (p\<lparr>sis_scope := rp_scope fresh\<rparr>)\<rparr>) = Some plan \<and>
      \<not> scope_covers (rp_scope plan) d)"
proof -
  let ?t = "rpr_today request"
  from assms(1,2,3) have fresh: "rp_scope fresh = Incremental \<lparr>start_date = ?t, end_date = ?t\<rparr>"
    by (auto simp: plan_refresh_cases today_scope_eq)
  have "\<not> ?t \<le> d" and "\<not> min start later \<le> d"
    using assms(5,6,7) by (auto simp: min_def)
  moreover have "import_matches_target (rpr_target request) p"
    using assms(1) by (simp add: matching_import_def filter_option_Some)
  ultimately show ?thesis
    using assms(4) fresh
    by (simp add: plan_refresh_cases matching_import_def filter_option_def
        import_matches_target_def catch_up_scope_eq)
qed

theorem freshness_moves_catch_up_cursor_witness:
  "\<exists>plan. plan_refresh gregorian
      (demo_plan_request CatchUpMode 20640
        (Incremental \<lparr>start_date = NaiveDate 20632, end_date = NaiveDate 20632\<rparr>)) = Some plan \<and>
    \<not> scope_covers (rp_scope plan) (NaiveDate 20625)"
  using freshness_moves_catch_up_cursor
    [of "demo_plan_request FreshnessMode 20632
          (Incremental \<lparr>start_date = NaiveDate 20620, end_date = NaiveDate 20620\<rparr>)"
        "demo_import (Incremental \<lparr>start_date = NaiveDate 20620, end_date = NaiveDate 20620\<rparr>)"
        gregorian
        "\<lparr>rp_target = plan_target_daily Codex ''UTC'',
          rp_scope = Incremental \<lparr>start_date = NaiveDate 20632, end_date = NaiveDate 20632\<rparr>\<rparr>"
        "NaiveDate 20630" "NaiveDate 20640" "NaiveDate 20625"]
  by (simp add: demo_plan_defs plan_refresh_cases today_scope_eq less_eq_naive_date_def
      less_naive_date_def)

text \<open>The aggregate of up to 65535 outcomes, the 16-bit counters never wrapping.\<close>

lemma accumulated_outcome:
  assumes "length outcomes < 2 ^ 16"
  shows "accumulator_outcome (foldl accumulator_record accumulator_default outcomes) =
    (if set outcomes \<subseteq> {RunSucceeded} then RunSucceeded
     else if set outcomes \<subseteq> {RunFailed} then RunFailed else RunPartial)"
proof -
  have all: "set outcomes \<subseteq> {RunSucceeded, RunPartial, RunFailed}"
    using run_outcome.exhaust by blast
  have "(w = 0) = (unat w = 0)" for w :: u16
    by (simp add: unat_eq_zero)
  then show ?thesis
    using accumulator_counts [OF assms] all
    by (auto simp: accumulator_outcome_def count_list_0_iff)
qed

end
