(* ===== verification/Tables.thy ===== *)
theory Tables
  imports Planning
begin

text \<open>
  The SQLite tables the reconciliation store writes, as \<open>src/src-tauri/migrations/0001_initial.sql\<close>
  declares them, and the column mapping of
  \<open>src/src-tauri/src/infrastructure/database/reconciliation/mapping.rs\<close>.

  A table is the list of its rows in ascending \<open>id\<close>; a column is an \<open>int\<close>, a \<open>string\<close> or an
  \<open>option\<close> of one (NULL). The \<open>CHECK\<close> constraints of a table are a predicate on its rows, its
  \<open>UNIQUE\<close> and \<open>FOREIGN KEY\<close> constraints (foreign keys are switched on in \<open>connection.rs\<close>) are
  tested where a statement writes. A violated constraint makes the statement fail. Failures of the
  file system are outside these tables; the refresh execution, which is generic in its stores,
  covers them.
\<close>

section \<open>Table primitives\<close>

definition next_rowid :: "int list \<Rightarrow> int" where
  "next_rowid ids = foldr max ids 0 + 1"

definition update_where :: "('r \<Rightarrow> bool) \<Rightarrow> ('r \<Rightarrow> 'r) \<Rightarrow> 'r list \<Rightarrow> 'r list" where
  "update_where p f rows = map (\<lambda>r. if p r then f r else r) rows"

text \<open>\<open>length(trim(x)) > 0\<close>: SQLite trims spaces only, and \<open>length\<close> stops at a NUL character.\<close>

definition sql_nonblank :: "string \<Rightarrow> bool" where
  "sql_nonblank s =
     (case dropWhile (\<lambda>ch. ch = CHR '' '') s of [] \<Rightarrow> False | ch # _ \<Rightarrow> ch \<noteq> CHR 0x00)"

text \<open>\<open>length(x) = 10 AND substr(x, 5, 1) = '-' AND substr(x, 8, 1) = '-'\<close>, on ASCII text.\<close>

definition sql_date_shape :: "string \<Rightarrow> bool" where
  "sql_date_shape s \<longleftrightarrow> length s = 10 \<and> s ! 4 = CHR ''-'' \<and> s ! 7 = CHR ''-''"

definition non_negative :: "int option \<Rightarrow> bool" where
  "non_negative x = (case x of None \<Rightarrow> True | Some n \<Rightarrow> 0 \<le> n)"

text \<open>A write transaction: an error rolls every statement back.\<close>

definition transact :: "('d \<Rightarrow> 'e + ('a \<times> 'd)) \<Rightarrow> 'd \<Rightarrow> ('e + 'a) \<times> 'd" where
  "transact body d = (case body d of Inl e \<Rightarrow> (Inl e, d) | Inr (x, d') \<Rightarrow> (Inr x, d'))"

section \<open>Column mapping\<close>

record token_columns =
  tc_input :: "int option"
  tc_output :: "int option"
  tc_cache_creation :: "int option"
  tc_cache_read :: "int option"
  tc_total :: int
  tc_unclassified :: "int option"

definition token_value :: "u64 \<Rightarrow> usage_store_error + int" where
  "token_value v = ok_or ValueOutOfRange (i64_of_u64 v)"

definition optional_token :: "u64 option \<Rightarrow> usage_store_error + int option" where
  "optional_token v = transpose_opt token_value v"

definition token_columns_of :: "token_usage \<Rightarrow> usage_store_error + token_columns" where
  "token_columns_of t =
     bind_res (optional_token (input_tokens t)) (\<lambda>i.
     bind_res (optional_token (output_tokens t)) (\<lambda>outp.
     bind_res (optional_token (cache_creation_tokens t)) (\<lambda>cc.
     bind_res (optional_token (cache_read_tokens t)) (\<lambda>cr.
     bind_res (token_value (total_tokens t)) (\<lambda>tot.
     bind_res (optional_token (unclassified_tokens t)) (\<lambda>u.
       Inr \<lparr>tc_input = i, tc_output = outp, tc_cache_creation = cc, tc_cache_read = cr,
            tc_total = tot, tc_unclassified = u\<rparr>))))))"

fun cost_kind_value :: "cost_kind \<Rightarrow> string" where
  "cost_kind_value SourceReported = ''source_reported''"
| "cost_kind_value CollectorCalculated = ''collector_calculated''"
| "cost_kind_value CollectorMixed = ''collector_mixed''"
| "cost_kind_value BurnlyCalculated = ''burnly_calculated''"
| "cost_kind_value UnknownCostKind = ''unknown''"

fun valued_status_value :: "valued_cost_status \<Rightarrow> string" where
  "valued_status_value Available = ''available''"
| "valued_status_value Estimated = ''estimated''"

fun data_quality_value :: "data_quality \<Rightarrow> string" where
  "data_quality_value QualityComplete = ''complete''"
| "data_quality_value QualityPartial = ''partial''"

record daily_cost_columns =
  dcc_amount_micros :: "int option"
  dcc_currency :: "string option"
  dcc_kind :: string
  dcc_status :: string

fun daily_cost_columns_of :: "usage_cost \<Rightarrow> usage_store_error + daily_cost_columns" where
  "daily_cost_columns_of (Valued amount cur kind status) =
     map_ok (\<lambda>a. \<lparr>dcc_amount_micros = Some a, dcc_currency = Some (currency_code_as_str cur),
                  dcc_kind = cost_kind_value kind, dcc_status = valued_status_value status\<rparr>)
       (token_value amount)"
| "daily_cost_columns_of (NotApplicable kind) =
     Inr \<lparr>dcc_amount_micros = None, dcc_currency = None, dcc_kind = cost_kind_value kind,
          dcc_status = ''not_applicable''\<rparr>"
| "daily_cost_columns_of (Unavailable kind) =
     Inr \<lparr>dcc_amount_micros = None, dcc_currency = None, dcc_kind = cost_kind_value kind,
          dcc_status = ''unavailable''\<rparr>"

record model_cost_columns =
  mcc_amount_micros :: "int option"
  mcc_currency :: "string option"
  mcc_status :: string

fun model_cost_columns_of :: "usage_cost \<Rightarrow> usage_store_error + model_cost_columns" where
  "model_cost_columns_of (Valued amount cur kind status) =
     map_ok (\<lambda>a. \<lparr>mcc_amount_micros = Some a, mcc_currency = Some (currency_code_as_str cur),
                  mcc_status = ''estimated''\<rparr>)
       (token_value amount)"
| "model_cost_columns_of (NotApplicable kind) =
     Inr \<lparr>mcc_amount_micros = None, mcc_currency = None, mcc_status = ''unavailable''\<rparr>"
| "model_cost_columns_of (Unavailable kind) =
     Inr \<lparr>mcc_amount_micros = None, mcc_currency = None, mcc_status = ''unavailable''\<rparr>"

definition should_evaluate_absence :: "collection_scope \<Rightarrow> collection_outcome \<Rightarrow> bool" where
  "should_evaluate_absence scope outcome \<longleftrightarrow> scope = Full \<and> outcome \<noteq> CollectionPartial"

section \<open>Rows\<close>

record source_row =
  so_id :: int
  so_source_key :: string
  so_display_name :: string
  so_created_at_ms :: int
  so_updated_at_ms :: int

record model_row =
  sm_id :: int
  sm_source_id :: int
  sm_raw_model_id :: string
  sm_display_name :: "string option"
  sm_provider_key :: "string option"
  sm_first_seen_at_ms :: int
  sm_last_seen_at_ms :: int

record project_row =
  pj_id :: int
  pj_source_id :: int
  pj_identity_key :: string
  pj_raw_path :: "string option"
  pj_path_fingerprint :: string
  pj_first_seen_at_ms :: int
  pj_last_seen_at_ms :: int

record refresh_run_row =
  rr_id :: int
  rr_job_key :: string
  rr_trigger :: string
  rr_status :: string
  rr_started_at_ms :: "int option"
  rr_finished_at_ms :: "int option"
  rr_requested_by_app_version :: string
  rr_error_code :: "string option"
  rr_error_summary :: "string option"
  rr_created_at_ms :: int

record import_run_row =
  ir_id :: int
  ir_refresh_run_id :: int
  ir_source_id :: int
  ir_collector_key :: string
  ir_collector_version :: string
  ir_profile_version :: int
  ir_projection :: string
  ir_scope_kind :: string
  ir_scope_start_date :: "string option"
  ir_scope_end_date :: "string option"
  ir_aggregation_timezone :: "string option"
  ir_status :: string
  ir_records_seen :: int
  ir_records_rejected :: int
  ir_started_at_ms :: int
  ir_finished_at_ms :: "int option"
  ir_error_code :: "string option"
  ir_error_detail :: "string option"

text \<open>
  The columns \<open>daily_usage\<close> and \<open>sessions\<close> declare with the same types and the same checks.
\<close>

record fact_columns =
  fc_identity_version :: int
  fc_tokens :: token_columns
  fc_cost :: daily_cost_columns
  fc_data_quality :: string
  fc_record_state :: string
  fc_absence_count :: int
  fc_first_seen_at_ms :: int
  fc_last_seen_at_ms :: int
  fc_removed_at_ms :: "int option"
  fc_latest_import_id :: int

record daily_row =
  du_id :: int
  du_source_id :: int
  du_source_key :: string
  du_usage_date :: string
  du_aggregation_timezone :: string
  du_facts :: fact_columns

record session_row =
  ss_id :: int
  ss_source_id :: int
  ss_source_key :: string
  ss_source_session_id :: string
  ss_project_id :: "int option"
  ss_first_activity_at_ms :: "int option"
  ss_last_activity_at_ms :: "int option"
  ss_facts :: fact_columns

text \<open>A row of \<open>daily_model_usage\<close> or of \<open>session_model_usage\<close>.\<close>

record model_usage_row =
  mu_id :: int
  mu_parent_id :: int
  mu_source_id :: int
  mu_model_id :: int
  mu_tokens :: token_columns
  mu_cost :: model_cost_columns
  mu_latest_import_id :: int

record database =
  db_sources :: "source_row list"
  db_source_models :: "model_row list"
  db_projects :: "project_row list"
  db_refresh_runs :: "refresh_run_row list"
  db_import_runs :: "import_run_row list"
  db_daily_usage :: "daily_row list"
  db_daily_model_usage :: "model_usage_row list"
  db_sessions :: "session_row list"
  db_session_model_usage :: "model_usage_row list"

definition empty_database :: database where
  "empty_database =
     \<lparr>db_sources = [], db_source_models = [], db_projects = [], db_refresh_runs = [],
      db_import_runs = [], db_daily_usage = [], db_daily_model_usage = [], db_sessions = [],
      db_session_model_usage = []\<rparr>"

section \<open>CHECK constraints\<close>

definition check_currency :: "string option \<Rightarrow> bool" where
  "check_currency cur =
     (case cur of None \<Rightarrow> True
      | Some s \<Rightarrow> length s = 3 \<and> list_all (\<lambda>ch. CHR ''A'' \<le> ch \<and> ch \<le> CHR ''Z'') s)"

definition check_tokens :: "token_columns \<Rightarrow> bool" where
  "check_tokens t \<longleftrightarrow>
     non_negative (tc_input t) \<and> non_negative (tc_output t) \<and>
     non_negative (tc_cache_creation t) \<and> non_negative (tc_cache_read t) \<and>
     0 \<le> tc_total t \<and> non_negative (tc_unclassified t)"

definition check_record_state :: "string \<Rightarrow> int \<Rightarrow> int option \<Rightarrow> bool" where
  "check_record_state state absences removed \<longleftrightarrow>
     (state = ''active'' \<and> absences = 0 \<and> removed = None) \<or>
     (state = ''missing'' \<and> absences = 1 \<and> removed = None) \<or>
     (state = ''removed'' \<and> 2 \<le> absences \<and> removed \<noteq> None)"

definition check_facts :: "fact_columns \<Rightarrow> bool" where
  "check_facts f \<longleftrightarrow>
     0 < fc_identity_version f \<and> check_tokens (fc_tokens f) \<and>
     non_negative (dcc_amount_micros (fc_cost f)) \<and> check_currency (dcc_currency (fc_cost f)) \<and>
     dcc_kind (fc_cost f) \<in> {''source_reported'', ''collector_calculated'', ''collector_mixed'',
                            ''burnly_calculated'', ''unknown''} \<and>
     ((dcc_status (fc_cost f) \<in> {''available'', ''estimated''} \<and>
       dcc_amount_micros (fc_cost f) \<noteq> None \<and> dcc_currency (fc_cost f) \<noteq> None) \<or>
      (dcc_status (fc_cost f) \<in> {''not_applicable'', ''unavailable''} \<and>
       dcc_amount_micros (fc_cost f) = None \<and> dcc_currency (fc_cost f) = None)) \<and>
     sql_nonblank (fc_data_quality f) \<and>
     check_record_state (fc_record_state f) (fc_absence_count f) (fc_removed_at_ms f) \<and>
     0 \<le> fc_first_seen_at_ms f \<and> fc_first_seen_at_ms f \<le> fc_last_seen_at_ms f \<and>
     (case fc_removed_at_ms f of None \<Rightarrow> True | Some r \<Rightarrow> fc_last_seen_at_ms f \<le> r)"

definition check_daily :: "daily_row \<Rightarrow> bool" where
  "check_daily r \<longleftrightarrow>
     sql_nonblank (du_source_key r) \<and> sql_date_shape (du_usage_date r) \<and>
     sql_nonblank (du_aggregation_timezone r) \<and> check_facts (du_facts r)"

definition check_session :: "session_row \<Rightarrow> bool" where
  "check_session r \<longleftrightarrow>
     sql_nonblank (ss_source_key r) \<and> sql_nonblank (ss_source_session_id r) \<and>
     non_negative (ss_first_activity_at_ms r) \<and> non_negative (ss_last_activity_at_ms r) \<and>
     (case (ss_first_activity_at_ms r, ss_last_activity_at_ms r) of
        (Some a, Some b) \<Rightarrow> a \<le> b | _ \<Rightarrow> True) \<and>
     check_facts (ss_facts r)"

definition check_model_usage :: "model_usage_row \<Rightarrow> bool" where
  "check_model_usage r \<longleftrightarrow>
     check_tokens (mu_tokens r) \<and> non_negative (mcc_amount_micros (mu_cost r)) \<and>
     check_currency (mcc_currency (mu_cost r)) \<and>
     ((mcc_status (mu_cost r) = ''estimated'' \<and> mcc_amount_micros (mu_cost r) \<noteq> None \<and>
       mcc_currency (mu_cost r) \<noteq> None) \<or>
      (mcc_status (mu_cost r) = ''unavailable'' \<and> mcc_amount_micros (mu_cost r) = None \<and>
       mcc_currency (mu_cost r) = None))"

definition check_model :: "model_row \<Rightarrow> bool" where
  "check_model r \<longleftrightarrow>
     sql_nonblank (sm_raw_model_id r) \<and> 0 \<le> sm_first_seen_at_ms r \<and>
     sm_first_seen_at_ms r \<le> sm_last_seen_at_ms r"

definition check_project :: "project_row \<Rightarrow> bool" where
  "check_project r \<longleftrightarrow>
     sql_nonblank (pj_identity_key r) \<and> 0 \<le> pj_first_seen_at_ms r \<and>
     pj_first_seen_at_ms r \<le> pj_last_seen_at_ms r"

definition check_source :: "source_row \<Rightarrow> bool" where
  "check_source r \<longleftrightarrow>
     sql_nonblank (so_source_key r) \<and> sql_nonblank (so_display_name r) \<and>
     0 \<le> so_created_at_ms r \<and> so_created_at_ms r \<le> so_updated_at_ms r"

definition check_refresh_run :: "refresh_run_row \<Rightarrow> bool" where
  "check_refresh_run r \<longleftrightarrow>
     sql_nonblank (rr_job_key r) \<and>
     rr_trigger r \<in> {''launch'', ''manual'', ''scheduled'', ''file_change'', ''resume'',
                     ''reconcile''} \<and>
     rr_status r \<in> {''queued'', ''running'', ''cancelling'', ''succeeded'', ''partial'',
                    ''failed'', ''cancelled''} \<and>
     non_negative (rr_started_at_ms r) \<and> non_negative (rr_finished_at_ms r) \<and>
     sql_nonblank (rr_requested_by_app_version r) \<and> 0 \<le> rr_created_at_ms r \<and>
     (rr_status r \<in> {''succeeded'', ''partial'', ''failed'', ''cancelled''} \<longrightarrow>
        rr_finished_at_ms r \<noteq> None) \<and>
     (case (rr_started_at_ms r, rr_finished_at_ms r) of
        (Some s, Some f) \<Rightarrow> s \<le> f | _ \<Rightarrow> True)"

definition check_import_run :: "import_run_row \<Rightarrow> bool" where
  "check_import_run r \<longleftrightarrow>
     sql_nonblank (ir_collector_key r) \<and> sql_nonblank (ir_collector_version r) \<and>
     0 < ir_profile_version r \<and> ir_projection r \<in> {''daily'', ''session''} \<and>
     ir_scope_kind r \<in> {''full'', ''incremental''} \<and>
     (case ir_scope_start_date r of None \<Rightarrow> True | Some s \<Rightarrow> sql_date_shape s) \<and>
     (case ir_scope_end_date r of None \<Rightarrow> True | Some s \<Rightarrow> sql_date_shape s) \<and>
     ir_status r \<in> {''running'', ''succeeded'', ''partial'', ''failed'', ''cancelled''} \<and>
     0 \<le> ir_records_seen r \<and> 0 \<le> ir_records_rejected r \<and> 0 \<le> ir_started_at_ms r \<and>
     (case ir_finished_at_ms r of None \<Rightarrow> True | Some f \<Rightarrow> ir_started_at_ms r \<le> f) \<and>
     (ir_projection r = ''daily'' \<longrightarrow>
        (case ir_aggregation_timezone r of None \<Rightarrow> True | Some tz \<Rightarrow> sql_nonblank tz)) \<and>
     (ir_scope_kind r = ''incremental'' \<longrightarrow>
        ir_scope_start_date r \<noteq> None \<and> ir_scope_end_date r \<noteq> None) \<and>
     (case (ir_scope_start_date r, ir_scope_end_date r) of
        (Some a, Some b) \<Rightarrow> a \<le> b | _ \<Rightarrow> True) \<and>
     (ir_status r = ''running'' \<or> ir_finished_at_ms r \<noteq> None)"

section \<open>Foreign keys\<close>

definition has_source :: "database \<Rightarrow> int \<Rightarrow> bool" where
  "has_source db sid \<longleftrightarrow> sid \<in> so_id ` set (db_sources db)"

definition has_import_run :: "database \<Rightarrow> int \<Rightarrow> int \<Rightarrow> bool" where
  "has_import_run db imp sid \<longleftrightarrow>
     (imp, sid) \<in> (\<lambda>r. (ir_id r, ir_source_id r)) ` set (db_import_runs db)"

definition has_model :: "database \<Rightarrow> int \<Rightarrow> int \<Rightarrow> bool" where
  "has_model db mid sid \<longleftrightarrow>
     (mid, sid) \<in> (\<lambda>r. (sm_id r, sm_source_id r)) ` set (db_source_models db)"

definition has_project :: "database \<Rightarrow> int \<Rightarrow> int \<Rightarrow> bool" where
  "has_project db pid sid \<longleftrightarrow>
     (pid, sid) \<in> (\<lambda>r. (pj_id r, pj_source_id r)) ` set (db_projects db)"

section \<open>Lemmas\<close>

lemma update_where_set:
  "set (update_where p f rows) = {if p r then f r else r | r. r \<in> set rows}"
  by (auto simp: update_where_def)

lemma update_where_map:
  "(\<And>r. k (f r) = k r) \<Longrightarrow> map k (update_where p f rows) = map k rows"
  by (simp add: update_where_def)

lemma length_update_where [simp]: "length (update_where p f rows) = length rows"
  by (simp add: update_where_def)

lemma next_rowid_fresh: "i \<in> set ids \<Longrightarrow> i < next_rowid ids"
proof -
  have "i \<le> foldr max ids 0" if "i \<in> set ids"
    using that by (induction ids) auto
  then show "i \<in> set ids \<Longrightarrow> i < next_rowid ids"
    by (simp add: next_rowid_def)
qed

lemma next_rowid_pos: "0 < next_rowid ids"
proof -
  have "0 \<le> foldr max ids 0" by (induction ids) auto
  then show ?thesis by (simp add: next_rowid_def)
qed

lemma next_rowid_not_in: "next_rowid ids \<notin> set ids"
  using next_rowid_fresh by blast

lemma token_value_Inr: "token_value v = Inr n \<longleftrightarrow> uint v \<le> i64_max \<and> n = uint v"
  by (auto simp: token_value_def i64_of_u64_def ok_or_def)

lemma token_value_error: "token_value v = Inl e \<Longrightarrow> e = ValueOutOfRange"
  by (auto simp: token_value_def ok_or_def split: option.splits)

lemma optional_token_nonneg: "optional_token v = Inr n \<Longrightarrow> non_negative n"
  by (auto simp: optional_token_def transpose_opt_def map_ok_def non_negative_def token_value_Inr
      split: option.splits sum.splits)

lemma token_columns_checked: "token_columns_of t = Inr cols \<Longrightarrow> check_tokens cols"
  by (auto simp: token_columns_of_def bind_res_Inr check_tokens_def token_value_Inr
      dest: optional_token_nonneg)

lemma currency_code_new_check:
  "currency_code_new s = Inr code \<Longrightarrow> check_currency (Some (currency_code_as_str code))"
  by (auto simp: currency_code_new_def check_currency_def split: if_splits)

end
