(* ===== verification/UsageStore.thy ===== *)
theory UsageStore
  imports Tables
begin

text \<open>
  The usage store of \<open>src/src-tauri/src/infrastructure/database/reconciliation\<close>: model and project
  resolution (\<open>identity.rs\<close>), the daily and session reconciliation transactions (\<open>daily.rs\<close>,
  \<open>session.rs\<close>) and the two port operations that run them (\<open>store.rs\<close>). Every statement is a
  function from the database to an error or a new database; \<open>transact\<close> rolls back on an error.
\<close>

section \<open>Model and project identity\<close>

definition resolve_model ::
  "int \<Rightarrow> i64 \<Rightarrow> model_usage_candidate \<Rightarrow> database \<Rightarrow> usage_store_error + (int \<times> database)" where
  "resolve_model sid observed model db =
     (let fresh = \<lparr>sm_id = next_rowid (map sm_id (db_source_models db)), sm_source_id = sid,
                   sm_raw_model_id = mc_raw_model_id model, sm_display_name = None,
                   sm_provider_key = None, sm_first_seen_at_ms = observed,
                   sm_last_seen_at_ms = observed\<rparr>
      in if \<not> check_model fresh \<or> \<not> has_source db sid then Inl UsageStoreBackend
         else case find (\<lambda>r. sm_source_id r = sid \<and> sm_raw_model_id r = mc_raw_model_id model)
                     (db_source_models db) of
           None \<Rightarrow>
             Inr (sm_id fresh, db\<lparr>db_source_models := db_source_models db @ [fresh]\<rparr>)
         | Some old \<Rightarrow>
             if \<not> check_model (old\<lparr>sm_last_seen_at_ms := observed\<rparr>) then Inl UsageStoreBackend
             else Inr (sm_id old,
               db\<lparr>db_source_models :=
                    update_where (\<lambda>r. sm_id r = sm_id old)
                      (\<lambda>r. r\<lparr>sm_last_seen_at_ms := observed\<rparr>) (db_source_models db)\<rparr>))"

text \<open>\<open>fingerprint\<close> is SHA-256 and \<open>identity_key\<close> its \<open>path-sha256:v1:\<close> hexadecimal key.\<close>

definition hex_digit :: "nat \<Rightarrow> char" where
  "hex_digit n = ''0123456789abcdef'' ! n"

definition encode_hex :: "string \<Rightarrow> string" where
  "encode_hex bytes =
     concat (map (\<lambda>b. [hex_digit (of_char b div 16), hex_digit (of_char b mod 16)]) bytes)"

definition project_identity_key :: "(string \<Rightarrow> string) \<Rightarrow> string \<Rightarrow> string" where
  "project_identity_key sha256 path = ''path-sha256:v1:'' @ encode_hex (sha256 path)"

definition resolve_project ::
  "(string \<Rightarrow> string) \<Rightarrow> int \<Rightarrow> i64 \<Rightarrow> string \<Rightarrow> bool \<Rightarrow> database
   \<Rightarrow> usage_store_error + (int \<times> database)" where
  "resolve_project sha256 sid observed path retain_path db =
     (let key = project_identity_key sha256 path;
          raw = (if retain_path then Some path else None);
          fresh = \<lparr>pj_id = next_rowid (map pj_id (db_projects db)), pj_source_id = sid,
                   pj_identity_key = key, pj_raw_path = raw, pj_path_fingerprint = sha256 path,
                   pj_first_seen_at_ms = observed, pj_last_seen_at_ms = observed\<rparr>;
          upd = (\<lambda>r. r\<lparr>pj_raw_path := raw, pj_path_fingerprint := sha256 path,
                      pj_last_seen_at_ms := observed\<rparr>)
      in if \<not> check_project fresh \<or> \<not> has_source db sid then Inl UsageStoreBackend
         else case find (\<lambda>r. pj_source_id r = sid \<and> pj_identity_key r = key) (db_projects db) of
           None \<Rightarrow> Inr (pj_id fresh, db\<lparr>db_projects := db_projects db @ [fresh]\<rparr>)
         | Some old \<Rightarrow>
             if \<not> check_project (upd old) then Inl UsageStoreBackend
             else Inr (pj_id old,
               db\<lparr>db_projects :=
                    update_where (\<lambda>r. pj_id r = pj_id old) upd (db_projects db)\<rparr>))"

section \<open>Daily usage\<close>

text \<open>The columns \<open>excluded.*\<close> of an upsert; \<open>first_seen_at_ms\<close> survives a conflict.\<close>

definition observed_facts ::
  "token_columns \<Rightarrow> daily_cost_columns \<Rightarrow> data_quality \<Rightarrow> i64 \<Rightarrow> int \<Rightarrow> fact_columns" where
  "observed_facts tokens cost quality observed imp =
     \<lparr>fc_identity_version = uint daily_identity_version, fc_tokens = tokens, fc_cost = cost,
      fc_data_quality = data_quality_value quality, fc_record_state = ''active'',
      fc_absence_count = 0, fc_first_seen_at_ms = observed, fc_last_seen_at_ms = observed,
      fc_removed_at_ms = None, fc_latest_import_id = imp\<rparr>"

definition upsert_daily_usage ::
  "chrono \<Rightarrow> int \<Rightarrow> int \<Rightarrow> i64 \<Rightarrow> daily_usage_candidate \<Rightarrow> database
   \<Rightarrow> usage_store_error + (int \<times> database)" where
  "upsert_daily_usage c sid imp observed cand db =
     bind_res (token_columns_of (dc_tokens cand)) (\<lambda>tokens.
     bind_res (daily_cost_columns_of (dc_cost cand)) (\<lambda>cost.
       let facts = observed_facts tokens cost (prov_data_quality (dc_provenance cand)) observed imp;
           fresh = \<lparr>du_id = next_rowid (map du_id (db_daily_usage db)), du_source_id = sid,
                    du_source_key = dc_source_key cand,
                    du_usage_date = date_to_string c (dc_usage_date cand),
                    du_aggregation_timezone = dc_aggregation_timezone cand, du_facts = facts\<rparr>;
           upd = (\<lambda>r. fresh\<lparr>du_id := du_id r,
                     du_facts := facts\<lparr>fc_first_seen_at_ms :=
                                         fc_first_seen_at_ms (du_facts r)\<rparr>\<rparr>)
       in if \<not> check_daily fresh \<or> \<not> has_source db sid \<or> \<not> has_import_run db imp sid
          then Inl UsageStoreBackend
          else case find (\<lambda>r. du_source_id r = sid \<and> du_source_key r = dc_source_key cand)
                      (db_daily_usage db) of
            None \<Rightarrow> Inr (du_id fresh, db\<lparr>db_daily_usage := db_daily_usage db @ [fresh]\<rparr>)
          | Some old \<Rightarrow>
              if \<not> check_daily (upd old) then Inl UsageStoreBackend
              else Inr (du_id old,
                db\<lparr>db_daily_usage :=
                     update_where (\<lambda>r. du_id r = du_id old) upd (db_daily_usage db)\<rparr>)))"

text \<open>
  One row of \<open>daily_model_usage\<close> or \<open>session_model_usage\<close>; the parent row was written just before,
  in the same transaction and for the same source. A second row for the same model violates the
  table's \<open>UNIQUE (parent, model_id)\<close>.
\<close>

definition model_usage_insert ::
  "int \<Rightarrow> int \<Rightarrow> int \<Rightarrow> int \<Rightarrow> model_usage_candidate \<Rightarrow> database \<Rightarrow> model_usage_row list
   \<Rightarrow> usage_store_error + model_usage_row list" where
  "model_usage_insert sid imp parent mid model db rows =
     bind_res (token_columns_of (mc_tokens model)) (\<lambda>tokens.
     bind_res (model_cost_columns_of (mc_cost model)) (\<lambda>cost.
       let fresh = \<lparr>mu_id = next_rowid (map mu_id rows), mu_parent_id = parent,
                    mu_source_id = sid, mu_model_id = mid, mu_tokens = tokens, mu_cost = cost,
                    mu_latest_import_id = imp\<rparr>
       in if \<not> check_model_usage fresh \<or> \<not> has_model db mid sid \<or> \<not> has_import_run db imp sid \<or>
             list_ex (\<lambda>r. mu_parent_id r = parent \<and> mu_model_id r = mid) rows
          then Inl UsageStoreBackend else Inr (rows @ [fresh])))"

definition insert_daily_model_usage ::
  "int \<Rightarrow> int \<Rightarrow> int \<Rightarrow> int \<Rightarrow> model_usage_candidate \<Rightarrow> database
   \<Rightarrow> usage_store_error + database" where
  "insert_daily_model_usage sid imp daily_id mid model db =
     map_ok (\<lambda>rows. db\<lparr>db_daily_model_usage := rows\<rparr>)
       (model_usage_insert sid imp daily_id mid model db (db_daily_model_usage db))"

fun insert_daily_models ::
  "int \<Rightarrow> int \<Rightarrow> i64 \<Rightarrow> int \<Rightarrow> model_usage_candidate list \<Rightarrow> database
   \<Rightarrow> usage_store_error + database" where
  "insert_daily_models sid imp observed daily_id [] db = Inr db"
| "insert_daily_models sid imp observed daily_id (m # ms) db =
     bind_res (resolve_model sid observed m db) (\<lambda>(mid, db1).
     bind_res (insert_daily_model_usage sid imp daily_id mid m db1) (\<lambda>db2.
       insert_daily_models sid imp observed daily_id ms db2))"

definition replace_model_breakdowns ::
  "int \<Rightarrow> int \<Rightarrow> i64 \<Rightarrow> int \<Rightarrow> daily_usage_candidate \<Rightarrow> database
   \<Rightarrow> usage_store_error + database" where
  "replace_model_breakdowns sid imp observed daily_id cand db =
     insert_daily_models sid imp observed daily_id (dc_model_breakdowns cand)
       (db\<lparr>db_daily_model_usage :=
             filter (\<lambda>r. mu_parent_id r \<noteq> daily_id) (db_daily_model_usage db)\<rparr>)"

text \<open>
  \<open>missing \<rightarrow> removed\<close> runs before \<open>active \<rightarrow> missing\<close>. The statement fails when a changed row
  violates a check, that is when \<open>removed_at_ms\<close> would precede the row's \<open>last_seen_at_ms\<close>.
\<close>

definition absent :: "int \<Rightarrow> int \<Rightarrow> string \<Rightarrow> int \<Rightarrow> fact_columns \<Rightarrow> bool" where
  "absent sid imp state row_sid f \<longleftrightarrow>
     row_sid = sid \<and> fc_latest_import_id f \<noteq> imp \<and> fc_record_state f = state"

definition mark_removed :: "i64 \<Rightarrow> fact_columns \<Rightarrow> fact_columns" where
  "mark_removed now f =
     f\<lparr>fc_record_state := ''removed'', fc_absence_count := fc_absence_count f + 1,
       fc_removed_at_ms := Some now\<rparr>"

definition mark_missing :: "fact_columns \<Rightarrow> fact_columns" where
  "mark_missing f = f\<lparr>fc_record_state := ''missing'', fc_absence_count := 1\<rparr>"

definition update_checked ::
  "('r \<Rightarrow> bool) \<Rightarrow> ('r \<Rightarrow> bool) \<Rightarrow> ('r \<Rightarrow> 'r) \<Rightarrow> 'r list \<Rightarrow> usage_store_error + 'r list" where
  "update_checked check p f rows =
     (if list_all (\<lambda>r. p r \<longrightarrow> check (f r)) rows then Inr (update_where p f rows)
      else Inl UsageStoreBackend)"

definition advance_daily_absences ::
  "int \<Rightarrow> int \<Rightarrow> i64 \<Rightarrow> database \<Rightarrow> usage_store_error + database" where
  "advance_daily_absences sid imp now db =
     bind_res
       (update_checked check_daily (\<lambda>r. absent sid imp ''missing'' (du_source_id r) (du_facts r))
          (\<lambda>r. r\<lparr>du_facts := mark_removed now (du_facts r)\<rparr>) (db_daily_usage db)) (\<lambda>rows.
     bind_res
       (update_checked check_daily (\<lambda>r. absent sid imp ''active'' (du_source_id r) (du_facts r))
          (\<lambda>r. r\<lparr>du_facts := mark_missing (du_facts r)\<rparr>) rows) (\<lambda>rows'.
     Inr (db\<lparr>db_daily_usage := rows'\<rparr>)))"

fun reconcile_daily_candidates ::
  "chrono \<Rightarrow> int \<Rightarrow> int \<Rightarrow> i64 \<Rightarrow> daily_usage_candidate list \<Rightarrow> database
   \<Rightarrow> usage_store_error + (string list \<times> database)" where
  "reconcile_daily_candidates c sid imp observed [] db = Inr ([], db)"
| "reconcile_daily_candidates c sid imp observed (cand # cands) db =
     bind_res (upsert_daily_usage c sid imp observed cand db) (\<lambda>(daily_id, db1).
     bind_res (replace_model_breakdowns sid imp observed daily_id cand db1) (\<lambda>db2.
     bind_res (reconcile_daily_candidates c sid imp observed cands db2) (\<lambda>(keys, db3).
       Inr (dc_source_key cand # keys, db3))))"

definition reconcile_daily_in_transaction ::
  "chrono \<Rightarrow> daily_reconciliation_request \<Rightarrow> database
   \<Rightarrow> usage_store_error + (daily_reconciliation_summary \<times> database)" where
  "reconcile_daily_in_transaction c request db =
     (let sid = source_id_value (drr_source_id request);
          imp = import_run_id_value (drr_import_run_id request);
          observed = drr_observed_at_ms request
      in bind_res (reconcile_daily_candidates c sid imp observed (drr_candidates request) db)
           (\<lambda>(keys, db1).
         bind_res
           (if should_evaluate_absence (drr_scope request) (drr_outcome request)
            then advance_daily_absences sid imp observed db1 else Inr db1) (\<lambda>db2.
         bind_res (ok_or ValueOutOfRange (u32_of_nat (length keys))) (\<lambda>n.
           Inr (\<lparr>drs_upserted_days = n, drs_observed_source_keys = keys\<rparr>, db2)))))"

definition reconcile_daily ::
  "chrono \<Rightarrow> daily_reconciliation_request \<Rightarrow> database
   \<Rightarrow> (usage_store_error + daily_reconciliation_summary) \<times> database" where
  "reconcile_daily c request = transact (reconcile_daily_in_transaction c request)"

section \<open>Session usage\<close>

definition upsert_session ::
  "chrono \<Rightarrow> int \<Rightarrow> int \<Rightarrow> i64 \<Rightarrow> int option \<Rightarrow> session_usage_candidate \<Rightarrow> database
   \<Rightarrow> usage_store_error + (int \<times> database)" where
  "upsert_session c sid imp observed project cand db =
     bind_res (token_columns_of (sc_tokens cand)) (\<lambda>tokens.
     bind_res (daily_cost_columns_of (sc_cost cand)) (\<lambda>cost.
       let facts = observed_facts tokens cost (prov_data_quality (sc_provenance cand)) observed imp;
           fresh = \<lparr>ss_id = next_rowid (map ss_id (db_sessions db)), ss_source_id = sid,
                    ss_source_key = sc_source_key cand,
                    ss_source_session_id = sc_source_session_id cand, ss_project_id = project,
                    ss_first_activity_at_ms =
                      map_option (timestamp_millis c) (sc_first_activity_at cand),
                    ss_last_activity_at_ms =
                      map_option (timestamp_millis c) (sc_last_activity_at cand),
                    ss_facts = facts\<rparr>;
           upd = (\<lambda>r. fresh\<lparr>ss_id := ss_id r,
                     ss_facts := facts\<lparr>fc_first_seen_at_ms :=
                                         fc_first_seen_at_ms (ss_facts r)\<rparr>\<rparr>)
       in if \<not> check_session fresh \<or> \<not> has_source db sid \<or> \<not> has_import_run db imp sid \<or>
             (case project of None \<Rightarrow> False | Some p \<Rightarrow> \<not> has_project db p sid)
          then Inl UsageStoreBackend
          else case find (\<lambda>r. ss_source_id r = sid \<and>
                              ss_source_session_id r = sc_source_session_id cand)
                      (db_sessions db) of
            None \<Rightarrow>
              if list_ex (\<lambda>r. ss_source_id r = sid \<and> ss_source_key r = sc_source_key cand)
                   (db_sessions db)
              then Inl UsageStoreBackend
              else Inr (ss_id fresh, db\<lparr>db_sessions := db_sessions db @ [fresh]\<rparr>)
          | Some old \<Rightarrow>
              if \<not> check_session (upd old) \<or>
                 list_ex (\<lambda>r. ss_id r \<noteq> ss_id old \<and> ss_source_id r = sid \<and>
                             ss_source_key r = sc_source_key cand) (db_sessions db)
              then Inl UsageStoreBackend
              else Inr (ss_id old,
                db\<lparr>db_sessions :=
                     update_where (\<lambda>r. ss_id r = ss_id old) upd (db_sessions db)\<rparr>)))"

definition insert_session_model_usage ::
  "int \<Rightarrow> int \<Rightarrow> int \<Rightarrow> int \<Rightarrow> model_usage_candidate \<Rightarrow> database
   \<Rightarrow> usage_store_error + database" where
  "insert_session_model_usage sid imp session_id mid model db =
     map_ok (\<lambda>rows. db\<lparr>db_session_model_usage := rows\<rparr>)
       (model_usage_insert sid imp session_id mid model db (db_session_model_usage db))"

fun insert_session_models ::
  "int \<Rightarrow> int \<Rightarrow> i64 \<Rightarrow> int \<Rightarrow> model_usage_candidate list \<Rightarrow> database
   \<Rightarrow> usage_store_error + database" where
  "insert_session_models sid imp observed session_id [] db = Inr db"
| "insert_session_models sid imp observed session_id (m # ms) db =
     bind_res (resolve_model sid observed m db) (\<lambda>(mid, db1).
     bind_res (insert_session_model_usage sid imp session_id mid m db1) (\<lambda>db2.
       insert_session_models sid imp observed session_id ms db2))"

definition replace_session_model_breakdowns ::
  "int \<Rightarrow> int \<Rightarrow> i64 \<Rightarrow> int \<Rightarrow> session_usage_candidate \<Rightarrow> database
   \<Rightarrow> usage_store_error + database" where
  "replace_session_model_breakdowns sid imp observed session_id cand db =
     insert_session_models sid imp observed session_id (sc_model_breakdowns cand)
       (db\<lparr>db_session_model_usage :=
             filter (\<lambda>r. mu_parent_id r \<noteq> session_id) (db_session_model_usage db)\<rparr>)"

definition advance_session_absences ::
  "int \<Rightarrow> int \<Rightarrow> i64 \<Rightarrow> database \<Rightarrow> usage_store_error + database" where
  "advance_session_absences sid imp now db =
     bind_res
       (update_checked check_session (\<lambda>r. absent sid imp ''missing'' (ss_source_id r) (ss_facts r))
          (\<lambda>r. r\<lparr>ss_facts := mark_removed now (ss_facts r)\<rparr>) (db_sessions db)) (\<lambda>rows.
     bind_res
       (update_checked check_session (\<lambda>r. absent sid imp ''active'' (ss_source_id r) (ss_facts r))
          (\<lambda>r. r\<lparr>ss_facts := mark_missing (ss_facts r)\<rparr>) rows) (\<lambda>rows'.
     Inr (db\<lparr>db_sessions := rows'\<rparr>)))"

fun reconcile_session_candidates ::
  "chrono \<Rightarrow> (string \<Rightarrow> string) \<Rightarrow> int \<Rightarrow> int \<Rightarrow> i64 \<Rightarrow> session_usage_candidate list \<Rightarrow> database
   \<Rightarrow> usage_store_error + (string list \<times> database)" where
  "reconcile_session_candidates c sha256 sid imp observed [] db = Inr ([], db)"
| "reconcile_session_candidates c sha256 sid imp observed (cand # cands) db =
     bind_res
       (case sc_project_path cand of
          Some path \<Rightarrow>
            map_ok (\<lambda>(p, d). (Some p, d)) (resolve_project sha256 sid observed path False db)
        | None \<Rightarrow> Inr (None, db)) (\<lambda>(project, db0).
     bind_res (upsert_session c sid imp observed project cand db0) (\<lambda>(session_id, db1).
     bind_res (replace_session_model_breakdowns sid imp observed session_id cand db1) (\<lambda>db2.
     bind_res (reconcile_session_candidates c sha256 sid imp observed cands db2) (\<lambda>(keys, db3).
       Inr (sc_source_key cand # keys, db3)))))"

definition reconcile_session_in_transaction ::
  "chrono \<Rightarrow> (string \<Rightarrow> string) \<Rightarrow> session_reconciliation_request \<Rightarrow> database
   \<Rightarrow> usage_store_error + (session_reconciliation_summary \<times> database)" where
  "reconcile_session_in_transaction c sha256 request db =
     (let sid = source_id_value (srr_source_id request);
          imp = import_run_id_value (srr_import_run_id request);
          observed = srr_observed_at_ms request
      in bind_res
           (reconcile_session_candidates c sha256 sid imp observed (srr_candidates request) db)
           (\<lambda>(keys, db1).
         bind_res
           (if should_evaluate_absence (srr_scope request) (srr_outcome request)
            then advance_session_absences sid imp observed db1 else Inr db1) (\<lambda>db2.
         bind_res (ok_or ValueOutOfRange (u32_of_nat (length keys))) (\<lambda>n.
           Inr (\<lparr>srs_upserted_sessions = n, srs_observed_source_keys = keys\<rparr>, db2)))))"

definition reconcile_session ::
  "chrono \<Rightarrow> (string \<Rightarrow> string) \<Rightarrow> session_reconciliation_request \<Rightarrow> database
   \<Rightarrow> (usage_store_error + session_reconciliation_summary) \<times> database" where
  "reconcile_session c sha256 request = transact (reconcile_session_in_transaction c sha256 request)"

end
