(* ===== verification/DemoData.thy ===== *)
theory DemoData
  imports UsageStore
begin

text \<open>
  A small database the witnesses share: one source with two active days and a missing one, seen by
  import 1, while import 2 is running. \<open>demo_request\<close> is the full daily import 2, which
  observes one of the days again.
\<close>

definition demo_tokens :: token_usage where
  "demo_tokens =
     \<lparr>input_tokens = Some 70, output_tokens = Some 30, cache_creation_tokens = None,
      cache_read_tokens = None, total_tokens = 100, unclassified_tokens = Some 0\<rparr>"

definition demo_cost :: usage_cost where
  "demo_cost = Valued 1500 (CurrencyCode ''USD'') SourceReported Available"

definition demo_facts :: "string \<Rightarrow> int \<Rightarrow> fact_columns" where
  "demo_facts state absences =
     \<lparr>fc_identity_version = 1,
      fc_tokens = \<lparr>tc_input = Some 5, tc_output = Some 5, tc_cache_creation = None,
                   tc_cache_read = None, tc_total = 10, tc_unclassified = Some 0\<rparr>,
      fc_cost = \<lparr>dcc_amount_micros = None, dcc_currency = None, dcc_kind = ''unknown'',
                 dcc_status = ''unavailable''\<rparr>,
      fc_data_quality = ''complete'', fc_record_state = state, fc_absence_count = absences,
      fc_first_seen_at_ms = 100, fc_last_seen_at_ms = 200, fc_removed_at_ms = None,
      fc_latest_import_id = 1\<rparr>"

definition demo_day :: "int \<Rightarrow> string \<Rightarrow> string \<Rightarrow> int \<Rightarrow> daily_row" where
  "demo_day i key state absences =
     \<lparr>du_id = i, du_source_id = 1, du_source_key = key, du_usage_date = ''2026-06-14'',
      du_aggregation_timezone = ''UTC'', du_facts = demo_facts state absences\<rparr>"

definition demo_import_row :: "int \<Rightarrow> string \<Rightarrow> int option \<Rightarrow> import_run_row" where
  "demo_import_row i status finished =
     \<lparr>ir_id = i, ir_refresh_run_id = 1, ir_source_id = 1, ir_collector_key = ''burnly'',
      ir_collector_version = ''1.0.0'', ir_profile_version = 1, ir_projection = ''daily'',
      ir_scope_kind = ''full'', ir_scope_start_date = None, ir_scope_end_date = None,
      ir_aggregation_timezone = Some ''UTC'', ir_status = status, ir_records_seen = 0,
      ir_records_rejected = 0, ir_started_at_ms = 100, ir_finished_at_ms = finished,
      ir_error_code = None, ir_error_detail = None\<rparr>"

definition demo_database :: database where
  "demo_database =
     empty_database
       \<lparr>db_sources := [\<lparr>so_id = 1, so_source_key = ''codex'', so_display_name = ''Codex'',
                       so_created_at_ms = 100, so_updated_at_ms = 100\<rparr>],
        db_refresh_runs := [\<lparr>rr_id = 1, rr_job_key = ''job'', rr_trigger = ''manual'',
                       rr_status = ''running'', rr_started_at_ms = Some 100,
                       rr_finished_at_ms = None, rr_requested_by_app_version = ''1'',
                       rr_error_code = None, rr_error_summary = None, rr_created_at_ms = 100\<rparr>],
        db_import_runs := [demo_import_row 1 ''succeeded'' (Some 200),
                           demo_import_row 2 ''running'' None],
        db_daily_usage := [demo_day 1 ''a'' ''active'' 0, demo_day 2 ''b'' ''active'' 0,
                           demo_day 3 ''c'' ''missing'' 1]\<rparr>"

definition demo_candidate :: daily_usage_candidate where
  "demo_candidate =
     \<lparr>dc_provenance = \<lparr>prov_source = Codex, prov_collector = CollectorKey ''burnly'',
        prov_collector_version = ''1.0.0'', prov_profile_version = 1,
        prov_collection_id = CollectionId ''x'', prov_observed_at = 0,
        prov_data_quality = QualityComplete, prov_warnings = []\<rparr>,
      dc_source_key = ''a'', dc_usage_date = NaiveDate 20618, dc_aggregation_timezone = ''UTC'',
      dc_tokens = demo_tokens, dc_cost = demo_cost,
      dc_model_breakdowns = [\<lparr>mc_raw_model_id = ''m'', mc_tokens = demo_tokens,
                              mc_cost = demo_cost\<rparr>]\<rparr>"

definition demo_request :: daily_reconciliation_request where
  "demo_request =
     \<lparr>drr_source_id = SourceId 1, drr_import_run_id = ImportRunId 2, drr_scope = Full,
      drr_outcome = CollectionComplete, drr_observed_at_ms = 300,
      drr_candidates = [demo_candidate]\<rparr>"

lemmas demo_defs =
  demo_database_def demo_day_def demo_import_row_def demo_facts_def demo_candidate_def
  demo_request_def demo_tokens_def demo_cost_def empty_database_def

end
