(* ===== verification/UsageIntegrity.thy ===== *)
theory UsageIntegrity
  imports UsageStore DemoData
begin

text \<open>
  Integrity of the reconciliation tables: \<open>database_ok\<close> is what the schema of
  \<open>migrations/0001_initial.sql\<close> declares (primary keys, \<open>UNIQUE\<close>, \<open>CHECK\<close> and \<open>FOREIGN KEY\<close>), and
  every usage store operation keeps it. The lemmas on \<open>put_row\<close>, the effect an upsert has on a
  table, are shared by models, projects, daily rows and sessions.
\<close>

section \<open>The schema as an invariant\<close>

definition sources_ok :: "database \<Rightarrow> bool" where
  "sources_ok db \<longleftrightarrow>
     distinct (map so_id (db_sources db)) \<and> distinct (map so_source_key (db_sources db)) \<and>
     list_all check_source (db_sources db)"

definition models_ok :: "database \<Rightarrow> bool" where
  "models_ok db \<longleftrightarrow>
     distinct (map sm_id (db_source_models db)) \<and>
     distinct (map (\<lambda>r. (sm_source_id r, sm_raw_model_id r)) (db_source_models db)) \<and>
     list_all (\<lambda>r. check_model r \<and> has_source db (sm_source_id r)) (db_source_models db)"

definition projects_ok :: "database \<Rightarrow> bool" where
  "projects_ok db \<longleftrightarrow>
     distinct (map pj_id (db_projects db)) \<and>
     distinct (map (\<lambda>r. (pj_source_id r, pj_identity_key r)) (db_projects db)) \<and>
     list_all (\<lambda>r. check_project r \<and> has_source db (pj_source_id r)) (db_projects db)"

definition runs_ok :: "database \<Rightarrow> bool" where
  "runs_ok db \<longleftrightarrow>
     distinct (map rr_id (db_refresh_runs db)) \<and> distinct (map rr_job_key (db_refresh_runs db)) \<and>
     list_all check_refresh_run (db_refresh_runs db) \<and>
     distinct (map ir_id (db_import_runs db)) \<and>
     list_all (\<lambda>r. check_import_run r \<and> has_source db (ir_source_id r) \<and>
                  ir_refresh_run_id r \<in> rr_id ` set (db_refresh_runs db)) (db_import_runs db)"

definition daily_ok :: "database \<Rightarrow> bool" where
  "daily_ok db \<longleftrightarrow>
     distinct (map du_id (db_daily_usage db)) \<and>
     distinct (map (\<lambda>r. (du_source_id r, du_source_key r)) (db_daily_usage db)) \<and>
     list_all (\<lambda>r. check_daily r \<and> has_source db (du_source_id r) \<and>
                  has_import_run db (fc_latest_import_id (du_facts r)) (du_source_id r))
       (db_daily_usage db)"

definition sessions_ok :: "database \<Rightarrow> bool" where
  "sessions_ok db \<longleftrightarrow>
     distinct (map ss_id (db_sessions db)) \<and>
     distinct (map (\<lambda>r. (ss_source_id r, ss_source_session_id r)) (db_sessions db)) \<and>
     distinct (map (\<lambda>r. (ss_source_id r, ss_source_key r)) (db_sessions db)) \<and>
     list_all (\<lambda>r. check_session r \<and> has_source db (ss_source_id r) \<and>
                  (case ss_project_id r of None \<Rightarrow> True
                   | Some p \<Rightarrow> has_project db p (ss_source_id r)) \<and>
                  has_import_run db (fc_latest_import_id (ss_facts r)) (ss_source_id r))
       (db_sessions db)"

definition model_usage_ok :: "(int \<times> int) set \<Rightarrow> database \<Rightarrow> model_usage_row list \<Rightarrow> bool" where
  "model_usage_ok parents db rows \<longleftrightarrow>
     distinct (map mu_id rows) \<and> distinct (map (\<lambda>r. (mu_parent_id r, mu_model_id r)) rows) \<and>
     list_all (\<lambda>r. check_model_usage r \<and> (mu_parent_id r, mu_source_id r) \<in> parents \<and>
                  has_model db (mu_model_id r) (mu_source_id r) \<and>
                  has_import_run db (mu_latest_import_id r) (mu_source_id r)) rows"

definition daily_parents :: "database \<Rightarrow> (int \<times> int) set" where
  "daily_parents db = (\<lambda>r. (du_id r, du_source_id r)) ` set (db_daily_usage db)"

definition session_parents :: "database \<Rightarrow> (int \<times> int) set" where
  "session_parents db = (\<lambda>r. (ss_id r, ss_source_id r)) ` set (db_sessions db)"

definition database_ok :: "database \<Rightarrow> bool" where
  "database_ok db \<longleftrightarrow>
     sources_ok db \<and> models_ok db \<and> projects_ok db \<and> runs_ok db \<and>
     daily_ok db \<and> model_usage_ok (daily_parents db) db (db_daily_model_usage db) \<and>
     sessions_ok db \<and> model_usage_ok (session_parents db) db (db_session_model_usage db)"

lemma database_ok_empty: "database_ok empty_database"
  by (simp add: database_ok_def empty_database_def sources_ok_def models_ok_def projects_ok_def
      runs_ok_def daily_ok_def sessions_ok_def model_usage_ok_def)

section \<open>The effect of an upsert on a table\<close>

definition put_row :: "('r \<Rightarrow> int) \<Rightarrow> 'r \<Rightarrow> 'r list \<Rightarrow> 'r list" where
  "put_row key row rows =
     (if key row \<in> key ` set rows then update_where (\<lambda>r. key r = key row) (\<lambda>r. row) rows
      else rows @ [row])"

lemma set_put_row: "set (put_row key row rows) = insert row {r \<in> set rows. key r \<noteq> key row}"
proof (cases "key row \<in> key ` set rows")
  case True
  then obtain r where "r \<in> set rows" "key r = key row" by force
  with True show ?thesis by (auto simp: put_row_def update_where_set)
next
  case False
  have "key r \<noteq> key row" if "r \<in> set rows" for r
    using imageI [OF that, of key] False by auto
  then have "{r \<in> set rows. key r \<noteq> key row} = set rows" by blast
  with False show ?thesis by (simp add: put_row_def)
qed

lemma put_row_distinct:
  assumes "distinct (map k rows)"
    and "\<And>r. r \<in> set rows \<Longrightarrow> k r = k row \<longleftrightarrow> key r = key row"
  shows "distinct (map k (put_row key row rows))"
proof (cases "key row \<in> key ` set rows")
  case True
  have "map k (update_where (\<lambda>r. key r = key row) (\<lambda>r. row) rows) = map k rows"
    using assms(2) by (auto simp: update_where_def dest: sym)
  with True assms(1) show ?thesis by (simp add: put_row_def)
next
  case False
  then have "k r \<noteq> k row" if "r \<in> set rows" for r
    using imageI [OF that, of key] assms(2) [OF that] by auto
  then have "k row \<notin> k ` set rows" by force
  with False assms(1) show ?thesis by (simp add: put_row_def)
qed

lemma update_where_Cons:
  "update_where p f (a # rows) = (if p a then f a else a) # update_where p f rows"
  by (simp add: update_where_def)

lemma put_row_distinct_key:
  assumes "distinct (map key rows)" and "distinct (map k rows)"
    and "\<forall>r \<in> set rows. k r = k row \<longrightarrow> key r = key row"
  shows "distinct (map k (put_row key row rows))"
proof -
  have "distinct (map k (update_where (\<lambda>r. key r = key row) (\<lambda>r. row) rows))"
    using assms
  proof (induction rows)
    case Nil
    then show ?case by (simp add: update_where_def)
  next
    case (Cons a rows)
    show ?case
    proof (cases "key a = key row")
      case True
      have "key r \<noteq> key a" if "r \<in> set rows" for r
        using imageI [OF that, of key] Cons.prems(1) by auto
      with True have "\<forall>r \<in> set rows. key r \<noteq> key row" by simp
      moreover from this have "update_where (\<lambda>r. key r = key row) (\<lambda>r. row) rows = rows"
        by (simp add: update_where_def map_idI)
      ultimately show ?thesis using Cons.prems True by (auto simp: update_where_def)
    next
      case False
      then have "k a \<noteq> k row" using Cons.prems(3) by auto
      moreover have "k a \<notin> k ` set rows" using Cons.prems(2) by simp
      ultimately have "k a \<notin> k ` set (update_where (\<lambda>r. key r = key row) (\<lambda>r. row) rows)"
        by (auto simp: update_where_set)
      moreover have "distinct (map k (update_where (\<lambda>r. key r = key row) (\<lambda>r. row) rows))"
        using Cons by simp
      ultimately show ?thesis using False by (simp add: update_where_Cons)
    qed
  qed
  moreover have "distinct (map k (rows @ [row]))" if "key row \<notin> key ` set rows"
    using assms(2,3) that by (force simp: image_iff)
  ultimately show ?thesis by (simp add: put_row_def)
qed

lemma put_row_list_all:
  "\<lbrakk>list_all P rows; P row\<rbrakk> \<Longrightarrow> list_all P (put_row key row rows)"
  by (auto simp: list_all_iff set_put_row)

lemma put_row_image_mono:
  assumes "\<And>r. r \<in> set rows \<Longrightarrow> key r = key row \<Longrightarrow> k r = k row"
  shows "k ` set rows \<subseteq> k ` set (put_row key row rows)"
  using assms by (fastforce simp: set_put_row)

lemma put_row_new: "key row \<notin> key ` set rows \<Longrightarrow> put_row key row rows = rows @ [row]"
  by (simp add: put_row_def)

lemma put_row_old:
  assumes "distinct (map key rows)" and "old \<in> set rows" and "key (f old) = key old"
  shows "update_where (\<lambda>r. key r = key old) f rows = put_row key (f old) rows"
proof -
  have "r = old" if "r \<in> set rows" "key r = key old" for r
    using assms(1,2) that by (auto simp: distinct_map inj_on_def)
  with assms(2,3) show ?thesis
    by (auto simp: put_row_def update_where_def)
qed

lemma find_distinct_unique:
  assumes "distinct (map key rows)" and "find p rows = Some old" and "distinct (map k rows)"
    and "\<And>r. p r \<longleftrightarrow> k r = v"
  shows "old \<in> set rows \<and> k old = v \<and> (\<forall>r \<in> set rows. k r = v \<longleftrightarrow> key r = key old)"
proof -
  from assms(2,4) have "old \<in> set rows" "k old = v" by (auto simp: find_Some_iff)
  with assms(1,3) show ?thesis by (auto simp: distinct_map inj_on_def)
qed


lemma find_SomeD: "find p rows = Some r \<Longrightarrow> r \<in> set rows \<and> p r"
  by (auto simp: find_Some_iff)

section \<open>Steps of the store\<close>

text \<open>
  What every statement of the usage store keeps: sources and runs are untouched, and no parent
  row of a foreign key disappears.
\<close>

definition db_grows :: "database \<Rightarrow> database \<Rightarrow> bool" where
  "db_grows db db' \<longleftrightarrow>
     db_sources db' = db_sources db \<and> db_refresh_runs db' = db_refresh_runs db \<and>
     db_import_runs db' = db_import_runs db \<and>
     (\<forall>m s. has_model db m s \<longrightarrow> has_model db' m s) \<and>
     (\<forall>p s. has_project db p s \<longrightarrow> has_project db' p s) \<and>
     daily_parents db \<subseteq> daily_parents db' \<and> session_parents db \<subseteq> session_parents db'"

lemma db_grows_refl [simp]: "db_grows db db"
  by (simp add: db_grows_def)

lemma db_grows_trans: "\<lbrakk>db_grows a b; db_grows b d\<rbrakk> \<Longrightarrow> db_grows a d"
  by (auto simp: db_grows_def)

lemma db_grows_fks:
  assumes "db_grows db db'"
  shows "has_source db' = has_source db" and "has_import_run db' = has_import_run db"
    and "has_model db m s \<Longrightarrow> has_model db' m s" and "has_project db p s \<Longrightarrow> has_project db' p s"
    and "sources_ok db' = sources_ok db" and "runs_ok db' = runs_ok db"
  using assms
  by (auto simp: db_grows_def has_source_def has_import_run_def sources_ok_def runs_ok_def fun_eq_iff)

lemma model_usage_ok_grows:
  assumes "model_usage_ok ps db rows" and "db_grows db db'" and "ps \<subseteq> ps'"
  shows "model_usage_ok ps' db' rows"
  using assms by (auto simp: model_usage_ok_def list_all_iff db_grows_fks)

lemma models_ok_cong:
  "\<lbrakk>db_grows db db'; db_source_models db' = db_source_models db\<rbrakk> \<Longrightarrow> models_ok db' = models_ok db"
  by (simp add: models_ok_def db_grows_fks)

lemma projects_ok_cong:
  "\<lbrakk>db_grows db db'; db_projects db' = db_projects db\<rbrakk> \<Longrightarrow> projects_ok db' = projects_ok db"
  by (simp add: projects_ok_def db_grows_fks)

lemma daily_ok_cong:
  "\<lbrakk>db_grows db db'; db_daily_usage db' = db_daily_usage db\<rbrakk> \<Longrightarrow> daily_ok db' = daily_ok db"
  by (simp add: daily_ok_def db_grows_fks)

lemma sessions_ok_mono:
  "\<lbrakk>sessions_ok db; db_grows db db'; db_sessions db' = db_sessions db\<rbrakk> \<Longrightarrow> sessions_ok db'"
  by (auto simp: sessions_ok_def db_grows_fks list_all_iff split: option.splits)

lemmas table_congs = models_ok_cong projects_ok_cong daily_ok_cong

lemma put_row_fresh:
  assumes "find p rows = None" and "key row = next_rowid (map key rows)"
  shows "rows @ [row] = put_row key row rows \<and> (\<forall>r \<in> set rows. p r \<longleftrightarrow> key r = key row)"
proof -
  have "key r \<noteq> key row" if "r \<in> set rows" for r
    using next_rowid_fresh [of "key r" "map key rows"] that assms(2) by simp
  moreover from this have "key row \<notin> key ` set rows" by force
  ultimately show ?thesis using assms(1) by (simp add: put_row_def find_None_iff)
qed

lemma put_row_table:
  assumes "distinct (map key rows)" and "distinct (map k rows)" and "list_all P rows"
    and "\<And>r. r \<in> set rows \<Longrightarrow> k r = k row \<longleftrightarrow> key r = key row" and "P' row"
    and "\<And>r. P r \<Longrightarrow> P' r"
  shows "distinct (map key (put_row key row rows)) \<and> distinct (map k (put_row key row rows)) \<and>
    list_all P' (put_row key row rows)"
proof -
  have "list_all P' rows" using assms(3,6) by (simp add: list_all_iff)
  with assms(1,2,4,5) show ?thesis
    by (simp add: put_row_distinct put_row_list_all)
qed

text \<open>One upsert: the row found by \<open>p\<close> is replaced, and a row is appended when there is none.\<close>

lemma put_row_upsert:
  assumes "distinct (map key rows)" and "distinct (map k rows)" and "\<And>r. p r \<longleftrightarrow> k r = v"
    and "key fresh = next_rowid (map key rows)" and "\<And>r. key (f r) = key r"
    and "find p rows = None \<Longrightarrow> row = fresh \<and> rows' = rows @ [fresh]"
    and "\<And>old. find p rows = Some old \<Longrightarrow>
           row = f old \<and> rows' = update_where (\<lambda>r. key r = key old) f rows"
  shows "rows' = put_row key row rows \<and> (\<forall>r \<in> set rows. p r \<longleftrightarrow> key r = key row)"
proof (cases "find p rows")
  case None
  with put_row_fresh [OF None assms(4)] assms(6) show ?thesis by simp
next
  case (Some old)
  have "old \<in> set rows \<and> k old = v \<and> (\<forall>r \<in> set rows. k r = v \<longleftrightarrow> key r = key old)"
    by (rule find_distinct_unique [OF assms(1) Some assms(2,3)])
  with assms(3,5) assms(7) [OF Some] put_row_old [OF assms(1), of old f] show ?thesis by auto
qed

definition model_written :: "i64 \<Rightarrow> model_usage_candidate \<Rightarrow> int \<Rightarrow> model_row list \<Rightarrow> model_row" where
  "model_written obs m sid rows =
     (case find (\<lambda>r. sm_source_id r = sid \<and> sm_raw_model_id r = mc_raw_model_id m) rows of
        None \<Rightarrow> \<lparr>sm_id = next_rowid (map sm_id rows), sm_source_id = sid,
                 sm_raw_model_id = mc_raw_model_id m, sm_display_name = None,
                 sm_provider_key = None, sm_first_seen_at_ms = obs, sm_last_seen_at_ms = obs\<rparr>
      | Some old \<Rightarrow> old\<lparr>sm_last_seen_at_ms := obs\<rparr>)"

lemma resolve_model_put:
  assumes "resolve_model sid obs m db = Inr (mid, db')" and "models_ok db"
  defines "row \<equiv> model_written obs m sid (db_source_models db)"
  shows "db' = db\<lparr>db_source_models := put_row sm_id row (db_source_models db)\<rparr>"
    and "sm_id row = mid" and "sm_source_id row = sid" and "sm_raw_model_id row = mc_raw_model_id m"
    and "check_model row" and "has_source db sid"
    and "\<forall>r \<in> set (db_source_models db).
           sm_source_id r = sid \<and> sm_raw_model_id r = mc_raw_model_id m \<longleftrightarrow> sm_id r = mid"
proof -
  let ?p = "\<lambda>r. sm_source_id r = sid \<and> sm_raw_model_id r = mc_raw_model_id m"
  have r: "sm_id row = mid \<and> sm_source_id row = sid \<and> sm_raw_model_id row = mc_raw_model_id m \<and>
      check_model row \<and> has_source db sid \<and>
      db' = db\<lparr>db_source_models := db_source_models db'\<rparr>"
    using assms(1)
    by (auto simp: resolve_model_def row_def model_written_def Let_def
        dest: find_SomeD split: if_splits option.splits)
  have "db_source_models db' = put_row sm_id row (db_source_models db) \<and>
      (\<forall>r \<in> set (db_source_models db). ?p r \<longleftrightarrow> sm_id r = sm_id row)"
    by (rule put_row_upsert [where k = "\<lambda>r. (sm_source_id r, sm_raw_model_id r)"
            and f = "\<lambda>r. r\<lparr>sm_last_seen_at_ms := obs\<rparr>"])
       (use assms(1,2) in \<open>auto simp: models_ok_def resolve_model_def row_def model_written_def
          Let_def split: if_splits\<close>)
  with r show "db' = db\<lparr>db_source_models := put_row sm_id row (db_source_models db)\<rparr>"
    and "sm_id row = mid" and "sm_source_id row = sid" and "sm_raw_model_id row = mc_raw_model_id m"
    and "check_model row" and "has_source db sid"
    and "\<forall>r \<in> set (db_source_models db). ?p r \<longleftrightarrow> sm_id r = mid"
    by auto
qed


definition project_written ::
  "(string \<Rightarrow> string) \<Rightarrow> i64 \<Rightarrow> string \<Rightarrow> bool \<Rightarrow> int \<Rightarrow> project_row list \<Rightarrow> project_row" where
  "project_written sha256 obs path retain sid rows =
     (let key = project_identity_key sha256 path; raw = (if retain then Some path else None)
      in case find (\<lambda>r. pj_source_id r = sid \<and> pj_identity_key r = key) rows of
        None \<Rightarrow> \<lparr>pj_id = next_rowid (map pj_id rows), pj_source_id = sid, pj_identity_key = key,
                 pj_raw_path = raw, pj_path_fingerprint = sha256 path,
                 pj_first_seen_at_ms = obs, pj_last_seen_at_ms = obs\<rparr>
      | Some old \<Rightarrow> old\<lparr>pj_raw_path := raw, pj_path_fingerprint := sha256 path,
                        pj_last_seen_at_ms := obs\<rparr>)"

lemma resolve_project_put:
  assumes "resolve_project sha256 sid obs path retain db = Inr (pid, db')" and "projects_ok db"
  defines "row \<equiv> project_written sha256 obs path retain sid (db_projects db)"
    and "key \<equiv> project_identity_key sha256 path"
  shows "db' = db\<lparr>db_projects := put_row pj_id row (db_projects db)\<rparr>"
    and "pj_id row = pid" and "pj_source_id row = sid" and "pj_identity_key row = key"
    and "check_project row" and "has_source db sid"
    and "\<forall>r \<in> set (db_projects db). pj_source_id r = sid \<and> pj_identity_key r = key \<longleftrightarrow> pj_id r = pid"
proof -
  let ?p = "\<lambda>r. pj_source_id r = sid \<and> pj_identity_key r = key"
  have r: "pj_id row = pid \<and> pj_source_id row = sid \<and> pj_identity_key row = key \<and>
      check_project row \<and> has_source db sid \<and> db' = db\<lparr>db_projects := db_projects db'\<rparr>"
    using assms(1)
    by (auto simp: resolve_project_def row_def key_def project_written_def Let_def
        dest: find_SomeD split: if_splits option.splits)
  have "db_projects db' = put_row pj_id row (db_projects db) \<and>
      (\<forall>r \<in> set (db_projects db). ?p r \<longleftrightarrow> pj_id r = pj_id row)"
    by (rule put_row_upsert [where k = "\<lambda>r. (pj_source_id r, pj_identity_key r)"
            and fresh = "\<lparr>pj_id = next_rowid (map pj_id (db_projects db)), pj_source_id = sid,
                 pj_identity_key = key, pj_raw_path = (if retain then Some path else None),
                 pj_path_fingerprint = sha256 path,
                 pj_first_seen_at_ms = obs, pj_last_seen_at_ms = obs\<rparr>"
            and f = "\<lambda>r. r\<lparr>pj_raw_path := (if retain then Some path else None),
                          pj_path_fingerprint := sha256 path, pj_last_seen_at_ms := obs\<rparr>"])
       (use assms(1,2) in \<open>auto simp: projects_ok_def resolve_project_def row_def key_def
          project_written_def Let_def split: if_splits\<close>)
  with r show "db' = db\<lparr>db_projects := put_row pj_id row (db_projects db)\<rparr>"
    and "pj_id row = pid" and "pj_source_id row = sid" and "pj_identity_key row = key"
    and "check_project row" and "has_source db sid"
    and "\<forall>r \<in> set (db_projects db). ?p r \<longleftrightarrow> pj_id r = pid"
    by auto
qed

lemma resolve_model_ok:
  assumes "resolve_model sid obs m db = Inr (mid, db')" and "database_ok db"
  shows "database_ok db'" and "db_grows db db'" and "has_model db' mid sid"
proof -
  have mo: "models_ok db" using assms(2) by (simp add: database_ok_def)
  note put = resolve_model_put [OF assms(1) mo]
  let ?row = "model_written obs m sid (db_source_models db)"
  have models: "db_source_models db' = put_row sm_id ?row (db_source_models db)"
    and same: "db_projects db' = db_projects db" "db_daily_usage db' = db_daily_usage db"
      "db_daily_model_usage db' = db_daily_model_usage db" "db_sessions db' = db_sessions db"
      "db_session_model_usage db' = db_session_model_usage db"
      "db_sources db' = db_sources db" "db_refresh_runs db' = db_refresh_runs db"
      "db_import_runs db' = db_import_runs db"
    by (simp_all add: put(1))
  have parents: "daily_parents db' = daily_parents db" "session_parents db' = session_parents db"
    by (simp_all add: daily_parents_def session_parents_def same)
  have "(\<lambda>r. (sm_id r, sm_source_id r)) ` set (db_source_models db) \<subseteq>
        (\<lambda>r. (sm_id r, sm_source_id r)) ` set (put_row sm_id ?row (db_source_models db))"
    by (rule put_row_image_mono) (use put(2,3,7) in auto)
  then show grows: "db_grows db db'"
    by (auto simp: db_grows_def has_model_def has_project_def same models parents)
  show "has_model db' mid sid"
    using put(2,3) by (force simp: has_model_def set_put_row models)
  have "models_ok db'"
    unfolding models_ok_def models
    by (rule put_row_table [where P = "\<lambda>r. check_model r \<and> has_source db (sm_source_id r)"])
       (use mo put(2-7) in \<open>simp_all add: models_ok_def db_grows_fks(1) [OF grows]\<close>)
  then show "database_ok db'"
    using assms(2)
    by (auto simp: database_ok_def db_grows_fks(5,6) [OF grows] table_congs [OF grows] same parents
        intro: sessions_ok_mono [OF _ grows] model_usage_ok_grows [OF _ grows])
qed


lemma resolve_project_ok:
  assumes "resolve_project sha256 sid obs path retain db = Inr (pid, db')" and "database_ok db"
  shows "database_ok db'" and "db_grows db db'" and "has_project db' pid sid"
proof -
  have po: "projects_ok db" using assms(2) by (simp add: database_ok_def)
  note put = resolve_project_put [OF assms(1) po]
  let ?row = "project_written sha256 obs path retain sid (db_projects db)"
  have projects: "db_projects db' = put_row pj_id ?row (db_projects db)"
    and same: "db_source_models db' = db_source_models db" "db_daily_usage db' = db_daily_usage db"
      "db_daily_model_usage db' = db_daily_model_usage db" "db_sessions db' = db_sessions db"
      "db_session_model_usage db' = db_session_model_usage db"
      "db_sources db' = db_sources db" "db_refresh_runs db' = db_refresh_runs db"
      "db_import_runs db' = db_import_runs db"
    by (simp_all add: put(1))
  have parents: "daily_parents db' = daily_parents db" "session_parents db' = session_parents db"
    by (simp_all add: daily_parents_def session_parents_def same)
  have "(\<lambda>r. (pj_id r, pj_source_id r)) ` set (db_projects db) \<subseteq>
        (\<lambda>r. (pj_id r, pj_source_id r)) ` set (put_row pj_id ?row (db_projects db))"
    by (rule put_row_image_mono) (use put(2,3,7) in auto)
  then show grows: "db_grows db db'"
    by (auto simp: db_grows_def has_model_def has_project_def same projects parents)
  show "has_project db' pid sid"
    using put(2,3) by (force simp: has_project_def set_put_row projects)
  have "projects_ok db'"
    unfolding projects_ok_def projects
    by (rule put_row_table [where P = "\<lambda>r. check_project r \<and> has_source db (pj_source_id r)"])
       (use po put(2-7) in \<open>simp_all add: projects_ok_def db_grows_fks(1) [OF grows]\<close>)
  then show "database_ok db'"
    using assms(2)
    by (auto simp: database_ok_def db_grows_fks(5,6) [OF grows] table_congs [OF grows] same parents
        intro: sessions_ok_mono [OF _ grows] model_usage_ok_grows [OF _ grows])
qed

section \<open>Daily rows\<close>

text \<open>The row an upsert leaves for a candidate, given the rows it met.\<close>

definition daily_written ::
  "chrono \<Rightarrow> int \<Rightarrow> int \<Rightarrow> i64 \<Rightarrow> daily_usage_candidate \<Rightarrow> token_columns \<Rightarrow> daily_cost_columns
   \<Rightarrow> daily_row list \<Rightarrow> daily_row" where
  "daily_written c sid imp obs cand tokens cost rows =
     (let facts = observed_facts tokens cost (prov_data_quality (dc_provenance cand)) obs imp;
          (i, first) = (case find (\<lambda>r. du_source_id r = sid \<and> du_source_key r = dc_source_key cand)
                              rows of
             None \<Rightarrow> (next_rowid (map du_id rows), obs)
           | Some old \<Rightarrow> (du_id old, fc_first_seen_at_ms (du_facts old)))
      in \<lparr>du_id = i, du_source_id = sid, du_source_key = dc_source_key cand,
          du_usage_date = date_to_string c (dc_usage_date cand),
          du_aggregation_timezone = dc_aggregation_timezone cand,
          du_facts = facts\<lparr>fc_first_seen_at_ms := first\<rparr>\<rparr>)"

lemma observed_facts_first_seen:
  "observed_facts t co q obs imp\<lparr>fc_first_seen_at_ms := obs\<rparr> = observed_facts t co q obs imp"
  by (simp add: observed_facts_def)

lemma upsert_daily_put:
  assumes "upsert_daily_usage c sid imp obs cand db = Inr (i, db')" and "daily_ok db"
  obtains tokens cost row where
    "token_columns_of (dc_tokens cand) = Inr tokens" and "daily_cost_columns_of (dc_cost cand) = Inr cost"
    and "row = daily_written c sid imp obs cand tokens cost (db_daily_usage db)"
    and "db' = db\<lparr>db_daily_usage := put_row du_id row (db_daily_usage db)\<rparr>"
    and "du_id row = i" and "du_source_id row = sid" and "du_source_key row = dc_source_key cand"
    and "fc_latest_import_id (du_facts row) = imp"
    and "check_daily row" and "has_source db sid" and "has_import_run db imp sid"
    and "\<forall>r \<in> set (db_daily_usage db).
           du_source_id r = sid \<and> du_source_key r = dc_source_key cand \<longleftrightarrow> du_id r = i"
proof -
  let ?p = "\<lambda>r. du_source_id r = sid \<and> du_source_key r = dc_source_key cand"
  from assms(1) obtain tokens cost
    where cols: "token_columns_of (dc_tokens cand) = Inr tokens"
      "daily_cost_columns_of (dc_cost cand) = Inr cost"
    by (auto simp: upsert_daily_usage_def bind_res_Inr)
  let ?row = "daily_written c sid imp obs cand tokens cost (db_daily_usage db)"
  let ?facts = "observed_facts tokens cost (prov_data_quality (dc_provenance cand)) obs imp"
  let ?fresh = "\<lparr>du_id = next_rowid (map du_id (db_daily_usage db)), du_source_id = sid,
      du_source_key = dc_source_key cand, du_usage_date = date_to_string c (dc_usage_date cand),
      du_aggregation_timezone = dc_aggregation_timezone cand, du_facts = ?facts\<rparr>"
  have r: "du_id ?row = i \<and> du_source_id ?row = sid \<and> du_source_key ?row = dc_source_key cand \<and>
      fc_latest_import_id (du_facts ?row) = imp \<and> check_daily ?row \<and> has_source db sid \<and>
      has_import_run db imp sid \<and> db' = db\<lparr>db_daily_usage := db_daily_usage db'\<rparr>"
    using assms(1) cols
    by (auto simp: upsert_daily_usage_def daily_written_def Let_def observed_facts_first_seen
        split: if_splits option.splits) (auto simp: observed_facts_def)
  have "db_daily_usage db' = put_row du_id ?row (db_daily_usage db) \<and>
      (\<forall>r \<in> set (db_daily_usage db). ?p r \<longleftrightarrow> du_id r = du_id ?row)"
    by (rule put_row_upsert [where k = "\<lambda>r. (du_source_id r, du_source_key r)" and fresh = ?fresh
          and f = "\<lambda>r. ?fresh\<lparr>du_id := du_id r, du_facts :=
                     ?facts\<lparr>fc_first_seen_at_ms := fc_first_seen_at_ms (du_facts r)\<rparr>\<rparr>"])
       (use assms cols in \<open>auto simp: daily_ok_def upsert_daily_usage_def daily_written_def
          Let_def observed_facts_first_seen split: if_splits\<close>)
  with r cols show thesis
    by (intro that [of tokens cost ?row]) auto
qed

lemma upsert_daily_ok:
  assumes "upsert_daily_usage c sid imp obs cand db = Inr (i, db')" and "database_ok db"
  shows "database_ok db'" and "db_grows db db'" and "(i, sid) \<in> daily_parents db'"
    and "has_import_run db imp sid"
proof -
  have dok: "daily_ok db" using assms(2) by (simp add: database_ok_def)
  obtain row where put: "db' = db\<lparr>db_daily_usage := put_row du_id row (db_daily_usage db)\<rparr>"
    "du_id row = i" "du_source_id row = sid" "du_source_key row = dc_source_key cand"
    "fc_latest_import_id (du_facts row) = imp" "check_daily row" "has_source db sid"
    "has_import_run db imp sid" "\<forall>r \<in> set (db_daily_usage db).
       du_source_id r = sid \<and> du_source_key r = dc_source_key cand \<longleftrightarrow> du_id r = i"
    using upsert_daily_put [OF assms(1) dok] by metis
  have daily: "db_daily_usage db' = put_row du_id row (db_daily_usage db)"
    and same: "db_source_models db' = db_source_models db" "db_projects db' = db_projects db"
      "db_daily_model_usage db' = db_daily_model_usage db" "db_sessions db' = db_sessions db"
      "db_session_model_usage db' = db_session_model_usage db"
      "db_sources db' = db_sources db" "db_refresh_runs db' = db_refresh_runs db"
      "db_import_runs db' = db_import_runs db"
    by (simp_all add: put(1))
  have "daily_parents db \<subseteq> daily_parents db'"
    unfolding daily_parents_def daily by (rule put_row_image_mono) (use put(2,3,9) in auto)
  then show grows: "db_grows db db'"
    by (auto simp: db_grows_def has_model_def has_project_def same session_parents_def)
  show "(i, sid) \<in> daily_parents db'"
    using put(2,3) by (force simp: daily_parents_def set_put_row daily)
  show "has_import_run db imp sid" by (rule put(8))
  have "daily_ok db'"
    unfolding daily_ok_def daily
    by (rule put_row_table [where P = "\<lambda>r. check_daily r \<and> has_source db (du_source_id r) \<and>
          has_import_run db (fc_latest_import_id (du_facts r)) (du_source_id r)"])
       (use dok put(2-9) in \<open>simp_all add: daily_ok_def db_grows_fks(1,2) [OF grows]\<close>)
  moreover have "session_parents db' = session_parents db"
    by (simp add: session_parents_def same)
  ultimately show "database_ok db'"
    using assms(2) grows
    by (auto simp: database_ok_def db_grows_def db_grows_fks(5,6) [OF grows] table_congs [OF grows]
        same intro: sessions_ok_mono [OF _ grows] model_usage_ok_grows [OF _ grows])
qed

section \<open>Model rows\<close>

lemma model_usage_insert_ok:
  assumes "model_usage_insert sid imp parent mid m db rows = Inr rows'"
    and "model_usage_ok ps db rows" and "(parent, sid) \<in> ps"
  shows "model_usage_ok ps db rows'"
proof -
  have ids: "next_rowid (map mu_id rows) \<notin> mu_id ` set rows"
    using next_rowid_not_in [of "map mu_id rows"] by simp
  from assms ids show ?thesis
    by (auto simp: model_usage_insert_def model_usage_ok_def bind_res_Inr Let_def list_ex_iff
        split: if_splits)
qed

lemma model_usage_ok_filter: "model_usage_ok ps db rows \<Longrightarrow> model_usage_ok ps db (filter p rows)"
  by (auto simp: model_usage_ok_def list_all_iff distinct_map_filter)

lemma db_grows_model_usage [simp]:
  "db_grows db (db\<lparr>db_daily_model_usage := rows\<rparr>)"
  "db_grows db (db\<lparr>db_session_model_usage := rows\<rparr>)"
  by (simp_all add: db_grows_def has_model_def has_project_def daily_parents_def session_parents_def)

lemma database_ok_daily_models:
  assumes "database_ok db" and "model_usage_ok (daily_parents db) db rows"
  shows "database_ok (db\<lparr>db_daily_model_usage := rows\<rparr>)"
proof -
  let ?db' = "db\<lparr>db_daily_model_usage := rows\<rparr>"
  have grows: "db_grows db ?db'" by simp
  have "daily_parents ?db' = daily_parents db" "session_parents ?db' = session_parents db"
    by (simp_all add: daily_parents_def session_parents_def)
  with assms show ?thesis
    by (auto simp: database_ok_def db_grows_fks(5,6) [OF grows] table_congs [OF grows]
        intro: sessions_ok_mono [OF _ grows] model_usage_ok_grows [OF _ grows])
qed

lemma database_ok_session_models:
  assumes "database_ok db" and "model_usage_ok (session_parents db) db rows"
  shows "database_ok (db\<lparr>db_session_model_usage := rows\<rparr>)"
proof -
  let ?db' = "db\<lparr>db_session_model_usage := rows\<rparr>"
  have grows: "db_grows db ?db'" by simp
  have "daily_parents ?db' = daily_parents db" "session_parents ?db' = session_parents db"
    by (simp_all add: daily_parents_def session_parents_def)
  with assms show ?thesis
    by (auto simp: database_ok_def db_grows_fks(5,6) [OF grows] table_congs [OF grows]
        intro: sessions_ok_mono [OF _ grows] model_usage_ok_grows [OF _ grows])
qed

lemma insert_daily_models_ok:
  assumes "insert_daily_models sid imp obs i ms db = Inr db'" and "database_ok db"
    and "(i, sid) \<in> daily_parents db"
  shows "database_ok db' \<and> db_grows db db' \<and> db_daily_usage db' = db_daily_usage db"
  using assms
proof (induction ms arbitrary: db)
  case Nil
  then show ?case by simp
next
  case (Cons m ms)
  from Cons.prems(1) obtain mid db1 db2
    where s1: "resolve_model sid obs m db = Inr (mid, db1)"
      and s2: "insert_daily_model_usage sid imp i mid m db1 = Inr db2"
      and s3: "insert_daily_models sid imp obs i ms db2 = Inr db'"
    by (auto simp: bind_res_Inr)
  note r = resolve_model_ok [OF s1 Cons.prems(2)]
  have "models_ok db" using Cons.prems(2) by (simp add: database_ok_def)
  from resolve_model_put(1) [OF s1 this] have same: "db_daily_usage db1 = db_daily_usage db"
    by simp
  from s2 obtain rows
    where ins: "model_usage_insert sid imp i mid m db1 (db_daily_model_usage db1) = Inr rows"
      and db2: "db2 = db1\<lparr>db_daily_model_usage := rows\<rparr>"
    by (auto simp: insert_daily_model_usage_def map_ok_def split: sum.splits)
  from r(2) Cons.prems(3) have i1: "(i, sid) \<in> daily_parents db1" by (auto simp: db_grows_def)
  have "model_usage_ok (daily_parents db1) db1 rows"
    by (rule model_usage_insert_ok [OF ins _ i1]) (use r(1) in \<open>simp add: database_ok_def\<close>)
  with r(1) have ok2: "database_ok db2"
    by (simp add: db2 database_ok_daily_models)
  have "db_grows db db2" using r(2) by (auto simp: db2 intro: db_grows_trans)
  moreover have "(i, sid) \<in> daily_parents db2" using i1 by (simp add: db2 daily_parents_def)
  ultimately show ?case
    using Cons.IH [OF s3 ok2] by (auto simp: db2 same intro: db_grows_trans)
qed

lemma replace_model_breakdowns_ok:
  assumes "replace_model_breakdowns sid imp obs i cand db = Inr db'" and "database_ok db"
    and "(i, sid) \<in> daily_parents db"
  shows "database_ok db' \<and> db_grows db db' \<and> db_daily_usage db' = db_daily_usage db"
proof -
  let ?db = "db\<lparr>db_daily_model_usage := filter (\<lambda>r. mu_parent_id r \<noteq> i) (db_daily_model_usage db)\<rparr>"
  have "database_ok ?db"
    using assms(2) by (intro database_ok_daily_models)
      (simp_all add: database_ok_def model_usage_ok_filter)
  moreover have "(i, sid) \<in> daily_parents ?db" using assms(3) by (simp add: daily_parents_def)
  moreover have "db_grows db ?db" by simp
  ultimately show ?thesis
    using insert_daily_models_ok [OF assms(1) [unfolded replace_model_breakdowns_def]]
    by (auto intro: db_grows_trans [of _ ?db])
qed

section \<open>The absence pass\<close>

lemma update_checked_Inr:
  "update_checked check p f rows = Inr rows' \<longleftrightarrow>
     rows' = update_where p f rows \<and> (\<forall>r \<in> set rows. p r \<longrightarrow> check (f r))"
  by (auto simp: update_checked_def list_all_iff)

lemma update_where_list_all:
  "\<lbrakk>list_all P rows; \<And>r. r \<in> set rows \<Longrightarrow> p r \<Longrightarrow> P r \<Longrightarrow> P (f r)\<rbrakk> \<Longrightarrow> list_all P (update_where p f rows)"
  by (auto simp: list_all_iff update_where_set)

lemma advance_daily_ok:
  assumes "advance_daily_absences sid imp now db = Inr db'" and "database_ok db"
  shows "database_ok db' \<and> db_grows db db'"
proof -
  define rows where "rows = update_where (\<lambda>r. absent sid imp ''missing'' (du_source_id r) (du_facts r))
      (\<lambda>r. r\<lparr>du_facts := mark_removed now (du_facts r)\<rparr>) (db_daily_usage db)"
  define rows' where "rows' = update_where (\<lambda>r. absent sid imp ''active'' (du_source_id r) (du_facts r))
      (\<lambda>r. r\<lparr>du_facts := mark_missing (du_facts r)\<rparr>) rows"
  let ?P = "\<lambda>r. check_daily r \<and> has_source db (du_source_id r) \<and>
      has_import_run db (fc_latest_import_id (du_facts r)) (du_source_id r)"
  from assms(1) have db': "db' = db\<lparr>db_daily_usage := rows'\<rparr>"
    and c1: "\<And>r. r \<in> set (db_daily_usage db) \<Longrightarrow> absent sid imp ''missing'' (du_source_id r) (du_facts r)
      \<Longrightarrow> check_daily (r\<lparr>du_facts := mark_removed now (du_facts r)\<rparr>)"
    and c2: "\<And>r. r \<in> set rows \<Longrightarrow> absent sid imp ''active'' (du_source_id r) (du_facts r)
      \<Longrightarrow> check_daily (r\<lparr>du_facts := mark_missing (du_facts r)\<rparr>)"
    by (auto simp: advance_daily_absences_def bind_res_Inr update_checked_Inr rows_def rows'_def)
  have maps: "map du_id rows' = map du_id (db_daily_usage db)"
    "map (\<lambda>r. (du_source_id r, du_source_key r)) rows' =
       map (\<lambda>r. (du_source_id r, du_source_key r)) (db_daily_usage db)"
    "map (\<lambda>r. (du_id r, du_source_id r)) rows' = map (\<lambda>r. (du_id r, du_source_id r)) (db_daily_usage db)"
    unfolding rows'_def rows_def by (simp_all add: update_where_map)
  have parents: "daily_parents db' = daily_parents db"
    using arg_cong [OF maps(3), of set] by (simp add: daily_parents_def db')
  then have grows: "db_grows db db'"
    by (simp add: db_grows_def db' has_model_def has_project_def session_parents_def)
  have dok: "daily_ok db" using assms(2) by (simp add: database_ok_def)
  then have "list_all ?P rows"
    unfolding rows_def
    by (intro update_where_list_all) (auto simp: daily_ok_def mark_removed_def dest: c1)
  then have "list_all ?P rows'"
    unfolding rows'_def
    by (intro update_where_list_all) (auto simp: mark_missing_def dest: c2)
  with dok maps have "daily_ok db'"
    by (simp add: daily_ok_def db_grows_fks(1,2) [OF grows]) (simp add: db')
  moreover have "db_source_models db' = db_source_models db" "db_projects db' = db_projects db"
    "db_daily_model_usage db' = db_daily_model_usage db" "db_sessions db' = db_sessions db"
    "db_session_model_usage db' = db_session_model_usage db" "session_parents db' = session_parents db"
    by (simp_all add: db' session_parents_def)
  ultimately show ?thesis
    using assms(2) grows parents
    by (auto simp: database_ok_def db_grows_fks(5,6) [OF grows] table_congs [OF grows]
        intro: sessions_ok_mono [OF _ grows] model_usage_ok_grows [OF _ grows])
qed

section \<open>The daily transaction\<close>

lemma reconcile_daily_candidates_ok:
  assumes "reconcile_daily_candidates c sid imp obs cands db = Inr (keys, db')" and "database_ok db"
  shows "database_ok db' \<and> db_grows db db'"
  using assms
proof (induction cands arbitrary: db keys)
  case Nil
  then show ?case by simp
next
  case (Cons cand cands)
  from Cons.prems(1) obtain i db1 db2 keys'
    where s: "upsert_daily_usage c sid imp obs cand db = Inr (i, db1)"
      "replace_model_breakdowns sid imp obs i cand db1 = Inr db2"
      "reconcile_daily_candidates c sid imp obs cands db2 = Inr (keys', db')"
    by (auto simp: bind_res_Inr)
  note u = upsert_daily_ok [OF s(1) Cons.prems(2)]
  note m = replace_model_breakdowns_ok [OF s(2) u(1,3)]
  from Cons.IH [OF s(3)] m u(2) show ?case by (blast intro: db_grows_trans)
qed

lemma reconcile_daily_in_transaction_ok:
  assumes "reconcile_daily_in_transaction c request db = Inr (summary, db')" and "database_ok db"
  shows "database_ok db' \<and> db_grows db db'"
  using assms
  by (auto simp: reconcile_daily_in_transaction_def Let_def bind_res_Inr split: if_splits
      dest!: reconcile_daily_candidates_ok advance_daily_ok intro: db_grows_trans)

section \<open>Session rows\<close>

definition session_written ::
  "chrono \<Rightarrow> int \<Rightarrow> int \<Rightarrow> i64 \<Rightarrow> int option \<Rightarrow> session_usage_candidate \<Rightarrow> token_columns
   \<Rightarrow> daily_cost_columns \<Rightarrow> session_row list \<Rightarrow> session_row" where
  "session_written c sid imp obs project cand tokens cost rows =
     (let facts = observed_facts tokens cost (prov_data_quality (sc_provenance cand)) obs imp;
          (i, first) = (case find (\<lambda>r. ss_source_id r = sid \<and>
                                      ss_source_session_id r = sc_source_session_id cand) rows of
             None \<Rightarrow> (next_rowid (map ss_id rows), obs)
           | Some old \<Rightarrow> (ss_id old, fc_first_seen_at_ms (ss_facts old)))
      in \<lparr>ss_id = i, ss_source_id = sid, ss_source_key = sc_source_key cand,
          ss_source_session_id = sc_source_session_id cand, ss_project_id = project,
          ss_first_activity_at_ms = map_option (timestamp_millis c) (sc_first_activity_at cand),
          ss_last_activity_at_ms = map_option (timestamp_millis c) (sc_last_activity_at cand),
          ss_facts = facts\<lparr>fc_first_seen_at_ms := first\<rparr>\<rparr>)"

lemma upsert_session_put:
  assumes "upsert_session c sid imp obs project cand db = Inr (i, db')" and "sessions_ok db"
  obtains tokens cost row where
    "token_columns_of (sc_tokens cand) = Inr tokens" and "daily_cost_columns_of (sc_cost cand) = Inr cost"
    and "row = session_written c sid imp obs project cand tokens cost (db_sessions db)"
    and "db' = db\<lparr>db_sessions := put_row ss_id row (db_sessions db)\<rparr>"
    and "ss_id row = i" and "ss_source_id row = sid" and "ss_source_key row = sc_source_key cand"
    and "ss_source_session_id row = sc_source_session_id cand" and "ss_project_id row = project"
    and "fc_latest_import_id (ss_facts row) = imp"
    and "check_session row" and "has_source db sid" and "has_import_run db imp sid"
    and "case project of None \<Rightarrow> True | Some p \<Rightarrow> has_project db p sid"
    and "\<forall>r \<in> set (db_sessions db).
           ss_source_id r = sid \<and> ss_source_session_id r = sc_source_session_id cand \<longleftrightarrow> ss_id r = i"
    and "\<forall>r \<in> set (db_sessions db).
           ss_source_id r = sid \<and> ss_source_key r = sc_source_key cand \<longrightarrow> ss_id r = i"
proof -
  let ?p = "\<lambda>r. ss_source_id r = sid \<and> ss_source_session_id r = sc_source_session_id cand"
  from assms(1) obtain tokens cost
    where cols: "token_columns_of (sc_tokens cand) = Inr tokens"
      "daily_cost_columns_of (sc_cost cand) = Inr cost"
    by (auto simp: upsert_session_def bind_res_Inr)
  let ?row = "session_written c sid imp obs project cand tokens cost (db_sessions db)"
  let ?facts = "observed_facts tokens cost (prov_data_quality (sc_provenance cand)) obs imp"
  let ?fresh = "\<lparr>ss_id = next_rowid (map ss_id (db_sessions db)), ss_source_id = sid,
      ss_source_key = sc_source_key cand, ss_source_session_id = sc_source_session_id cand,
      ss_project_id = project,
      ss_first_activity_at_ms = map_option (timestamp_millis c) (sc_first_activity_at cand),
      ss_last_activity_at_ms = map_option (timestamp_millis c) (sc_last_activity_at cand),
      ss_facts = ?facts\<rparr>"
  have r: "ss_id ?row = i \<and> ss_source_id ?row = sid \<and> ss_source_key ?row = sc_source_key cand \<and>
      ss_source_session_id ?row = sc_source_session_id cand \<and> ss_project_id ?row = project \<and>
      fc_latest_import_id (ss_facts ?row) = imp \<and> check_session ?row \<and> has_source db sid \<and>
      has_import_run db imp sid \<and> (case project of None \<Rightarrow> True | Some p \<Rightarrow> has_project db p sid) \<and>
      db' = db\<lparr>db_sessions := db_sessions db'\<rparr>"
    using assms(1) cols
    by (auto simp: upsert_session_def session_written_def Let_def observed_facts_first_seen
        split: if_splits option.splits) (auto simp: observed_facts_def)
  have k: "\<forall>r \<in> set (db_sessions db).
      ss_source_id r = sid \<and> ss_source_key r = sc_source_key cand \<longrightarrow> ss_id r = i"
    using assms(1) cols
    by (auto simp: upsert_session_def Let_def list_ex_iff split: if_splits option.splits)
  have "db_sessions db' = put_row ss_id ?row (db_sessions db) \<and>
      (\<forall>r \<in> set (db_sessions db). ?p r \<longleftrightarrow> ss_id r = ss_id ?row)"
    by (rule put_row_upsert [where k = "\<lambda>r. (ss_source_id r, ss_source_session_id r)"
          and fresh = ?fresh and f = "\<lambda>r. ?fresh\<lparr>ss_id := ss_id r, ss_facts :=
                     ?facts\<lparr>fc_first_seen_at_ms := fc_first_seen_at_ms (ss_facts r)\<rparr>\<rparr>"])
       (use assms cols in \<open>auto simp: sessions_ok_def upsert_session_def session_written_def
          Let_def observed_facts_first_seen split: if_splits\<close>)
  with r k cols show thesis
    by (intro that [of tokens cost ?row]) auto
qed

lemma upsert_session_ok:
  assumes "upsert_session c sid imp obs project cand db = Inr (i, db')" and "database_ok db"
  shows "database_ok db'" and "db_grows db db'" and "(i, sid) \<in> session_parents db'"
    and "has_import_run db imp sid"
proof -
  have sok: "sessions_ok db" using assms(2) by (simp add: database_ok_def)
  obtain row where put: "db' = db\<lparr>db_sessions := put_row ss_id row (db_sessions db)\<rparr>"
    "ss_id row = i" "ss_source_id row = sid" "ss_source_key row = sc_source_key cand"
    "ss_source_session_id row = sc_source_session_id cand" "ss_project_id row = project"
    "fc_latest_import_id (ss_facts row) = imp" "check_session row" "has_source db sid"
    "has_import_run db imp sid" "case project of None \<Rightarrow> True | Some p \<Rightarrow> has_project db p sid"
    "\<forall>r \<in> set (db_sessions db).
       ss_source_id r = sid \<and> ss_source_session_id r = sc_source_session_id cand \<longleftrightarrow> ss_id r = i"
    "\<forall>r \<in> set (db_sessions db).
       ss_source_id r = sid \<and> ss_source_key r = sc_source_key cand \<longrightarrow> ss_id r = i"
    using upsert_session_put [OF assms(1) sok] by metis
  have sessions: "db_sessions db' = put_row ss_id row (db_sessions db)"
    and same: "db_source_models db' = db_source_models db" "db_projects db' = db_projects db"
      "db_daily_model_usage db' = db_daily_model_usage db" "db_daily_usage db' = db_daily_usage db"
      "db_session_model_usage db' = db_session_model_usage db"
      "db_sources db' = db_sources db" "db_refresh_runs db' = db_refresh_runs db"
      "db_import_runs db' = db_import_runs db"
    by (simp_all add: put(1))
  have "session_parents db \<subseteq> session_parents db'"
    unfolding session_parents_def sessions by (rule put_row_image_mono) (use put(2,3,12) in auto)
  then show grows: "db_grows db db'"
    by (auto simp: db_grows_def has_model_def has_project_def same daily_parents_def)
  show "(i, sid) \<in> session_parents db'"
    using put(2,3) by (force simp: session_parents_def set_put_row sessions)
  show "has_import_run db imp sid" by (rule put(10))
  have project: "has_project db' = has_project db"
    by (simp add: has_project_def same fun_eq_iff)
  have "distinct (map (\<lambda>r. (ss_source_id r, ss_source_key r)) (put_row ss_id row (db_sessions db)))"
    by (rule put_row_distinct_key) (use sok put(2,3,4,13) in \<open>auto simp: sessions_ok_def\<close>)
  moreover have "distinct (map ss_id (put_row ss_id row (db_sessions db))) \<and>
      distinct (map (\<lambda>r. (ss_source_id r, ss_source_session_id r)) (put_row ss_id row (db_sessions db))) \<and>
      list_all (\<lambda>r. check_session r \<and> has_source db' (ss_source_id r) \<and>
                  (case ss_project_id r of None \<Rightarrow> True
                   | Some p \<Rightarrow> has_project db' p (ss_source_id r)) \<and>
                  has_import_run db' (fc_latest_import_id (ss_facts r)) (ss_source_id r))
        (put_row ss_id row (db_sessions db))"
    by (rule put_row_table [where P = "\<lambda>r. check_session r \<and> has_source db (ss_source_id r) \<and>
          (case ss_project_id r of None \<Rightarrow> True | Some p \<Rightarrow> has_project db p (ss_source_id r)) \<and>
          has_import_run db (fc_latest_import_id (ss_facts r)) (ss_source_id r)"])
       (use sok put(2-12) in \<open>auto simp: sessions_ok_def project db_grows_fks(1,2) [OF grows]
         split: option.splits\<close>)
  ultimately have "sessions_ok db'"
    by (simp only: sessions_ok_def sessions)
  moreover have "daily_parents db' = daily_parents db"
    by (simp add: daily_parents_def same)
  ultimately show "database_ok db'"
    using assms(2) grows
    by (auto simp: database_ok_def db_grows_def db_grows_fks(5,6) [OF grows] table_congs [OF grows]
        same intro: model_usage_ok_grows [OF _ grows])
qed

lemma insert_session_models_ok:
  assumes "insert_session_models sid imp obs i ms db = Inr db'" and "database_ok db"
    and "(i, sid) \<in> session_parents db"
  shows "database_ok db' \<and> db_grows db db' \<and> db_sessions db' = db_sessions db"
  using assms
proof (induction ms arbitrary: db)
  case Nil
  then show ?case by simp
next
  case (Cons m ms)
  from Cons.prems(1) obtain mid db1 db2
    where s1: "resolve_model sid obs m db = Inr (mid, db1)"
      and s2: "insert_session_model_usage sid imp i mid m db1 = Inr db2"
      and s3: "insert_session_models sid imp obs i ms db2 = Inr db'"
    by (auto simp: bind_res_Inr)
  note r = resolve_model_ok [OF s1 Cons.prems(2)]
  have "models_ok db" using Cons.prems(2) by (simp add: database_ok_def)
  from resolve_model_put(1) [OF s1 this] have same: "db_sessions db1 = db_sessions db"
    by simp
  from s2 obtain rows
    where ins: "model_usage_insert sid imp i mid m db1 (db_session_model_usage db1) = Inr rows"
      and db2: "db2 = db1\<lparr>db_session_model_usage := rows\<rparr>"
    by (auto simp: insert_session_model_usage_def map_ok_def split: sum.splits)
  from r(2) Cons.prems(3) have i1: "(i, sid) \<in> session_parents db1" by (auto simp: db_grows_def)
  have "model_usage_ok (session_parents db1) db1 rows"
    by (rule model_usage_insert_ok [OF ins _ i1]) (use r(1) in \<open>simp add: database_ok_def\<close>)
  with r(1) have ok2: "database_ok db2"
    by (simp add: db2 database_ok_session_models)
  have "db_grows db db2" using r(2) by (auto simp: db2 intro: db_grows_trans)
  moreover have "(i, sid) \<in> session_parents db2" using i1 by (simp add: db2 session_parents_def)
  ultimately show ?case
    using Cons.IH [OF s3 ok2] by (auto simp: db2 same intro: db_grows_trans)
qed

lemma replace_session_model_breakdowns_ok:
  assumes "replace_session_model_breakdowns sid imp obs i cand db = Inr db'" and "database_ok db"
    and "(i, sid) \<in> session_parents db"
  shows "database_ok db' \<and> db_grows db db' \<and> db_sessions db' = db_sessions db"
proof -
  let ?db = "db\<lparr>db_session_model_usage :=
      filter (\<lambda>r. mu_parent_id r \<noteq> i) (db_session_model_usage db)\<rparr>"
  have "database_ok ?db"
    using assms(2) by (intro database_ok_session_models)
      (simp_all add: database_ok_def model_usage_ok_filter)
  moreover have "(i, sid) \<in> session_parents ?db" using assms(3) by (simp add: session_parents_def)
  moreover have "db_grows db ?db" by simp
  ultimately show ?thesis
    using insert_session_models_ok [OF assms(1) [unfolded replace_session_model_breakdowns_def]]
    by (auto intro: db_grows_trans [of _ ?db])
qed

lemma advance_session_ok:
  assumes "advance_session_absences sid imp now db = Inr db'" and "database_ok db"
  shows "database_ok db' \<and> db_grows db db'"
proof -
  define rows where "rows = update_where (\<lambda>r. absent sid imp ''missing'' (ss_source_id r) (ss_facts r))
      (\<lambda>r. r\<lparr>ss_facts := mark_removed now (ss_facts r)\<rparr>) (db_sessions db)"
  define rows' where "rows' = update_where (\<lambda>r. absent sid imp ''active'' (ss_source_id r) (ss_facts r))
      (\<lambda>r. r\<lparr>ss_facts := mark_missing (ss_facts r)\<rparr>) rows"
  let ?P = "\<lambda>r. check_session r \<and> has_source db (ss_source_id r) \<and>
      (case ss_project_id r of None \<Rightarrow> True | Some p \<Rightarrow> has_project db p (ss_source_id r)) \<and>
      has_import_run db (fc_latest_import_id (ss_facts r)) (ss_source_id r)"
  from assms(1) have db': "db' = db\<lparr>db_sessions := rows'\<rparr>"
    and c1: "\<And>r. r \<in> set (db_sessions db) \<Longrightarrow> absent sid imp ''missing'' (ss_source_id r) (ss_facts r)
      \<Longrightarrow> check_session (r\<lparr>ss_facts := mark_removed now (ss_facts r)\<rparr>)"
    and c2: "\<And>r. r \<in> set rows \<Longrightarrow> absent sid imp ''active'' (ss_source_id r) (ss_facts r)
      \<Longrightarrow> check_session (r\<lparr>ss_facts := mark_missing (ss_facts r)\<rparr>)"
    by (auto simp: advance_session_absences_def bind_res_Inr update_checked_Inr rows_def rows'_def)
  have maps: "map ss_id rows' = map ss_id (db_sessions db)"
    "map (\<lambda>r. (ss_source_id r, ss_source_key r)) rows' =
       map (\<lambda>r. (ss_source_id r, ss_source_key r)) (db_sessions db)"
    "map (\<lambda>r. (ss_source_id r, ss_source_session_id r)) rows' =
       map (\<lambda>r. (ss_source_id r, ss_source_session_id r)) (db_sessions db)"
    "map (\<lambda>r. (ss_id r, ss_source_id r)) rows' = map (\<lambda>r. (ss_id r, ss_source_id r)) (db_sessions db)"
    unfolding rows'_def rows_def by (simp_all add: update_where_map)
  have parents: "session_parents db' = session_parents db"
    using arg_cong [OF maps(4), of set] by (simp add: session_parents_def db')
  then have grows: "db_grows db db'"
    by (simp add: db_grows_def db' has_model_def has_project_def daily_parents_def)
  have project: "has_project db' = has_project db"
    by (simp add: has_project_def db' fun_eq_iff)
  have sok: "sessions_ok db" using assms(2) by (simp add: database_ok_def)
  then have "list_all ?P rows"
    unfolding rows_def
    by (intro update_where_list_all) (auto simp: sessions_ok_def mark_removed_def dest: c1 split: option.splits)
  then have "list_all ?P rows'"
    unfolding rows'_def
    by (intro update_where_list_all) (auto simp: mark_missing_def dest: c2 split: option.splits)
  moreover have "db_sessions db' = rows'" by (simp add: db')
  ultimately have "sessions_ok db'"
    unfolding sessions_ok_def project db_grows_fks(1,2) [OF grows] using sok maps
    by (simp add: sessions_ok_def)
  moreover have "db_source_models db' = db_source_models db" "db_projects db' = db_projects db"
    "db_daily_model_usage db' = db_daily_model_usage db" "db_daily_usage db' = db_daily_usage db"
    "db_session_model_usage db' = db_session_model_usage db" "daily_parents db' = daily_parents db"
    by (simp_all add: db' daily_parents_def)
  ultimately show ?thesis
    using assms(2) grows parents
    by (auto simp: database_ok_def db_grows_fks(5,6) [OF grows] table_congs [OF grows]
        intro: model_usage_ok_grows [OF _ grows])
qed

lemma reconcile_session_candidates_ok:
  assumes "reconcile_session_candidates c sha sid imp obs cands db = Inr (keys, db')"
    and "database_ok db"
  shows "database_ok db' \<and> db_grows db db'"
  using assms
proof (induction cands arbitrary: db keys)
  case Nil
  then show ?case by simp
next
  case (Cons cand cands)
  from Cons.prems(1) obtain project db0 i db1 db2 keys'
    where s: "(case sc_project_path cand of
          Some path \<Rightarrow> map_ok (\<lambda>(p, d). (Some p, d)) (resolve_project sha sid obs path False db)
        | None \<Rightarrow> Inr (None, db)) = Inr (project, db0)"
      "upsert_session c sid imp obs project cand db0 = Inr (i, db1)"
      "replace_session_model_breakdowns sid imp obs i cand db1 = Inr db2"
      "reconcile_session_candidates c sha sid imp obs cands db2 = Inr (keys', db')"
    by (auto simp: bind_res_Inr)
  from s(1) Cons.prems(2) have p: "database_ok db0 \<and> db_grows db db0"
    by (auto simp: map_ok_def split: option.splits sum.splits dest: resolve_project_ok(1,2))
  note u = upsert_session_ok [OF s(2)]
  note m = replace_session_model_breakdowns_ok [OF s(3)]
  from Cons.IH [OF s(4)] m u p show ?case by (blast intro: db_grows_trans)
qed

lemma reconcile_session_in_transaction_ok:
  assumes "reconcile_session_in_transaction c sha request db = Inr (summary, db')"
    and "database_ok db"
  shows "database_ok db' \<and> db_grows db db'"
  using assms
  by (auto simp: reconcile_session_in_transaction_def Let_def bind_res_Inr split: if_splits
      dest!: reconcile_session_candidates_ok advance_session_ok intro: db_grows_trans)

section \<open>Properties\<close>

lemma transact_db_ok:
  assumes "\<And>x d'. body d = Inr (x, d') \<Longrightarrow> P d'" and "P d"
  shows "P (snd (transact body d))"
  using assms by (auto simp: transact_def split: sum.splits)

lemma reconcile_daily_ok:
  assumes "database_ok db"
  shows "database_ok (snd (reconcile_daily c request db))"
    and "db_grows db (snd (reconcile_daily c request db))"
proof -
  have "database_ok d \<and> db_grows db d" if "d = snd (reconcile_daily c request db)" for d
    unfolding that reconcile_daily_def
    by (rule transact_db_ok) (use assms in \<open>auto dest: reconcile_daily_in_transaction_ok\<close>)
  then show "database_ok (snd (reconcile_daily c request db))"
    and "db_grows db (snd (reconcile_daily c request db))" by blast+
qed

lemma reconcile_session_ok:
  assumes "database_ok db"
  shows "database_ok (snd (reconcile_session c sha256 request db))"
    and "db_grows db (snd (reconcile_session c sha256 request db))"
proof -
  have "database_ok d \<and> db_grows db d" if "d = snd (reconcile_session c sha256 request db)" for d
    unfolding that reconcile_session_def
    by (rule transact_db_ok) (use assms in \<open>auto dest: reconcile_session_in_transaction_ok\<close>)
  then show "database_ok (snd (reconcile_session c sha256 request db))"
    and "db_grows db (snd (reconcile_session c sha256 request db))" by blast+
qed

text \<open>
  C11: The two operations of the usage store keep every constraint of the schema, on success and on
  failure, and leave sources, refresh runs and import runs untouched: no primary key, unique key,
  check or foreign key of the nine tables is broken by a reconciliation, whatever the candidates.
\<close>
theorem reconcile_keeps_database_ok:
  assumes "database_ok db"
  shows "database_ok (snd (reconcile_daily c request db)) \<and>
    db_grows db (snd (reconcile_daily c request db)) \<and>
    database_ok (snd (reconcile_session c sha256 srequest db)) \<and>
    db_grows db (snd (reconcile_session c sha256 srequest db))"
  using assms by (blast intro: reconcile_daily_ok reconcile_session_ok)

lemma demo_database_ok: "database_ok demo_database"
  by code_simp

theorem reconcile_keeps_database_ok_witness:
  "database_ok demo_database \<and>
   database_ok (snd (reconcile_daily gregorian demo_request demo_database))"
  using reconcile_keeps_database_ok [OF demo_database_ok] demo_database_ok by blast

end
