(* ===== verification/DailyLedger.thy ===== *)
theory DailyLedger
  imports UsageIntegrity
begin

text \<open>
  What a daily reconciliation promises, stated on the ledger of a source: the map from a row's
  source key to its facts. \<open>ledger_after\<close> is the abstract reconciliation: an observed day takes the
  values of its (last) candidate and is active, and a full import that is not partial moves every
  other row of the source exactly one step along \<open>active \<rightarrow> missing \<rightarrow> removed\<close>. The refinement
  theorem states that the SQL statements of \<open>daily.rs\<close> compute it.
\<close>

section \<open>The abstract ledger\<close>

definition daily_facts :: "database \<Rightarrow> int \<Rightarrow> string \<Rightarrow> fact_columns option" where
  "daily_facts db sid key =
     map_option du_facts
       (find (\<lambda>r. du_source_id r = sid \<and> du_source_key r = key) (db_daily_usage db))"

definition absence_step :: "i64 \<Rightarrow> fact_columns \<Rightarrow> fact_columns" where
  "absence_step now f =
     (if fc_record_state f = ''active''
      then f\<lparr>fc_record_state := ''missing'', fc_absence_count := 1\<rparr>
      else if fc_record_state f = ''missing''
      then f\<lparr>fc_record_state := ''removed'', fc_absence_count := fc_absence_count f + 1,
             fc_removed_at_ms := Some now\<rparr>
      else f)"

definition observed_entry ::
  "int \<Rightarrow> i64 \<Rightarrow> daily_usage_candidate \<Rightarrow> fact_columns option \<Rightarrow> fact_columns option" where
  "observed_entry imp obs cand old =
     (case (token_columns_of (dc_tokens cand), daily_cost_columns_of (dc_cost cand)) of
        (Inr tokens, Inr cost) \<Rightarrow>
          Some ((observed_facts tokens cost (prov_data_quality (dc_provenance cand)) obs imp)
            \<lparr>fc_first_seen_at_ms := (case old of None \<Rightarrow> obs | Some f \<Rightarrow> fc_first_seen_at_ms f)\<rparr>)
      | _ \<Rightarrow> None)"

definition last_candidate :: "daily_usage_candidate list \<Rightarrow> string \<Rightarrow> daily_usage_candidate option" where
  "last_candidate cands key = find (\<lambda>cand. dc_source_key cand = key) (rev cands)"

definition ledger_after ::
  "daily_reconciliation_request \<Rightarrow> (string \<Rightarrow> fact_columns option) \<Rightarrow> string \<Rightarrow> fact_columns option" where
  "ledger_after request old key =
     (case last_candidate (drr_candidates request) key of
        Some cand \<Rightarrow> observed_entry (import_run_id_value (drr_import_run_id request))
                       (drr_observed_at_ms request) cand (old key)
      | None \<Rightarrow> if drr_scope request = Full \<and> drr_outcome request \<noteq> CollectionPartial
                then map_option (absence_step (drr_observed_at_ms request)) (old key)
                else old key)"

section \<open>Lookups after the statements\<close>

lemma find_append:
  "find p (xs @ ys) = (case find p xs of None \<Rightarrow> find p ys | Some x \<Rightarrow> Some x)"
  by (induction xs) auto

lemma find_put_row_same:
  assumes "\<forall>r \<in> set rows. p r \<longleftrightarrow> key r = key row" and "p row"
  shows "find p (put_row key row rows) = Some row"
proof (cases "find p (put_row key row rows)")
  case None
  with assms(2) show ?thesis by (auto simp: find_None_iff set_put_row)
next
  case (Some x)
  then have "x \<in> set (put_row key row rows)" "p x" by (auto dest: find_SomeD)
  with assms(1) have "x = row" by (auto simp: set_put_row)
  with Some show ?thesis by simp
qed

lemma find_put_row_other:
  assumes "\<forall>r \<in> set rows. key r = key row \<longrightarrow> \<not> p r" and "\<not> p row"
  shows "find p (put_row key row rows) = find p rows"
proof -
  have "find p (update_where (\<lambda>r. key r = key row) (\<lambda>r. row) rows) = find p rows"
    using assms by (induction rows) (auto simp: update_where_def)
  moreover have "find p (rows @ [row]) = find p rows"
    using assms(2) by (induction rows) auto
  ultimately show ?thesis by (simp add: put_row_def)
qed

lemma find_update_where:
  assumes "\<And>r. p (f r) = p r"
  shows "find p (update_where q f rows) = map_option (\<lambda>r. if q r then f r else r) (find p rows)"
  by (induction rows) (auto simp: update_where_def assms)

lemma upsert_daily_facts:
  assumes "upsert_daily_usage c sid imp obs cand db = Inr (i, db')" and "daily_ok db"
  shows "daily_facts db' s key =
    (if s = sid \<and> key = dc_source_key cand then observed_entry imp obs cand (daily_facts db s key)
     else daily_facts db s key)"
proof -
  obtain tokens cost row where put:
    "token_columns_of (dc_tokens cand) = Inr tokens" "daily_cost_columns_of (dc_cost cand) = Inr cost"
    "row = daily_written c sid imp obs cand tokens cost (db_daily_usage db)"
    "db' = db\<lparr>db_daily_usage := put_row du_id row (db_daily_usage db)\<rparr>"
    "du_id row = i" "du_source_id row = sid" "du_source_key row = dc_source_key cand"
    "\<forall>r \<in> set (db_daily_usage db).
       du_source_id r = sid \<and> du_source_key r = dc_source_key cand \<longleftrightarrow> du_id r = i"
    using upsert_daily_put [OF assms] by metis
  show ?thesis
  proof (cases "s = sid \<and> key = dc_source_key cand")
    case True
    have "find (\<lambda>r. du_source_id r = sid \<and> du_source_key r = dc_source_key cand)
        (put_row du_id row (db_daily_usage db)) = Some row"
      by (rule find_put_row_same) (use put(5-8) in auto)
    moreover have "Some (du_facts row) =
        observed_entry imp obs cand (daily_facts db sid (dc_source_key cand))"
      by (auto simp: put(1-3) daily_written_def observed_entry_def daily_facts_def Let_def
          split: option.splits)
    ultimately show ?thesis using True by (simp add: daily_facts_def put(4))
  next
    case False
    have "find (\<lambda>r. du_source_id r = s \<and> du_source_key r = key)
        (put_row du_id row (db_daily_usage db)) =
        find (\<lambda>r. du_source_id r = s \<and> du_source_key r = key) (db_daily_usage db)"
      by (rule find_put_row_other) (use put(5-8) False in auto)
    with False show ?thesis by (auto simp: daily_facts_def put(4))
  qed
qed

lemma observed_entry_first_seen:
  "observed_entry imp obs cand (observed_entry imp obs cand' old) =
     (if observed_entry imp obs cand' old = None then observed_entry imp obs cand None
      else observed_entry imp obs cand old)"
  by (auto simp: observed_entry_def split: sum.splits)

lemma candidates_facts:
  assumes "reconcile_daily_candidates c sid imp obs cands db = Inr (keys, db')" and "database_ok db"
  shows "daily_facts db' s key =
    (case (if s = sid then last_candidate cands key else None) of
       None \<Rightarrow> daily_facts db s key
     | Some cand \<Rightarrow> observed_entry imp obs cand (daily_facts db s key))"
  using assms
proof (induction cands arbitrary: db keys)
  case Nil
  then show ?case by (simp add: last_candidate_def)
next
  case (Cons cand cands)
  from Cons.prems(1) obtain i db1 db2 keys'
    where st: "upsert_daily_usage c sid imp obs cand db = Inr (i, db1)"
      "replace_model_breakdowns sid imp obs i cand db1 = Inr db2"
      "reconcile_daily_candidates c sid imp obs cands db2 = Inr (keys', db')"
    by (auto simp: bind_res_Inr)
  note u = upsert_daily_ok [OF st(1) Cons.prems(2)]
  note m = replace_model_breakdowns_ok [OF st(2) u(1,3)]
  have dok: "daily_ok db" using Cons.prems(2) by (simp add: database_ok_def)
  from st(1) have some: "observed_entry imp obs cand old \<noteq> None" for old
    by (auto simp: upsert_daily_usage_def bind_res_Inr observed_entry_def)
  then have seen: "observed_entry imp obs x (observed_entry imp obs cand old) =
      observed_entry imp obs x old" for x old
    using some [of old] by (simp only: observed_entry_first_seen if_False)
  have one: "daily_facts db2 s key =
      (if s = sid \<and> key = dc_source_key cand then observed_entry imp obs cand (daily_facts db s key)
       else daily_facts db s key)"
    using upsert_daily_facts [OF st(1) dok, of s key] m by (simp add: daily_facts_def)
  have last: "last_candidate (cand # cands) key =
      (case last_candidate cands key of Some x \<Rightarrow> Some x
       | None \<Rightarrow> if dc_source_key cand = key then Some cand else None)"
    by (simp add: last_candidate_def find_append split: option.splits)
  from Cons.IH [OF st(3)] m have "daily_facts db' s key =
      (case (if s = sid then last_candidate cands key else None) of
         None \<Rightarrow> daily_facts db2 s key
       | Some x \<Rightarrow> observed_entry imp obs x (daily_facts db2 s key))"
    by simp
  then show ?case
    unfolding one last by (auto simp: seen split: option.splits)
qed

lemma advance_daily_facts:
  assumes "advance_daily_absences sid imp now db = Inr db'"
  shows "daily_facts db' s key =
    map_option (\<lambda>f. if s = sid \<and> fc_latest_import_id f \<noteq> imp then absence_step now f else f)
      (daily_facts db s key)"
proof -
  let ?p = "\<lambda>r. du_source_id r = s \<and> du_source_key r = key"
  from assms have "db_daily_usage db' =
      update_where (\<lambda>r. absent sid imp ''active'' (du_source_id r) (du_facts r))
        (\<lambda>r. r\<lparr>du_facts := mark_missing (du_facts r)\<rparr>)
        (update_where (\<lambda>r. absent sid imp ''missing'' (du_source_id r) (du_facts r))
          (\<lambda>r. r\<lparr>du_facts := mark_removed now (du_facts r)\<rparr>) (db_daily_usage db))"
    by (auto simp: advance_daily_absences_def bind_res_Inr update_checked_Inr)
  then show ?thesis
    by (auto simp: daily_facts_def find_update_where absent_def mark_missing_def mark_removed_def
        absence_step_def option.map_comp comp_def dest: find_SomeD intro!: option.map_cong0)
qed

lemma candidates_keys:
  "reconcile_daily_candidates c sid imp obs cands db = Inr (keys, db')
   \<Longrightarrow> keys = map dc_source_key cands"
  by (induction cands arbitrary: db keys) (auto simp: bind_res_Inr)

lemma last_candidate_None: "last_candidate cands key = None \<longleftrightarrow> key \<notin> dc_source_key ` set cands"
  by (auto simp: last_candidate_def find_None_iff)

section \<open>The demo reconciliation, step by step\<close>

lemma reconcile_daily_candidates_dates:
  "\<forall>cand \<in> set cands. date_to_string c (dc_usage_date cand) = date_to_string c' (dc_usage_date cand)
   \<Longrightarrow> reconcile_daily_candidates c sid imp obs cands db =
       reconcile_daily_candidates c' sid imp obs cands db"
proof (induction cands arbitrary: db)
  case Nil
  then show ?case by simp
next
  case (Cons cand cands)
  then have "upsert_daily_usage c sid imp obs cand db = upsert_daily_usage c' sid imp obs cand db"
    by (simp add: upsert_daily_usage_def)
  with Cons show ?case by simp
qed

lemma reconcile_daily_dates:
  "\<forall>cand \<in> set (drr_candidates request).
     date_to_string c (dc_usage_date cand) = date_to_string c' (dc_usage_date cand)
   \<Longrightarrow> reconcile_daily c request db = reconcile_daily c' request db"
  unfolding reconcile_daily_def transact_def reconcile_daily_in_transaction_def Let_def
  by (simp add: reconcile_daily_candidates_dates [where c = c and c' = c'])

text \<open>The calendar of the demo, which formats every date as the demo's only day.\<close>

definition fixed_day_chrono :: chrono where
  "fixed_day_chrono = gregorian\<lparr>date_to_string := (\<lambda>d. ''2026-06-14'')\<rparr>"

definition demo_columns :: token_columns where
  "demo_columns =
     \<lparr>tc_input = Some 70, tc_output = Some 30, tc_cache_creation = None, tc_cache_read = None,
      tc_total = 100, tc_unclassified = Some 0\<rparr>"

definition demo_cost_columns :: daily_cost_columns where
  "demo_cost_columns =
     \<lparr>dcc_amount_micros = Some 1500, dcc_currency = Some ''USD'', dcc_kind = ''source_reported'',
      dcc_status = ''available''\<rparr>"

definition demo_model_cost :: model_cost_columns where
  "demo_model_cost =
     \<lparr>mcc_amount_micros = Some 1500, mcc_currency = Some ''USD'', mcc_status = ''estimated''\<rparr>"

definition demo_model :: model_usage_candidate where
  "demo_model = \<lparr>mc_raw_model_id = ''m'', mc_tokens = demo_tokens, mc_cost = demo_cost\<rparr>"

definition demo_seen :: daily_row where
  "demo_seen =
     \<lparr>du_id = 1, du_source_id = 1, du_source_key = ''a'', du_usage_date = ''2026-06-14'',
      du_aggregation_timezone = ''UTC'',
      du_facts = (observed_facts demo_columns demo_cost_columns QualityComplete 300 2)
                   \<lparr>fc_first_seen_at_ms := 100\<rparr>\<rparr>"

definition demo_upserted :: database where
  "demo_upserted =
     demo_database\<lparr>db_daily_usage :=
       [demo_seen, demo_day 2 ''b'' ''active'' 0, demo_day 3 ''c'' ''missing'' 1]\<rparr>"

definition demo_resolved :: database where
  "demo_resolved =
     demo_upserted\<lparr>db_source_models :=
       [\<lparr>sm_id = 1, sm_source_id = 1, sm_raw_model_id = ''m'', sm_display_name = None,
         sm_provider_key = None, sm_first_seen_at_ms = 300, sm_last_seen_at_ms = 300\<rparr>]\<rparr>"

definition demo_detailed :: database where
  "demo_detailed =
     demo_resolved\<lparr>db_daily_model_usage :=
       [\<lparr>mu_id = 1, mu_parent_id = 1, mu_source_id = 1, mu_model_id = 1, mu_tokens = demo_columns,
         mu_cost = demo_model_cost, mu_latest_import_id = 2\<rparr>]\<rparr>"

definition demo_reconciled :: database where
  "demo_reconciled =
     demo_detailed\<lparr>db_daily_usage :=
       [demo_seen, demo_day 2 ''b'' ''missing'' 1,
        (demo_day 3 ''c'' ''removed'' 2)
          \<lparr>du_facts := (demo_facts ''removed'' 2)\<lparr>fc_removed_at_ms := Some 300\<rparr>\<rparr>]\<rparr>"

lemma demo_columns_steps:
  "token_columns_of demo_tokens = Inr demo_columns"
  "daily_cost_columns_of demo_cost = Inr demo_cost_columns"
  "model_cost_columns_of demo_cost = Inr demo_model_cost"
  by code_simp+

lemma demo_candidate_parts:
  "dc_tokens demo_candidate = demo_tokens" "dc_cost demo_candidate = demo_cost"
  "dc_model_breakdowns demo_candidate = [demo_model]"
  "mc_tokens demo_model = demo_tokens" "mc_cost demo_model = demo_cost"
  by (simp_all add: demo_candidate_def demo_model_def)

lemma demo_upsert: "upsert_daily_usage fixed_day_chrono 1 2 300 demo_candidate demo_database =
    Inr (1, demo_upserted)"
proof -
  have "date_to_string fixed_day_chrono d = ''2026-06-14''" for d
    by (simp add: fixed_day_chrono_def)
  then show ?thesis
    unfolding upsert_daily_usage_def demo_candidate_parts demo_columns_steps bind_res_simps Let_def
    by (simp only:) code_simp
qed

lemma demo_resolve:
  "resolve_model 1 300 demo_model
     (demo_upserted\<lparr>db_daily_model_usage :=
        filter (\<lambda>r. mu_parent_id r \<noteq> 1) (db_daily_model_usage demo_upserted)\<rparr>) =
   Inr (1, demo_resolved)"
  unfolding resolve_model_def Let_def by code_simp

lemma demo_detail:
  "insert_daily_model_usage 1 2 1 1 demo_model demo_resolved = Inr demo_detailed"
  unfolding insert_daily_model_usage_def model_usage_insert_def demo_candidate_parts
    demo_columns_steps bind_res_simps Let_def
  by code_simp

lemma demo_breakdowns:
  "replace_model_breakdowns 1 2 300 1 demo_candidate demo_upserted = Inr demo_detailed"
  by (simp add: replace_model_breakdowns_def demo_candidate_parts demo_resolve demo_detail)

lemma demo_absences: "advance_daily_absences 1 2 300 demo_detailed = Inr demo_reconciled"
  by code_simp

lemma demo_reconcile:
  "reconcile_daily gregorian demo_request demo_database =
     (Inr \<lparr>drs_upserted_days = 1, drs_observed_source_keys = [''a'']\<rparr>, demo_reconciled)"
proof -
  have "date_to_string gregorian (dc_usage_date demo_candidate) = ''2026-06-14''"
    by (simp add: demo_candidate_def gregorian_simps gregorian_date_example)
  then have "reconcile_daily gregorian demo_request demo_database =
      reconcile_daily fixed_day_chrono demo_request demo_database"
    by (intro reconcile_daily_dates) (simp add: demo_request_def fixed_day_chrono_def)
  also have "\<dots> = (Inr \<lparr>drs_upserted_days = 1, drs_observed_source_keys = [''a'']\<rparr>, demo_reconciled)"
    by (simp add: reconcile_daily_def transact_def reconcile_daily_in_transaction_def Let_def
        demo_request_def demo_upsert demo_breakdowns demo_absences should_evaluate_absence_def
        u32_of_nat_def) (simp add: demo_candidate_def)
  finally show ?thesis .
qed

section \<open>Properties\<close>

text \<open>
  C1: A successful daily reconciliation computes the abstract ledger. On the source of the request
  every observed day takes the values of its last candidate, is active, keeps the time it was
  first seen and carries this import; with a full, non-partial import every other row moves exactly
  one step (active to missing, missing to removed at this time, removed stays), and with any other
  import it is unchanged. The rows of every other source are unchanged. The import run is assumed
  new to the source's rows, as an import that has just begun is.
\<close>
theorem reconcile_daily_refines_ledger:
  assumes "reconcile_daily c request db = (Inr summary, db')" and "database_ok db"
    and "\<forall>key f. daily_facts db (source_id_value (drr_source_id request)) key = Some f \<longrightarrow>
           fc_latest_import_id f \<noteq> import_run_id_value (drr_import_run_id request)"
  shows "daily_facts db' (source_id_value (drr_source_id request)) =
           ledger_after request (daily_facts db (source_id_value (drr_source_id request))) \<and>
    (\<forall>s. s \<noteq> source_id_value (drr_source_id request) \<longrightarrow> daily_facts db' s = daily_facts db s) \<and>
    drs_observed_source_keys summary = map dc_source_key (drr_candidates request)"
proof -
  define sid where "sid = source_id_value (drr_source_id request)"
  define imp where "imp = import_run_id_value (drr_import_run_id request)"
  define obs where "obs = drr_observed_at_ms request"
  from assms(1) obtain keys db1 n where
    cs: "reconcile_daily_candidates c sid imp obs (drr_candidates request) db = Inr (keys, db1)"
    and adv: "(if should_evaluate_absence (drr_scope request) (drr_outcome request)
               then advance_daily_absences sid imp obs db1 else Inr db1) = Inr db'"
    and sum: "summary = \<lparr>drs_upserted_days = n, drs_observed_source_keys = keys\<rparr>"
    by (auto simp: reconcile_daily_def transact_def reconcile_daily_in_transaction_def Let_def
        bind_res_Inr split: sum.splits simp flip: sid_def imp_def obs_def)
  note facts = candidates_facts [OF cs assms(2)]
  have keys: "keys = map dc_source_key (drr_candidates request)"
    by (rule candidates_keys [OF cs])
  have stamp: "fc_latest_import_id f = imp"
    if "observed_entry imp obs cand old = Some f" for cand old f
    using that by (auto simp: observed_entry_def observed_facts_def split: sum.splits)
  have "daily_facts db' s key =
      (if s = sid then ledger_after request (daily_facts db sid) key else daily_facts db s key)"
    for s key
  proof (cases "should_evaluate_absence (drr_scope request) (drr_outcome request)")
    case True
    with adv have "advance_daily_absences sid imp obs db1 = Inr db'" by simp
    from advance_daily_facts [OF this] facts True assms(3) stamp show ?thesis
      by (auto simp: ledger_after_def should_evaluate_absence_def sid_def imp_def obs_def
          split: option.splits if_splits intro!: option.map_ident_strong option.map_cong)
  next
    case False
    with adv facts show ?thesis
      by (auto simp: ledger_after_def should_evaluate_absence_def sid_def imp_def obs_def
          split: option.splits)
  qed
  then show ?thesis
    by (auto simp: sum keys sid_def fun_eq_iff)
qed

theorem reconcile_daily_refines_ledger_witness:
  "map_option fc_record_state (daily_facts demo_reconciled 1 ''a'') = Some ''active'' \<and>
   map_option fc_record_state (daily_facts demo_reconciled 1 ''b'') = Some ''missing'' \<and>
   map_option fc_record_state (daily_facts demo_reconciled 1 ''c'') = Some ''removed'' \<and>
   daily_facts demo_reconciled 1 = ledger_after demo_request (daily_facts demo_database 1)"
proof -
  have "\<forall>key f. daily_facts demo_database 1 key = Some f \<longrightarrow> fc_latest_import_id f \<noteq> 2"
    by (auto simp: daily_facts_def demo_defs dest!: find_SomeD)
  then have "daily_facts demo_reconciled 1 = ledger_after demo_request (daily_facts demo_database 1)"
    using reconcile_daily_refines_ledger [OF demo_reconcile demo_database_ok]
    by (simp add: demo_request_def)
  moreover have "map_option fc_record_state (daily_facts demo_reconciled 1 ''a'') = Some ''active''"
    "map_option fc_record_state (daily_facts demo_reconciled 1 ''b'') = Some ''missing''"
    "map_option fc_record_state (daily_facts demo_reconciled 1 ''c'') = Some ''removed''"
    by code_simp+
  ultimately show ?thesis by simp
qed

end
