(* ===== verification/RunStoreDb.thy ===== *)
theory RunStoreDb
  imports UsageIntegrity
begin

text \<open>
  The run store of \<open>src/src-tauri/src/infrastructure/database/reconciliation/runs.rs\<close>: source
  resolution, the life cycle of refresh and import runs, recovery of interrupted runs, the lookup
  of the latest successful import and the deletion of expired import runs. An operation is a
  function from the database to an error or a new database, run under \<open>transact\<close>.
\<close>

section \<open>Column values\<close>

fun refresh_trigger_value :: "refresh_trigger \<Rightarrow> string" where
  "refresh_trigger_value Launch = ''launch''"
| "refresh_trigger_value Manual = ''manual''"
| "refresh_trigger_value Scheduled = ''scheduled''"
| "refresh_trigger_value FileChange = ''file_change''"
| "refresh_trigger_value Resume = ''resume''"
| "refresh_trigger_value Reconcile = ''reconcile''"

fun refresh_outcome_value :: "refresh_outcome \<Rightarrow> string" where
  "refresh_outcome_value RefreshSucceeded = ''succeeded''"
| "refresh_outcome_value RefreshPartial = ''partial''"
| "refresh_outcome_value RefreshFailed = ''failed''"
| "refresh_outcome_value RefreshCancelled = ''cancelled''"

fun import_outcome_value :: "import_outcome \<Rightarrow> string" where
  "import_outcome_value ImportSucceeded = ''succeeded''"
| "import_outcome_value ImportPartial = ''partial''"
| "import_outcome_value ImportFailed = ''failed''"
| "import_outcome_value ImportCancelled = ''cancelled''"

fun projection_value :: "collection_projection \<Rightarrow> string" where
  "projection_value Daily = ''daily''"
| "projection_value Session = ''session''"

definition error_fields :: "run_error option \<Rightarrow> string option \<times> string option" where
  "error_fields e =
     (case e of Some r \<Rightarrow> (Some (error_code r), Some (error_summary r)) | None \<Rightarrow> (None, None))"

fun scope_fields :: "chrono \<Rightarrow> collection_scope \<Rightarrow> string \<times> string option \<times> string option" where
  "scope_fields c Full = (''full'', None, None)"
| "scope_fields c (Incremental r) =
     (''incremental'', Some (date_to_string c (start_date r)), Some (date_to_string c (end_date r)))"

definition parse_scope_date :: "chrono \<Rightarrow> string option \<Rightarrow> run_store_error + naive_date" where
  "parse_scope_date c value =
     bind_res (ok_or RunStoreBackend value) (\<lambda>s. ok_or RunStoreBackend (parse_date c s))"

definition import_state_from_row ::
  "chrono \<Rightarrow> import_run_lookup \<Rightarrow> string \<Rightarrow> string option \<Rightarrow> string option \<Rightarrow> i64
   \<Rightarrow> run_store_error + successful_import_state" where
  "import_state_from_row c lookup kind start_d end_d finished =
     bind_res
       (if kind = ''full'' then Inr Full
        else if kind = ''incremental''
        then bind_res (parse_scope_date c start_d) (\<lambda>s.
             bind_res (parse_scope_date c end_d) (\<lambda>e.
             map_err (\<lambda>_. RunStoreBackend) (collection_scope_incremental s e)))
        else Inl RunStoreBackend)
       (\<lambda>scope. Inr \<lparr>sis_source = lk_source lookup, sis_projection = lk_projection lookup,
                     sis_scope = scope, sis_finished_at_ms = finished\<rparr>)"

definition run_found :: "nat \<Rightarrow> run_store_error + unit" where
  "run_found changed = (if changed = 0 then Inl RunNotFound else Inr ())"

section \<open>Statements on runs\<close>

text \<open>\<open>UPDATE ... WHERE\<close>: the changed rows are checked; the number of changed rows is returned.\<close>

definition run_update ::
  "('r \<Rightarrow> bool) \<Rightarrow> ('r \<Rightarrow> bool) \<Rightarrow> ('r \<Rightarrow> 'r) \<Rightarrow> 'r list \<Rightarrow> run_store_error + (nat \<times> 'r list)" where
  "run_update check p f rows =
     (if list_all (\<lambda>r. p r \<longrightarrow> check (f r)) rows
      then Inr (length (filter p rows), update_where p f rows) else Inl RunStoreBackend)"

section \<open>Recovery of interrupted runs\<close>

record interrupted_run_recovery =
  irr_refresh_runs :: nat
  irr_import_runs :: nat

definition interrupt_import :: "i64 \<Rightarrow> import_run_row \<Rightarrow> import_run_row" where
  "interrupt_import now r =
     r\<lparr>ir_status := ''failed'',
       ir_finished_at_ms := Some (if now < ir_started_at_ms r then ir_started_at_ms r else now),
       ir_error_code := Some ''import.interrupted'',
       ir_error_detail := Some ''The previous import was interrupted before it completed.''\<rparr>"

definition interrupt_refresh :: "i64 \<Rightarrow> refresh_run_row \<Rightarrow> refresh_run_row" where
  "interrupt_refresh now r =
     r\<lparr>rr_status := ''failed'',
       rr_finished_at_ms :=
         Some (case rr_started_at_ms r of None \<Rightarrow> now | Some s \<Rightarrow> if now < s then s else now),
       rr_error_code := Some ''refresh.interrupted'',
       rr_error_summary := Some ''The previous refresh was interrupted before it completed.''\<rparr>"

definition recover_interrupted_runs ::
  "i64 \<Rightarrow> database \<Rightarrow> (run_store_error + interrupted_run_recovery) \<times> database" where
  "recover_interrupted_runs finished =
     transact (\<lambda>db.
       bind_res (run_update check_import_run (\<lambda>r. ir_status r = ''running'')
                   (interrupt_import finished) (db_import_runs db)) (\<lambda>(imports, rows).
       bind_res (run_update check_refresh_run
                   (\<lambda>r. rr_status r \<in> {''queued'', ''running'', ''cancelling''})
                   (interrupt_refresh finished) (db_refresh_runs db)) (\<lambda>(refreshes, rows').
       Inr (\<lparr>irr_refresh_runs = refreshes, irr_import_runs = imports\<rparr>,
            db\<lparr>db_import_runs := rows, db_refresh_runs := rows'\<rparr>))))"

section \<open>The run store\<close>

definition resolve_source :: "source_key \<Rightarrow> i64 \<Rightarrow> database \<Rightarrow> (run_store_error + source_id) \<times> database" where
  "resolve_source source now =
     transact (\<lambda>db.
       let fresh = \<lparr>so_id = next_rowid (map so_id (db_sources db)),
                    so_source_key = source_key_as_str source,
                    so_display_name = source_key_as_str source,
                    so_created_at_ms = now, so_updated_at_ms = now\<rparr>
       in if \<not> check_source fresh then Inl RunStoreBackend
          else case find (\<lambda>r. so_source_key r = source_key_as_str source) (db_sources db) of
            Some old \<Rightarrow> Inr (SourceId (so_id old), db)
          | None \<Rightarrow> Inr (SourceId (so_id fresh), db\<lparr>db_sources := db_sources db @ [fresh]\<rparr>))"

definition begin_refresh_run ::
  "refresh_run_spec \<Rightarrow> i64 \<Rightarrow> database \<Rightarrow> (run_store_error + refresh_run_id) \<times> database" where
  "begin_refresh_run spec now =
     transact (\<lambda>db.
       let fresh = \<lparr>rr_id = next_rowid (map rr_id (db_refresh_runs db)),
                    rr_job_key = job_key_as_str (rrs_job_key spec),
                    rr_trigger = refresh_trigger_value (rrs_trigger spec), rr_status = ''running'',
                    rr_started_at_ms = Some now, rr_finished_at_ms = None,
                    rr_requested_by_app_version = rrs_requested_by_app_version spec,
                    rr_error_code = None, rr_error_summary = None, rr_created_at_ms = now\<rparr>
       in if \<not> check_refresh_run fresh then Inl RunStoreBackend
          else if list_ex (\<lambda>r. rr_job_key r = rr_job_key fresh) (db_refresh_runs db)
          then Inl DuplicateJobKey
          else Inr (RefreshRunId (rr_id fresh),
                    db\<lparr>db_refresh_runs := db_refresh_runs db @ [fresh]\<rparr>))"

definition complete_refresh_run ::
  "refresh_run_id \<Rightarrow> refresh_run_completion \<Rightarrow> database \<Rightarrow> (run_store_error + unit) \<times> database" where
  "complete_refresh_run rid completion =
     transact (\<lambda>db.
       let (code, summary) = error_fields (rrc_error completion)
       in bind_res
            (run_update check_refresh_run (\<lambda>r. rr_id r = refresh_run_id_value rid)
              (\<lambda>r. r\<lparr>rr_status := refresh_outcome_value (rrc_outcome completion),
                     rr_finished_at_ms := Some (rrc_finished_at_ms completion),
                     rr_error_code := code, rr_error_summary := summary\<rparr>) (db_refresh_runs db))
            (\<lambda>(changed, rows).
               map_ok (\<lambda>u. (u, db\<lparr>db_refresh_runs := rows\<rparr>)) (run_found changed)))"

definition begin_import_run ::
  "chrono \<Rightarrow> import_run_spec \<Rightarrow> i64 \<Rightarrow> database \<Rightarrow> (run_store_error + import_run_id) \<times> database" where
  "begin_import_run c spec started =
     transact (\<lambda>db.
       let (kind, start_d, end_d) = scope_fields c (irs_scope spec);
           fresh = \<lparr>ir_id = next_rowid (map ir_id (db_import_runs db)),
                    ir_refresh_run_id = refresh_run_id_value (irs_refresh_run_id spec),
                    ir_source_id = source_id_value (irs_source_id spec),
                    ir_collector_key = ic_collector_key (irs_collector spec),
                    ir_collector_version = ic_collector_version (irs_collector spec),
                    ir_profile_version = uint (ic_profile_version (irs_collector spec)),
                    ir_projection = projection_value (irs_projection spec),
                    ir_scope_kind = kind, ir_scope_start_date = start_d,
                    ir_scope_end_date = end_d,
                    ir_aggregation_timezone = irs_aggregation_timezone spec,
                    ir_status = ''running'', ir_records_seen = 0, ir_records_rejected = 0,
                    ir_started_at_ms = started, ir_finished_at_ms = None,
                    ir_error_code = None, ir_error_detail = None\<rparr>
       in if \<not> check_import_run fresh \<or> \<not> has_source db (ir_source_id fresh) \<or>
             ir_refresh_run_id fresh \<notin> rr_id ` set (db_refresh_runs db)
          then Inl RunStoreBackend
          else Inr (ImportRunId (ir_id fresh), db\<lparr>db_import_runs := db_import_runs db @ [fresh]\<rparr>))"

definition complete_import_run ::
  "import_run_id \<Rightarrow> import_run_completion \<Rightarrow> database \<Rightarrow> (run_store_error + unit) \<times> database" where
  "complete_import_run iid completion =
     transact (\<lambda>db.
       let (code, detail) = error_fields (irc_error completion)
       in bind_res
            (run_update check_import_run (\<lambda>r. ir_id r = import_run_id_value iid)
              (\<lambda>r. r\<lparr>ir_status := import_outcome_value (irc_outcome completion),
                     ir_records_seen := uint (irc_records_seen completion),
                     ir_records_rejected := uint (irc_records_rejected completion),
                     ir_finished_at_ms := Some (irc_finished_at_ms completion),
                     ir_error_code := code, ir_error_detail := detail\<rparr>) (db_import_runs db))
            (\<lambda>(changed, rows).
               map_ok (\<lambda>u. (u, db\<lparr>db_import_runs := rows\<rparr>)) (run_found changed)))"

section \<open>Latest successful import\<close>

text \<open>\<open>ORDER BY finished_at_ms DESC, id DESC LIMIT 1\<close>; NULL is the smallest value.\<close>

definition finish_order :: "import_run_row \<Rightarrow> int \<times> int \<times> int" where
  "finish_order r =
     (case ir_finished_at_ms r of None \<Rightarrow> (0, 0, ir_id r) | Some f \<Rightarrow> (1, f, ir_id r))"

definition lookup_matches :: "database \<Rightarrow> import_run_lookup \<Rightarrow> import_run_row \<Rightarrow> bool" where
  "lookup_matches db lookup r \<longleftrightarrow>
     list_ex (\<lambda>s. so_id s = ir_source_id r \<and> so_source_key s = source_key_as_str (lk_source lookup))
       (db_sources db) \<and>
     ir_projection r = projection_value (lk_projection lookup) \<and>
     (case lk_aggregation_timezone lookup of None \<Rightarrow> True
      | Some tz \<Rightarrow> ir_aggregation_timezone r = Some tz) \<and>
     (case lk_collector_key lookup of None \<Rightarrow> True | Some k \<Rightarrow> ir_collector_key r = k) \<and>
     (case lk_profile_version lookup of None \<Rightarrow> True | Some v \<Rightarrow> ir_profile_version r = uint v) \<and>
     ir_status r = ''succeeded''"

fun latest_row :: "import_run_row list \<Rightarrow> import_run_row option" where
  "latest_row [] = None"
| "latest_row (r # rs) =
     (case latest_row rs of None \<Rightarrow> Some r
      | Some b \<Rightarrow> if finish_order b < finish_order r then Some r else Some b)"

definition latest_successful_import ::
  "chrono \<Rightarrow> import_run_lookup \<Rightarrow> database \<Rightarrow> run_store_error + successful_import_state option" where
  "latest_successful_import c lookup db =
     (case latest_row (filter (lookup_matches db lookup) (db_import_runs db)) of
        None \<Rightarrow> Inr None
      | Some r \<Rightarrow>
          (case ir_finished_at_ms r of None \<Rightarrow> Inl RunStoreBackend
           | Some finished \<Rightarrow>
               map_ok Some (import_state_from_row c lookup (ir_scope_kind r)
                 (ir_scope_start_date r) (ir_scope_end_date r) finished)))"

section \<open>Expiry\<close>

definition import_run_retention_ms :: i64 where
  "import_run_retention_ms = 14 * 24 * 60 * 60 * 1000"

definition import_run_delete_batch :: nat where
  "import_run_delete_batch = 1000"

text \<open>The partition of the window function; the time zone is \<open>IFNULL(aggregation_timezone, '')\<close>.\<close>

definition run_partition :: "import_run_row \<Rightarrow> int \<times> string \<times> string \<times> string \<times> int" where
  "run_partition r =
     (ir_source_id r, ir_projection r,
      (case ir_aggregation_timezone r of None \<Rightarrow> [] | Some tz \<Rightarrow> tz),
      ir_collector_key r, ir_profile_version r)"

definition ranked :: "import_run_row \<Rightarrow> bool" where
  "ranked r \<longleftrightarrow> ir_status r = ''succeeded'' \<and> ir_finished_at_ms r \<noteq> None"

definition newest_of_partition :: "import_run_row list \<Rightarrow> import_run_row \<Rightarrow> bool" where
  "newest_of_partition rows r \<longleftrightarrow>
     ranked r \<and>
     \<not> list_ex (\<lambda>r'. ranked r' \<and> run_partition r' = run_partition r \<and>
                     finish_order r < finish_order r') rows"

definition referenced_imports :: "database \<Rightarrow> int list" where
  "referenced_imports db =
     map (\<lambda>r. fc_latest_import_id (du_facts r)) (db_daily_usage db)
     @ map mu_latest_import_id (db_daily_model_usage db)
     @ map (\<lambda>r. fc_latest_import_id (ss_facts r)) (db_sessions db)
     @ map mu_latest_import_id (db_session_model_usage db)"

definition expired_import_runs :: "i64 \<Rightarrow> database \<Rightarrow> int list" where
  "expired_import_runs cutoff db =
     (let newest = map ir_id (filter (newest_of_partition (db_import_runs db)) (db_import_runs db));
          old = filter (\<lambda>r. (case ir_finished_at_ms r of None \<Rightarrow> False | Some f \<Rightarrow> f < cutoff) \<and>
                            ir_id r \<notin> set newest \<and> ir_id r \<notin> set (referenced_imports db))
                  (db_import_runs db)
      in map ir_id (take import_run_delete_batch (sort_key finish_order old)))"

text \<open>
  The foreign keys on \<open>import_runs\<close> are \<open>ON DELETE RESTRICT\<close>: deleting a referenced row fails.
\<close>

definition delete_expired_import_runs ::
  "i64 \<Rightarrow> database \<Rightarrow> (run_store_error + nat) \<times> database" where
  "delete_expired_import_runs now =
     transact (\<lambda>db.
       let ids = expired_import_runs (i64_saturating_sub now import_run_retention_ms) db;
           gone = filter (\<lambda>r. ir_id r \<in> set ids) (db_import_runs db)
       in if list_ex (\<lambda>i. i \<in> set (map ir_id gone)) (referenced_imports db)
          then Inl RunStoreBackend
          else Inr (length gone,
                    db\<lparr>db_import_runs := filter (\<lambda>r. ir_id r \<notin> set ids) (db_import_runs db)\<rparr>))"

end
