(* ===== verification/RunStoreFacts.thy ===== *)
theory RunStoreFacts
  imports RunStoreDb
begin

text \<open>
  What the run store promises: every operation keeps the schema, recovery leaves no open run, the
  scope of an import survives the round trip through its columns, and expiry is invisible to the
  lookup of the latest successful import.
\<close>

section \<open>Integrity\<close>

text \<open>A change of sources and runs only, which keeps the rows the other tables refer to.\<close>

lemma database_ok_runs:
  assumes "database_ok db"
    and "db' = db\<lparr>db_sources := db_sources db', db_refresh_runs := db_refresh_runs db',
                  db_import_runs := db_import_runs db'\<rparr>"
    and "\<And>s. has_source db s \<Longrightarrow> has_source db' s"
    and "\<And>i s. \<lbrakk>i \<in> set (referenced_imports db); has_import_run db i s\<rbrakk> \<Longrightarrow> has_import_run db' i s"
    and "sources_ok db'" and "runs_ok db'"
  shows "database_ok db'"
proof -
  have same: "db_source_models db' = db_source_models db" "db_projects db' = db_projects db"
    "db_daily_usage db' = db_daily_usage db" "db_daily_model_usage db' = db_daily_model_usage db"
    "db_sessions db' = db_sessions db" "db_session_model_usage db' = db_session_model_usage db"
    by (subst assms(2), simp)+
  have parents: "daily_parents db' = daily_parents db" "session_parents db' = session_parents db"
    by (simp_all add: daily_parents_def session_parents_def same)
  have fks: "has_model db' = has_model db" "has_project db' = has_project db"
    by (simp_all add: has_model_def has_project_def same fun_eq_iff)
  have "models_ok db'" "projects_ok db'"
    using assms(1,3) by (auto simp: database_ok_def models_ok_def projects_ok_def same list_all_iff)
  moreover have "daily_ok db'"
    using assms(1,3,4)
    by (auto simp: database_ok_def daily_ok_def same list_all_iff referenced_imports_def)
  moreover have "sessions_ok db'"
    using assms(1,3,4)
    by (auto simp: database_ok_def sessions_ok_def same list_all_iff referenced_imports_def fks
        split: option.splits)
  moreover have "model_usage_ok (daily_parents db') db' (db_daily_model_usage db')"
    "model_usage_ok (session_parents db') db' (db_session_model_usage db')"
    using assms(1,4)
    by (auto simp: database_ok_def model_usage_ok_def same parents fks list_all_iff
        referenced_imports_def)
  ultimately show ?thesis
    using assms(5,6) by (simp add: database_ok_def)
qed

lemma run_update_Inr:
  "run_update check p f rows = Inr (n, rows') \<longleftrightarrow>
     rows' = update_where p f rows \<and> n = length (filter p rows) \<and>
     (\<forall>r \<in> set rows. p r \<longrightarrow> check (f r))"
  by (auto simp: run_update_def list_all_iff)

lemma runs_ok_update_refresh:
  assumes "runs_ok db" and "\<forall>r \<in> set (db_refresh_runs db). p r \<longrightarrow> check_refresh_run (f r)"
    and "\<And>r. rr_id (f r) = rr_id r" and "\<And>r. rr_job_key (f r) = rr_job_key r"
  shows "runs_ok (db\<lparr>db_refresh_runs := update_where p f (db_refresh_runs db)\<rparr>)"
proof -
  have ids: "map rr_id (update_where p f (db_refresh_runs db)) = map rr_id (db_refresh_runs db)"
    "map rr_job_key (update_where p f (db_refresh_runs db)) = map rr_job_key (db_refresh_runs db)"
    by (simp_all add: update_where_map assms(3,4))
  then have "rr_id ` set (update_where p f (db_refresh_runs db)) = rr_id ` set (db_refresh_runs db)"
    by (metis list.set_map)
  with ids assms(1,2) show ?thesis
    by (auto simp: runs_ok_def has_source_def list_all_iff update_where_set)
qed

lemma runs_ok_update_import:
  assumes "runs_ok db" and "\<forall>r \<in> set (db_import_runs db). p r \<longrightarrow> check_import_run (f r)"
    and "\<And>r. ir_id (f r) = ir_id r" and "\<And>r. ir_source_id (f r) = ir_source_id r"
    and "\<And>r. ir_refresh_run_id (f r) = ir_refresh_run_id r"
  shows "runs_ok (db\<lparr>db_import_runs := update_where p f (db_import_runs db)\<rparr>)"
proof -
  have "map ir_id (update_where p f (db_import_runs db)) = map ir_id (db_import_runs db)"
    by (simp add: update_where_map assms(3))
  with assms show ?thesis
    by (auto simp: runs_ok_def has_source_def list_all_iff update_where_set)
qed

lemma has_import_run_update:
  assumes "\<And>r. ir_id (f r) = ir_id r" and "\<And>r. ir_source_id (f r) = ir_source_id r"
    and "has_import_run db i s"
  shows "has_import_run (db\<lparr>db_import_runs := update_where p f (db_import_runs db)\<rparr>) i s"
proof -
  have "map (\<lambda>r. (ir_id r, ir_source_id r)) (update_where p f (db_import_runs db)) =
      map (\<lambda>r. (ir_id r, ir_source_id r)) (db_import_runs db)"
    by (rule update_where_map) (simp add: assms(1,2))
  with assms(3) show ?thesis
    unfolding has_import_run_def by (simp flip: set_map)
qed

lemma transact_cases:
  assumes "transact body d = (r, d')"
  obtains e where "r = Inl e" and "d' = d" | x where "r = Inr x" and "body d = Inr (x, d')"
  using assms by (auto simp: transact_def split: sum.splits)

lemma transact_keeps:
  assumes "\<And>x d'. body d = Inr (x, d') \<Longrightarrow> Q d'" and "Q d"
  shows "Q (snd (transact body d))"
  using assms by (auto simp: transact_def split: sum.splits)

lemma resolve_source_ok:
  "database_ok db \<Longrightarrow> database_ok (snd (resolve_source source now db))"
  unfolding resolve_source_def
proof (rule transact_keeps, goal_cases)
  case (1 x d')
  let ?key = "source_key_as_str source"
  have n: "next_rowid (map so_id (db_sources db)) \<notin> so_id ` set (db_sources db)"
    using next_rowid_not_in [of "map so_id (db_sources db)"] by simp
  have k: "?key \<notin> so_source_key ` set (db_sources db)"
    if "find (\<lambda>r. so_source_key r = ?key) (db_sources db) = None"
    using that by (auto simp: find_None_iff)
  have "d' = db\<lparr>db_sources := db_sources d'\<rparr> \<and> sources_ok d' \<and>
      set (db_sources db) \<subseteq> set (db_sources d')"
    using 1 n k
    by (auto simp: Let_def database_ok_def sources_ok_def split: if_splits option.splits)
  moreover from this have "has_source d' s" if "has_source db s" for s
    using that by (auto simp: has_source_def)
  moreover have "db_import_runs d' = db_import_runs db" "db_refresh_runs d' = db_refresh_runs db"
    using calculation(1) by (metis database.select_convs(4,5) database.surjective database.update_convs(1))+
  ultimately show ?case
    using 1(1)
    by (intro database_ok_runs [OF 1(1)])
      (auto simp: database_ok_def runs_ok_def has_import_run_def list_all_iff)
qed simp

lemma begin_refresh_run_ok:
  "database_ok db \<Longrightarrow> database_ok (snd (begin_refresh_run spec now db))"
  unfolding begin_refresh_run_def
proof (rule transact_keeps, goal_cases)
  case (1 x d')
  have n: "next_rowid (map rr_id (db_refresh_runs db)) \<notin> rr_id ` set (db_refresh_runs db)"
    using next_rowid_not_in [of "map rr_id (db_refresh_runs db)"] by simp
  define row where "row = last (db_refresh_runs d')"
  from 1(2) have d': "d' = db\<lparr>db_refresh_runs := db_refresh_runs db @ [row]\<rparr>"
    and row: "rr_id row = next_rowid (map rr_id (db_refresh_runs db))" "check_refresh_run row"
      "rr_job_key row \<notin> rr_job_key ` set (db_refresh_runs db)"
    by (auto simp: Let_def list_ex_iff row_def split: if_splits)
  show ?case
    by (rule database_ok_runs [OF 1(1)])
      (use 1(1) n row in \<open>auto simp: d' database_ok_def runs_ok_def sources_ok_def has_source_def
         has_import_run_def list_all_iff\<close>)
qed simp

lemma begin_import_run_ok:
  "database_ok db \<Longrightarrow> database_ok (snd (begin_import_run c spec now db))"
  unfolding begin_import_run_def
proof (rule transact_keeps, goal_cases)
  case (1 x d')
  have n: "next_rowid (map ir_id (db_import_runs db)) \<notin> ir_id ` set (db_import_runs db)"
    using next_rowid_not_in [of "map ir_id (db_import_runs db)"] by simp
  from 1(2) obtain row where d': "d' = db\<lparr>db_import_runs := db_import_runs db @ [row]\<rparr>"
    and row: "ir_id row = next_rowid (map ir_id (db_import_runs db))" "check_import_run row"
      "has_source db (ir_source_id row)" "ir_refresh_run_id row \<in> rr_id ` set (db_refresh_runs db)"
    by (auto simp: Let_def split: if_splits prod.splits)
  show ?case
    by (rule database_ok_runs [OF 1(1)])
      (use 1(1) n row in \<open>auto simp: d' database_ok_def runs_ok_def sources_ok_def has_source_def
         has_import_run_def list_all_iff\<close>)
qed simp

lemma update_refresh_ok:
  assumes "database_ok db" and "\<forall>r \<in> set (db_refresh_runs db). p r \<longrightarrow> check_refresh_run (f r)"
    and "\<And>r. rr_id (f r) = rr_id r" and "\<And>r. rr_job_key (f r) = rr_job_key r"
  shows "database_ok (db\<lparr>db_refresh_runs := update_where p f (db_refresh_runs db)\<rparr>)"
  by (rule database_ok_runs [OF assms(1)])
    (use assms in \<open>auto simp: database_ok_def sources_ok_def has_source_def has_import_run_def
       intro: runs_ok_update_refresh\<close>)

lemma update_import_ok:
  assumes "database_ok db" and "\<forall>r \<in> set (db_import_runs db). p r \<longrightarrow> check_import_run (f r)"
    and "\<And>r. ir_id (f r) = ir_id r" and "\<And>r. ir_source_id (f r) = ir_source_id r"
    and "\<And>r. ir_refresh_run_id (f r) = ir_refresh_run_id r"
  shows "database_ok (db\<lparr>db_import_runs := update_where p f (db_import_runs db)\<rparr>)"
  by (rule database_ok_runs [OF assms(1)])
    (use assms in \<open>auto simp: database_ok_def sources_ok_def has_source_def
       intro: runs_ok_update_import has_import_run_update\<close>)

lemma complete_refresh_run_ok:
  "database_ok db \<Longrightarrow> database_ok (snd (complete_refresh_run rid completion db))"
  unfolding complete_refresh_run_def
  by (rule transact_keeps)
    (auto simp: bind_res_Inr run_update_Inr map_ok_def split: prod.splits sum.splits
      intro!: update_refresh_ok)

lemma complete_import_run_ok:
  "database_ok db \<Longrightarrow> database_ok (snd (complete_import_run iid completion db))"
  unfolding complete_import_run_def
  by (rule transact_keeps)
    (auto simp: bind_res_Inr run_update_Inr map_ok_def split: prod.splits sum.splits
      intro!: update_import_ok)

lemma recover_interrupted_runs_ok:
  assumes "database_ok db"
  shows "database_ok (snd (recover_interrupted_runs now db))"
  unfolding recover_interrupted_runs_def
proof (rule transact_keeps, goal_cases)
  case (1 x d')
  let ?db = "db\<lparr>db_import_runs := update_where (\<lambda>r. ir_status r = ''running'')
      (interrupt_import now) (db_import_runs db)\<rparr>"
  from 1 have c: "\<forall>r \<in> set (db_import_runs db). ir_status r = ''running'' \<longrightarrow>
      check_import_run (interrupt_import now r)"
    "\<forall>r \<in> set (db_refresh_runs db). rr_status r \<in> {''queued'', ''running'', ''cancelling''} \<longrightarrow>
      check_refresh_run (interrupt_refresh now r)"
    and d': "d' = ?db\<lparr>db_refresh_runs :=
      update_where (\<lambda>r. rr_status r \<in> {''queued'', ''running'', ''cancelling''})
        (interrupt_refresh now) (db_refresh_runs ?db)\<rparr>"
    by (auto simp: bind_res_Inr run_update_Inr)
  have "database_ok ?db"
    by (rule update_import_ok [OF assms c(1)]) (simp_all add: interrupt_import_def)
  then show ?case
    unfolding d' by (rule update_refresh_ok) (use c(2) in \<open>simp_all add: interrupt_refresh_def\<close>)
qed (rule assms)

section \<open>Expiry\<close>

lemma finish_order_inj:
  "finish_order a = finish_order b \<Longrightarrow> ir_id a = ir_id b"
  by (auto simp: finish_order_def split: option.splits)

lemma latest_row_None: "latest_row rs = None \<longleftrightarrow> rs = []"
  by (cases rs) (auto split: option.splits)

lemma latest_row_Some:
  "latest_row rs = Some b \<Longrightarrow> b \<in> set rs \<and> (\<forall>r \<in> set rs. finish_order r \<le> finish_order b)"
proof (induction rs arbitrary: b)
  case Nil
  then show ?case by simp
next
  case (Cons r rs)
  show ?case
  proof (cases "latest_row rs")
    case None
    with Cons.prems show ?thesis by (simp add: latest_row_None)
  next
    case (Some b')
    from Cons.IH [OF this] Cons.prems Some show ?thesis
      by (auto split: if_splits intro: order.trans less_imp_le)
  qed
qed

lemma latest_row_eq:
  assumes "distinct (map ir_id rs)" and "b \<in> set rs"
    and "\<forall>r \<in> set rs. finish_order r \<le> finish_order b"
  shows "latest_row rs = Some b"
proof (cases "latest_row rs")
  case None
  with assms(2) show ?thesis by (simp add: latest_row_None)
next
  case (Some b')
  from latest_row_Some [OF this] assms(2,3) have "b' \<in> set rs" "finish_order b' = finish_order b"
    by (auto intro: order.antisym)
  with assms(1,2) have "b' = b" by (auto simp: distinct_map inj_on_def dest: finish_order_inj)
  with Some show ?thesis by simp
qed

lemma latest_row_filter:
  assumes "distinct (map ir_id rs)" and "\<And>b. latest_row rs = Some b \<Longrightarrow> keep b"
  shows "latest_row (filter keep rs) = latest_row rs"
proof (cases "latest_row rs")
  case None
  then show ?thesis by (simp add: latest_row_None)
next
  case (Some b)
  with latest_row_Some [OF Some] assms have "latest_row (filter keep rs) = Some b"
    by (intro latest_row_eq) (auto simp: distinct_map_filter)
  with Some show ?thesis by simp
qed

lemma expired_import_runs_elim:
  assumes "i \<in> set (expired_import_runs cutoff db)"
  obtains r f where "r \<in> set (db_import_runs db)" and "ir_id r = i"
    and "ir_finished_at_ms r = Some f" and "f < cutoff"
    and "\<And>r'. \<lbrakk>r' \<in> set (db_import_runs db); newest_of_partition (db_import_runs db) r'\<rbrakk> \<Longrightarrow> ir_id r' \<noteq> i"
    and "i \<notin> set (referenced_imports db)"
proof -
  from assms obtain r f where r: "r \<in> set (db_import_runs db)" "ir_id r = i"
    "ir_finished_at_ms r = Some f" "f < cutoff" "i \<notin> set (referenced_imports db)"
    and new: "i \<notin> ir_id ` {r \<in> set (db_import_runs db). newest_of_partition (db_import_runs db) r}"
    by (auto simp: expired_import_runs_def Let_def dest!: in_set_takeD split: option.splits)
  show thesis
    by (rule that [OF r(1-4) _ r(5)]) (use new in blast)
qed

lemma expired_import_runs_bound: "length (expired_import_runs cutoff db) \<le> import_run_delete_batch"
  by (simp add: expired_import_runs_def Let_def)

lemma deleted_count_le:
  assumes "distinct (map k xs)"
  shows "length (filter (\<lambda>r. k r \<in> set ids) xs) \<le> length ids"
proof -
  have "distinct (map k (filter (\<lambda>r. k r \<in> set ids) xs))"
    using assms by (simp add: distinct_map_filter)
  moreover have "set (map k (filter (\<lambda>r. k r \<in> set ids) xs)) \<subseteq> set ids" by auto
  ultimately have "length (map k (filter (\<lambda>r. k r \<in> set ids) xs)) \<le> card (set ids)"
    by (metis card_mono distinct_card List.finite_set)
  also have "\<dots> \<le> length ids" by (rule card_length)
  finally show ?thesis by simp
qed

lemma latest_is_newest_of_partition:
  assumes "runs_ok db" and "lk_aggregation_timezone lookup \<noteq> Some []"
    and "latest_row (filter (lookup_matches db lookup) (db_import_runs db)) = Some b"
  shows "newest_of_partition (db_import_runs db) b"
proof -
  from latest_row_Some [OF assms(3)]
  have b: "b \<in> set (db_import_runs db)" "lookup_matches db lookup b"
    and top: "\<And>r. \<lbrakk>r \<in> set (db_import_runs db); lookup_matches db lookup r\<rbrakk>
      \<Longrightarrow> finish_order r \<le> finish_order b"
    by auto
  have "check_import_run b" using assms(1) b(1) by (auto simp: runs_ok_def list_all_iff)
  with b(2) have "ranked b" by (auto simp: ranked_def lookup_matches_def check_import_run_def)
  moreover have "lookup_matches db lookup r"
    if "ranked r" and "run_partition r = run_partition b" for r
    using that b(2) assms(2)
    by (auto simp: lookup_matches_def run_partition_def ranked_def split: option.splits)
  ultimately show ?thesis
    by (auto simp: newest_of_partition_def list_ex_iff not_less dest: top)
qed

section \<open>Properties\<close>

lemma delete_expired_import_runs_eq:
  fixes db :: database and now :: i64
  defines "ids \<equiv> expired_import_runs (i64_saturating_sub now import_run_retention_ms) db"
  defines "db' \<equiv> db\<lparr>db_import_runs := filter (\<lambda>r. ir_id r \<notin> set ids) (db_import_runs db)\<rparr>"
  assumes "database_ok db"
  shows "\<exists>n \<le> 1000. delete_expired_import_runs now db = (Inr n, db')" and "database_ok db'"
proof -
  let ?rows = "db_import_runs db"
  define gone where "gone = filter (\<lambda>r. ir_id r \<in> set ids) ?rows"
  have rok: "runs_ok db" using assms(3) by (simp add: database_ok_def)
  then have dist: "distinct (map ir_id ?rows)" by (simp add: runs_ok_def)
  have free: "i \<notin> set (referenced_imports db)" if "i \<in> set ids" for i
    using that unfolding ids_def by (rule expired_import_runs_elim)
  then have "\<not> list_ex (\<lambda>i. i \<in> set (map ir_id gone)) (referenced_imports db)"
    by (auto simp: list_ex_iff gone_def)
  then have run: "delete_expired_import_runs now db = (Inr (length gone), db')"
    by (simp add: delete_expired_import_runs_def transact_def Let_def gone_def ids_def db'_def)
  have "length gone \<le> length ids" unfolding gone_def by (rule deleted_count_le [OF dist])
  also have "\<dots> \<le> 1000"
    using expired_import_runs_bound unfolding ids_def by (simp add: import_run_delete_batch_def)
  finally show "\<exists>n \<le> 1000. delete_expired_import_runs now db = (Inr n, db')" using run by blast
  show "database_ok db'"
  proof (rule database_ok_runs [OF assms(3)])
    show "has_import_run db' i s" if "i \<in> set (referenced_imports db)" "has_import_run db i s" for i s
      using that free by (auto simp: has_import_run_def db'_def)
    show "runs_ok db'"
      using rok by (auto simp: runs_ok_def db'_def has_source_def list_all_iff distinct_map_filter)
    show "sources_ok db'" using assms(3) by (simp add: db'_def sources_ok_def database_ok_def)
  qed (simp_all add: db'_def has_source_def)
qed

text \<open>
  C6: Expiring import runs is safe and invisible. On a well-formed database the deletion never fails,
  removes at most 1000 runs, removes only runs finished more than 14 days ago that no usage row
  refers to, keeps every schema constraint, and does not change the answer of
  \<open>latest_successful_import\<close> for any lookup the constructors of \<open>ImportRunLookup\<close> can build (they
  reject a blank time zone), so that no refresh is planned differently after it.
\<close>
theorem delete_expired_import_runs_safe:
  assumes "database_ok db"
  shows "\<exists>n db'. delete_expired_import_runs now db = (Inr n, db') \<and> n \<le> 1000 \<and> database_ok db' \<and>
    set (db_import_runs db') \<subseteq> set (db_import_runs db) \<and>
    (\<forall>r \<in> set (db_import_runs db) - set (db_import_runs db').
       ir_id r \<notin> set (referenced_imports db) \<and>
       (\<exists>f. ir_finished_at_ms r = Some f \<and> f < i64_saturating_sub now 1209600000)) \<and>
    (\<forall>lookup. lk_aggregation_timezone lookup \<noteq> Some [] \<longrightarrow>
       latest_successful_import c lookup db' = latest_successful_import c lookup db)"
proof -
  let ?rows = "db_import_runs db"
  define ids where "ids = expired_import_runs (i64_saturating_sub now import_run_retention_ms) db"
  define db' where "db' = db\<lparr>db_import_runs := filter (\<lambda>r. ir_id r \<notin> set ids) ?rows\<rparr>"
  have rok: "runs_ok db" using assms by (simp add: database_ok_def)
  then have dist: "distinct (map ir_id ?rows)" by (simp add: runs_ok_def)
  have free: "i \<notin> set (referenced_imports db)" if "i \<in> set ids" for i
    using that unfolding ids_def by (rule expired_import_runs_elim)
  from delete_expired_import_runs_eq [OF assms, of now] obtain n where
    run: "delete_expired_import_runs now db = (Inr n, db')" and bound: "n \<le> 1000"
    and ok: "database_ok db'"
    unfolding db'_def ids_def by blast
  have expired: "ir_id r \<notin> set (referenced_imports db) \<and>
      (\<exists>f. ir_finished_at_ms r = Some f \<and> f < i64_saturating_sub now 1209600000)"
    if "r \<in> set ?rows - set (db_import_runs db')" for r
  proof -
    from that have r: "r \<in> set ?rows" "ir_id r \<in> set ids" by (auto simp: db'_def)
    from r(2) obtain r' f where "r' \<in> set ?rows" "ir_id r' = ir_id r" "ir_finished_at_ms r' = Some f"
      "f < i64_saturating_sub now import_run_retention_ms"
      unfolding ids_def by (rule expired_import_runs_elim)
    moreover from this r(1) dist have "r' = r" by (auto simp: distinct_map inj_on_def)
    ultimately show ?thesis using free r(2) by (simp add: import_run_retention_ms_def)
  qed
  have latest: "latest_successful_import c lookup db' = latest_successful_import c lookup db"
    if "lk_aggregation_timezone lookup \<noteq> Some []" for lookup
  proof -
    let ?m = "lookup_matches db lookup"
    have kept: "ir_id b \<notin> set ids" if b: "latest_row (filter ?m ?rows) = Some b" for b
    proof
      assume "ir_id b \<in> set ids"
      moreover have "newest_of_partition ?rows b" "b \<in> set ?rows"
        using latest_is_newest_of_partition [OF rok \<open>lk_aggregation_timezone lookup \<noteq> Some []\<close> b]
          latest_row_Some [OF b] by auto
      ultimately show False unfolding ids_def by (auto elim: expired_import_runs_elim)
    qed
    have "filter (lookup_matches db' lookup) (db_import_runs db') =
        filter (\<lambda>r. ir_id r \<notin> set ids) (filter ?m ?rows)"
      by (auto simp: db'_def lookup_matches_def intro: filter_cong)
    moreover have "latest_row (filter (\<lambda>r. ir_id r \<notin> set ids) (filter ?m ?rows)) =
        latest_row (filter ?m ?rows)"
      by (rule latest_row_filter) (use dist kept in \<open>auto simp: distinct_map_filter\<close>)
    ultimately show ?thesis by (simp add: latest_successful_import_def)
  qed
  have "set (db_import_runs db') \<subseteq> set ?rows" by (auto simp: db'_def)
  with run bound ok expired latest show ?thesis by blast
qed

theorem delete_expired_import_runs_safe_witness:
  "\<exists>n db'. delete_expired_import_runs 300 demo_database = (Inr n, db') \<and> n \<le> 1000"
  using delete_expired_import_runs_safe [OF demo_database_ok, of 300 gregorian] by blast

text \<open>An import run as the later lookups see it: begun, then completed.\<close>

definition finish_import :: "import_run_completion \<Rightarrow> import_run_row \<Rightarrow> import_run_row" where
  "finish_import fin r =
     r\<lparr>ir_status := import_outcome_value (irc_outcome fin),
       ir_records_seen := uint (irc_records_seen fin),
       ir_records_rejected := uint (irc_records_rejected fin),
       ir_finished_at_ms := Some (irc_finished_at_ms fin),
       ir_error_code := fst (error_fields (irc_error fin)),
       ir_error_detail := snd (error_fields (irc_error fin))\<rparr>"

definition lookup_admits :: "import_run_lookup \<Rightarrow> import_run_spec \<Rightarrow> bool" where
  "lookup_admits lookup spec \<longleftrightarrow>
     lk_projection lookup = irs_projection spec \<and>
     (\<forall>tz. lk_aggregation_timezone lookup = Some tz \<longrightarrow> irs_aggregation_timezone spec = Some tz) \<and>
     (\<forall>k. lk_collector_key lookup = Some k \<longrightarrow> ic_collector_key (irs_collector spec) = k) \<and>
     (\<forall>v. lk_profile_version lookup = Some v \<longrightarrow> ic_profile_version (irs_collector spec) = v)"

lemma resolve_source_row:
  assumes "resolve_source source now db = (Inr sid, db')"
  shows "\<exists>s \<in> set (db_sources db'). so_id s = source_id_value sid \<and> so_source_key s = source_key_as_str source"
    and "db_import_runs db' = db_import_runs db"
    and "\<exists>new. db_sources db' = db_sources db @ new \<and> (\<forall>s \<in> set new. so_id s \<notin> so_id ` set (db_sources db))"
  using assms next_rowid_not_in [of "map so_id (db_sources db)"]
  by (auto simp: resolve_source_def transact_def Let_def find_Some_iff split: if_splits option.splits)

lemma begin_import_run_Inr:
  assumes "begin_import_run c spec started db = (Inr iid, db')"
  shows "\<exists>row. db' = db\<lparr>db_import_runs := db_import_runs db @ [row]\<rparr> \<and>
    iid = ImportRunId (ir_id row) \<and> ir_id row = next_rowid (map ir_id (db_import_runs db)) \<and>
    ir_source_id row = source_id_value (irs_source_id spec) \<and>
    ir_projection row = projection_value (irs_projection spec) \<and>
    ir_aggregation_timezone row = irs_aggregation_timezone spec \<and>
    ir_collector_key row = ic_collector_key (irs_collector spec) \<and>
    ir_profile_version row = uint (ic_profile_version (irs_collector spec)) \<and>
    (ir_scope_kind row, ir_scope_start_date row, ir_scope_end_date row) = scope_fields c (irs_scope spec)"
  using assms
  by (auto simp: begin_import_run_def transact_def Let_def split: if_splits prod.splits)

lemma complete_import_run_Inr:
  assumes "complete_import_run iid completion db = (Inr (), db')"
  shows "db_sources db' = db_sources db"
    and "db_import_runs db' = update_where (\<lambda>r. ir_id r = import_run_id_value iid)
      (finish_import completion) (db_import_runs db)"
  using assms
  by (auto simp: complete_import_run_def transact_def bind_res_Inr run_update_Inr map_ok_def
      finish_import_def [abs_def] split: prod.splits sum.splits)

lemma update_where_last:
  assumes "\<And>r. r \<in> set rows \<Longrightarrow> \<not> p r" and "p x"
  shows "update_where p f (rows @ [x]) = rows @ [f x]"
  using assms by (simp add: update_where_def map_idI)

lemma latest_row_last:
  assumes "\<forall>r \<in> set rows. finish_order r < finish_order x"
  shows "latest_row (rows @ [x]) = Some x"
  using assms by (induction rows) (auto dest: less_asym)

lemma import_state_of_scope_fields:
  assumes "scope_valid scope"
    and "\<And>r. scope = Incremental r \<Longrightarrow> parse_date c (date_to_string c (start_date r)) = Some (start_date r) \<and>
      parse_date c (date_to_string c (end_date r)) = Some (end_date r)"
    and "(kind, start_d, end_d) = scope_fields c scope"
  shows "import_state_from_row c lookup kind start_d end_d finished =
    Inr \<lparr>sis_source = lk_source lookup, sis_projection = lk_projection lookup, sis_scope = scope,
         sis_finished_at_ms = finished\<rparr>"
  using assms
  by (cases scope) (auto simp: import_state_from_row_def parse_scope_date_def collection_scope_incremental_ok)

lemma lookup_matches_sources:
  assumes "has_source db (ir_source_id r)"
    and "db_sources db' = db_sources db @ new" "\<forall>s \<in> set new. so_id s \<notin> so_id ` set (db_sources db)"
  shows "lookup_matches db' lookup r = lookup_matches db lookup r"
proof -
  have "so_id s \<noteq> ir_source_id r" if "s \<in> set new" for s
    using assms(1,3) that by (auto simp: has_source_def)
  then show ?thesis by (auto simp: lookup_matches_def assms(2) list_ex_iff)
qed

text \<open>
  C13: A completed import is what the next plan starts from. When the source of an import is
  resolved, its run begun, and the run completed (other stores may have written anything but sources
  and import runs in between) at a time not before the earlier successful imports, a lookup that
  admits the run finds it with exactly its scope and finishing time if it was completed as
  succeeded, and otherwise answers as before the import. The calendar is assumed to read back the
  dates of the scope as it wrote them.
\<close>
theorem completed_import_is_latest:
  assumes "database_ok db0"
    and "resolve_source source now db0 = (Inr sid, db1)"
    and "begin_import_run c spec started db1 = (Inr iid, db2)" and "irs_source_id spec = sid"
    and "db_import_runs db3 = db_import_runs db2" and "db_sources db3 = db_sources db2"
    and "complete_import_run iid completion db3 = (Inr (), db4)"
    and "lk_source lookup = source" and "lookup_admits lookup spec" and "scope_valid (irs_scope spec)"
    and "\<And>r. irs_scope spec = Incremental r \<Longrightarrow>
      parse_date c (date_to_string c (start_date r)) = Some (start_date r) \<and>
      parse_date c (date_to_string c (end_date r)) = Some (end_date r)"
    and "\<forall>r \<in> set (db_import_runs db0). \<forall>f. ir_status r = ''succeeded'' \<longrightarrow>
      ir_finished_at_ms r = Some f \<longrightarrow> f \<le> irc_finished_at_ms completion"
  shows "latest_successful_import c lookup db4 =
    (if irc_outcome completion = ImportSucceeded
     then Inr (Some \<lparr>sis_source = source, sis_projection = irs_projection spec,
                     sis_scope = irs_scope spec, sis_finished_at_ms = irc_finished_at_ms completion\<rparr>)
     else latest_successful_import c lookup db0)"
proof -
  let ?old = "db_import_runs db0"
  note resolved = resolve_source_row [OF assms(2)] and completed = complete_import_run_Inr [OF assms(7)]
  from begin_import_run_Inr [OF assms(3)] obtain row where
    db2: "db2 = db1\<lparr>db_import_runs := ?old @ [row]\<rparr>" and iid: "iid = ImportRunId (ir_id row)"
    and fresh: "ir_id row = next_rowid (map ir_id ?old)"
    and fields: "ir_source_id row = source_id_value sid"
      "ir_projection row = projection_value (irs_projection spec)"
      "ir_aggregation_timezone row = irs_aggregation_timezone spec"
      "ir_collector_key row = ic_collector_key (irs_collector spec)"
      "ir_profile_version row = uint (ic_profile_version (irs_collector spec))"
      "(ir_scope_kind row, ir_scope_start_date row, ir_scope_end_date row) = scope_fields c (irs_scope spec)"
    by (auto simp: assms(4) resolved(2))
  define final where "final = finish_import completion row"
  have ids: "ir_id r < ir_id row" if "r \<in> set ?old" for r
    using next_rowid_fresh [of "ir_id r" "map ir_id ?old"] that by (simp add: fresh)
  then have db4: "db_import_runs db4 = ?old @ [final]"
    unfolding completed(2) assms(5) db2 final_def
    by (simp add: iid) (rule update_where_last, auto dest: ids)
  have sources: "db_sources db4 = db_sources db1" by (simp add: completed(1) assms(6) db2)
  have old: "lookup_matches db4 lookup r = lookup_matches db0 lookup r" if "r \<in> set ?old" for r
  proof -
    have "has_source db0 (ir_source_id r)"
      using assms(1) that by (auto simp: database_ok_def runs_ok_def list_all_iff)
    with resolved(3) sources show ?thesis by (metis lookup_matches_sources)
  qed
  then have earlier: "filter (lookup_matches db4 lookup) ?old = filter (lookup_matches db0 lookup) ?old"
    by (rule filter_cong [OF refl])
  show ?thesis
  proof (cases "irc_outcome completion = ImportSucceeded")
    case False
    then have "\<not> lookup_matches db4 lookup final"
      by (cases "irc_outcome completion") (simp_all add: lookup_matches_def final_def finish_import_def)
    with False earlier show ?thesis by (simp add: latest_successful_import_def db4)
  next
    case True
    have "lookup_matches db4 lookup final"
      using resolved(1) assms(8,9) True fields sources
      by (auto simp: lookup_matches_def final_def finish_import_def list_ex_iff lookup_admits_def split: option.splits)
    moreover have "finish_order r < finish_order final"
      if "r \<in> set (filter (lookup_matches db0 lookup) ?old)" for r
      using that assms(12) ids [of r]
      by (cases "ir_finished_at_ms r")
         (fastforce simp: finish_order_def final_def finish_import_def lookup_matches_def)+
    ultimately have latest: "latest_row (filter (lookup_matches db4 lookup) (db_import_runs db4)) = Some final"
      unfolding db4 filter_append earlier by (simp add: latest_row_last)
    have final: "ir_finished_at_ms final = Some (irc_finished_at_ms completion)"
      "(ir_scope_kind final, ir_scope_start_date final, ir_scope_end_date final) = scope_fields c (irs_scope spec)"
      by (simp_all add: final_def finish_import_def fields)
    from True assms(8,9) latest final
      import_state_of_scope_fields [OF assms(10,11) final(2), of lookup "irc_finished_at_ms completion"]
    show ?thesis by (simp add: latest_successful_import_def lookup_admits_def)
  qed
qed

definition demo_spec :: import_run_spec where
  "demo_spec =
     \<lparr>irs_refresh_run_id = RefreshRunId 1, irs_source_id = SourceId 1,
      irs_collector = \<lparr>ic_collector_key = ''burnly'', ic_collector_version = ''1.0.0'', ic_profile_version = 1\<rparr>,
      irs_projection = Daily,
      irs_scope = Incremental \<lparr>start_date = NaiveDate 20616, end_date = NaiveDate 20618\<rparr>,
      irs_aggregation_timezone = Some ''UTC''\<rparr>"

definition demo_completion :: import_run_completion where
  "demo_completion =
     \<lparr>irc_outcome = ImportSucceeded, irc_records_seen = 2, irc_records_rejected = 0,
      irc_finished_at_ms = 400, irc_error = None\<rparr>"

definition demo_lookup :: import_run_lookup where
  "demo_lookup =
     \<lparr>lk_source = Codex, lk_projection = Daily, lk_aggregation_timezone = Some ''UTC'',
      lk_collector_key = Some ''burnly'', lk_profile_version = Some 1\<rparr>"

theorem completed_import_is_latest_witness:
  "\<exists>db2 db4. begin_import_run gregorian demo_spec 300 demo_database = (Inr (ImportRunId 3), db2) \<and>
     complete_import_run (ImportRunId 3) demo_completion db2 = (Inr (), db4) \<and>
     latest_successful_import gregorian demo_lookup db4 =
       Inr (Some \<lparr>sis_source = Codex, sis_projection = Daily, sis_scope = irs_scope demo_spec,
                  sis_finished_at_ms = 400\<rparr>)"
proof -
  have resolved: "resolve_source Codex 300 demo_database = (Inr (SourceId 1), demo_database)"
    by (simp add: resolve_source_def transact_def Let_def demo_defs check_source_def sql_nonblank_def)
  have dates: "gregorian_date (NaiveDate 20616) = ''2026-06-12''" "gregorian_date (NaiveDate 20618) = ''2026-06-14''"
    by (simp_all add: gregorian_eval)
  obtain db2 where begun: "begin_import_run gregorian demo_spec 300 demo_database = (Inr (ImportRunId 3), db2)"
    by (simp add: begin_import_run_def transact_def Let_def demo_defs demo_spec_def dates
        check_import_run_def sql_nonblank_def sql_date_shape_def has_source_def next_rowid_def)
  obtain db4 where completed: "complete_import_run (ImportRunId 3) demo_completion db2 = (Inr (), db4)"
    using begun
    by (auto simp: begin_import_run_def complete_import_run_def transact_def Let_def demo_defs demo_spec_def
        dates demo_completion_def run_update_def run_found_def map_ok_def error_fields_def
        check_import_run_def sql_nonblank_def sql_date_shape_def has_source_def next_rowid_def)
  have parse: "parse_date gregorian (date_to_string gregorian (NaiveDate 20616)) = Some (NaiveDate 20616)"
    "parse_date gregorian (date_to_string gregorian (NaiveDate 20618)) = Some (NaiveDate 20618)"
    by (simp_all add: gregorian_parse_def dates digits_value_def days_from_civil_def)
  from completed_import_is_latest [OF demo_database_ok resolved begun _ refl refl completed, of demo_lookup]
    begun completed parse
  show ?thesis
    by (auto simp: demo_spec_def demo_completion_def demo_lookup_def lookup_admits_def demo_database_def
        demo_import_row_def less_eq_naive_date_def empty_database_def)
qed

lemma update_where_cleared:
  assumes "\<And>r. \<not> p (f r)" and "r \<in> set (update_where p f rows)"
  shows "\<not> p r"
proof -
  from assms(2) have "r \<in> (\<lambda>x. if p x then f x else x) ` set rows"
    by (simp only: update_where_def set_map)
  then obtain x where "r = (if p x then f x else x)" by (rule imageE)
  with assms(1) [of x] show ?thesis by (cases "p x") simp_all
qed

lemma update_where_kept: "\<lbrakk>r \<in> set rows; \<not> p r\<rbrakk> \<Longrightarrow> r \<in> set (update_where p f rows)"
  by (auto simp: update_where_set)

lemma interrupt_import_check: "check_import_run r \<Longrightarrow> check_import_run (interrupt_import now r)"
  by (auto simp: check_import_run_def interrupt_import_def split: option.splits)

lemma interrupt_refresh_check:
  "\<lbrakk>check_refresh_run r; 0 \<le> now\<rbrakk> \<Longrightarrow> check_refresh_run (interrupt_refresh now r)"
  by (auto simp: check_refresh_run_def interrupt_refresh_def non_negative_def split: option.splits)

text \<open>
  C14: Recovery closes exactly the interrupted runs. At any non-negative clock reading it succeeds on a
  well-formed database, even when the clock went backwards; afterwards no refresh run is queued,
  running or cancelling and no import run is running; runs that had already ended are untouched;
  and the reported counts are the numbers of runs that were open.
\<close>
theorem recover_interrupted_runs_closes_open_runs:
  assumes "database_ok db" and "0 \<le> now"
  shows "\<exists>recovery db'. recover_interrupted_runs now db = (Inr recovery, db') \<and>
    (\<forall>r \<in> set (db_refresh_runs db'). rr_status r \<notin> {''queued'', ''running'', ''cancelling''}) \<and>
    (\<forall>r \<in> set (db_import_runs db'). ir_status r \<noteq> ''running'') \<and>
    (\<forall>r \<in> set (db_refresh_runs db).
       rr_status r \<notin> {''queued'', ''running'', ''cancelling''} \<longrightarrow> r \<in> set (db_refresh_runs db')) \<and>
    (\<forall>r \<in> set (db_import_runs db). ir_status r \<noteq> ''running'' \<longrightarrow> r \<in> set (db_import_runs db')) \<and>
    irr_import_runs recovery =
      length (filter (\<lambda>r. ir_status r = ''running'') (db_import_runs db)) \<and>
    irr_refresh_runs recovery =
      length (filter (\<lambda>r. rr_status r \<in> {''queued'', ''running'', ''cancelling''})
        (db_refresh_runs db))"
proof -
  define p where "p = (\<lambda>r :: import_run_row. ir_status r = ''running'')"
  define q where "q = (\<lambda>r :: refresh_run_row. rr_status r \<in> {''queued'', ''running'', ''cancelling''})"
  define irows where "irows = update_where p (interrupt_import now) (db_import_runs db)"
  define rrows where "rrows = update_where q (interrupt_refresh now) (db_refresh_runs db)"
  have "\<forall>r \<in> set (db_import_runs db). check_import_run r"
    "\<forall>r \<in> set (db_refresh_runs db). check_refresh_run r"
    using assms(1) by (auto simp: database_ok_def runs_ok_def list_all_iff)
  then have "run_update check_import_run p (interrupt_import now) (db_import_runs db) =
      Inr (length (filter p (db_import_runs db)), irows)"
    and "run_update check_refresh_run q (interrupt_refresh now) (db_refresh_runs db) =
      Inr (length (filter q (db_refresh_runs db)), rrows)"
    unfolding irows_def rrows_def run_update_Inr
    using assms(2) by (simp_all add: interrupt_import_check interrupt_refresh_check)
  then have run: "recover_interrupted_runs now db =
      (Inr \<lparr>irr_refresh_runs = length (filter q (db_refresh_runs db)),
            irr_import_runs = length (filter p (db_import_runs db))\<rparr>,
       db\<lparr>db_import_runs := irows, db_refresh_runs := rrows\<rparr>)"
    unfolding recover_interrupted_runs_def p_def [symmetric] q_def [symmetric]
    by (simp add: transact_def)
  have "\<not> p (interrupt_import now r)" "\<not> q (interrupt_refresh now r')" for r r'
    by (simp_all add: p_def q_def interrupt_import_def interrupt_refresh_def)
  then have closed: "\<forall>r \<in> set irows. \<not> p r" "\<forall>r \<in> set rrows. \<not> q r"
    unfolding irows_def rrows_def
    using update_where_cleared [of p "interrupt_import now"]
      update_where_cleared [of q "interrupt_refresh now"] by simp_all
  have kept: "\<forall>r \<in> set (db_import_runs db). \<not> p r \<longrightarrow> r \<in> set irows"
    "\<forall>r \<in> set (db_refresh_runs db). \<not> q r \<longrightarrow> r \<in> set rrows"
    unfolding irows_def rrows_def
    using update_where_kept [of _ _ p] update_where_kept [of _ _ q] by simp_all
  have "irr_import_runs \<lparr>irr_refresh_runs = m, irr_import_runs = n\<rparr> = n"
    "irr_refresh_runs \<lparr>irr_refresh_runs = m, irr_import_runs = n\<rparr> = m"
    "db_import_runs (db\<lparr>db_import_runs := irows, db_refresh_runs := rrows\<rparr>) = irows"
    "db_refresh_runs (db\<lparr>db_import_runs := irows, db_refresh_runs := rrows\<rparr>) = rrows" for m n
    by simp_all
  note fields = this
  show ?thesis
    by (rule exI, rule exI, intro conjI, rule run; unfold fields)
      (rule closed [unfolded p_def q_def] kept [unfolded p_def q_def] refl | simp only: p_def q_def)+
qed

theorem recover_interrupted_runs_closes_open_runs_witness:
  "\<exists>recovery db'. recover_interrupted_runs 50 demo_database = (Inr recovery, db') \<and>
     irr_import_runs recovery = 1 \<and> (\<forall>r \<in> set (db_import_runs db'). ir_status r \<noteq> ''running'')"
proof -
  have one: "length (filter (\<lambda>r. ir_status r = ''running'') (db_import_runs demo_database)) = 1"
    by code_simp
  have "0 \<le> (50 :: i64)" by simp
  from recover_interrupted_runs_closes_open_runs [OF demo_database_ok this] one show ?thesis
    by (elim exE conjE) (intro exI conjI, assumption, simp only:, assumption)
qed

end
