(* ===== verification/Cost.thy ===== *)
theory Cost
  imports Collection "HOL-Library.Log_Nat"
begin

text \<open>
  The cost calculator of \<open>src/src-tauri/src/application/cost\<close>: lookup in the pricing snapshot
  (\<open>snapshot.rs\<close>), pricing of token counts and gap-filling of candidates (\<open>calculator.rs\<close>).

  An \<open>f64\<close> is a rational, an infinity or NaN; every operation computes exactly and rounds to the
  nearest double, ties to even (\<open>f64_round\<close>). The sign of zero is not represented: no
  operation of the code depends on it. The content of the snapshot file is data; the snapshot is
  the list of its entries in the iteration order of the \<open>HashMap\<close>, which is unspecified.
\<close>

section \<open>Double precision numbers\<close>

datatype f64 = Finite rat | Infinite bool | NotANumber

abbreviation pow2 :: "int \<Rightarrow> rat" where
  "pow2 e \<equiv> 2 powi e"

text \<open>The exponent of the leading bit of a positive rational: \<open>2 ^ e \<le> x < 2 ^ (e + 1)\<close>.\<close>

definition leading_exponent :: "rat \<Rightarrow> int" where
  "leading_exponent x =
     (let (p, q) = quotient_of x; k = bitlen p - bitlen q
      in if pow2 k \<le> x then k else k - 1)"

definition round_half_even :: "rat \<Rightarrow> int" where
  "round_half_even x =
     (let n = \<lfloor>x\<rfloor>; r = x - of_int n
      in if r < 1 / 2 then n else if 1 / 2 < r then n + 1 else if even n then n else n + 1)"

definition f64_round :: "rat \<Rightarrow> f64" where
  "f64_round x =
     (if x = 0 then Finite 0
      else let e = max (leading_exponent \<bar>x\<bar> - 52) (- 1074);
               y = of_int (round_half_even (x / pow2 e)) * pow2 e
           in if pow2 1024 \<le> \<bar>y\<bar> then Infinite (x < 0) else Finite y)"

fun f64_mul :: "f64 \<Rightarrow> f64 \<Rightarrow> f64" where
  "f64_mul (Finite a) (Finite b) = f64_round (a * b)"
| "f64_mul (Infinite s) (Infinite t) = Infinite (s \<noteq> t)"
| "f64_mul (Infinite s) (Finite b) = (if b = 0 then NotANumber else Infinite (s \<noteq> (b < 0)))"
| "f64_mul (Finite a) (Infinite t) = (if a = 0 then NotANumber else Infinite ((a < 0) \<noteq> t))"
| "f64_mul NotANumber y = NotANumber"
| "f64_mul x NotANumber = NotANumber"

fun f64_add :: "f64 \<Rightarrow> f64 \<Rightarrow> f64" where
  "f64_add (Finite a) (Finite b) = f64_round (a + b)"
| "f64_add (Infinite s) (Infinite t) = (if s = t then Infinite s else NotANumber)"
| "f64_add (Infinite s) (Finite b) = Infinite s"
| "f64_add (Finite a) (Infinite t) = Infinite t"
| "f64_add NotANumber y = NotANumber"
| "f64_add x NotANumber = NotANumber"

definition f64_of_u64 :: "u64 \<Rightarrow> f64" where
  "f64_of_u64 w = f64_round (of_int (uint w))"

text \<open>\<open>x.floor()\<close> of a finite double is exact; \<open>x as u64\<close> saturates.\<close>

definition u64_of_int_saturating :: "int \<Rightarrow> u64" where
  "u64_of_int_saturating n = (if n < 0 then 0 else if 2 ^ 64 \<le> n then - 1 else word_of_int n)"

section \<open>The pricing snapshot\<close>

record pricing_entry =
  pe_input :: f64
  pe_output :: f64
  pe_cache_read :: "f64 option"
  pe_cache_write :: "f64 option"

record raw_entry =
  raw_i :: f64
  raw_o :: f64
  raw_cr :: "f64 option"
  raw_cw :: "f64 option"

definition pricing_entry_from_raw :: "raw_entry \<Rightarrow> pricing_entry" where
  "pricing_entry_from_raw raw =
     \<lparr>pe_input = raw_i raw, pe_output = raw_o raw, pe_cache_read = raw_cr raw,
      pe_cache_write = raw_cw raw\<rparr>"

type_synonym pricing_snapshot = "(string \<times> pricing_entry) list"

definition snapshot_load :: "(string \<times> raw_entry) list \<Rightarrow> pricing_snapshot" where
  "snapshot_load raw = map (\<lambda>(model, entry). (model, pricing_entry_from_raw entry)) raw"

definition normalize_model :: "string \<Rightarrow> string" where
  "normalize_model model =
     map (\<lambda>ch. if ch \<in> {CHR ''.'', CHR ''@'', CHR ''/''} then CHR ''-'' else ch) model"

text \<open>\<open>Iterator::max_by_key\<close>: the last of the maximal elements.\<close>

fun max_by_len :: "(string \<times> 'e) list \<Rightarrow> (string \<times> 'e) option" where
  "max_by_len [] = None"
| "max_by_len (x # xs) =
     (case max_by_len xs of None \<Rightarrow> Some x
      | Some y \<Rightarrow> if length (fst y) < length (fst x) then Some x else Some y)"

definition snapshot_find :: "pricing_snapshot \<Rightarrow> string \<Rightarrow> pricing_entry option" where
  "snapshot_find entries model =
     (case map_of entries model of
        Some entry \<Rightarrow> Some entry
      | None \<Rightarrow>
          (case map_of entries (normalize_model model) of
             Some entry \<Rightarrow> Some entry
           | None \<Rightarrow>
               map_option snd
                 (max_by_len
                   (filter (\<lambda>(cand, _). length cand < length model \<and> prefix cand model)
                     entries))))"

section \<open>Pricing\<close>

definition usd_to_micros :: "f64 \<Rightarrow> u64 option" where
  "usd_to_micros usd =
     (case usd of
        Finite x \<Rightarrow>
          if x < 0 then None
          else (case f64_add (f64_mul usd (Finite 1000000)) (Finite (1 / 2)) of
                  Finite y \<Rightarrow>
                    if 2 ^ 64 < \<lfloor>y\<rfloor> then None else Some (u64_of_int_saturating \<lfloor>y\<rfloor>)
                | _ \<Rightarrow> None)
      | _ \<Rightarrow> None)"

definition unwrap_or_zero :: "u64 option \<Rightarrow> u64" where
  "unwrap_or_zero x = (case x of None \<Rightarrow> 0 | Some n \<Rightarrow> n)"

definition price_tokens :: "token_usage \<Rightarrow> pricing_entry \<Rightarrow> u64 option" where
  "price_tokens tokens entry =
     (let inp = f64_mul (f64_of_u64 (unwrap_or_zero (input_tokens tokens))) (pe_input entry);
          outp = f64_mul (f64_of_u64 (unwrap_or_zero (output_tokens tokens))) (pe_output entry);
          cache_read =
            f64_mul (f64_of_u64 (unwrap_or_zero (cache_read_tokens tokens)))
              (case pe_cache_read entry of None \<Rightarrow> Finite 0 | Some r \<Rightarrow> r);
          cache_write =
            f64_mul (f64_of_u64 (unwrap_or_zero (cache_creation_tokens tokens)))
              (case pe_cache_write entry of None \<Rightarrow> pe_input entry | Some r \<Rightarrow> r)
      in usd_to_micros (f64_add (f64_add (f64_add inp outp) cache_read) cache_write))"

definition usd_code :: currency_code where
  "usd_code = CurrencyCode ''USD''"

definition calculate_cost :: "string \<Rightarrow> token_usage \<Rightarrow> pricing_snapshot \<Rightarrow> usage_cost" where
  "calculate_cost model tokens snapshot =
     (if total_tokens tokens = 0 then NotApplicable BurnlyCalculated
      else case snapshot_find snapshot model of
        None \<Rightarrow> Unavailable BurnlyCalculated
      | Some entry \<Rightarrow>
          (case price_tokens tokens entry of
             None \<Rightarrow> Unavailable BurnlyCalculated
           | Some micros \<Rightarrow>
               if micros = 0 then NotApplicable BurnlyCalculated
               else Valued micros usd_code BurnlyCalculated Estimated))"

section \<open>Gap-filling\<close>

definition gap_fill_cost ::
  "string option \<Rightarrow> token_usage \<Rightarrow> pricing_snapshot \<Rightarrow> usage_cost \<Rightarrow> usage_cost" where
  "gap_fill_cost model tokens snapshot current =
     (case current of
        Valued amount _ _ _ \<Rightarrow>
          if amount \<noteq> 0 \<or> total_tokens tokens = 0 then current
          else (case model of None \<Rightarrow> current | Some m \<Rightarrow>
                 (case snapshot_find snapshot m of None \<Rightarrow> current | Some entry \<Rightarrow>
                   (case price_tokens tokens entry of None \<Rightarrow> current | Some micros \<Rightarrow>
                      if micros = 0 then current
                      else Valued micros usd_code BurnlyCalculated Estimated)))
      | _ \<Rightarrow> current)"

definition positive_cost :: "usage_cost \<Rightarrow> bool" where
  "positive_cost cost = (case cost of Valued amount _ _ _ \<Rightarrow> 0 < amount | _ \<Rightarrow> False)"

fun gap_fill_loop ::
  "pricing_snapshot \<Rightarrow> model_usage_candidate list \<Rightarrow> u64 \<Rightarrow> bool
   \<Rightarrow> model_usage_candidate list \<times> u64 \<times> bool" where
  "gap_fill_loop snapshot [] acc filled = ([], acc, filled)"
| "gap_fill_loop snapshot (m # ms) acc filled =
     (let original = mc_cost m;
          cost = gap_fill_cost (Some (mc_raw_model_id m)) (mc_tokens m) snapshot original;
          filled' = (filled \<or> (positive_cost cost \<and> \<not> positive_cost original));
          acc' = (case cost of Valued amount _ _ _ \<Rightarrow> u64_saturating_add acc amount | _ \<Rightarrow> acc);
          (ms', acc'', filled'') = gap_fill_loop snapshot ms acc' filled'
      in (m\<lparr>mc_cost := cost\<rparr> # ms', acc'', filled''))"

definition gap_fill_model_breakdowns ::
  "model_usage_candidate list \<Rightarrow> pricing_snapshot
   \<Rightarrow> model_usage_candidate list \<times> usage_cost option" where
  "gap_fill_model_breakdowns breakdowns snapshot =
     (let (ms, total_micros, filled) = gap_fill_loop snapshot breakdowns 0 False
      in (ms, if filled then Some (Valued total_micros usd_code BurnlyCalculated Estimated) else None))"

definition aggregate_is_zero_with_tokens :: "usage_cost \<Rightarrow> token_usage \<Rightarrow> bool" where
  "aggregate_is_zero_with_tokens cost tokens =
     (if total_tokens tokens = 0 then False
      else case cost of Valued amount _ _ _ \<Rightarrow> amount = 0 | _ \<Rightarrow> False)"

definition gap_fill_daily :: "daily_usage_candidate \<Rightarrow> pricing_snapshot \<Rightarrow> daily_usage_candidate" where
  "gap_fill_daily cand snapshot =
     (if \<not> aggregate_is_zero_with_tokens (dc_cost cand) (dc_tokens cand) then cand
      else let (ms, aggregate) = gap_fill_model_breakdowns (dc_model_breakdowns cand) snapshot;
               cand' = cand\<lparr>dc_model_breakdowns := ms\<rparr>
           in case aggregate of None \<Rightarrow> cand' | Some cost \<Rightarrow> cand'\<lparr>dc_cost := cost\<rparr>)"

definition gap_fill_session ::
  "session_usage_candidate \<Rightarrow> pricing_snapshot \<Rightarrow> session_usage_candidate" where
  "gap_fill_session cand snapshot =
     (if \<not> aggregate_is_zero_with_tokens (sc_cost cand) (sc_tokens cand) then cand
      else let (ms, aggregate) = gap_fill_model_breakdowns (sc_model_breakdowns cand) snapshot;
               cand' = cand\<lparr>sc_model_breakdowns := ms\<rparr>
           in case aggregate of None \<Rightarrow> cand' | Some cost \<Rightarrow> cand'\<lparr>sc_cost := cost\<rparr>)"

end
