(* ===== verification/CostFacts.thy ===== *)
theory CostFacts
  imports Cost
begin

text \<open>
  What the cost calculator promises: rounding to doubles is correct to one part in \<open>2 ^ 53\<close> away from
  overflow and underflow, the error of a price stays within the bound of \<open>price_tokens_accurate\<close>,
  the lookup of a model does not depend on the hash map's order, and gap-filling changes unpriced
  usage only.
\<close>

section \<open>Rounding\<close>

lemma pow2_pos [simp]: "0 < pow2 e"
  by simp

lemma bitlen_pow2:
  assumes "0 < n"
  shows "pow2 (bitlen n - 1) \<le> of_int n" and "of_int n < pow2 (bitlen n)"
proof -
  have "1 \<le> bitlen n"
    using assms bitlen_eq_zero_iff [of n] bitlen_nonneg [of n] by linarith
  then have "pow2 (bitlen n - 1) = of_int (2 ^ nat (bitlen n - 1))"
    "pow2 (bitlen n) = of_int (2 ^ nat (bitlen n))"
    by (simp_all add: power_int_def)
  with bitlen_bounds [OF assms] show "pow2 (bitlen n - 1) \<le> of_int n" "of_int n < pow2 (bitlen n)"
    by (simp_all only: of_int_le_iff of_int_less_iff)
qed

lemma leading_exponent:
  assumes "0 < x"
  shows "pow2 (leading_exponent x) \<le> x" and "x < pow2 (leading_exponent x + 1)"
proof -
  obtain p q where pq: "quotient_of x = (p, q)" by force
  then have q: "0 < q" by (rule quotient_of_denom_pos)
  have x: "x = of_int p / of_int q" using pq by (rule quotient_of_div)
  with assms q have p: "0 < p" by (simp add: zero_less_divide_iff)
  define a b where "a = bitlen p" and "b = bitlen q"
  have bp: "pow2 (a - 1) \<le> of_int p" "of_int p < pow2 a"
    unfolding a_def by (rule bitlen_pow2 [OF p])+
  have bq: "pow2 (b - 1) \<le> of_int q" "of_int q < pow2 b"
    unfolding b_def by (rule bitlen_pow2 [OF q])+
  have lo: "pow2 (a - b - 1) \<le> x"
  proof -
    have "pow2 (a - b - 1) * of_int q \<le> pow2 (a - b - 1) * pow2 b"
      using bq by (intro mult_left_mono) auto
    also have "\<dots> = pow2 (a - 1)" by (simp flip: power_int_add)
    also have "\<dots> \<le> of_int p" by (rule bp)
    finally show ?thesis using q by (simp add: x pos_le_divide_eq)
  qed
  have hi: "x < pow2 (a - b + 1)"
  proof -
    have "of_int p < pow2 a" by (rule bp)
    also have "\<dots> = pow2 (a - b + 1) * pow2 (b - 1)" by (simp flip: power_int_add)
    also have "\<dots> \<le> pow2 (a - b + 1) * of_int q" using bq by (intro mult_left_mono) auto
    finally show ?thesis using q by (simp add: x pos_divide_less_eq)
  qed
  show "pow2 (leading_exponent x) \<le> x" "x < pow2 (leading_exponent x + 1)"
    using lo hi by (auto simp: leading_exponent_def pq a_def b_def Let_def)
qed

lemma round_half_even_error: "\<bar>of_int (round_half_even x) - x\<bar> \<le> 1 / 2"
proof -
  have "of_int \<lfloor>x\<rfloor> \<le> x" "x < of_int \<lfloor>x\<rfloor> + 1" by linarith+
  then show ?thesis
    by (auto simp: round_half_even_def Let_def abs_le_iff)
qed

text \<open>Away from overflow and underflow, rounding is correct to one part in \<open>2 ^ 53\<close>.\<close>

definition in_range :: "rat \<Rightarrow> bool" where
  "in_range x \<longleftrightarrow> x = 0 \<or> (pow2 (- 1022) \<le> x \<and> x < pow2 1000)"

lemma f64_round_error:
  assumes "in_range x"
  obtains y where "f64_round x = Finite y" and "\<bar>y - x\<bar> \<le> x * pow2 (- 53)" and "0 \<le> y"
proof (cases "x = 0")
  case True
  then show thesis by (intro that) (auto simp: f64_round_def)
next
  case False
  with assms have x: "pow2 (- 1022) \<le> x" "x < pow2 1000" by (auto simp: in_range_def)
  have pos: "0 < x" using x(1) pow2_pos [of "- 1022"] by linarith
  define l where "l = leading_exponent x"
  note l = leading_exponent [OF pos, folded l_def]
  have "pow2 (- 1022) < pow2 (l + 1)" using x(1) l(2) by linarith
  then have "- 1022 < l + 1" by (metis not_less power_int_increasing one_le_numeral)
  then have e: "max (leading_exponent \<bar>x\<bar> - 52) (- 1074) = l - 52"
    using pos by (simp add: l_def)
  let ?n = "round_half_even (x / pow2 (l - 52))"
  define y where "y = of_int ?n * pow2 (l - 52)"
  have "y - x = (of_int ?n - x / pow2 (l - 52)) * pow2 (l - 52)"
    by (simp add: y_def left_diff_distrib)
  then have "\<bar>y - x\<bar> = \<bar>of_int ?n - x / pow2 (l - 52)\<bar> * pow2 (l - 52)"
    by (simp add: abs_mult)
  also have "\<dots> \<le> 1 / 2 * pow2 (l - 52)"
    by (intro mult_right_mono round_half_even_error) simp
  also have "1 / 2 * pow2 (l - 52) = pow2 l * pow2 (- 53)"
  proof -
    have "pow2 (l - 52) = pow2 (l + (- 53) + 1)" by simp
    also have "\<dots> = pow2 l * pow2 (- 53) * 2" by (subst power_int_add | simp)+
    finally show ?thesis by simp
  qed
  also have "\<dots> \<le> x * pow2 (- 53)" using l(1) by (intro mult_right_mono) auto
  finally have err: "\<bar>y - x\<bar> \<le> x * pow2 (- 53)" .
  have small: "x * pow2 (- 53) \<le> x" using pos by (simp add: mult_le_cancel_left1 power_int_minus)
  with err have y: "0 \<le> y" "y \<le> 2 * x" by linarith+
  have "2 * x < pow2 1001" using x(2) by (simp add: power_int_def)
  also have "pow2 1001 \<le> pow2 1024" by (rule power_int_increasing) simp_all
  finally have "2 * x < pow2 1024" .
  with y have "\<not> pow2 1024 \<le> \<bar>y\<bar>" by linarith
  with False e have "f64_round x = Finite y" by (simp add: f64_round_def Let_def y_def)
  with err y(1) show thesis by (intro that)
qed


section \<open>Error propagation\<close>

text \<open>
  \<open>approx k f x\<close>: the double \<open>f\<close> stands for the exact value \<open>x\<close> with a relative error of at most
  \<open>k\<close> units of \<open>2 ^ - 53\<close>.
\<close>

definition sized :: "rat \<Rightarrow> bool" where
  "sized x \<longleftrightarrow> x = 0 \<or> (pow2 (- 900) \<le> x \<and> x \<le> pow2 200)"

definition approx :: "nat \<Rightarrow> f64 \<Rightarrow> rat \<Rightarrow> bool" where
  "approx k f x \<longleftrightarrow>
     (\<exists>y. f = Finite y \<and> sized x \<and> \<bar>y - x\<bar> \<le> x * (of_nat k * pow2 (- 53)))"

lemma sized_nonneg: "sized x \<Longrightarrow> 0 \<le> x"
  using pow2_pos [of "- 900"] by (auto simp: sized_def)

lemma sized_add:
  assumes "sized x" and "sized z" and "x + z \<le> pow2 200"
  shows "sized (x + z)"
  using assms sized_nonneg [OF assms(1)] sized_nonneg [OF assms(2)] by (auto simp: sized_def)

lemma approx_round:
  assumes "sized x" and "\<bar>y - x\<bar> \<le> x * (of_nat k * pow2 (- 53))" and "k \<le> 100"
  shows "approx (k + 2) (f64_round y) x"
proof (cases "x = 0")
  case True
  with assms show ?thesis by (simp add: approx_def f64_round_def)
next
  case False
  define u where "u = pow2 (- 53)"
  have "u = 1 / 9007199254740992" by (simp add: u_def power_int_def power_one_over)
  then have u: "0 < u" "u * 200 \<le> 1" by simp_all
  from False assms(1) have x: "pow2 (- 900) \<le> x" "x \<le> pow2 200" by (auto simp: sized_def)
  have pos: "0 < x" using x(1) pow2_pos [of "- 900"] by linarith
  have ku: "of_nat k * u \<le> 1 / 2"
  proof -
    have "of_nat k * u \<le> 100 * u" using assms(3) u by (intro mult_right_mono) simp_all
    with u show ?thesis by linarith
  qed
  have "x * (of_nat k * u) \<le> x * (1 / 2)" using ku pos by (intro mult_left_mono) simp_all
  with assms(2) have "\<bar>y - x\<bar> \<le> x * (1 / 2)" unfolding u_def by (rule order.trans)
  then have y: "x / 2 \<le> y" "y \<le> 2 * x" using pos by linarith+
  have "pow2 (- 1022) \<le> pow2 (- 901)" "pow2 201 \<le> pow2 999" "pow2 999 < pow2 1000"
    by (rule power_int_increasing power_int_strict_increasing; simp)+
  moreover have "pow2 (- 901 + 1) = pow2 (- 901) * 2" "pow2 (200 + 1) = pow2 200 * 2"
    by (rule power_int_add_1; simp)+
  then have "pow2 (- 901) = pow2 (- 900) / 2" "pow2 201 = 2 * pow2 200" by simp_all
  ultimately have "in_range y" unfolding in_range_def using x y by linarith
  then obtain z where z: "f64_round y = Finite z" "\<bar>z - y\<bar> \<le> y * u"
    by (rule f64_round_error) (simp add: u_def)
  have "y * u \<le> 2 * x * u" using y(2) u by (intro mult_right_mono) simp_all
  with z(2) assms(2) have "\<bar>z - x\<bar> \<le> x * (of_nat k * u) + 2 * x * u"
    unfolding u_def by linarith
  also have "\<dots> = x * (of_nat (k + 2) * u)" by (simp add: algebra_simps)
  finally show ?thesis using z(1) assms(1) by (auto simp: approx_def u_def)
qed

lemma approx_mono: "\<lbrakk>approx k f x; k \<le> l\<rbrakk> \<Longrightarrow> approx l f x"
proof -
  assume "approx k f x" "k \<le> l"
  then obtain y where y: "f = Finite y" "sized x" "\<bar>y - x\<bar> \<le> x * (of_nat k * pow2 (- 53))"
    by (auto simp: approx_def)
  have "x * (of_nat k * pow2 (- 53)) \<le> x * (of_nat l * pow2 (- 53))"
    using \<open>k \<le> l\<close> sized_nonneg [OF y(2)] by (intro mult_left_mono mult_right_mono) simp_all
  with y show ?thesis unfolding approx_def by (intro exI [of _ y]) linarith
qed

lemma approx_add:
  assumes "approx k f x" and "approx k g z" and "x + z \<le> pow2 200" and "k \<le> 100"
  shows "approx (k + 2) (f64_add f g) (x + z)"
proof -
  from assms(1,2) obtain a b where ab: "f = Finite a" "g = Finite b" "sized x" "sized z"
    "\<bar>a - x\<bar> \<le> x * (of_nat k * pow2 (- 53))" "\<bar>b - z\<bar> \<le> z * (of_nat k * pow2 (- 53))"
    by (auto simp: approx_def)
  have "\<bar>a + b - (x + z)\<bar> \<le> (x + z) * (of_nat k * pow2 (- 53))"
    using ab(5,6) unfolding distrib_right by linarith
  with ab(1,2) approx_round [OF sized_add [OF ab(3,4) assms(3)] this assms(4)] show ?thesis by simp
qed

lemma approx_mul:
  assumes "approx k f x" and "0 \<le> r" and "sized (x * r)" and "k \<le> 100"
  shows "approx (k + 2) (f64_mul f (Finite r)) (x * r)"
proof -
  from assms(1) obtain a where a: "f = Finite a" "\<bar>a - x\<bar> \<le> x * (of_nat k * pow2 (- 53))"
    by (auto simp: approx_def)
  have "\<bar>a * r - x * r\<bar> = \<bar>a - x\<bar> * r"
    using assms(2) by (simp add: abs_mult flip: left_diff_distrib)
  also have "\<dots> \<le> x * (of_nat k * pow2 (- 53)) * r" using a(2) assms(2) by (rule mult_right_mono)
  finally have "\<bar>a * r - x * r\<bar> \<le> (x * r) * (of_nat k * pow2 (- 53))"
    by (simp add: mult_ac)
  with a(1) approx_round [OF assms(3) this assms(4)] show ?thesis by simp
qed

section \<open>The exact price\<close>

text \<open>A rate the snapshot can hold: zero, or between \<open>2 ^ - 900\<close> and \<open>2 ^ 10\<close> dollars a token.\<close>

definition rate :: "f64 \<Rightarrow> rat" where
  "rate f = (case f of Finite r \<Rightarrow> r | _ \<Rightarrow> 0)"

definition rate_ok :: "f64 \<Rightarrow> bool" where
  "rate_ok f \<longleftrightarrow> (\<exists>r. f = Finite r \<and> (r = 0 \<or> (pow2 (- 900) \<le> r \<and> r \<le> pow2 10)))"

lemma rate_ok_Finite: "rate_ok (Finite r) \<longleftrightarrow> r = 0 \<or> (pow2 (- 900) \<le> r \<and> r \<le> pow2 10)"
  by (simp add: rate_ok_def)

definition entry_rates :: "pricing_entry \<Rightarrow> f64 \<times> f64 \<times> f64 \<times> f64" where
  "entry_rates e =
     (pe_input e, pe_output e, (case pe_cache_read e of None \<Rightarrow> Finite 0 | Some r \<Rightarrow> r),
      (case pe_cache_write e of None \<Rightarrow> pe_input e | Some r \<Rightarrow> r))"

definition entry_ok :: "pricing_entry \<Rightarrow> bool" where
  "entry_ok e =
     (case entry_rates e of (i, out, cr, cw) \<Rightarrow> rate_ok i \<and> rate_ok out \<and> rate_ok cr \<and> rate_ok cw)"

definition tokens_rat :: "u64 option \<Rightarrow> rat" where
  "tokens_rat t = (case t of None \<Rightarrow> 0 | Some w \<Rightarrow> of_int (uint w))"

definition exact_micros :: "token_usage \<Rightarrow> pricing_entry \<Rightarrow> rat" where
  "exact_micros tokens e =
     (case entry_rates e of (i, out, cr, cw) \<Rightarrow>
        1000000 * (tokens_rat (input_tokens tokens) * rate i
          + tokens_rat (output_tokens tokens) * rate out
          + tokens_rat (cache_read_tokens tokens) * rate cr
          + tokens_rat (cache_creation_tokens tokens) * rate cw))"

lemma tokens_rat_bounds: "tokens_rat t = 0 \<or> (1 \<le> tokens_rat t \<and> tokens_rat t < pow2 64)"
proof (cases t)
  case None
  then show ?thesis by (simp add: tokens_rat_def)
next
  case (Some w)
  have "uint w < 2 ^ 64" by (rule order.strict_trans2 [OF unsigned_less]) simp
  then have "rat_of_int (uint w) < of_int (2 ^ 64)" by (simp only: of_int_less_iff)
  moreover have "uint w = 0 \<or> 1 \<le> uint w" using uint_ge_0 [of w] by linarith
  then have "rat_of_int (uint w) = 0 \<or> 1 \<le> rat_of_int (uint w)"
    by (auto simp del: of_int_uint)
  ultimately show ?thesis using Some by (simp add: tokens_rat_def power_int_def del: of_int_uint)
qed

lemma f64_of_tokens: "approx 2 (f64_of_u64 (unwrap_or_zero t)) (tokens_rat t)"
proof -
  have v: "of_int (uint (unwrap_or_zero t)) = tokens_rat t"
    by (cases t) (simp_all add: unwrap_or_zero_def tokens_rat_def)
  have "pow2 (- 900) \<le> pow2 0" "pow2 64 \<le> pow2 200"
    by (rule power_int_increasing; simp)+
  with tokens_rat_bounds [of t] have "sized (tokens_rat t)" by (auto simp: sized_def)
  from approx_round [OF this, of "tokens_rat t" 0] show ?thesis
    by (simp only: f64_of_u64_def v) (simp add: numeral_2_eq_2)
qed

lemma product_bounds:
  assumes "rate_ok f"
  shows "sized (tokens_rat t * rate f)" and "tokens_rat t * rate f \<le> pow2 74" and "0 \<le> rate f"
proof -
  from assms obtain r where r: "rate f = r" "r = 0 \<or> (pow2 (- 900) \<le> r \<and> r \<le> pow2 10)"
    by (auto simp: rate_ok_def rate_def)
  then show "0 \<le> rate f" using pow2_pos [of "- 900"] by auto
  have lo: "pow2 (- 900) \<le> tokens_rat t * r" if "1 \<le> tokens_rat t" "pow2 (- 900) \<le> r"
    using mult_mono [OF that] that pow2_pos [of "- 900"] by simp
  have hi: "tokens_rat t * r \<le> pow2 64 * pow2 10"
    if "tokens_rat t < pow2 64" "r \<le> pow2 10" "0 \<le> r" "0 \<le> tokens_rat t"
    using that by (intro mult_mono) simp_all
  have eq: "pow2 64 * pow2 10 = pow2 74" by (simp add: power_int_def)
  show le: "tokens_rat t * rate f \<le> pow2 74"
    using tokens_rat_bounds [of t] r hi \<open>0 \<le> rate f\<close> by (auto simp: eq)
  have "pow2 74 \<le> pow2 200" by (rule power_int_increasing) simp_all
  with le r lo tokens_rat_bounds [of t] show "sized (tokens_rat t * rate f)"
    by (auto simp: sized_def)
qed

lemma approx_product:
  assumes "rate_ok f"
  shows "approx 4 (f64_mul (f64_of_u64 (unwrap_or_zero t)) f) (tokens_rat t * rate f)"
proof -
  from assms have f: "f = Finite (rate f)" by (auto simp: rate_ok_def rate_def)
  from approx_mul [OF f64_of_tokens [of t] product_bounds(3,1) [OF assms]] show ?thesis
    by (subst f) simp
qed


lemma usd_to_micros_approx:
  assumes "approx 10 f x" and "1000000 * x < pow2 63"
  shows "\<exists>m. usd_to_micros f = Some m \<and>
    \<bar>of_int (uint m) - 1000000 * x\<bar> \<le> 1 / 2 + (1000000 * x + 1 / 2) * pow2 (- 49)"
proof -
  define e where "e = 1000000 * x"
  from assms(1) obtain y where y: "f = Finite y" "sized x" "\<bar>y - x\<bar> \<le> x * (of_nat 10 * pow2 (- 53))"
    by (auto simp: approx_def)
  have x0: "0 \<le> x" using y(2) by (rule sized_nonneg)
  have tiny: "of_nat 10 * pow2 (- 53) \<le> 1" "of_nat 14 * pow2 (- 53) \<le> pow2 (- 49)"
    "pow2 63 \<le> pow2 199" "pow2 (- 49) \<le> 1 / 8"
    by (simp_all add: power_int_def power_one_over)
  have "x * (of_nat 10 * pow2 (- 53)) \<le> x * 1" using tiny(1) x0 by (rule mult_left_mono)
  with y(3) have "0 \<le> y" by linarith
  have "sized (x * 1000000)"
    using y(2) assms(2) tiny(3) power_int_increasing [of 199 200 "2 :: rat"]
    by (auto simp: sized_def mult.commute)
  from approx_mul [OF assms(1) _ this] have m: "approx 12 (f64_mul f (Finite 1000000)) e"
    by (simp add: e_def mult.commute)
  have h: "approx 12 (Finite (1 / 2)) (1 / 2)"
    unfolding approx_def
    by (rule exI [of _ "1 / 2"]) (simp add: sized_def power_int_def power_one_over)
  have "e + 1 / 2 \<le> pow2 200"
    using assms(2) tiny(3) power_int_increasing [of 199 200 "2 :: rat"]
    unfolding e_def by (simp add: power_int_def)
  from approx_add [OF m h this] have "approx 14 (f64_add (f64_mul f (Finite 1000000)) (Finite (1 / 2)))
      (e + 1 / 2)" by simp
  then obtain z where z: "f64_add (f64_mul f (Finite 1000000)) (Finite (1 / 2)) = Finite z"
    "\<bar>z - (e + 1 / 2)\<bar> \<le> (e + 1 / 2) * (of_nat 14 * pow2 (- 53))"
    by (auto simp: approx_def)
  have e0: "0 \<le> e" using x0 by (simp add: e_def)
  define d where "d = (e + 1 / 2) * pow2 (- 49)"
  have "(e + 1 / 2) * (of_nat 14 * pow2 (- 53)) \<le> d"
    unfolding d_def using tiny(2) e0 by (intro mult_left_mono) simp_all
  with z(2) have zd: "\<bar>z - (e + 1 / 2)\<bar> \<le> d" by linarith
  have "d \<le> (e + 1 / 2) * (1 / 8)"
    unfolding d_def using tiny(4) e0 by (intro mult_left_mono) simp_all
  then have d8: "d \<le> e / 8 + 1 / 16" by (simp add: field_simps)
  with zd e0 have z0: "0 \<le> z" "z \<le> 2 * e + 1" by linarith+
  have e63: "e < 9223372036854775808" using assms(2) by (simp add: e_def power_int_def)
  with z0 have "z < 18446744073709551617" by linarith
  then have f: "0 \<le> \<lfloor>z\<rfloor>" "\<lfloor>z\<rfloor> \<le> 18446744073709551616"
    using z0(1) by (simp_all add: floor_le_iff)
  show ?thesis
  proof (cases "\<lfloor>z\<rfloor> = 18446744073709551616")
    case True
    then have "18446744073709551616 \<le> z" by linarith
    with zd e63 d8 show ?thesis by linarith
  next
    case False
    with f have f64: "\<lfloor>z\<rfloor> < 18446744073709551616" by linarith
    then have "usd_to_micros f = Some (word_of_int \<lfloor>z\<rfloor>)"
      using y(1) \<open>0 \<le> y\<close> z(1) f(1)
      by (simp add: usd_to_micros_def u64_of_int_saturating_def)
    moreover have u: "uint (word_of_int \<lfloor>z\<rfloor> :: u64) = \<lfloor>z\<rfloor>"
      using f(1) f64 by (simp add: uint_word_of_int)
    have "\<bar>of_int \<lfloor>z\<rfloor> - e\<bar> \<le> 1 / 2 + d"
    proof -
      have "of_int \<lfloor>z\<rfloor> \<le> z" "z < of_int \<lfloor>z\<rfloor> + 1" by linarith+
      with zd show ?thesis by linarith
    qed
    then have "\<bar>of_int (uint (word_of_int \<lfloor>z\<rfloor> :: u64)) - e\<bar> \<le> 1 / 2 + d" by (subst u)
    ultimately show ?thesis unfolding d_def e_def by blast
  qed
qed

section \<open>Properties\<close>

text \<open>
  C17: Prices are accurate to half a micro-dollar plus one part in \<open>2 ^ 49\<close>. When every rate the
  entry uses is zero or between \<open>2 ^ - 900\<close> and \<open>2 ^ 10\<close> dollars a token and the exact price is below
  \<open>2 ^ 63\<close> micro-dollars, \<open>price_tokens\<close> produces an amount, and it differs from the exact
  rational price by at most \<open>1/2 + (price + 1/2) / 2 ^ 49\<close>, for any token counts, missing
  categories and the fallback of cache writes to the input rate included.
\<close>
theorem price_tokens_accurate:
  assumes "entry_ok entry" and "exact_micros tokens entry < pow2 63"
  shows "\<exists>m. price_tokens tokens entry = Some m \<and>
    \<bar>of_int (uint m) - exact_micros tokens entry\<bar>
      \<le> 1 / 2 + (exact_micros tokens entry + 1 / 2) * pow2 (- 49)"
proof -
  obtain i out cr cw where rates: "entry_rates entry = (i, out, cr, cw)" by (metis prod_cases4)
  with assms(1) have ok: "rate_ok i" "rate_ok out" "rate_ok cr" "rate_ok cw"
    by (auto simp: entry_ok_def)
  let ?p = "\<lambda>t r. tokens_rat t * rate r"
  let ?f = "\<lambda>t r. f64_mul (f64_of_u64 (unwrap_or_zero t)) r"
  let ?it = "input_tokens tokens" and ?ot = "output_tokens tokens"
    and ?rt = "cache_read_tokens tokens" and ?wt = "cache_creation_tokens tokens"
  note le = product_bounds(2) [OF ok(1), of ?it] product_bounds(2) [OF ok(2), of ?ot]
    product_bounds(2) [OF ok(3), of ?rt] product_bounds(2) [OF ok(4), of ?wt]
  have big: "4 * pow2 74 \<le> pow2 200" by (simp add: power_int_def)
  have a1: "approx 6 (f64_add (?f ?it i) (?f ?ot out)) (?p ?it i + ?p ?ot out)"
    using approx_add [OF approx_product [OF ok(1)] approx_product [OF ok(2)], of ?it ?ot] le big
    by simp
  have a2: "approx 8 (f64_add (f64_add (?f ?it i) (?f ?ot out)) (?f ?rt cr))
      (?p ?it i + ?p ?ot out + ?p ?rt cr)"
    using approx_add [OF a1 approx_mono [OF approx_product [OF ok(3)]], of ?rt] le big by simp
  have a3: "approx 10
      (f64_add (f64_add (f64_add (?f ?it i) (?f ?ot out)) (?f ?rt cr)) (?f ?wt cw))
      (?p ?it i + ?p ?ot out + ?p ?rt cr + ?p ?wt cw)"
    using approx_add [OF a2 approx_mono [OF approx_product [OF ok(4)]], of ?wt] le big by simp
  have price: "price_tokens tokens entry =
      usd_to_micros (f64_add (f64_add (f64_add (?f ?it i) (?f ?ot out)) (?f ?rt cr)) (?f ?wt cw))"
    using rates by (auto simp: price_tokens_def entry_rates_def Let_def)
  have exact: "exact_micros tokens entry =
      1000000 * (?p ?it i + ?p ?ot out + ?p ?rt cr + ?p ?wt cw)"
    by (simp add: exact_micros_def rates)
  show ?thesis
    using usd_to_micros_approx [OF a3] assms(2) unfolding price exact by simp
qed


definition demo_entry :: pricing_entry where
  "demo_entry =
     \<lparr>pe_input = Finite (1 / 4194304), pe_output = Finite (1 / 2097152),
      pe_cache_read = None, pe_cache_write = None\<rparr>"

definition demo_priced_tokens :: token_usage where
  "demo_priced_tokens =
     \<lparr>input_tokens = Some 1000000, output_tokens = Some 500000, cache_creation_tokens = None,
      cache_read_tokens = Some 7, total_tokens = 1500007, unclassified_tokens = None\<rparr>"

theorem price_tokens_accurate_witness:
  "\<exists>m. price_tokens demo_priced_tokens demo_entry = Some m \<and>
     \<bar>of_int (uint m) - exact_micros demo_priced_tokens demo_entry\<bar> \<le> 1 \<and>
     exact_micros demo_priced_tokens demo_entry = 476837 + 81 / 512"
proof -
  have lo: "pow2 (- 900) \<le> pow2 (- 22)" by (rule power_int_increasing) simp_all
  then have "pow2 (- 900) \<le> 1 / 4194304" "pow2 (- 900) \<le> 1 / 2097152"
    by (simp_all add: power_int_def [of _ "- 22"] power_one_over)
  then have "rate_ok (Finite (1 / 4194304))" "rate_ok (Finite (1 / 2097152))" "rate_ok (Finite 0)"
    by (simp_all add: rate_ok_Finite power_int_def [of _ 10])
  then have ok: "entry_ok demo_entry"
    by (simp add: entry_ok_def entry_rates_def demo_entry_def)
  have exact: "exact_micros demo_priced_tokens demo_entry = 476837 + 81 / 512"
    by (simp add: exact_micros_def entry_rates_def demo_entry_def demo_priced_tokens_def
        tokens_rat_def rate_def)
  then have "exact_micros demo_priced_tokens demo_entry < pow2 63"
    by (simp add: power_int_def)
  from price_tokens_accurate [OF ok this] obtain m
    where m: "price_tokens demo_priced_tokens demo_entry = Some m"
      and err: "\<bar>of_int (uint m) - exact_micros demo_priced_tokens demo_entry\<bar>
        \<le> 1 / 2 + (exact_micros demo_priced_tokens demo_entry + 1 / 2) * pow2 (- 49)"
    by blast
  have "1 / 2 + (exact_micros demo_priced_tokens demo_entry + 1 / 2) * pow2 (- 49) \<le> 1"
    by (simp add: exact power_int_def power_one_over)
  with err have "\<bar>of_int (uint m) - exact_micros demo_priced_tokens demo_entry\<bar> \<le> 1"
    by (rule order.trans)
  with m exact show ?thesis by blast
qed

section \<open>Lookup\<close>

lemma max_by_len_None: "max_by_len xs = None \<longleftrightarrow> xs = []"
  by (cases xs) (auto split: option.splits)

lemma max_by_len_Some:
  "max_by_len xs = Some y \<Longrightarrow> y \<in> set xs \<and> (\<forall>x \<in> set xs. length (fst x) \<le> length (fst y))"
proof (induction xs arbitrary: y)
  case Nil
  then show ?case by simp
next
  case (Cons x xs)
  then show ?case
    by (cases "max_by_len xs") (force simp: max_by_len_None split: if_splits)+
qed

text \<open>
  C26: Model lookup does not depend on the hash map's iteration order. Two snapshots with the same
  entries, each key once, in any two orders, give the same price for every model id: of all keys
  that are a proper prefix of the id the longest one wins, and it is unique.
\<close>
theorem snapshot_find_order_independent:
  assumes "distinct (map fst entries)" and "distinct (map fst entries')"
    and "set entries = set entries'"
  shows "snapshot_find entries model = snapshot_find entries' model"
proof -
  have maps: "map_of entries = map_of entries'"
    using assms by (simp add: map_of_inject_set)
  let ?p = "\<lambda>(cand, _). length cand < length model \<and> prefix cand model"
  have "max_by_len (filter ?p entries) = max_by_len (filter ?p entries')"
  proof (cases "max_by_len (filter ?p entries)")
    case None
    then show ?thesis using assms(3) by (simp add: max_by_len_None filter_empty_conv)
  next
    case (Some a)
    have same: "set (filter ?p entries) = set (filter ?p entries')"
      using assms(3) by simp
    note a = max_by_len_Some [OF Some]
    then have "a \<in> set (filter ?p entries')" unfolding same by (rule conjunct1)
    then have "filter ?p entries' \<noteq> []" using length_pos_if_in_set by force
    then obtain b where b': "max_by_len (filter ?p entries') = Some b"
      by (cases "max_by_len (filter ?p entries')") (simp_all add: max_by_len_None)
    note b = max_by_len_Some [OF b']
    have "length (fst a) = length (fst b)"
      using a b unfolding same by (blast intro: order.antisym)
    moreover have "prefix (fst a) model" "prefix (fst b) model"
      using a b unfolding same by auto
    ultimately have "fst a = fst b"
      by (metis prefix_length_prefix prefix_order.antisym order_refl)
    moreover have "a \<in> set entries" "b \<in> set entries"
      using a b assms(3) by simp_all
    ultimately have "a = b" using assms(1) by (simp add: distinct_map inj_on_def)
    with Some b' show ?thesis by simp
  qed
  note len = this
  show ?thesis unfolding snapshot_find_def maps len ..
qed

theorem snapshot_find_order_independent_witness:
  "snapshot_find [(''deepseek-v4'', demo_entry), (''deepseek'', demo_entry\<lparr>pe_output := Finite 1\<rparr>)]
     ''deepseek-v4-flash'' = Some demo_entry \<and>
   snapshot_find [(''deepseek'', demo_entry\<lparr>pe_output := Finite 1\<rparr>), (''deepseek-v4'', demo_entry)]
     ''deepseek-v4-flash'' = Some demo_entry"
proof -
  let ?xs = "[(''deepseek-v4'', demo_entry), (''deepseek'', demo_entry\<lparr>pe_output := Finite 1\<rparr>)]"
  have "snapshot_find ?xs ''deepseek-v4-flash'' = Some demo_entry"
    by (simp add: snapshot_find_def normalize_model_def)
  moreover have "snapshot_find ?xs ''deepseek-v4-flash'' = snapshot_find (rev ?xs) ''deepseek-v4-flash''"
    by (rule snapshot_find_order_independent) auto
  ultimately show ?thesis by simp
qed


section \<open>Gap-filling\<close>

definition fill_model :: "pricing_snapshot \<Rightarrow> model_usage_candidate \<Rightarrow> model_usage_candidate" where
  "fill_model snapshot m =
     m\<lparr>mc_cost := gap_fill_cost (Some (mc_raw_model_id m)) (mc_tokens m) snapshot (mc_cost m)\<rparr>"

definition cost_micros :: "usage_cost \<Rightarrow> nat" where
  "cost_micros cost = (case cost of Valued amount _ _ _ \<Rightarrow> unat amount | _ \<Rightarrow> 0)"

definition newly_priced :: "pricing_snapshot \<Rightarrow> model_usage_candidate \<Rightarrow> bool" where
  "newly_priced snapshot m \<longleftrightarrow>
     positive_cost (mc_cost (fill_model snapshot m)) \<and> \<not> positive_cost (mc_cost m)"

lemma gap_fill_cost_cases:
  "gap_fill_cost model tokens snapshot current = current \<or>
   (\<not> positive_cost current \<and> positive_cost (gap_fill_cost model tokens snapshot current))"
  by (auto simp: gap_fill_cost_def positive_cost_def word_gt_0 split: usage_cost.splits option.splits)

lemma fill_model_same: "\<not> newly_priced snapshot m \<Longrightarrow> fill_model snapshot m = m"
  using gap_fill_cost_cases [of "Some (mc_raw_model_id m)" "mc_tokens m" snapshot "mc_cost m"]
  by (auto simp: newly_priced_def fill_model_def)

lemma gap_fill_loop_spec:
  "gap_fill_loop snapshot ms acc filled =
     (map (fill_model snapshot) ms,
      fold (\<lambda>m a. case mc_cost m of Valued amount _ _ _ \<Rightarrow> u64_saturating_add a amount | _ \<Rightarrow> a)
        (map (fill_model snapshot) ms) acc,
      filled \<or> list_ex (newly_priced snapshot) ms)"
  by (induction ms arbitrary: acc filled)
    (auto simp: Let_def fill_model_def newly_priced_def split: usage_cost.splits)

lemma saturating_sum:
  "unat (fold (\<lambda>m a. case mc_cost m of Valued amount _ _ _ \<Rightarrow> u64_saturating_add a amount | _ \<Rightarrow> a) ms acc)
   = min (unat acc + sum_list (map (\<lambda>m. cost_micros (mc_cost m)) ms)) (2 ^ 64 - 1)"
proof (induction ms arbitrary: acc)
  case Nil
  then show ?case using unat_u64_less [of acc] by simp
next
  case (Cons m ms)
  then show ?case
    by (simp add: cost_micros_def u64_saturating_add_unat min_def split: usage_cost.splits)
qed

lemma unat_eq_of_nat_u64: "unat (w :: u64) = n \<Longrightarrow> w = of_nat n"
  by auto

definition filled_sum :: "pricing_snapshot \<Rightarrow> model_usage_candidate list \<Rightarrow> nat" where
  "filled_sum snapshot ms =
     min (sum_list (map (\<lambda>m. cost_micros (mc_cost (fill_model snapshot m))) ms)) (2 ^ 64 - 1)"

lemma gap_fill_model_breakdowns_spec:
  "gap_fill_model_breakdowns ms snapshot =
     (map (fill_model snapshot) ms,
      if list_ex (newly_priced snapshot) ms
      then Some (Valued (of_nat (filled_sum snapshot ms)) usd_code BurnlyCalculated Estimated)
      else None)"
proof -
  let ?s = "fold (\<lambda>m a. case mc_cost m of Valued amount _ _ _ \<Rightarrow> u64_saturating_add a amount | _ \<Rightarrow> a)
        (map (fill_model snapshot) ms) 0"
  have "unat ?s = filled_sum snapshot ms"
    by (simp add: saturating_sum filled_sum_def comp_def)
  then have eq: "?s = of_nat (filled_sum snapshot ms)" by (rule unat_eq_of_nat_u64)
  show ?thesis
    unfolding gap_fill_model_breakdowns_def gap_fill_loop_spec eq by simp
qed

lemma fill_none_id: "\<not> list_ex (newly_priced snapshot) ms \<Longrightarrow> map (fill_model snapshot) ms = ms"
  by (induction ms) (auto simp: fill_model_same)

lemma filled_sum_pos:
  assumes "list_ex (newly_priced snapshot) ms"
  shows "0 < filled_sum snapshot ms"
proof -
  from assms obtain m where m: "m \<in> set ms" "newly_priced snapshot m" by (auto simp: list_ex_iff)
  then have "0 < cost_micros (mc_cost (fill_model snapshot m))"
    by (auto simp: newly_priced_def positive_cost_def cost_micros_def word_gt_0 unat_gt_0
        split: usage_cost.splits)
  with m(1) have "0 < sum_list (map (\<lambda>m. cost_micros (mc_cost (fill_model snapshot m))) ms)"
    by (metis (mono_tags, lifting) elem_le_sum_list gr_zeroI in_set_conv_nth length_map nth_map
        order.strict_trans2)
  then show ?thesis by (simp add: filled_sum_def)
qed

text \<open>
  C18: Gap-filling touches only unpriced usage. A daily candidate changes exactly when its cost is a
  reported zero with tokens and the snapshot prices one of its unpriced models; then each unpriced
  model takes its calculated cost, priced models keep theirs, and the aggregate becomes the
  saturating sum of the breakdowns, a positive amount, in US dollars and marked as estimated.
  Everything else of the candidate is kept, and filling again changes nothing.
\<close>
theorem gap_fill_daily_spec:
  "gap_fill_daily cand snapshot =
     (if aggregate_is_zero_with_tokens (dc_cost cand) (dc_tokens cand) \<and>
         list_ex (newly_priced snapshot) (dc_model_breakdowns cand)
      then cand\<lparr>dc_model_breakdowns := map (fill_model snapshot) (dc_model_breakdowns cand),
                dc_cost := Valued (of_nat (filled_sum snapshot (dc_model_breakdowns cand)))
                  usd_code BurnlyCalculated Estimated\<rparr>
      else cand) \<and>
   gap_fill_daily (gap_fill_daily cand snapshot) snapshot = gap_fill_daily cand snapshot"
proof -
  let ?ms = "dc_model_breakdowns cand"
  let ?filled = "cand\<lparr>dc_model_breakdowns := map (fill_model snapshot) ?ms,
                dc_cost := Valued (of_nat (filled_sum snapshot ?ms)) usd_code BurnlyCalculated Estimated\<rparr>"
  have one: "gap_fill_daily cand snapshot =
     (if aggregate_is_zero_with_tokens (dc_cost cand) (dc_tokens cand) \<and>
         list_ex (newly_priced snapshot) ?ms then ?filled else cand)"
    by (simp add: gap_fill_daily_def gap_fill_model_breakdowns_spec fill_none_id)
  have "(of_nat (filled_sum snapshot ?ms) :: u64) \<noteq> 0" if "list_ex (newly_priced snapshot) ?ms"
    using filled_sum_pos [OF that] of_nat_eq_0_iff
    by (auto simp: filled_sum_def word_of_nat_eq_0_iff dest: dvd_imp_le)
  then have "gap_fill_daily ?filled snapshot = ?filled" if "list_ex (newly_priced snapshot) ?ms"
    using that by (simp add: gap_fill_daily_def aggregate_is_zero_with_tokens_def)
  with one show ?thesis by (simp split: if_splits)
qed

end
