(* ===== verification/Diagnostics.thy ===== *)
theory Diagnostics
  imports Tables
begin

text \<open>
  Local diagnostics: the validated event vocabulary of \<open>src/src-tauri/src/application/diagnostics.rs\<close>
  and the event table, its retention and the health report of
  \<open>src/src-tauri/src/infrastructure/database/diagnostics_store.rs\<close> with
  \<open>migrations/0004_diagnostic_events.sql\<close>. The table is the list of its rows in ascending \<open>id\<close>.
\<close>

section \<open>Events\<close>

datatype diagnostic_area =
    AreaRefresh | AreaCollector | AreaTraySummary | AreaSettings | AreaUpdate
  | AreaLaunchAtLogin | AreaDatabase | AreaRuntime

fun area_as_str :: "diagnostic_area \<Rightarrow> string" where
  "area_as_str AreaRefresh = ''refresh''"
| "area_as_str AreaCollector = ''collector''"
| "area_as_str AreaTraySummary = ''tray_summary''"
| "area_as_str AreaSettings = ''settings''"
| "area_as_str AreaUpdate = ''update''"
| "area_as_str AreaLaunchAtLogin = ''launch_at_login''"
| "area_as_str AreaDatabase = ''database''"
| "area_as_str AreaRuntime = ''runtime''"

definition area_from_storage :: "string \<Rightarrow> diagnostic_area option" where
  "area_from_storage value =
     (if value = ''refresh'' then Some AreaRefresh
      else if value = ''collector'' then Some AreaCollector
      else if value = ''tray_summary'' then Some AreaTraySummary
      else if value = ''settings'' then Some AreaSettings
      else if value = ''update'' then Some AreaUpdate
      else if value = ''launch_at_login'' then Some AreaLaunchAtLogin
      else if value = ''database'' then Some AreaDatabase
      else if value = ''runtime'' then Some AreaRuntime
      else None)"

datatype diagnostic_severity = SeverityInfo | SeverityWarning | SeverityError

fun severity_as_str :: "diagnostic_severity \<Rightarrow> string" where
  "severity_as_str SeverityInfo = ''info''"
| "severity_as_str SeverityWarning = ''warning''"
| "severity_as_str SeverityError = ''error''"

definition severity_from_storage :: "string \<Rightarrow> diagnostic_severity option" where
  "severity_from_storage value =
     (if value = ''info'' then Some SeverityInfo
      else if value = ''warning'' then Some SeverityWarning
      else if value = ''error'' then Some SeverityError
      else None)"

datatype diagnostic_validation_error =
    InvalidEventId | InvalidEventCode | InvalidEventSummary | InvalidEventContext
  | InvalidEventCreatedAt

definition max_code_len :: nat where "max_code_len = 128"
definition max_summary_len :: nat where "max_summary_len = 240"
definition max_context_json_len :: nat where "max_context_json_len = 4096"

definition validate_bounded_text ::
  "string \<Rightarrow> nat \<Rightarrow> diagnostic_validation_error \<Rightarrow> diagnostic_validation_error + unit" where
  "validate_bounded_text value max_len e =
     (if blank value \<or> max_len < length value then Inl e else Inr ())"

datatype diagnostic_code = DiagnosticCode (diagnostic_code_as_str: string)
datatype diagnostic_summary = DiagnosticSummary (diagnostic_summary_as_str: string)
datatype diagnostic_context = DiagnosticContext (diagnostic_context_as_str: string)

definition diagnostic_code_new :: "string \<Rightarrow> diagnostic_validation_error + diagnostic_code" where
  "diagnostic_code_new value =
     map_ok (\<lambda>_. DiagnosticCode value) (validate_bounded_text value max_code_len InvalidEventCode)"

definition diagnostic_summary_new ::
  "string \<Rightarrow> diagnostic_validation_error + diagnostic_summary" where
  "diagnostic_summary_new value =
     map_ok (\<lambda>_. DiagnosticSummary value)
       (validate_bounded_text value max_summary_len InvalidEventSummary)"

definition diagnostic_context_new ::
  "string \<Rightarrow> diagnostic_validation_error + diagnostic_context" where
  "diagnostic_context_new value =
     (if blank value \<or> max_context_json_len < length value then Inl InvalidEventContext
      else Inr (DiagnosticContext value))"

record diagnostic_event =
  de_area :: diagnostic_area
  de_severity :: diagnostic_severity
  de_code :: diagnostic_code
  de_summary :: diagnostic_summary
  de_context :: "diagnostic_context option"
  de_created_at_ms :: i64

definition diagnostic_event_new ::
  "diagnostic_area \<Rightarrow> diagnostic_severity \<Rightarrow> diagnostic_code \<Rightarrow> diagnostic_summary
   \<Rightarrow> diagnostic_context option \<Rightarrow> i64 \<Rightarrow> diagnostic_validation_error + diagnostic_event" where
  "diagnostic_event_new area severity code summary context created_at_ms =
     (if created_at_ms < 0 then Inl InvalidEventCreatedAt
      else Inr \<lparr>de_area = area, de_severity = severity, de_code = code, de_summary = summary,
                de_context = context, de_created_at_ms = created_at_ms\<rparr>)"

record stored_diagnostic_event =
  sde_id :: i64
  sde_event :: diagnostic_event

definition stored_diagnostic_event_new ::
  "i64 \<Rightarrow> diagnostic_event \<Rightarrow> diagnostic_validation_error + stored_diagnostic_event" where
  "stored_diagnostic_event_new i event =
     (if i \<le> 0 then Inl InvalidEventId else Inr \<lparr>sde_id = i, sde_event = event\<rparr>)"

section \<open>The event table\<close>

record diagnostic_row =
  dr_id :: int
  dr_area :: string
  dr_severity :: string
  dr_code :: string
  dr_summary :: string
  dr_context_json :: "string option"
  dr_created_at_ms :: int

definition check_diagnostic :: "diagnostic_row \<Rightarrow> bool" where
  "check_diagnostic r \<longleftrightarrow>
     sql_nonblank (dr_area r) \<and> dr_severity r \<in> {''info'', ''warning'', ''error''} \<and>
     sql_nonblank (dr_code r) \<and> sql_nonblank (dr_summary r) \<and> 0 \<le> dr_created_at_ms r"

definition max_diagnostic_events :: nat where "max_diagnostic_events = 500"

definition diagnostic_event_retention_ms :: i64 where
  "diagnostic_event_retention_ms = 14 * 24 * 60 * 60 * 1000"

text \<open>\<open>ORDER BY created_at_ms DESC, id DESC LIMIT n\<close>.\<close>

definition event_order :: "diagnostic_row \<Rightarrow> int \<times> int" where
  "event_order r = (dr_created_at_ms r, dr_id r)"

definition newest_events :: "nat \<Rightarrow> diagnostic_row list \<Rightarrow> diagnostic_row list" where
  "newest_events n rows = take n (rev (sort_key event_order rows))"

definition apply_retention :: "i64 \<Rightarrow> diagnostic_row list \<Rightarrow> diagnostic_row list" where
  "apply_retention now rows =
     (let cutoff = i64_saturating_sub now diagnostic_event_retention_ms;
          kept = map dr_id (newest_events max_diagnostic_events rows)
      in filter (\<lambda>r. \<not> (dr_created_at_ms r < cutoff \<or> dr_id r \<notin> set kept)) rows)"

datatype diagnostics_store_error = DiagnosticsWrite | DiagnosticsRead diagnostic_validation_error

definition insert_event ::
  "diagnostic_event \<Rightarrow> diagnostic_row list \<Rightarrow> (diagnostics_store_error + unit) \<times> diagnostic_row list" where
  "insert_event event =
     transact (\<lambda>rows.
       let fresh = \<lparr>dr_id = next_rowid (map dr_id rows), dr_area = area_as_str (de_area event),
                    dr_severity = severity_as_str (de_severity event),
                    dr_code = diagnostic_code_as_str (de_code event),
                    dr_summary = diagnostic_summary_as_str (de_summary event),
                    dr_context_json = map_option diagnostic_context_as_str (de_context event),
                    dr_created_at_ms = de_created_at_ms event\<rparr>
       in if \<not> check_diagnostic fresh then Inl DiagnosticsWrite
          else Inr ((), apply_retention (de_created_at_ms event) (rows @ [fresh])))"

text \<open>\<open>DiagnosticRecorder::record\<close> drops an error.\<close>

definition record_event :: "diagnostic_event \<Rightarrow> diagnostic_row list \<Rightarrow> diagnostic_row list" where
  "record_event event rows = snd (insert_event event rows)"

definition event_of_row ::
  "diagnostic_row \<Rightarrow> diagnostic_validation_error + stored_diagnostic_event" where
  "event_of_row r =
     bind_res (transpose_opt diagnostic_context_new (dr_context_json r)) (\<lambda>context.
     bind_res (ok_or InvalidEventContext (area_from_storage (dr_area r))) (\<lambda>area.
     bind_res (ok_or InvalidEventContext (severity_from_storage (dr_severity r))) (\<lambda>severity.
     bind_res (diagnostic_code_new (dr_code r)) (\<lambda>code.
     bind_res (diagnostic_summary_new (dr_summary r)) (\<lambda>summary.
     bind_res (diagnostic_event_new area severity code summary context (dr_created_at_ms r))
       (\<lambda>event. stored_diagnostic_event_new (dr_id r) event))))))"

definition read_recent_events ::
  "nat \<Rightarrow> diagnostic_row list \<Rightarrow> diagnostics_store_error + stored_diagnostic_event list" where
  "read_recent_events limit rows =
     map_err DiagnosticsRead (collect_res event_of_row (newest_events limit rows))"

section \<open>The health report\<close>

datatype health_status = HealthOk | HealthWarning | HealthError

record health_reason =
  hr_code :: string
  hr_message :: string

record diagnostics_health =
  dh_status :: health_status
  dh_reasons :: "health_reason list"
  dh_generated_at :: string

record run_error_report =
  rer_code :: string
  rer_summary :: string

record refresh_run_report =
  frr_id :: i64
  frr_trigger :: string
  frr_status :: string
  frr_started_at :: "string option"
  frr_finished_at :: "string option"
  frr_requested_by_app_version :: string
  frr_error :: "run_error_report option"

record import_run_report =
  imr_id :: i64
  imr_refresh_run_id :: i64
  imr_source_id :: string
  imr_collector_key :: string
  imr_collector_version :: string
  imr_profile_version :: i64
  imr_projection :: string
  imr_scope_kind :: string
  imr_scope_start_date :: "string option"
  imr_scope_end_date :: "string option"
  imr_status :: string
  imr_records_seen :: i64
  imr_records_rejected :: i64
  imr_started_at :: string
  imr_finished_at :: "string option"
  imr_error :: "run_error_report option"

record usage_integrity_report =
  ui_today_daily_usage_rows :: i64
  ui_today_daily_model_usage_rows :: i64
  ui_today_daily_usage_token_sum :: i64
  ui_today_daily_model_usage_token_sum :: i64
  ui_orphan_daily_model_rows :: i64
  ui_model_rows_without_total_tokens :: i64

text \<open>Numeric identifiers and counters are kept as numbers; the code prints them in decimal.\<close>

definition timestamp_ms_to_rfc3339 :: "chrono \<Rightarrow> i64 \<Rightarrow> string" where
  "timestamp_ms_to_rfc3339 c value =
     (case millis_to_rfc3339 c value of Some s \<Rightarrow> s
      | None \<Rightarrow> (case millis_to_rfc3339 c 0 of Some s \<Rightarrow> s | None \<Rightarrow> []))"

definition run_error_report_of :: "string option \<Rightarrow> string option \<Rightarrow> run_error_report option" where
  "run_error_report_of code summary =
     (case (code, summary) of
        (Some co, Some s) \<Rightarrow> Some \<lparr>rer_code = co, rer_summary = s\<rparr>
      | (Some co, None) \<Rightarrow>
          Some \<lparr>rer_code = co, rer_summary = ''No error summary was recorded.''\<rparr>
      | (None, Some s) \<Rightarrow> Some \<lparr>rer_code = ''unknown'', rer_summary = s\<rparr>
      | (None, None) \<Rightarrow> None)"

definition read_latest_refresh_runs :: "chrono \<Rightarrow> nat \<Rightarrow> database \<Rightarrow> refresh_run_report list" where
  "read_latest_refresh_runs c limit db =
     map (\<lambda>r. \<lparr>frr_id = rr_id r, frr_trigger = rr_trigger r, frr_status = rr_status r,
               frr_started_at = map_option (timestamp_ms_to_rfc3339 c) (rr_started_at_ms r),
               frr_finished_at = map_option (timestamp_ms_to_rfc3339 c) (rr_finished_at_ms r),
               frr_requested_by_app_version = rr_requested_by_app_version r,
               frr_error = run_error_report_of (rr_error_code r) (rr_error_summary r)\<rparr>)
       (take limit (rev (sort_key (\<lambda>r. (rr_created_at_ms r, rr_id r)) (db_refresh_runs db))))"

definition read_latest_import_runs :: "chrono \<Rightarrow> nat \<Rightarrow> database \<Rightarrow> import_run_report list" where
  "read_latest_import_runs c limit db =
     (let joined = concat (map (\<lambda>r. map (Pair r)
            (filter (\<lambda>s. so_id s = ir_source_id r) (db_sources db)))
            (rev (sort_key (\<lambda>r. (ir_started_at_ms r, ir_id r)) (db_import_runs db))))
      in map (\<lambda>(r, s).
           \<lparr>imr_id = ir_id r, imr_refresh_run_id = ir_refresh_run_id r,
            imr_source_id = so_source_key s, imr_collector_key = ir_collector_key r,
            imr_collector_version = ir_collector_version r,
            imr_profile_version = ir_profile_version r, imr_projection = ir_projection r,
            imr_scope_kind = ir_scope_kind r, imr_scope_start_date = ir_scope_start_date r,
            imr_scope_end_date = ir_scope_end_date r, imr_status = ir_status r,
            imr_records_seen = ir_records_seen r, imr_records_rejected = ir_records_rejected r,
            imr_started_at = timestamp_ms_to_rfc3339 c (ir_started_at_ms r),
            imr_finished_at = map_option (timestamp_ms_to_rfc3339 c) (ir_finished_at_ms r),
            imr_error = run_error_report_of (ir_error_code r) (ir_error_detail r)\<rparr>)
         (take limit joined))"

record event_report =
  er_id :: i64
  er_area :: string
  er_severity :: string
  er_code :: string
  er_summary :: string
  er_created_at :: string

text \<open>The event's context, a redaction of its JSON text for display, is left out of the report.\<close>

definition diagnostic_event_report :: "chrono \<Rightarrow> stored_diagnostic_event \<Rightarrow> event_report" where
  "diagnostic_event_report c stored =
     \<lparr>er_id = sde_id stored, er_area = area_as_str (de_area (sde_event stored)),
      er_severity = severity_as_str (de_severity (sde_event stored)),
      er_code = diagnostic_code_as_str (de_code (sde_event stored)),
      er_summary = diagnostic_summary_as_str (de_summary (sde_event stored)),
      er_created_at = timestamp_ms_to_rfc3339 c (de_created_at_ms (sde_event stored))\<rparr>"

text \<open>\<open>Vec::dedup_by\<close>: an element equal to the one kept before it is dropped.\<close>

fun dedup_reasons :: "health_reason list \<Rightarrow> health_reason list" where
  "dedup_reasons (x # y # rs) =
     (if hr_code x = hr_code y then dedup_reasons (x # rs) else x # dedup_reasons (y # rs))"
| "dedup_reasons rs = rs"

definition refresh_reasons :: "refresh_run_report list \<Rightarrow> bool \<times> health_reason list" where
  "refresh_reasons refreshes =
     (case refreshes of [] \<Rightarrow> (False, [])
      | latest # _ \<Rightarrow>
          if frr_status latest = ''failed''
          then if list_ex (\<lambda>run. frr_status run = ''succeeded'') refreshes
               then (False, [\<lparr>hr_code = ''diagnostics.refresh_failed'',
                  hr_message = ''The latest refresh failed, but previous refresh data is available.''\<rparr>])
               else (True, [\<lparr>hr_code = ''diagnostics.refresh_failed'',
                  hr_message = ''The latest refresh failed and no recent successful refresh is available.''\<rparr>])
          else if frr_status latest = ''partial''
          then (False, [\<lparr>hr_code = ''diagnostics.refresh_partial'',
                  hr_message = ''The latest refresh completed with partial data.''\<rparr>])
          else (False, []))"

definition source_reasons ::
  "refresh_run_report list \<Rightarrow> import_run_report list \<Rightarrow> health_reason list" where
  "source_reasons refreshes imps =
     (case refreshes of [] \<Rightarrow> []
      | latest # _ \<Rightarrow>
          if list_ex (\<lambda>i. imr_status i \<in> {''failed'', ''partial'', ''cancelled''})
               (filter (\<lambda>i. imr_refresh_run_id i = frr_id latest) imps)
          then [\<lparr>hr_code = ''diagnostics.sources_failed'',
                 hr_message = ''Some sources failed during the last refresh.''\<rparr>]
          else [])"

definition event_reasons :: "event_report list \<Rightarrow> bool \<times> health_reason list" where
  "event_reasons events =
     (if list_ex (\<lambda>e. er_severity e = ''error'') events
      then (True, [\<lparr>hr_code = ''diagnostics.recent_errors'',
                    hr_message = ''Burnly recorded recent local diagnostic errors.''\<rparr>])
      else if list_ex (\<lambda>e. er_severity e = ''warning'') events
      then (False, [\<lparr>hr_code = ''diagnostics.recent_warnings'',
                     hr_message = ''Burnly recorded recent local diagnostic warnings.''\<rparr>])
      else (False, []))"

definition derive_health ::
  "string \<Rightarrow> bool \<Rightarrow> refresh_run_report list \<Rightarrow> import_run_report list \<Rightarrow> usage_integrity_report
   \<Rightarrow> event_report list \<Rightarrow> diagnostics_health" where
  "derive_health generated_at tables_present refreshes imps integrity events =
     (let tables = (if tables_present then []
            else [\<lparr>hr_code = ''diagnostics.database_tables_missing'',
                   hr_message = ''Burnly local storage is missing required tables.''\<rparr>]);
          broken = (0 < ui_orphan_daily_model_rows integrity \<or>
                    0 < ui_model_rows_without_total_tokens integrity);
          totals = (if broken
            then [\<lparr>hr_code = ''diagnostics.usage_integrity_failed'',
                   hr_message = ''Burnly local usage totals contain inconsistent rows.''\<rparr>] else []);
          daily = (if 0 < ui_today_daily_model_usage_rows integrity \<and>
                      ui_today_daily_usage_rows integrity = 0
            then [\<lparr>hr_code = ''diagnostics.daily_totals_missing'',
                   hr_message = ''Daily model usage exists but today summary totals are missing.''\<rparr>]
            else []);
          (refresh_error, refresh) = refresh_reasons refreshes;
          sources = source_reasons refreshes imps;
          (event_error, recent) = event_reasons events;
          has_error = (\<not> tables_present \<or> broken \<or> refresh_error \<or> event_error);
          reasons = dedup_reasons
            (sort_key hr_code (tables @ totals @ daily @ refresh @ sources @ recent))
      in \<lparr>dh_status = (if has_error then HealthError else if reasons = [] then HealthOk
                       else HealthWarning),
          dh_reasons = reasons, dh_generated_at = generated_at\<rparr>)"

section \<open>Lemmas on events\<close>

lemma area_storage: "area_from_storage s = Some a \<longleftrightarrow> s = area_as_str a"
  by (cases a) (auto simp: area_from_storage_def split: if_splits)

lemma severity_storage: "severity_from_storage s = Some v \<longleftrightarrow> s = severity_as_str v"
  by (cases v) (auto simp: severity_from_storage_def split: if_splits)

text \<open>What the constructors guarantee of an event.\<close>

definition event_valid :: "diagnostic_event \<Rightarrow> bool" where
  "event_valid e \<longleftrightarrow>
     \<not> blank (diagnostic_code_as_str (de_code e)) \<and>
     length (diagnostic_code_as_str (de_code e)) \<le> 128 \<and>
     \<not> blank (diagnostic_summary_as_str (de_summary e)) \<and>
     length (diagnostic_summary_as_str (de_summary e)) \<le> 240 \<and>
     (case de_context e of None \<Rightarrow> True
      | Some x \<Rightarrow> \<not> blank (diagnostic_context_as_str x) \<and>
                  length (diagnostic_context_as_str x) \<le> 4096) \<and>
     0 \<le> de_created_at_ms e"

definition row_of_event :: "int \<Rightarrow> diagnostic_event \<Rightarrow> diagnostic_row" where
  "row_of_event i e =
     \<lparr>dr_id = i, dr_area = area_as_str (de_area e), dr_severity = severity_as_str (de_severity e),
      dr_code = diagnostic_code_as_str (de_code e),
      dr_summary = diagnostic_summary_as_str (de_summary e),
      dr_context_json = map_option diagnostic_context_as_str (de_context e),
      dr_created_at_ms = de_created_at_ms e\<rparr>"

lemmas event_constructor_defs =
  diagnostic_code_new_def diagnostic_summary_new_def diagnostic_context_new_def
  validate_bounded_text_def max_code_len_def max_summary_len_def max_context_json_len_def

lemma event_of_row_of_event:
  "\<lbrakk>event_valid e; 0 < i\<rbrakk> \<Longrightarrow> event_of_row (row_of_event i e) = Inr \<lparr>sde_id = i, sde_event = e\<rparr>"
  using area_storage [of "area_as_str (de_area e)" "de_area e"]
    severity_storage [of "severity_as_str (de_severity e)" "de_severity e"]
  by (cases "de_context e")
     (auto simp: event_of_row_def row_of_event_def event_valid_def event_constructor_defs
       transpose_opt_def diagnostic_event_new_def stored_diagnostic_event_new_def)

lemma insert_event_eq:
  "insert_event e rows =
     (let fresh = row_of_event (next_rowid (map dr_id rows)) e
      in if check_diagnostic fresh
         then (Inr (), apply_retention (de_created_at_ms e) (rows @ [fresh]))
         else (Inl DiagnosticsWrite, rows))"
  by (simp add: insert_event_def transact_def row_of_event_def Let_def)

text \<open>The invariant of the event log: distinct keys, at most 500 rows, and every row reads back.\<close>

definition event_log_ok :: "diagnostic_row list \<Rightarrow> bool" where
  "event_log_ok rows \<longleftrightarrow>
     distinct (map dr_id rows) \<and> length rows \<le> max_diagnostic_events \<and>
     list_all (\<lambda>r. check_diagnostic r \<and> is_ok (event_of_row r)) rows"

lemma newest_events_subset: "set (newest_events n rows) \<subseteq> set rows"
  using set_take_subset [of n "rev (sort_key event_order rows)"] by (auto simp: newest_events_def)

lemma newest_events_length: "length (newest_events n rows) = min n (length rows)"
  by (simp add: newest_events_def)

lemma distinct_filter_length:
  assumes "distinct (map f rows)"
  shows "length (filter (\<lambda>r. f r \<in> set ks) rows) \<le> length ks"
proof -
  have "distinct (map f (filter (\<lambda>r. f r \<in> set ks) rows))"
    using assms by (rule distinct_map_filter)
  then have "length (filter (\<lambda>r. f r \<in> set ks) rows) =
      card (set (map f (filter (\<lambda>r. f r \<in> set ks) rows)))"
    by (metis distinct_card length_map)
  also have "\<dots> \<le> card (set ks)"
    by (rule card_mono) auto
  also have "\<dots> \<le> length ks"
    by (rule card_length)
  finally show ?thesis .
qed

lemma length_filter_le_of_imp:
  "(\<And>x. p x \<Longrightarrow> q x) \<Longrightarrow> length (filter p xs) \<le> length (filter q xs)"
  by (induction xs) auto

lemma apply_retention_bounded:
  assumes "distinct (map dr_id rows)"
  shows "length (apply_retention now rows) \<le> max_diagnostic_events"
proof -
  let ?kept = "map dr_id (newest_events max_diagnostic_events rows)"
  have "length (apply_retention now rows) \<le> length (filter (\<lambda>r. dr_id r \<in> set ?kept) rows)"
    unfolding apply_retention_def Let_def
    by (rule length_filter_le_of_imp) simp
  also have "\<dots> \<le> length ?kept"
    using assms by (rule distinct_filter_length)
  also have "\<dots> \<le> max_diagnostic_events"
    by (simp add: newest_events_length)
  finally show ?thesis .
qed

lemma apply_retention_subset: "set (apply_retention now rows) \<subseteq> set rows"
  by (auto simp: apply_retention_def Let_def)

lemma fresh_event_id:
  assumes "event_log_ok rows"
  shows "distinct (map dr_id (rows @ [row_of_event (next_rowid (map dr_id rows)) e]))"
    and "0 < next_rowid (map dr_id rows)"
  using assms next_rowid_not_in [of "map dr_id rows"] next_rowid_pos [of "map dr_id rows"]
  by (auto simp: event_log_ok_def row_of_event_def)

lemma insert_event_ok:
  assumes "event_log_ok rows" and "event_valid e"
  shows "event_log_ok (snd (insert_event e rows))"
proof (cases "check_diagnostic (row_of_event (next_rowid (map dr_id rows)) e)")
  case True
  let ?fresh = "row_of_event (next_rowid (map dr_id rows)) e"
  let ?new = "apply_retention (de_created_at_ms e) (rows @ [?fresh])"
  note ids = fresh_event_id(1) [OF assms(1), of e] fresh_event_id(2) [OF assms(1)]
  have "is_ok (event_of_row ?fresh)"
    using event_of_row_of_event [OF assms(2) ids(2)] by simp
  then have all: "\<forall>r \<in> set (rows @ [?fresh]). check_diagnostic r \<and> is_ok (event_of_row r)"
    using assms(1) True by (auto simp: event_log_ok_def list_all_iff)
  have "distinct (map dr_id ?new)"
    using ids(1) unfolding apply_retention_def Let_def by (rule distinct_map_filter)
  moreover have "length ?new \<le> max_diagnostic_events"
    using ids(1) by (rule apply_retention_bounded)
  moreover have "list_all (\<lambda>r. check_diagnostic r \<and> is_ok (event_of_row r)) ?new"
    using all subsetD [OF apply_retention_subset] unfolding list_all_iff by blast
  ultimately show ?thesis
    using True by (simp add: insert_event_eq Let_def event_log_ok_def)
next
  case False
  with assms(1) show ?thesis by (simp add: insert_event_eq Let_def)
qed

lemma read_recent_events_ok:
  assumes "event_log_ok rows"
  shows "\<exists>es. read_recent_events n rows = Inr es \<and>
    list_all2 (\<lambda>r e. event_of_row r = Inr e) (newest_events n rows) es"
proof -
  have "\<exists>e. event_of_row r = Inr e" if "r \<in> set (newest_events n rows)" for r
  proof -
    have "is_ok (event_of_row r)"
      using that assms newest_events_subset [of n rows] by (auto simp: event_log_ok_def list_all_iff)
    then show ?thesis by (cases "event_of_row r") simp_all
  qed
  then have "list_all2 (\<lambda>r e. event_of_row r = Inr e) (newest_events n rows)
      (map (\<lambda>r. SOME e. event_of_row r = Inr e) (newest_events n rows))"
    by (simp add: list.rel_map list_all2_same) (meson someI)
  then show ?thesis
    unfolding read_recent_events_def map_err_Inr collect_res_Inr by blast
qed

lemma insort_key_append_greatest:
  "f a < f x \<Longrightarrow> insort_key f a (ys @ [x]) = insort_key f a ys @ [x]"
  by (induction ys) auto

lemma sort_key_append_greatest:
  "\<forall>y \<in> set ys. f y < f x \<Longrightarrow> sort_key f (ys @ [x]) = sort_key f ys @ [x]"
  by (induction ys) (simp_all add: insort_key_append_greatest)

lemma sort_key_filter: "sort_key f (filter p xs) = filter p (sort_key f xs)"
  by (rule filter_sort [symmetric])

lemma newest_events_append_greatest:
  "\<forall>r \<in> set rows. event_order r < event_order x \<Longrightarrow>
     newest_events (Suc n) (rows @ [x]) = x # newest_events n rows"
  by (simp add: newest_events_def sort_key_append_greatest)

lemma newest_events_sorted:
  "sorted_wrt (\<lambda>a b. event_order b \<le> event_order a) (newest_events n rows)"
proof -
  have "sorted_wrt (\<le>) (map event_order (sort_key event_order rows))"
    by simp
  then have "sorted_wrt (\<lambda>a b. event_order b \<le> event_order a) (rev (sort_key event_order rows))"
    by (simp add: sorted_wrt_rev sorted_wrt_map)
  then show ?thesis unfolding newest_events_def by (rule sorted_wrt_take)
qed

text \<open>
  In a strictly descending list the first \<open>n\<close> elements are those with fewer than \<open>n\<close> greater ones.
\<close>

lemma set_take_rank:
  fixes f :: "'a \<Rightarrow> 'b :: linorder"
  assumes "sorted_wrt (\<lambda>a b. f b < f a) ys"
  shows "set (take n ys) = {x \<in> set ys. card {y \<in> set ys. f x < f y} < n}"
proof -
  have above: "card {y \<in> set ys. f (ys ! i) < f y} = i" if "i < length ys" for i
  proof -
    have order: "f (ys ! k) < f (ys ! j)" if "j < k" "k < length ys" for j k
      using assms that by (auto simp: sorted_wrt_iff_nth_less)
    have "{y \<in> set ys. f (ys ! i) < f y} = (!) ys ` {..<i}"
    proof (intro equalityI subsetI)
      fix y assume "y \<in> {y \<in> set ys. f (ys ! i) < f y}"
      then obtain j where "j < length ys" "y = ys ! j" "f (ys ! i) < f (ys ! j)"
        by (auto simp: in_set_conv_nth)
      moreover from this have "j < i" using order [of i j] by (cases i j rule: linorder_cases) auto
      ultimately show "y \<in> (!) ys ` {..<i}" by blast
    qed (use order that in auto)
    moreover have "inj_on ((!) ys) {..<i}"
      by (rule inj_onI) (metis lessThan_iff less_irrefl linorder_neqE_nat order order.strict_trans that)
    ultimately show ?thesis by (simp add: card_image)
  qed
  show ?thesis
  proof (intro equalityI subsetI)
    fix x assume "x \<in> set (take n ys)"
    then obtain i where "i < n" "i < length ys" "x = ys ! i" by (auto simp: in_set_conv_nth)
    with above show "x \<in> {x \<in> set ys. card {y \<in> set ys. f x < f y} < n}" by auto
  next
    fix x assume "x \<in> {x \<in> set ys. card {y \<in> set ys. f x < f y} < n}"
    then obtain i where "i < length ys" "x = ys ! i" "i < n" using above by (auto simp: in_set_conv_nth)
    then show "x \<in> set (take n ys)" by (auto simp: in_set_conv_nth)
  qed
qed

lemma newest_events_strict:
  assumes "distinct (map dr_id rows)"
  shows "sorted_wrt (\<lambda>a b. event_order b < event_order a) (newest_events n rows)"
proof -
  have "distinct (map dr_id (rev (sort_key event_order rows)))"
    using assms by (simp add: rev_map [symmetric] distinct_map)
  then have "distinct (map dr_id (newest_events n rows))"
    unfolding newest_events_def take_map [symmetric] by (rule distinct_take)
  then have "sorted_wrt (\<lambda>a b. dr_id a \<noteq> dr_id b) (newest_events n rows)"
    by (simp add: sorted_wrt_iff_nth_less distinct_conv_nth)
  with newest_events_sorted [of n rows]
  have "sorted_wrt (\<lambda>a b. event_order b \<le> event_order a \<and> dr_id a \<noteq> dr_id b) (newest_events n rows)"
    by (auto simp: sorted_wrt_iff_nth_less)
  then show ?thesis by (rule sorted_wrt_mono_rel [rotated]) (auto simp: event_order_def)
qed

lemma set_newest_events:
  assumes "distinct (map dr_id rows)"
  shows "set (newest_events n rows) =
    {r \<in> set rows. card {s \<in> set rows. event_order r < event_order s} < n}"
proof -
  have all: "newest_events (length rows) rows = rev (sort_key event_order rows)"
    by (simp add: newest_events_def)
  have "newest_events n rows = take n (newest_events (length rows) rows)"
    by (simp add: newest_events_def)
  with set_take_rank [OF newest_events_strict [OF assms], of n "length rows"]
  show ?thesis by (simp add: all)
qed

lemma set_apply_retention:
  assumes "distinct (map dr_id rows)"
  shows "set (apply_retention now rows) =
    {r \<in> set rows. i64_saturating_sub now 1209600000 \<le> dr_created_at_ms r \<and>
       card {s \<in> set rows. event_order r < event_order s} < 500}"
proof -
  have "dr_id r \<in> set (map dr_id (newest_events 500 rows)) \<longleftrightarrow> r \<in> set (newest_events 500 rows)"
    if "r \<in> set rows" for r
    using that assms newest_events_subset [of 500 rows] by (auto simp: distinct_map inj_on_def)
  then show ?thesis
    unfolding apply_retention_def Let_def max_diagnostic_events_def set_filter
      diagnostic_event_retention_ms_def
    by (auto simp: set_newest_events [OF assms])
qed

section \<open>Lemmas on health\<close>

lemma dedup_reasons_set: "hr_code ` set (dedup_reasons rs) = hr_code ` set rs"
  by (induction rs rule: dedup_reasons.induct) auto

lemma dedup_reasons_hd: "rs \<noteq> [] \<Longrightarrow> dedup_reasons rs \<noteq> [] \<and> hd (dedup_reasons rs) = hd rs"
  by (induction rs rule: dedup_reasons.induct) auto

lemma dedup_reasons_sorted:
  "sorted (map hr_code rs) \<Longrightarrow> sorted_wrt (<) (map hr_code (dedup_reasons rs))"
proof (induction rs rule: dedup_reasons.induct)
  case (1 x y rs)
  show ?case
  proof (cases "hr_code x = hr_code y")
    case True
    with 1 show ?thesis by simp
  next
    case False
    with 1 have "sorted_wrt (<) (map hr_code (dedup_reasons (y # rs)))" by simp
    moreover have "\<forall>c \<in> hr_code ` set (y # rs). hr_code x < c"
      using False 1(3) by (auto simp: less_le)
    ultimately show ?thesis
      using False dedup_reasons_set [of "y # rs"] by simp
  qed
qed simp_all

lemma dedup_sort_Nil: "dedup_reasons (sort_key hr_code rs) = [] \<longleftrightarrow> rs = []"
  using dedup_reasons_set [of "sort_key hr_code rs"] by auto

lemma dedup_sort_sorted:
  "sorted_wrt (<) (map hr_code (dedup_reasons (sort_key hr_code rs)))"
  by (rule dedup_reasons_sorted) simp

section \<open>Reading the log\<close>

lemma event_of_row_order:
  "event_of_row r = Inr x \<Longrightarrow> event_order r = (de_created_at_ms (sde_event x), sde_id x)"
  by (auto simp: event_order_def event_of_row_def bind_res_Inr diagnostic_event_new_def
      stored_diagnostic_event_new_def split: if_splits)

lemma read_recent_events_newest:
  assumes "event_log_ok rows"
  shows "\<exists>es. read_recent_events n rows = Inr es \<and> length es = min n (length rows) \<and>
    set es = {x. \<exists>r \<in> set rows. event_of_row r = Inr x \<and>
                card {s \<in> set rows. event_order r < event_order s} < n} \<and>
    sorted_wrt (\<lambda>a b. (de_created_at_ms (sde_event b), sde_id b) <
                      (de_created_at_ms (sde_event a), sde_id a)) es"
proof -
  have ids: "distinct (map dr_id rows)" using assms by (simp add: event_log_ok_def)
  from read_recent_events_ok [OF assms] obtain es where
    es: "read_recent_events n rows = Inr es"
    and all: "list_all2 (\<lambda>r e. event_of_row r = Inr e) (newest_events n rows) es" by blast
  have "map (\<lambda>x. (de_created_at_ms (sde_event x), sde_id x)) es = map event_order (newest_events n rows)"
    using all by (induction rule: list_all2_induct) (simp_all add: event_of_row_order)
  moreover have "sorted_wrt (\<lambda>a b. b < a) (map event_order (newest_events n rows))"
    using newest_events_strict [OF ids] by (simp add: sorted_wrt_map)
  ultimately have "sorted_wrt (\<lambda>a b. b < a) (map (\<lambda>x. (de_created_at_ms (sde_event x), sde_id x)) es)"
    by simp
  moreover have "set es = {x. \<exists>r \<in> set (newest_events n rows). event_of_row r = Inr x}"
    using all by (induction rule: list_all2_induct) auto
  ultimately show ?thesis
    using es list_all2_lengthD [OF all]
    by (simp add: sorted_wrt_map newest_events_length set_newest_events [OF ids] conj_commute)
       auto
qed

section \<open>Properties\<close>

text \<open>
  C27: Recording keeps exactly the newest events. Recording a validated event in a well-formed log
  leaves, of the recorded rows and the new one, exactly those not more than 14 days older than it
  with fewer than 500 newer ones (by time, then key), each the same row as before; only when the
  table refuses the new row, the log is unchanged. The log stays well formed with at most 500 rows,
  and reading \<open>n\<close> events back succeeds with exactly the \<open>n\<close> newest rows, newest first.
\<close>
theorem record_event_keeps_log:
  assumes "event_log_ok rows" and "event_valid e"
  shows "let fresh = row_of_event (next_rowid (map dr_id rows)) e;
             offered = insert fresh (set rows);
             rows' = record_event e rows
         in (if check_diagnostic fresh
             then set rows' = {r \<in> offered.
               i64_saturating_sub (de_created_at_ms e) (14 * 24 * 60 * 60 * 1000) \<le> dr_created_at_ms r \<and>
               card {s \<in> offered. event_order r < event_order s} < 500}
             else rows' = rows) \<and>
            event_log_ok rows' \<and> length rows' \<le> 500 \<and>
            (\<forall>n. \<exists>es. read_recent_events n rows' = Inr es \<and>
               length es = min n (length rows') \<and>
               set es = {x. \<exists>r \<in> set rows'. event_of_row r = Inr x \<and>
                           card {s \<in> set rows'. event_order r < event_order s} < n} \<and>
               sorted_wrt (\<lambda>a b. (de_created_at_ms (sde_event b), sde_id b) <
                                 (de_created_at_ms (sde_event a), sde_id a)) es)"
proof -
  let ?rows = "record_event e rows"
  let ?fresh = "row_of_event (next_rowid (map dr_id rows)) e"
  have ok: "event_log_ok ?rows"
    unfolding record_event_def using assms by (rule insert_event_ok)
  have kept: "if check_diagnostic ?fresh
      then set ?rows = {r \<in> insert ?fresh (set rows).
        i64_saturating_sub (de_created_at_ms e) (14 * 24 * 60 * 60 * 1000) \<le> dr_created_at_ms r \<and>
        card {s \<in> insert ?fresh (set rows). event_order r < event_order s} < 500}
      else ?rows = rows"
    using set_apply_retention [OF fresh_event_id(1) [OF assms(1)], of "de_created_at_ms e" e]
    by (simp add: record_event_def insert_event_eq Let_def)
  have reading: "\<exists>es. read_recent_events n ?rows = Inr es \<and> length es = min n (length ?rows) \<and>
       set es = {x. \<exists>r \<in> set ?rows. event_of_row r = Inr x \<and>
                   card {s \<in> set ?rows. event_order r < event_order s} < n} \<and>
       sorted_wrt (\<lambda>a b. (de_created_at_ms (sde_event b), sde_id b) <
                         (de_created_at_ms (sde_event a), sde_id a)) es" for n
    using ok by (rule read_recent_events_newest)
  show ?thesis unfolding Let_def using kept reading ok
    by (simp add: event_log_ok_def max_diagnostic_events_def)
qed

definition demo_event :: "i64 \<Rightarrow> diagnostic_event" where
  "demo_event at =
     \<lparr>de_area = AreaCollector, de_severity = SeverityWarning,
      de_code = DiagnosticCode ''collection.target_failed'',
      de_summary = DiagnosticSummary ''Collection failed.'', de_context = None,
      de_created_at_ms = at\<rparr>"

lemma demo_event_valid: "0 \<le> at \<Longrightarrow> event_valid (demo_event at)"
  by (simp add: demo_event_def event_valid_def not_blank_visible visible_def)

lemma event_log_empty: "event_log_ok []"
  by (simp add: event_log_ok_def)

lemma demo_event_recorded:
  "record_event (demo_event 7) [] = [row_of_event 1 (demo_event 7)]"
  by (simp add: record_event_def insert_event_eq Let_def check_diagnostic_def row_of_event_def
      demo_event_def sql_nonblank_def next_rowid_def apply_retention_def newest_events_def
      max_diagnostic_events_def diagnostic_event_retention_ms_def i64_saturating_sub_def
      i64_clamp_def i64_min_def i64_max_def)

theorem record_event_keeps_log_witness:
  "\<exists>es. read_recent_events 1 (record_event (demo_event 9) [row_of_event 1 (demo_event 7)]) = Inr es \<and>
     length es = 1 \<and> record_event (demo_event 9) [row_of_event 1 (demo_event 7)] \<noteq> []"
proof -
  have log: "event_log_ok [row_of_event 1 (demo_event 7)]"
    using insert_event_ok [OF event_log_empty demo_event_valid [of 7]] demo_event_recorded
    by (simp add: record_event_def)
  let ?rows = "[row_of_event 1 (demo_event 7)]"
  let ?fresh = "row_of_event (next_rowid (map dr_id ?rows)) (demo_event 9)"
  have check: "check_diagnostic ?fresh"
    by (simp add: check_diagnostic_def row_of_event_def demo_event_def sql_nonblank_def)
  have newest: "{s \<in> insert ?fresh (set ?rows). event_order ?fresh < event_order s} = {}"
    by (auto simp: event_order_def row_of_event_def demo_event_def)
  have valid: "event_valid (demo_event 9)" by (rule demo_event_valid) simp
  note spec = record_event_keeps_log [OF log valid, unfolded Let_def]
  have kept: "set (record_event (demo_event 9) ?rows) = {r \<in> insert ?fresh (set ?rows).
      i64_saturating_sub (de_created_at_ms (demo_event 9)) (14 * 24 * 60 * 60 * 1000) \<le> dr_created_at_ms r \<and>
      card {s \<in> insert ?fresh (set ?rows). event_order r < event_order s} < 500}"
    using spec [THEN conjunct1] check by (simp only: if_True)
  have "?fresh \<in> set (record_event (demo_event 9) ?rows)"
    unfolding kept mem_Collect_eq newest
    by (simp add: i64_saturating_sub_def i64_clamp_def i64_min_def i64_max_def demo_event_def
        row_of_event_def)
  then have some: "record_event (demo_event 9) ?rows \<noteq> []" by auto
  from spec have "\<exists>es. read_recent_events 1 (record_event (demo_event 9) ?rows) = Inr es \<and>
      length es = min 1 (length (record_event (demo_event 9) ?rows))" by meson
  with some show ?thesis by (cases "record_event (demo_event 9) ?rows") auto
qed

text \<open>
  C28: An event that is stored and not older than the log is what the next read returns first,
  field for field as it was recorded: retention never drops the event just recorded, and the text
  columns round-trip through the table.
\<close>
theorem recorded_event_read_back:
  assumes "event_log_ok rows" and "event_valid e"
    and "\<forall>r \<in> set rows. dr_created_at_ms r \<le> de_created_at_ms e"
    and "insert_event e rows = (Inr (), rows')"
  shows "\<exists>es. read_recent_events (Suc n) rows' =
    Inr (\<lparr>sde_id = next_rowid (map dr_id rows), sde_event = e\<rparr> # es)"
proof -
  let ?i = "next_rowid (map dr_id rows)"
  let ?x = "row_of_event ?i e" and ?now = "de_created_at_ms e"
  note pos = fresh_event_id(2) [OF assms(1)]
  have rows': "rows' = apply_retention ?now (rows @ [?x])"
    using assms(4) by (auto simp: insert_event_eq Let_def split: if_splits)
  have less: "\<forall>r \<in> set rows. event_order r < event_order ?x"
    using assms(3) next_rowid_fresh [of _ "map dr_id rows"]
    by (auto simp: event_order_def row_of_event_def)
  obtain k where k: "max_diagnostic_events = Suc k" by (simp add: max_diagnostic_events_def)
  have "i64_saturating_sub ?now diagnostic_event_retention_ms \<le> ?now"
    using assms(2)
    by (simp add: event_valid_def i64_saturating_sub_def i64_clamp_def i64_min_def i64_max_def
        diagnostic_event_retention_ms_def)
  then obtain ys where ys: "rows' = ys @ [?x]" and sub: "set ys \<subseteq> set rows"
    unfolding rows' apply_retention_def Let_def k newest_events_append_greatest [OF less]
    by (simp add: row_of_event_def)
  have "read_recent_events (Suc n) rows' =
      map_err DiagnosticsRead (collect_res event_of_row (?x # newest_events n ys))"
    unfolding read_recent_events_def ys
    by (subst newest_events_append_greatest) (use less sub in auto)
  moreover have ok: "event_log_ok rows'"
    using insert_event_ok [OF assms(1,2)] assms(4) by simp
  moreover from read_recent_events_ok [OF ok, of "Suc n"] obtain es where
    "read_recent_events (Suc n) rows' = Inr es" by blast
  ultimately show ?thesis
    by (auto simp: event_of_row_of_event [OF assms(2) pos] split: sum.splits)
qed

theorem recorded_event_read_back_witness:
  "\<exists>es. read_recent_events 1 [row_of_event 1 (demo_event 7)] =
     Inr (\<lparr>sde_id = 1, sde_event = demo_event 7\<rparr> # es)"
proof -
  have "insert_event (demo_event 7) [] = (Inr (), [row_of_event 1 (demo_event 7)])"
    by (simp add: insert_event_eq Let_def check_diagnostic_def row_of_event_def
        demo_event_def sql_nonblank_def next_rowid_def apply_retention_def newest_events_def
        max_diagnostic_events_def diagnostic_event_retention_ms_def i64_saturating_sub_def
        i64_clamp_def i64_min_def i64_max_def)
  from recorded_event_read_back [OF event_log_empty demo_event_valid _ this, of 0]
  show ?thesis by (simp add: next_rowid_def)
qed

text \<open>
  C29: The health status and its reasons agree. The status is Error exactly when a required table is
  missing, model rows are orphaned or incomplete, the latest refresh failed with no successful one
  among the reported runs, or an error event is reported; it is Ok exactly when no reason is given,
  so an error always comes with a reason; and the reasons are in strictly ascending order of code.
\<close>
theorem derive_health_spec:
  "let h = derive_health at tables refreshes imps integrity events in
     (dh_status h = HealthError \<longleftrightarrow>
        \<not> tables \<or> 0 < ui_orphan_daily_model_rows integrity \<or>
        0 < ui_model_rows_without_total_tokens integrity \<or>
        (refreshes \<noteq> [] \<and> frr_status (hd refreshes) = ''failed'' \<and>
         \<not> list_ex (\<lambda>run. frr_status run = ''succeeded'') refreshes) \<or>
        list_ex (\<lambda>e. er_severity e = ''error'') events) \<and>
     (dh_status h = HealthOk \<longleftrightarrow> dh_reasons h = []) \<and>
     sorted_wrt (<) (map hr_code (dh_reasons h))"
proof -
  obtain re rr ee er where parts: "refresh_reasons refreshes = (re, rr)" "event_reasons events = (ee, er)"
    by (cases "refresh_reasons refreshes", cases "event_reasons events") blast
  have re: "re \<longleftrightarrow> refreshes \<noteq> [] \<and> frr_status (hd refreshes) = ''failed'' \<and>
      \<not> list_ex (\<lambda>run. frr_status run = ''succeeded'') refreshes" and "re \<longrightarrow> rr \<noteq> []"
    using parts(1) by (cases refreshes; auto simp: refresh_reasons_def split: if_splits)+
  moreover have ee: "ee \<longleftrightarrow> list_ex (\<lambda>e. er_severity e = ''error'') events" and "ee \<longrightarrow> er \<noteq> []"
    using parts(2) by (auto simp: event_reasons_def split: if_splits)
  ultimately show ?thesis
    by (simp add: derive_health_def Let_def parts dedup_sort_Nil dedup_sort_sorted) blast
qed

theorem derive_health_spec_witness:
  "dh_status (derive_health [] True [] [] \<lparr>ui_today_daily_usage_rows = 0,
     ui_today_daily_model_usage_rows = 1, ui_today_daily_usage_token_sum = 0,
     ui_today_daily_model_usage_token_sum = 0, ui_orphan_daily_model_rows = 2,
     ui_model_rows_without_total_tokens = 0\<rparr> []) = HealthError"
  using derive_health_spec [of "[]" True "[]" "[]" "\<lparr>ui_today_daily_usage_rows = 0,
     ui_today_daily_model_usage_rows = 1, ui_today_daily_usage_token_sum = 0,
     ui_today_daily_model_usage_token_sum = 0, ui_orphan_daily_model_rows = 2,
     ui_model_rows_without_total_tokens = 0\<rparr>" "[]"]
  by (simp add: Let_def)

end
