(* ===== verification/Effects.thy ===== *)
theory Effects
  imports Prelude
begin

text \<open>
  Fallible operations on a world. A call through a port may change the world and may fail, so it is
  a function from the world to a result and the next world; \<open>?\<close> is \<open>bind_eff\<close> and \<open>map_err\<close> with a
  closure that itself has effects is \<open>catch_eff\<close>. \<open>ensures\<close> states what such an operation
  guarantees on success and on failure; its rules follow the combinators.
\<close>

type_synonym ('w, 'e, 'a) eff = "'w \<Rightarrow> ('e + 'a) \<times> 'w"

definition return_eff :: "'a \<Rightarrow> ('w, 'e, 'a) eff" where
  "return_eff x w = (Inr x, w)"

definition throw_eff :: "'e \<Rightarrow> ('w, 'e, 'a) eff" where
  "throw_eff e w = (Inl e, w)"

definition lift_res :: "'e + 'a \<Rightarrow> ('w, 'e, 'a) eff" where
  "lift_res r w = (r, w)"

definition read_res :: "('w \<Rightarrow> 'e + 'a) \<Rightarrow> ('w, 'e, 'a) eff" where
  "read_res f w = (f w, w)"

text \<open>An operation that cannot fail.\<close>

definition total_eff :: "('w \<Rightarrow> 'a \<times> 'w) \<Rightarrow> ('w, 'e, 'a) eff" where
  "total_eff m w = (case m w of (x, w') \<Rightarrow> (Inr x, w'))"

definition modify_eff :: "('w \<Rightarrow> 'w) \<Rightarrow> ('w, 'e, unit) eff" where
  "modify_eff f w = (Inr (), f w)"

definition bind_eff :: "('w, 'e, 'a) eff \<Rightarrow> ('a \<Rightarrow> ('w, 'e, 'b) eff) \<Rightarrow> ('w, 'e, 'b) eff" where
  "bind_eff m f w = (case m w of (Inl e, w') \<Rightarrow> (Inl e, w') | (Inr x, w') \<Rightarrow> f x w')"

text \<open>Both branches continue: the \<open>match\<close> on a result.\<close>

definition case_eff ::
  "('w, 'e, 'a) eff \<Rightarrow> ('e \<Rightarrow> ('w, 'f, 'b) eff) \<Rightarrow> ('a \<Rightarrow> ('w, 'f, 'b) eff) \<Rightarrow> ('w, 'f, 'b) eff" where
  "case_eff m h f w = (case m w of (Inl e, w') \<Rightarrow> h e w' | (Inr x, w') \<Rightarrow> f x w')"

definition catch_eff :: "('w, 'e, 'a) eff \<Rightarrow> ('e \<Rightarrow> ('w, 'f, 'a) eff) \<Rightarrow> ('w, 'f, 'a) eff" where
  "catch_eff m h = case_eff m h return_eff"

text \<open>\<open>let _ = operation\<close>: the result is dropped.\<close>

definition ignore_eff :: "('w, 'e, 'a) eff \<Rightarrow> ('w, 'f, unit) eff" where
  "ignore_eff m = case_eff m (\<lambda>_. return_eff ()) (\<lambda>_. return_eff ())"

section \<open>Guarantees\<close>

definition ensures ::
  "('w \<Rightarrow> bool) \<Rightarrow> ('w, 'e, 'a) eff \<Rightarrow> ('a \<Rightarrow> 'w \<Rightarrow> bool) \<Rightarrow> ('e \<Rightarrow> 'w \<Rightarrow> bool) \<Rightarrow> bool" where
  "ensures P m Q E \<longleftrightarrow>
     (\<forall>w. P w \<longrightarrow> (case m w of (Inl e, w') \<Rightarrow> E e w' | (Inr x, w') \<Rightarrow> Q x w'))"

named_theorems ensures_rules \<open>one rule per combinator\<close>

lemma ensuresI:
  "\<lbrakk>\<And>w x w'. P w \<Longrightarrow> m w = (Inr x, w') \<Longrightarrow> Q x w'; \<And>w e w'. P w \<Longrightarrow> m w = (Inl e, w') \<Longrightarrow> E e w'\<rbrakk>
   \<Longrightarrow> ensures P m Q E"
  by (auto simp: ensures_def split: sum.splits)

lemma ensuresD_ok: "\<lbrakk>ensures P m Q E; P w; m w = (Inr x, w')\<rbrakk> \<Longrightarrow> Q x w'"
  by (auto simp: ensures_def)

lemma ensuresD_err: "\<lbrakk>ensures P m Q E; P w; m w = (Inl e, w')\<rbrakk> \<Longrightarrow> E e w'"
  by (auto simp: ensures_def)

lemma ensures_mono:
  "\<lbrakk>ensures P' m Q' E'; \<And>w. P w \<Longrightarrow> P' w; \<And>x w. Q' x w \<Longrightarrow> Q x w; \<And>e w. E' e w \<Longrightarrow> E e w\<rbrakk>
   \<Longrightarrow> ensures P m Q E"
  by (fastforce simp: ensures_def split: sum.splits prod.splits)

lemma ensures_return [ensures_rules]: "ensures (Q x) (return_eff x) Q E"
  by (simp add: ensures_def return_eff_def)

lemma ensures_throw [ensures_rules]: "ensures (E e) (throw_eff e) Q E"
  by (simp add: ensures_def throw_eff_def)

lemma ensures_bind [ensures_rules]:
  "\<lbrakk>ensures P m R E; \<And>x. ensures (R x) (f x) Q E\<rbrakk> \<Longrightarrow> ensures P (bind_eff m f) Q E"
  by (fastforce simp: ensures_def bind_eff_def split: sum.splits prod.splits)

lemma ensures_case [ensures_rules]:
  "\<lbrakk>ensures P m R F; \<And>e. ensures (F e) (h e) Q E; \<And>x. ensures (R x) (f x) Q E\<rbrakk>
   \<Longrightarrow> ensures P (case_eff m h f) Q E"
  by (fastforce simp: ensures_def case_eff_def split: sum.splits prod.splits)

lemma ensures_catch [ensures_rules]:
  "\<lbrakk>ensures P m Q F; \<And>e. ensures (F e) (h e) Q E\<rbrakk> \<Longrightarrow> ensures P (catch_eff m h) Q E"
  unfolding catch_eff_def by (rule ensures_case) (rule ensures_return | assumption | simp)+

lemma ensures_ignore [ensures_rules]:
  "ensures P m (\<lambda>_. Q ()) (\<lambda>_. Q ()) \<Longrightarrow> ensures P (ignore_eff m) Q E"
  unfolding ignore_eff_def by (rule ensures_case, assumption) (rule ensures_return)+

lemma ensures_total [ensures_rules]:
  "(\<And>w x w'. P w \<Longrightarrow> m w = (x, w') \<Longrightarrow> Q x w') \<Longrightarrow> ensures P (total_eff m) Q E"
  by (simp add: ensures_def total_eff_def split: prod.splits)

lemma ensures_modify [ensures_rules]:
  "(\<And>w. P w \<Longrightarrow> Q () (f w)) \<Longrightarrow> ensures P (modify_eff f) Q E"
  by (simp add: ensures_def modify_eff_def)

lemma ensures_read [ensures_rules]:
  "ensures (\<lambda>w. case f w of Inl e \<Rightarrow> E e w | Inr x \<Rightarrow> Q x w) (read_res f) Q E"
  by (auto simp: ensures_def read_res_def split: sum.splits)

lemma ensures_lift [ensures_rules]:
  "ensures (\<lambda>w. case r of Inl e \<Rightarrow> E e w | Inr x \<Rightarrow> Q x w) (lift_res r) Q E"
  by (auto simp: ensures_def lift_res_def split: sum.splits)

lemma ensures_pre: "\<lbrakk>ensures P' m Q E; \<And>w. P w \<Longrightarrow> P' w\<rbrakk> \<Longrightarrow> ensures P m Q E"
  by (fastforce simp: ensures_def)

lemma ensures_const: "(\<And>w. P w \<Longrightarrow> R) \<Longrightarrow> (R \<Longrightarrow> ensures P m Q E) \<Longrightarrow> ensures P m Q E"
  by (auto simp: ensures_def)

end
