(* ===== verification/Execution.thy ===== *)
theory Execution
  imports Cost Diagnostics Effects
begin

text \<open>
  The execution of one refresh, \<open>src/src-tauri/src/application/refresh/execution.rs\<close>, with the
  results and failures of \<open>outcome.rs\<close> and the upload scope of the committed days of
  \<open>application/collect_sync/service.rs\<close>. The ports of the code (\<open>Collector\<close>, \<open>RunStore\<close>,
  \<open>UsageStore\<close>, the budget evaluator, \<open>Clock\<close>, \<open>DiagnosticRecorder\<close> and the repair coordinator)
  are one record of operations on a world; the definitions are generic in both.
\<close>

section \<open>Ports\<close>

record 'w refresh_ports =
  po_describe :: "('w, collector_failure, collector_descriptor) eff"
  po_collect :: "collection_request \<Rightarrow> ('w, collector_failure, collection_result) eff"
  po_resolve_source :: "source_key \<Rightarrow> i64 \<Rightarrow> ('w, run_store_error, source_id) eff"
  po_begin_refresh_run :: "refresh_run_spec \<Rightarrow> i64 \<Rightarrow> ('w, run_store_error, refresh_run_id) eff"
  po_complete_refresh_run ::
    "refresh_run_id \<Rightarrow> refresh_run_completion \<Rightarrow> ('w, run_store_error, unit) eff"
  po_begin_import_run :: "import_run_spec \<Rightarrow> i64 \<Rightarrow> ('w, run_store_error, import_run_id) eff"
  po_complete_import_run ::
    "import_run_id \<Rightarrow> import_run_completion \<Rightarrow> ('w, run_store_error, unit) eff"
  po_latest_successful_import ::
    "import_run_lookup \<Rightarrow> 'w \<Rightarrow> run_store_error + successful_import_state option"
  po_delete_expired :: "i64 \<Rightarrow> ('w, run_store_error, nat) eff"
  po_reconcile_daily ::
    "daily_reconciliation_request \<Rightarrow> ('w, usage_store_error, daily_reconciliation_summary) eff"
  po_reconcile_session ::
    "session_reconciliation_request \<Rightarrow> ('w, usage_store_error, session_reconciliation_summary) eff"
  po_evaluate_budget :: "string \<Rightarrow> i64 \<Rightarrow> ('w, unit, unit) eff"
  po_now :: "'w \<Rightarrow> i64 \<times> 'w"
  po_record :: "diagnostic_event \<Rightarrow> 'w \<Rightarrow> 'w"
  po_requires_full :: "'w \<Rightarrow> baseline_repair_error + bool"

record 'w refresh_execution =
  ex_ports :: "'w refresh_ports"
  ex_app_version :: string
  ex_timezone :: string
  ex_chrono :: chrono
  ex_snapshot :: pricing_snapshot

section \<open>Results and failures\<close>

record committed_daily_target =
  cdt_source_key :: string
  cdt_start_date :: naive_date
  cdt_end_date :: naive_date
  cdt_full_history :: bool

record committed_daily_upload =
  cdu_targets :: "committed_daily_target list"
  cdu_full_refresh_complete :: bool

definition committed_daily_upload_default :: committed_daily_upload where
  "committed_daily_upload_default = \<lparr>cdu_targets = [], cdu_full_refresh_complete = False\<rparr>"

record execution_result =
  xr_outcome :: run_outcome
  xr_finished_at_ms :: i64
  xr_usage_changed :: bool
  xr_committed_daily_upload :: committed_daily_upload
  xr_target_outcomes :: "target_execution_outcome list"

record execution_failure =
  xf_import_run_id :: "import_run_id option"
  xf_records_seen :: u32
  xf_records_rejected :: u32
  xf_finished_at_ms :: i64
  xf_usage_changed :: bool
  xf_code :: string
  xf_summary :: string
  xf_committed_daily_upload :: committed_daily_upload
  xf_target_outcomes :: "target_execution_outcome list"

definition now_eff :: "'w refresh_execution \<Rightarrow> ('w, 'e, i64) eff" where
  "now_eff x = total_eff (po_now (ex_ports x))"

definition failure ::
  "'w refresh_execution \<Rightarrow> string \<Rightarrow> string \<Rightarrow> ('w, execution_failure, 'a) eff" where
  "failure x code summary =
     bind_eff (now_eff x) (\<lambda>now. throw_eff
       \<lparr>xf_import_run_id = None, xf_records_seen = 0, xf_records_rejected = 0,
        xf_finished_at_ms = now, xf_usage_changed = False, xf_code = code, xf_summary = summary,
        xf_committed_daily_upload = committed_daily_upload_default, xf_target_outcomes = []\<rparr>)"

definition import_failure ::
  "'w refresh_execution \<Rightarrow> import_run_id \<Rightarrow> u32 \<Rightarrow> u32 \<Rightarrow> bool \<Rightarrow> string \<Rightarrow> string
   \<Rightarrow> ('w, execution_failure, 'a) eff" where
  "import_failure x iid seen rejected usage_changed code summary =
     bind_eff (now_eff x) (\<lambda>now. throw_eff
       \<lparr>xf_import_run_id = Some iid, xf_records_seen = seen, xf_records_rejected = rejected,
        xf_finished_at_ms = now, xf_usage_changed = usage_changed, xf_code = code,
        xf_summary = summary, xf_committed_daily_upload = committed_daily_upload_default,
        xf_target_outcomes = []\<rparr>)"

definition failed_result :: "'w refresh_execution \<Rightarrow> bool \<Rightarrow> 'w \<Rightarrow> execution_result \<times> 'w" where
  "failed_result x usage_changed w =
     (case po_now (ex_ports x) w of (now, w') \<Rightarrow>
        (\<lparr>xr_outcome = RunFailed, xr_finished_at_ms = now, xr_usage_changed = usage_changed,
          xr_committed_daily_upload = committed_daily_upload_default, xr_target_outcomes = []\<rparr>, w'))"

definition committed_target_of ::
  "chrono \<Rightarrow> source_key \<Rightarrow> collection_scope \<Rightarrow> committed_daily_target option" where
  "committed_target_of c source scope =
     (case scope of
        Full \<Rightarrow>
          (case (from_ymd_opt c 1970 1 1, from_ymd_opt c 2099 12 31) of
             (Some s, Some e) \<Rightarrow>
               Some \<lparr>cdt_source_key = source_key_as_str source, cdt_start_date = s,
                     cdt_end_date = e, cdt_full_history = True\<rparr>
           | _ \<Rightarrow> None)
      | Incremental r \<Rightarrow>
          Some \<lparr>cdt_source_key = source_key_as_str source, cdt_start_date = start_date r,
                cdt_end_date = end_date r, cdt_full_history = False\<rparr>)"

section \<open>Diagnostics of a refresh\<close>

definition json_quote :: "string \<Rightarrow> string" where
  "json_quote s = CHR 0x22 # s @ [CHR 0x22]"

definition target_failure_event ::
  "refresh_target \<Rightarrow> collector_failure \<Rightarrow> i64 \<Rightarrow> diagnostic_validation_error + diagnostic_event" where
  "target_failure_event target f created_at_ms =
     bind_res (diagnostic_code_new ''collection.target_failed'') (\<lambda>code.
     bind_res (diagnostic_summary_new ''Collection failed for one refresh target.'') (\<lambda>summary.
     bind_res (diagnostic_context_new
       (CHR ''{'' # json_quote ''source'' @ '':'' @ json_quote (source_key_as_str (rt_source target)) @
        '','' @ json_quote ''projection'' @ '':'' @ json_quote (projection_label (rt_projection target)) @
        '','' @ json_quote ''failureCode'' @ '':'' @ json_quote (failure_code_str (cf_code f)) @ ''}''))
       (\<lambda>context.
        diagnostic_event_new AreaCollector SeverityWarning code summary (Some context) created_at_ms)))"

definition record_target_collection_failure ::
  "'w refresh_execution \<Rightarrow> refresh_target \<Rightarrow> collector_failure \<Rightarrow> i64 \<Rightarrow> 'w \<Rightarrow> 'w" where
  "record_target_collection_failure x target f created_at_ms w =
     (case target_failure_event target f created_at_ms of
        Inl _ \<Rightarrow> w | Inr event \<Rightarrow> po_record (ex_ports x) event w)"

definition retention_failure_event :: "i64 \<Rightarrow> diagnostic_validation_error + diagnostic_event" where
  "retention_failure_event created_at_ms =
     bind_res (diagnostic_code_new ''refresh.import_retention_failed'') (\<lambda>code.
     bind_res (diagnostic_summary_new ''Could not delete expired import runs.'') (\<lambda>summary.
     diagnostic_event_new AreaRefresh SeverityWarning code summary None created_at_ms))"

definition record_import_retention_failure :: "'w refresh_execution \<Rightarrow> i64 \<Rightarrow> 'w \<Rightarrow> 'w" where
  "record_import_retention_failure x created_at_ms w =
     (case retention_failure_event created_at_ms of
        Inl _ \<Rightarrow> w | Inr event \<Rightarrow> po_record (ex_ports x) event w)"

section \<open>Persisting one collection\<close>

definition reconcile_collection ::
  "'w refresh_execution \<Rightarrow> source_id \<Rightarrow> import_run_id \<Rightarrow> i64 \<Rightarrow> collection_result
   \<Rightarrow> ('w, usage_store_error, unit) eff" where
  "reconcile_collection x sid iid now collection =
     (case res_projection collection of
        Daily \<Rightarrow>
          bind_eff
            (po_reconcile_daily (ex_ports x)
               \<lparr>drr_source_id = sid, drr_import_run_id = iid,
                drr_scope = md_effective_scope (res_metadata collection),
                drr_outcome = res_outcome collection, drr_observed_at_ms = now,
                drr_candidates =
                  map (\<lambda>d. gap_fill_daily d (ex_snapshot x)) (res_daily_candidates collection)\<rparr>)
            (\<lambda>_. ignore_eff (po_evaluate_budget (ex_ports x) (ex_timezone x) now))
      | Session \<Rightarrow>
          bind_eff
            (po_reconcile_session (ex_ports x)
               \<lparr>srr_source_id = sid, srr_import_run_id = iid,
                srr_scope = md_effective_scope (res_metadata collection),
                srr_outcome = res_outcome collection, srr_observed_at_ms = now,
                srr_candidates =
                  map (\<lambda>s. gap_fill_session s (ex_snapshot x)) (res_session_candidates collection)\<rparr>)
            (\<lambda>_. return_eff ()))"

definition import_spec_of ::
  "'w refresh_execution \<Rightarrow> refresh_run_id \<Rightarrow> source_id \<Rightarrow> collection_result
   \<Rightarrow> ('w, execution_failure, import_run_spec) eff" where
  "import_spec_of x rid sid collection =
     (let metadata = res_metadata collection in
      bind_eff
        (catch_eff
          (lift_res (import_collector_new (collector_key_as_str (md_collector metadata))
             (md_collector_version metadata) (md_profile_version metadata)))
          (\<lambda>_. failure x ''refresh.metadata'' ''Collector metadata is invalid.''))
        (\<lambda>collector.
           catch_eff
             (lift_res (import_run_spec_new rid sid collector (res_projection collection)
                (md_effective_scope metadata)
                (import_timezone (res_projection collection) (ex_timezone x))))
             (\<lambda>_. failure x ''refresh.import'' ''Import metadata is invalid.'')))"

definition persist ::
  "'w refresh_execution \<Rightarrow> refresh_run_id \<Rightarrow> source_id \<Rightarrow> i64 \<Rightarrow> collection_result
   \<Rightarrow> ('w, execution_failure, execution_result) eff" where
  "persist x rid sid now collection =
     bind_eff (import_spec_of x rid sid collection) (\<lambda>spec.
     bind_eff
       (catch_eff (po_begin_import_run (ex_ports x) spec now)
         (\<lambda>_. failure x ''refresh.import'' ''Could not begin the import run.''))
       (\<lambda>iid.
        let seen = records_seen collection;
            rejected = clamp_count (rejection_count collection);
            outcome = run_outcome_from_collection (res_outcome collection)
        in bind_eff
             (catch_eff (reconcile_collection x sid iid now collection)
               (\<lambda>_. import_failure x iid seen rejected False ''refresh.reconciliation''
                      ''Could not reconcile collected usage.''))
             (\<lambda>_. bind_eff (now_eff x) (\<lambda>finished.
              bind_eff
                (catch_eff
                  (po_complete_import_run (ex_ports x) iid
                    \<lparr>irc_outcome = run_outcome_import outcome, irc_records_seen = seen,
                     irc_records_rejected = rejected, irc_finished_at_ms = finished,
                     irc_error = None\<rparr>)
                  (\<lambda>_. import_failure x iid seen rejected True ''refresh.import_completion''
                         ''Could not complete the import run.''))
                (\<lambda>_. return_eff
                   \<lparr>xr_outcome = outcome, xr_finished_at_ms = finished, xr_usage_changed = True,
                    xr_committed_daily_upload = committed_daily_upload_default,
                    xr_target_outcomes = []\<rparr>)))))"

section \<open>The loop over the targets\<close>

text \<open>The local variables of \<open>execute_open_refresh\<close>.\<close>

record refresh_progress =
  pr_aggregate :: target_run_accumulator
  pr_finished_at_ms :: i64
  pr_usage_changed :: bool
  pr_first_error :: "run_error option"
  pr_target_outcomes :: "target_execution_outcome list"
  pr_upload :: committed_daily_upload

definition progress_start :: "refresh_scope_policy \<Rightarrow> i64 \<Rightarrow> refresh_progress" where
  "progress_start policy started =
     \<lparr>pr_aggregate = accumulator_default, pr_finished_at_ms = started, pr_usage_changed = False,
      pr_first_error = None, pr_target_outcomes = [],
      pr_upload = \<lparr>cdu_targets = [], cdu_full_refresh_complete = (policy = PolicyFull)\<rparr>\<rparr>"

fun target_outcome_of :: "run_outcome \<Rightarrow> target_run_outcome" where
  "target_outcome_of RunSucceeded = TargetSucceeded"
| "target_outcome_of RunPartial = TargetPartial"
| "target_outcome_of RunFailed = TargetFailed"

definition target_entry ::
  "refresh_target \<Rightarrow> collection_scope \<Rightarrow> target_run_outcome \<Rightarrow> target_execution_outcome" where
  "target_entry target scope result =
     \<lparr>teo_source = rt_source target, teo_projection = rt_projection target,
      teo_effective_scope = scope, teo_outcome = result\<rparr>"

text \<open>The branch of a failed collection, after which the loop continues.\<close>

definition progress_failed ::
  "refresh_target \<Rightarrow> collection_scope \<Rightarrow> collector_failure \<Rightarrow> i64 \<Rightarrow> refresh_progress
   \<Rightarrow> refresh_progress" where
  "progress_failed target scope f now pr =
     pr\<lparr>pr_target_outcomes := pr_target_outcomes pr @ [target_entry target scope TargetFailed],
        pr_upload := (pr_upload pr)\<lparr>cdu_full_refresh_complete := False\<rparr>,
        pr_aggregate := accumulator_record (pr_aggregate pr) RunFailed,
        pr_finished_at_ms := now,
        pr_first_error :=
          (case pr_first_error pr of
             None \<Rightarrow> run_error_option (failure_code_str (cf_code f)) (cf_message f)
           | Some e \<Rightarrow> Some e)\<rparr>"

text \<open>The branch of a persisted collection.\<close>

definition progress_persisted ::
  "chrono \<Rightarrow> refresh_target \<Rightarrow> collection_result \<Rightarrow> execution_result \<Rightarrow> refresh_progress
   \<Rightarrow> refresh_progress" where
  "progress_persisted c target collection result pr =
     (let scope = md_effective_scope (res_metadata collection);
          upload = (pr_upload pr)\<lparr>cdu_full_refresh_complete :=
            (cdu_full_refresh_complete (pr_upload pr) \<and> xr_outcome result = RunSucceeded)\<rparr>;
          added = (if xr_outcome result \<in> {RunSucceeded, RunPartial} \<and>
                      res_projection collection = Daily
                   then (case committed_target_of c (rt_source target) scope of
                           Some t \<Rightarrow> [t] | None \<Rightarrow> [])
                   else [])
      in pr\<lparr>pr_target_outcomes := pr_target_outcomes pr @
                [target_entry target scope (target_outcome_of (xr_outcome result))],
            pr_aggregate := accumulator_record (pr_aggregate pr) (xr_outcome result),
            pr_usage_changed := (pr_usage_changed pr \<or> xr_usage_changed result),
            pr_finished_at_ms := xr_finished_at_ms result,
            pr_upload := upload\<lparr>cdu_targets := cdu_targets upload @ added\<rparr>\<rparr>)"

definition profile_supports :: "refresh_target \<Rightarrow> profile_descriptor \<Rightarrow> bool" where
  "profile_supports target profile \<longleftrightarrow>
     pd_source profile = rt_source target \<and>
     rt_projection target \<in> set (pd_supported_projections profile)"

text \<open>
  \<open>planned_collection_request\<close> never panics (\<open>planned_collection_request_no_panic\<close>), so its value
  is taken.
\<close>

definition plan_target ::
  "'w refresh_execution \<Rightarrow> string \<Rightarrow> refresh_target \<Rightarrow> profile_descriptor \<Rightarrow> utc_instant
   \<Rightarrow> refresh_scope_policy \<Rightarrow> ('w, request_plan_error, collection_request) eff" where
  "plan_target x job_id target profile requested_at policy =
     read_res (\<lambda>w. the (planned_collection_request (ex_chrono x)
       (\<lambda>lookup. po_latest_successful_import (ex_ports x) lookup w)
       (po_requires_full (ex_ports x) w) job_id target profile requested_at (ex_timezone x) policy))"

definition execute_target ::
  "'w refresh_execution \<Rightarrow> refresh_run_id \<Rightarrow> refresh_scope_policy \<Rightarrow> string \<Rightarrow> i64 \<Rightarrow> utc_instant
   \<Rightarrow> collector_descriptor \<Rightarrow> refresh_target \<Rightarrow> refresh_progress
   \<Rightarrow> ('w, execution_failure, refresh_progress) eff" where
  "execute_target x rid policy job_id started requested_at descriptor target pr =
     (case find (profile_supports target) (cd_profiles descriptor) of
        None \<Rightarrow>
          failure x ''refresh.descriptor'' ''Collector compatibility metadata is incomplete.''
      | Some profile \<Rightarrow>
          bind_eff
            (catch_eff (po_resolve_source (ex_ports x) (rt_source target) started)
              (\<lambda>_. failure x ''refresh.source'' ''Could not resolve the usage source.''))
            (\<lambda>sid.
          bind_eff
            (catch_eff (plan_target x job_id target profile requested_at policy)
              (\<lambda>e. failure x (request_plan_error_code e) (request_plan_error_summary e)))
            (\<lambda>request.
          case_eff (po_collect (ex_ports x) request)
            (\<lambda>f. bind_eff (now_eff x) (\<lambda>now.
                 bind_eff (modify_eff (record_target_collection_failure x target f now)) (\<lambda>_.
                 return_eff (progress_failed target (req_scope request) f now pr))))
            (\<lambda>collection.
               bind_eff
                 (catch_eff (persist x rid sid started collection)
                   (\<lambda>f. throw_eff (f\<lparr>xf_target_outcomes := pr_target_outcomes pr @
                      [target_entry target (md_effective_scope (res_metadata collection))
                        TargetFailed]\<rparr>)))
                 (\<lambda>result. return_eff
                    (progress_persisted (ex_chrono x) target collection result pr))))))"

fun execute_targets ::
  "'w refresh_execution \<Rightarrow> refresh_run_id \<Rightarrow> refresh_scope_policy \<Rightarrow> string \<Rightarrow> i64 \<Rightarrow> utc_instant
   \<Rightarrow> collector_descriptor \<Rightarrow> refresh_target list \<Rightarrow> refresh_progress
   \<Rightarrow> ('w, execution_failure, refresh_progress) eff" where
  "execute_targets x rid policy job_id started requested_at descriptor [] pr = return_eff pr"
| "execute_targets x rid policy job_id started requested_at descriptor (t # ts) pr =
     bind_eff (execute_target x rid policy job_id started requested_at descriptor t pr)
       (\<lambda>pr'. execute_targets x rid policy job_id started requested_at descriptor ts pr')"

section \<open>The refresh\<close>

definition finish_open_refresh ::
  "'w refresh_execution \<Rightarrow> refresh_run_id \<Rightarrow> refresh_progress
   \<Rightarrow> ('w, execution_failure, execution_result) eff" where
  "finish_open_refresh x rid pr =
     (let outcome = accumulator_outcome (pr_aggregate pr);
          finished = pr_finished_at_ms pr
      in bind_eff
           (catch_eff
             (po_complete_refresh_run (ex_ports x) rid
               \<lparr>rrc_outcome = run_outcome_refresh outcome, rrc_finished_at_ms = finished,
                rrc_error = (if outcome = RunSucceeded then None else pr_first_error pr)\<rparr>)
             (\<lambda>_. throw_eff
               \<lparr>xf_import_run_id = None, xf_records_seen = 0, xf_records_rejected = 0,
                xf_finished_at_ms = finished, xf_usage_changed = pr_usage_changed pr,
                xf_code = ''refresh.completion'',
                xf_summary = ''Could not complete the refresh run.'',
                xf_committed_daily_upload = pr_upload pr,
                xf_target_outcomes = pr_target_outcomes pr\<rparr>))
           (\<lambda>_. bind_eff
              (if outcome = RunSucceeded
               then case_eff (po_delete_expired (ex_ports x) finished)
                      (\<lambda>_. modify_eff (record_import_retention_failure x finished))
                      (\<lambda>_. return_eff ())
               else return_eff ())
              (\<lambda>_. return_eff
                 \<lparr>xr_outcome = outcome, xr_finished_at_ms = finished,
                  xr_usage_changed = pr_usage_changed pr,
                  xr_committed_daily_upload = pr_upload pr,
                  xr_target_outcomes = pr_target_outcomes pr\<rparr>)))"

definition execute_open_refresh ::
  "'w refresh_execution \<Rightarrow> refresh_run_id \<Rightarrow> refresh_scope_policy \<Rightarrow> string \<Rightarrow> i64
   \<Rightarrow> ('w, execution_failure, execution_result) eff" where
  "execute_open_refresh x rid policy job_id started =
     (case from_timestamp_millis (ex_chrono x) started of
        None \<Rightarrow> failure x ''refresh.time'' ''Refresh time is invalid.''
      | Some requested_at \<Rightarrow>
          bind_eff
            (catch_eff (po_describe (ex_ports x))
              (\<lambda>_. failure x ''refresh.descriptor''
                     ''Could not read collector compatibility metadata.''))
            (\<lambda>descriptor.
          bind_eff
            (execute_targets x rid policy job_id started requested_at descriptor refresh_targets
              (progress_start policy started))
            (finish_open_refresh x rid)))"

text \<open>The results of the two closing calls are dropped (\<open>let _ = ...\<close>).\<close>

definition close_failed_refresh ::
  "'w refresh_execution \<Rightarrow> refresh_run_id \<Rightarrow> execution_failure \<Rightarrow> 'w \<Rightarrow> execution_result \<times> 'w" where
  "close_failed_refresh x rid f w =
     (let error = run_error_option (xf_code f) (xf_summary f);
          w1 = (case xf_import_run_id f of
                  None \<Rightarrow> w
                | Some iid \<Rightarrow>
                    snd (po_complete_import_run (ex_ports x) iid
                      \<lparr>irc_outcome = ImportFailed, irc_records_seen = xf_records_seen f,
                       irc_records_rejected = xf_records_rejected f,
                       irc_finished_at_ms = xf_finished_at_ms f, irc_error = error\<rparr> w));
          w2 = snd (po_complete_refresh_run (ex_ports x) rid
                 \<lparr>rrc_outcome = RefreshFailed, rrc_finished_at_ms = xf_finished_at_ms f,
                  rrc_error = error\<rparr> w1)
      in (\<lparr>xr_outcome = RunFailed, xr_finished_at_ms = xf_finished_at_ms f,
           xr_usage_changed = xf_usage_changed f,
           xr_committed_daily_upload = xf_committed_daily_upload f,
           xr_target_outcomes = xf_target_outcomes f\<rparr>, w2))"

definition execute_refresh ::
  "'w refresh_execution \<Rightarrow> refresh_trigger \<Rightarrow> refresh_scope_policy \<Rightarrow> string \<Rightarrow> i64
   \<Rightarrow> 'w \<Rightarrow> execution_result \<times> 'w" where
  "execute_refresh x trigger policy job_id started w =
     (case bind_res (job_key_new job_id) (\<lambda>key. refresh_run_spec_new key trigger (ex_app_version x)) of
        Inl _ \<Rightarrow> failed_result x False w
      | Inr spec \<Rightarrow>
          (case po_begin_refresh_run (ex_ports x) spec started w of
             (Inl _, w1) \<Rightarrow> failed_result x False w1
           | (Inr rid, w1) \<Rightarrow>
               (case execute_open_refresh x rid policy job_id started w1 of
                  (Inr result, w2) \<Rightarrow> (result, w2)
                | (Inl f, w2) \<Rightarrow> close_failed_refresh x rid f w2)))"

end
