(* ===== verification/ExecutionFacts.thy ===== *)
theory ExecutionFacts
  imports Execution
begin

text \<open>
  What a refresh reports: the outcome of every target, the aggregate, the change flag and the days
  handed to the cloud upload, for any ports whatever. The proofs follow the loop over the targets
  with the rules of \<open>Effects\<close>.
\<close>

section \<open>The progress of the loop\<close>

fun outcome_run :: "target_run_outcome \<Rightarrow> run_outcome" where
  "outcome_run TargetSucceeded = RunSucceeded"
| "outcome_run TargetPartial = RunPartial"
| "outcome_run TargetFailed = RunFailed"

lemma outcome_run_of [simp]: "outcome_run (target_outcome_of r) = r"
  by (cases r) simp_all

lemma outcome_run_iff [simp]:
  "outcome_run t = RunSucceeded \<longleftrightarrow> t = TargetSucceeded"
  "outcome_run t = RunFailed \<longleftrightarrow> t = TargetFailed"
  by (cases t; simp)+

definition entry_key :: "target_execution_outcome \<Rightarrow> source_key \<times> collection_projection" where
  "entry_key e = (teo_source e, teo_projection e)"

definition target_key :: "refresh_target \<Rightarrow> source_key \<times> collection_projection" where
  "target_key t = (rt_source t, rt_projection t)"

text \<open>The local variables of the loop are determined by the outcomes recorded so far.\<close>

definition progress_ok :: "refresh_scope_policy \<Rightarrow> refresh_progress \<Rightarrow> bool" where
  "progress_ok policy pr \<longleftrightarrow>
     (let os = pr_target_outcomes pr in
      pr_aggregate pr = foldl accumulator_record accumulator_default (map (outcome_run \<circ> teo_outcome) os) \<and>
      (pr_usage_changed pr \<longleftrightarrow> (\<exists>e \<in> set os. teo_outcome e \<noteq> TargetFailed)) \<and>
      (cdu_full_refresh_complete (pr_upload pr) \<longleftrightarrow>
         policy = PolicyFull \<and> (\<forall>e \<in> set os. teo_outcome e = TargetSucceeded)) \<and>
      (\<forall>t \<in> set (cdu_targets (pr_upload pr)). \<exists>e \<in> set os.
         teo_outcome e \<noteq> TargetFailed \<and> cdt_source_key t = source_key_as_str (teo_source e)))"

lemma progress_start_ok: "progress_ok policy (progress_start policy started)"
  by (simp add: progress_ok_def progress_start_def Let_def)

lemma progress_failed_ok:
  "progress_ok policy pr \<Longrightarrow> progress_ok policy (progress_failed target scope f now pr)"
  by (auto simp: progress_ok_def progress_failed_def target_entry_def Let_def)

lemma committed_target_source:
  "committed_target_of c source scope = Some t \<Longrightarrow> cdt_source_key t = source_key_as_str source"
  by (auto simp: committed_target_of_def split: collection_scope.splits option.splits)

definition added_targets ::
  "chrono \<Rightarrow> refresh_target \<Rightarrow> collection_result \<Rightarrow> execution_result \<Rightarrow> committed_daily_target list" where
  "added_targets c target collection result =
     (if xr_outcome result \<in> {RunSucceeded, RunPartial} \<and> res_projection collection = Daily
      then (case committed_target_of c (rt_source target)
              (md_effective_scope (res_metadata collection)) of Some t \<Rightarrow> [t] | None \<Rightarrow> [])
      else [])"

lemma added_targets_source:
  assumes "t \<in> set (added_targets c target collection result)"
  shows "cdt_source_key t = source_key_as_str (rt_source target)"
proof -
  let ?committed = "committed_target_of c (rt_source target) (md_effective_scope (res_metadata collection))"
  have "added_targets c target collection result = [] \<or>
      added_targets c target collection result = (case ?committed of Some t \<Rightarrow> [t] | None \<Rightarrow> [])"
    unfolding added_targets_def by (rule if_split [THEN iffD2]) blast
  with assms show ?thesis
    using committed_target_source [of c "rt_source target"] by (cases ?committed) fastforce+
qed

lemma progress_persisted_fields:
  "pr_target_outcomes (progress_persisted c target collection result pr) = pr_target_outcomes pr @
     [target_entry target (md_effective_scope (res_metadata collection))
       (target_outcome_of (xr_outcome result))]"
  "cdu_targets (pr_upload (progress_persisted c target collection result pr)) =
     cdu_targets (pr_upload pr) @ added_targets c target collection result"
  "pr_aggregate (progress_persisted c target collection result pr) =
     accumulator_record (pr_aggregate pr) (xr_outcome result)"
  "pr_usage_changed (progress_persisted c target collection result pr) \<longleftrightarrow>
     pr_usage_changed pr \<or> xr_usage_changed result"
  "cdu_full_refresh_complete (pr_upload (progress_persisted c target collection result pr)) \<longleftrightarrow>
     cdu_full_refresh_complete (pr_upload pr) \<and> xr_outcome result = RunSucceeded"
  unfolding progress_persisted_def added_targets_def Let_def by simp_all

lemma target_outcome_of_iff:
  "target_outcome_of r = TargetSucceeded \<longleftrightarrow> r = RunSucceeded"
  "target_outcome_of r = TargetFailed \<longleftrightarrow> r = RunFailed"
  by (cases r; simp)+

lemma progress_persisted_ok:
  assumes "progress_ok policy pr" and "xr_usage_changed result" and "xr_outcome result \<noteq> RunFailed"
  shows "progress_ok policy (progress_persisted c target collection result pr)"
proof -
  note added = added_targets_source [of _ c target collection result]
  let ?e = "target_entry target (md_effective_scope (res_metadata collection))
    (target_outcome_of (xr_outcome result))"
  have e: "teo_outcome ?e = target_outcome_of (xr_outcome result)" "teo_source ?e = rt_source target"
    by (simp_all add: target_entry_def)
  show ?thesis
    using assms added unfolding progress_ok_def Let_def progress_persisted_fields
    by (simp add: e target_outcome_of_iff) blast
qed

lemma progress_keys:
  "map entry_key (pr_target_outcomes (progress_failed target scope f now pr)) =
     map entry_key (pr_target_outcomes pr) @ [target_key target]"
  "map entry_key (pr_target_outcomes (progress_persisted c target collection result pr)) =
     map entry_key (pr_target_outcomes pr) @ [target_key target]"
  by (simp_all add: progress_failed_def progress_persisted_def target_entry_def entry_key_def
      target_key_def Let_def)

section \<open>The steps\<close>

lemma ensures_true: "ensures P m (\<lambda>_ _. True) (\<lambda>_ _. True)"
  by (simp add: ensures_def split: sum.splits prod.splits)

text \<open>What a failure before the completion of the refresh carries.\<close>

definition drops_commits :: "execution_failure \<Rightarrow> bool" where
  "drops_commits f \<longleftrightarrow>
     xf_code f \<noteq> ''refresh.completion'' \<and>
     xf_committed_daily_upload f = committed_daily_upload_default \<and>
     (xf_usage_changed f \<longleftrightarrow> xf_code f = ''refresh.import_completion'')"

text \<open>The outcomes such a failure lists: none, or those up to the target that failed.\<close>

definition outcomes_upto :: "target_execution_outcome list \<Rightarrow> refresh_target list \<Rightarrow>
    target_execution_outcome list \<Rightarrow> bool" where
  "outcomes_upto earlier ts os \<longleftrightarrow>
     os = [] \<or> (\<exists>k < length ts. map entry_key os = map entry_key earlier @ map target_key (take (Suc k) ts) \<and>
                 os \<noteq> [] \<and> teo_outcome (last os) = TargetFailed)"

lemma failure_drops:
  "code \<notin> {''refresh.completion'', ''refresh.import_completion''} \<Longrightarrow>
   ensures P (failure x code summary) Q (\<lambda>f _. drops_commits f \<and> xf_target_outcomes f = [])"
  by (auto simp: failure_def now_eff_def ensures_def bind_eff_def total_eff_def throw_eff_def
      drops_commits_def split: prod.splits)

lemma import_failure_drops:
  "\<lbrakk>changed \<longleftrightarrow> code = ''refresh.import_completion''; code \<noteq> ''refresh.completion''\<rbrakk> \<Longrightarrow>
     ensures P (import_failure x iid seen rejected changed code summary) Q (\<lambda>f _. drops_commits f)"
  by (auto simp: import_failure_def now_eff_def ensures_def bind_eff_def total_eff_def throw_eff_def
      drops_commits_def split: prod.splits)

lemma catch_failure_drops:
  "\<lbrakk>ensures P m Q (\<lambda>_ _. True);
    \<And>e. code e \<notin> {''refresh.completion'', ''refresh.import_completion''}\<rbrakk> \<Longrightarrow>
   ensures P (catch_eff m (\<lambda>e. failure x (code e) (summary e))) Q
     (\<lambda>f _. drops_commits f \<and> xf_target_outcomes f = [])"
  by (rule ensures_catch) (assumption, rule failure_drops, blast)

lemma request_plan_code:
  "request_plan_error_code e \<notin> {''refresh.completion'', ''refresh.import_completion''}"
  by (cases e) simp_all

lemma catch_drops:
  "\<lbrakk>ensures P m Q (\<lambda>_ _. True);
    \<And>e. code e \<notin> {''refresh.completion'', ''refresh.import_completion''}\<rbrakk> \<Longrightarrow>
   ensures P (catch_eff m (\<lambda>e. failure x (code e) (summary e))) Q (\<lambda>f _. drops_commits f)"
  by (rule ensures_mono [of P _ Q], rule catch_failure_drops) simp_all

lemma persist_reports:
  "ensures P (persist x rid sid now collection)
     (\<lambda>r _. xr_usage_changed r \<and> xr_outcome r \<noteq> RunFailed) (\<lambda>f _. drops_commits f)"
proof -
  have outcome: "run_outcome_from_collection o1 \<noteq> RunFailed" for o1 by (cases o1) simp_all
  show ?thesis
    unfolding persist_def import_spec_of_def Let_def
    by (rule ensures_bind, rule ensures_bind, rule catch_drops, rule ensures_true, simp,
        rule catch_drops, rule ensures_true, simp, rule ensures_bind, rule catch_drops,
        rule ensures_true, simp, rule ensures_bind, rule ensures_catch, rule ensures_true,
        rule import_failure_drops, simp, simp, rule ensures_bind, unfold now_eff_def,
        rule ensures_total, rule TrueI, rule ensures_bind, rule ensures_catch, rule ensures_true,
        rule import_failure_drops, simp, simp, rule ensures_pre, rule ensures_return)
       (simp add: outcome)
qed

abbreviation fails_at :: "target_execution_outcome list \<Rightarrow> refresh_target list \<Rightarrow>
    execution_failure \<Rightarrow> 'w \<Rightarrow> bool" where
  "fails_at earlier ts f w \<equiv> drops_commits f \<and> outcomes_upto earlier ts (xf_target_outcomes f)"

lemma failure_at:
  "ensures P m Q (\<lambda>f _. drops_commits f \<and> xf_target_outcomes f = []) \<Longrightarrow>
     ensures P m Q (fails_at earlier ts)"
  by (erule ensures_mono) (auto simp: outcomes_upto_def)

lemma execute_target_reports:
  assumes "progress_ok policy pr"
  shows "ensures P (execute_target x rid policy job started requested descriptor target pr)
     (\<lambda>pr' _. progress_ok policy pr' \<and> map entry_key (pr_target_outcomes pr') =
        map entry_key (pr_target_outcomes pr) @ [target_key target])
     (fails_at (pr_target_outcomes pr) [target])"
proof (cases "find (profile_supports target) (cd_profiles descriptor)")
  case None
  then show ?thesis by (simp add: execute_target_def) (rule failure_at [OF failure_drops], simp)
next
  case (Some profile)
  have failed: "ensures Q (bind_eff (now_eff x) (\<lambda>now.
        bind_eff (modify_eff (record_target_collection_failure x target f now)) (\<lambda>_.
        return_eff (progress_failed target scope f now pr))))
     (\<lambda>pr' _. progress_ok policy pr' \<and> map entry_key (pr_target_outcomes pr') =
        map entry_key (pr_target_outcomes pr) @ [target_key target]) E" for Q E scope f
    unfolding now_eff_def
    by (rule ensures_bind, rule ensures_total, rule TrueI, rule ensures_bind, rule ensures_modify,
        rule TrueI, rule ensures_pre, rule ensures_return)
       (simp add: progress_failed_ok [OF assms] progress_keys)
  have upto: "fails_at (pr_target_outcomes pr) [target] (f\<lparr>xf_target_outcomes := pr_target_outcomes pr @
      [target_entry target scope TargetFailed]\<rparr>) w" if "drops_commits f" for f scope w
    using that by (simp add: drops_commits_def outcomes_upto_def entry_key_def target_key_def target_entry_def)
  show ?thesis
    unfolding execute_target_def Some option.case
    by (rule ensures_bind, rule failure_at, rule catch_failure_drops, rule ensures_true, simp,
        rule ensures_bind, rule failure_at, rule catch_failure_drops, rule ensures_true,
        rule request_plan_code, rule ensures_case, rule ensures_true,
        rule failed, rule ensures_bind, rule ensures_catch, rule persist_reports, rule ensures_pre,
        rule ensures_throw, erule upto, rule ensures_pre, rule ensures_return)
       (simp add: progress_persisted_ok [OF assms] progress_keys)
qed

lemma execute_targets_reports:
  "progress_ok policy pr \<Longrightarrow>
   ensures P (execute_targets x rid policy job started requested descriptor ts pr)
     (\<lambda>pr' _. progress_ok policy pr' \<and> map entry_key (pr_target_outcomes pr') =
        map entry_key (pr_target_outcomes pr) @ map target_key ts)
     (fails_at (pr_target_outcomes pr) ts)"
proof (induction ts arbitrary: pr P)
  case Nil
  then show ?case by (simp add: ensures_def return_eff_def)
next
  case (Cons t ts)
  have first: "fails_at (pr_target_outcomes pr) (t # ts) f w"
    if "fails_at (pr_target_outcomes pr) [t] f w" for f and w :: 'a
    using that by (auto simp: outcomes_upto_def)
  have later: "fails_at (pr_target_outcomes pr) (t # ts) f w"
    if "fails_at (pr_target_outcomes pr') ts f w" "map entry_key (pr_target_outcomes pr') =
          map entry_key (pr_target_outcomes pr) @ [target_key t]" for pr' f and w :: 'a
  proof (cases "xf_target_outcomes f = []")
    case True
    with that(1) show ?thesis by (simp add: outcomes_upto_def)
  next
    case False
    with that obtain k where "k < length ts" "teo_outcome (last (xf_target_outcomes f)) = TargetFailed"
      "map entry_key (xf_target_outcomes f) = map entry_key (pr_target_outcomes pr) @
         map target_key (take (Suc (Suc k)) (t # ts))"
      unfolding outcomes_upto_def by auto
    with False that(1) show ?thesis
      unfolding outcomes_upto_def by (intro conjI disjI2 exI [of _ "Suc k"]) simp_all
  qed
  have target: "ensures P (execute_target x rid policy job started requested descriptor t pr)
      (\<lambda>pr' _. progress_ok policy pr' \<and> map entry_key (pr_target_outcomes pr') =
         map entry_key (pr_target_outcomes pr) @ [target_key t])
      (fails_at (pr_target_outcomes pr) (t # ts))"
    by (rule ensures_mono [OF execute_target_reports [OF Cons.prems]]) (assumption | rule first)+
  show ?case
    unfolding execute_targets.simps
  proof (rule ensures_bind [OF target])
    fix pr'
    show "ensures (\<lambda>w. progress_ok policy pr' \<and> map entry_key (pr_target_outcomes pr') =
          map entry_key (pr_target_outcomes pr) @ [target_key t])
        (execute_targets x rid policy job started requested descriptor ts pr')
        (\<lambda>pr'' _. progress_ok policy pr'' \<and> map entry_key (pr_target_outcomes pr'') =
          map entry_key (pr_target_outcomes pr) @ map target_key (t # ts))
        (fails_at (pr_target_outcomes pr) (t # ts))"
    proof (rule ensures_const, assumption)
      assume pre: "progress_ok policy pr' \<and> map entry_key (pr_target_outcomes pr') =
          map entry_key (pr_target_outcomes pr) @ [target_key t]"
      show ?thesis
      proof (rule ensures_mono [OF Cons.IH [OF pre [THEN conjunct1]]])
        fix f and w' :: 'a
        assume "fails_at (pr_target_outcomes pr') ts f w'"
        then show "fails_at (pr_target_outcomes pr) (t # ts) f w'" by (rule later [OF _ pre [THEN conjunct2]])
      qed (use pre in simp_all)
    qed
  qed
qed


lemma expiry_reports:
  "ensures P (if succeeded
      then case_eff m (\<lambda>_. modify_eff g) (\<lambda>_. return_eff ())
      else return_eff ()) (\<lambda>_ _. True) E"
  by (auto simp: ensures_def case_eff_def modify_eff_def return_eff_def split: sum.splits prod.splits)

text \<open>What a refresh whose targets all ran reports, whether or not its completion succeeds.\<close>

definition reports :: "refresh_scope_policy \<Rightarrow> target_execution_outcome list \<Rightarrow> bool \<Rightarrow>
    committed_daily_upload \<Rightarrow> bool" where
  "reports policy os changed upload \<longleftrightarrow>
     map entry_key os = map target_key refresh_targets \<and>
     (changed \<longleftrightarrow> (\<exists>e \<in> set os. teo_outcome e \<noteq> TargetFailed)) \<and>
     (cdu_full_refresh_complete upload \<longleftrightarrow>
        policy = PolicyFull \<and> (\<forall>e \<in> set os. teo_outcome e = TargetSucceeded)) \<and>
     (\<forall>t \<in> set (cdu_targets upload). \<exists>e \<in> set os.
        teo_outcome e \<noteq> TargetFailed \<and> cdt_source_key t = source_key_as_str (teo_source e))"

lemma progress_reports:
  "\<lbrakk>progress_ok policy pr; map entry_key (pr_target_outcomes pr) = map target_key refresh_targets\<rbrakk> \<Longrightarrow>
     reports policy (pr_target_outcomes pr) (pr_usage_changed pr) (pr_upload pr)"
  by (simp add: reports_def progress_ok_def Let_def)

lemma finish_reports:
  "ensures P (finish_open_refresh x rid pr)
     (\<lambda>r _. xr_outcome r = accumulator_outcome (pr_aggregate pr) \<and>
        xr_usage_changed r = pr_usage_changed pr \<and> xr_committed_daily_upload r = pr_upload pr \<and>
        xr_target_outcomes r = pr_target_outcomes pr)
     (\<lambda>f _. xf_code f = ''refresh.completion'' \<and> xf_usage_changed f = pr_usage_changed pr \<and>
        xf_committed_daily_upload f = pr_upload pr \<and> xf_target_outcomes f = pr_target_outcomes pr)"
  unfolding finish_open_refresh_def Let_def
  by (rule ensures_bind, rule ensures_catch, rule ensures_true, rule ensures_pre, rule ensures_throw,
      simp, rule ensures_bind [where R = "\<lambda>_ _. True"], rule expiry_reports, rule ensures_pre,
      rule ensures_return) simp

definition open_refresh_fails :: "refresh_scope_policy \<Rightarrow> execution_failure \<Rightarrow> bool" where
  "open_refresh_fails policy f \<longleftrightarrow>
     (if xf_code f = ''refresh.completion''
      then reports policy (xf_target_outcomes f) (xf_usage_changed f) (xf_committed_daily_upload f)
      else drops_commits f \<and> outcomes_upto [] refresh_targets (xf_target_outcomes f))"

lemma open_refresh_failsI:
  "\<lbrakk>drops_commits f; outcomes_upto [] refresh_targets (xf_target_outcomes f)\<rbrakk> \<Longrightarrow> open_refresh_fails policy f"
  by (simp add: open_refresh_fails_def drops_commits_def)

lemma open_refresh_ensures:
  "ensures P (execute_open_refresh x rid policy job started)
     (\<lambda>r _. \<exists>pr. progress_ok policy pr \<and>
        map entry_key (pr_target_outcomes pr) = map target_key refresh_targets \<and>
        xr_outcome r = accumulator_outcome (pr_aggregate pr) \<and>
        xr_usage_changed r = pr_usage_changed pr \<and> xr_committed_daily_upload r = pr_upload pr \<and>
        xr_target_outcomes r = pr_target_outcomes pr)
     (\<lambda>f _. open_refresh_fails policy f)"
proof (cases "from_timestamp_millis (ex_chrono x) started")
  case None
  then show ?thesis
    by (simp add: execute_open_refresh_def)
       (rule ensures_mono [OF failure_drops], auto intro: open_refresh_failsI simp: outcomes_upto_def)
next
  case (Some requested)
  let ?Q = "\<lambda>pr _. progress_ok policy pr \<and>
      map entry_key (pr_target_outcomes pr) = map target_key refresh_targets"
  have start: "pr_target_outcomes (progress_start policy started) = []"
    by (simp add: progress_start_def)
  have targets: "ensures (\<lambda>_. True) (execute_targets x rid policy job started requested descriptor
      refresh_targets (progress_start policy started)) ?Q (\<lambda>f _. open_refresh_fails policy f)" for descriptor
    by (rule ensures_mono [OF execute_targets_reports [OF progress_start_ok]])
       (simp_all add: start open_refresh_failsI)
  have finish: "ensures (?Q pr) (finish_open_refresh x rid pr)
     (\<lambda>r _. \<exists>pr. progress_ok policy pr \<and>
        map entry_key (pr_target_outcomes pr) = map target_key refresh_targets \<and>
        xr_outcome r = accumulator_outcome (pr_aggregate pr) \<and>
        xr_usage_changed r = pr_usage_changed pr \<and> xr_committed_daily_upload r = pr_upload pr \<and>
        xr_target_outcomes r = pr_target_outcomes pr)
     (\<lambda>f _. open_refresh_fails policy f)" for pr
  proof (rule ensures_const, assumption)
    assume "progress_ok policy pr \<and>
      map entry_key (pr_target_outcomes pr) = map target_key refresh_targets"
    with progress_reports [of policy pr] show ?thesis
      by (intro ensures_mono [OF finish_reports [of "?Q pr"]]) (auto simp: open_refresh_fails_def)
  qed
  have describe: "ensures P (catch_eff (po_describe (ex_ports x)) (\<lambda>_. failure x ''refresh.descriptor''
      ''Could not read collector compatibility metadata.'')) (\<lambda>_ _. True) (\<lambda>f _. open_refresh_fails policy f)"
    by (rule ensures_mono [OF catch_failure_drops [OF ensures_true]])
       (auto intro: open_refresh_failsI simp: outcomes_upto_def)
  show ?thesis
    unfolding execute_open_refresh_def Some option.case
    by (rule ensures_bind, rule describe, rule ensures_bind, rule targets, rule finish)
qed

lemma execute_open_refresh_reports:
  "execute_open_refresh x rid policy job started w = (Inr r, w') \<Longrightarrow>
     \<exists>pr. progress_ok policy pr \<and>
        map entry_key (pr_target_outcomes pr) = map target_key refresh_targets \<and>
        xr_outcome r = accumulator_outcome (pr_aggregate pr) \<and>
        xr_usage_changed r = pr_usage_changed pr \<and> xr_committed_daily_upload r = pr_upload pr \<and>
        xr_target_outcomes r = pr_target_outcomes pr"
  by (rule ensuresD_ok [OF open_refresh_ensures [where P = "\<lambda>_. True"] TrueI])


text \<open>The aggregate of at most 65535 outcomes; the counters do not wrap.\<close>

lemma aggregate_outcome:
  assumes "progress_ok policy pr" and "length (pr_target_outcomes pr) < 2 ^ 16"
  shows "accumulator_outcome (pr_aggregate pr) =
    (if \<forall>e \<in> set (pr_target_outcomes pr). teo_outcome e = TargetSucceeded then RunSucceeded
     else if \<forall>e \<in> set (pr_target_outcomes pr). teo_outcome e = TargetFailed then RunFailed
     else RunPartial)"
proof -
  have "length (map (outcome_run \<circ> teo_outcome) (pr_target_outcomes pr)) < 2 ^ 16"
    using assms(2) by simp
  note agg = accumulated_outcome [OF this]
  have succ: "set (map (outcome_run \<circ> teo_outcome) os) \<subseteq> {RunSucceeded} \<longleftrightarrow>
      (\<forall>e \<in> set os. teo_outcome e = TargetSucceeded)"
    and fail: "set (map (outcome_run \<circ> teo_outcome) os) \<subseteq> {RunFailed} \<longleftrightarrow>
      (\<forall>e \<in> set os. teo_outcome e = TargetFailed)" for os
    by (induction os) simp_all
  show ?thesis
    using agg assms(1) unfolding progress_ok_def Let_def succ fail by simp
qed

section \<open>Properties\<close>

text \<open>
  C3: What a finished refresh reports is what happened. For any ports, when the run of the targets
  finishes, the result lists exactly one outcome for each of the 22 targets in catalogue order; the
  refresh outcome is Succeeded when all of them succeeded, Failed when all failed and Partial
  otherwise; usage changed exactly when some target was committed; the refresh is a complete full
  refresh exactly when the policy was Full and every target succeeded; and a day range is handed to
  the cloud upload only for a source with a committed target.
\<close>
theorem refresh_report_spec:
  assumes "execute_open_refresh x rid policy job started w = (Inr result, w')"
  shows "let os = xr_target_outcomes result in
    map entry_key os = map target_key refresh_targets \<and>
    xr_outcome result =
      (if \<forall>e \<in> set os. teo_outcome e = TargetSucceeded then RunSucceeded
       else if \<forall>e \<in> set os. teo_outcome e = TargetFailed then RunFailed else RunPartial) \<and>
    (xr_usage_changed result \<longleftrightarrow> (\<exists>e \<in> set os. teo_outcome e \<noteq> TargetFailed)) \<and>
    (cdu_full_refresh_complete (xr_committed_daily_upload result) \<longleftrightarrow>
       policy = PolicyFull \<and> (\<forall>e \<in> set os. teo_outcome e = TargetSucceeded)) \<and>
    (\<forall>t \<in> set (cdu_targets (xr_committed_daily_upload result)). \<exists>e \<in> set os.
       teo_outcome e \<noteq> TargetFailed \<and> cdt_source_key t = source_key_as_str (teo_source e))"
proof -
  from execute_open_refresh_reports [OF assms] obtain pr where
    ok: "progress_ok policy pr" and keys: "map entry_key (pr_target_outcomes pr) = map target_key refresh_targets"
    and result: "xr_outcome result = accumulator_outcome (pr_aggregate pr)"
      "xr_usage_changed result = pr_usage_changed pr" "xr_committed_daily_upload result = pr_upload pr"
      "xr_target_outcomes result = pr_target_outcomes pr" by blast
  have "length (pr_target_outcomes pr) = 22"
    using arg_cong [OF keys, of length] by (simp add: refresh_targets_def)
  then have "length (pr_target_outcomes pr) < 2 ^ 16" by simp
  from aggregate_outcome [OF ok this] ok keys show ?thesis
    unfolding result Let_def progress_ok_def by blast
qed


text \<open>Ports without stores: the collector knows every target and fails to collect.\<close>

definition offline_descriptor :: collector_descriptor where
  "offline_descriptor =
     \<lparr>cd_collector = CollectorKey ''demo'', cd_display_name = ''Demo'', cd_runtime_version = ''1'',
      cd_expected_version = ''1'', cd_adapter_version = 1, cd_binary_target = ''demo'',
      cd_integrity = IntegrityVerified,
      cd_profiles = map (\<lambda>t. \<lparr>pd_collector = CollectorKey ''demo'', pd_source = rt_source t,
        pd_profile_version = 1, pd_supported_projections = [Daily, Session]\<rparr>) refresh_targets\<rparr>"

definition offline_ports :: "bool \<Rightarrow> 'w refresh_ports" where
  "offline_ports described =
     \<lparr>po_describe = lift_res (if described then Inr offline_descriptor
        else Inl (collector_failure_new BinaryMissing None None)),
      po_collect = (\<lambda>_. throw_eff (collector_failure_new TimedOut None None)),
      po_resolve_source = (\<lambda>_ _. return_eff (SourceId 1)),
      po_begin_refresh_run = (\<lambda>_ _. return_eff (RefreshRunId 1)),
      po_complete_refresh_run = (\<lambda>_ _. return_eff ()),
      po_begin_import_run = (\<lambda>_ _. return_eff (ImportRunId 1)),
      po_complete_import_run = (\<lambda>_ _. return_eff ()),
      po_latest_successful_import = (\<lambda>_ _. Inr None),
      po_delete_expired = (\<lambda>_. return_eff 0),
      po_reconcile_daily = (\<lambda>_. throw_eff UsageStoreBackend),
      po_reconcile_session = (\<lambda>_. throw_eff UsageStoreBackend),
      po_evaluate_budget = (\<lambda>_ _. return_eff ()),
      po_now = (\<lambda>w. (500, w)),
      po_record = (\<lambda>_ w. w),
      po_requires_full = (\<lambda>_. Inr False)\<rparr>"

definition offline_chrono :: chrono where
  "offline_chrono =
     \<lparr>date_to_string = (\<lambda>_. ''2026-01-01''), parse_date = (\<lambda>_. None),
      checked_sub_days = (\<lambda>_ _. None), from_ymd_opt = (\<lambda>_ _ _. None),
      from_timestamp_millis = (\<lambda>ms. Some (ms * 1000000)), timestamp_millis = (\<lambda>t. t div 1000000),
      zoned_date = (\<lambda>_ _. None), millis_to_rfc3339 = (\<lambda>_. None)\<rparr>"

definition offline_execution :: "bool \<Rightarrow> 'w refresh_execution" where
  "offline_execution described =
     \<lparr>ex_ports = offline_ports described, ex_app_version = ''1'', ex_timezone = ''UTC'',
      ex_chrono = offline_chrono, ex_snapshot = []\<rparr>"

lemma offline_plan:
  "\<exists>request. plan_target (offline_execution True) ''job'' t profile t0 PolicyFull w = (Inr request, w)"
proof -
  have "\<not> blank (''job:'' @ source_key_as_str (rt_source t) @ '':'' @ projection_label (rt_projection t))"
    by (rule not_blank_visible; cases "rt_projection t"; simp add: visible_def)
  moreover have "\<not> blank ''UTC''" by (simp add: not_blank_visible visible_def)
  ultimately show ?thesis
    by (cases "rt_projection t")
       (simp_all add: plan_target_def read_res_def planned_collection_request_def planned_scope_def
         Let_def collection_request_for_def collection_id_new_def collection_request_daily_def
         offline_execution_def)
qed

lemma offline_target:
  assumes "t \<in> set refresh_targets"
  shows "ensures (P :: unit \<Rightarrow> bool) (execute_target (offline_execution True) rid PolicyFull ''job'' 400 t0
    offline_descriptor t pr) (\<lambda>_ _. True) (\<lambda>_ _. False)"
proof -
  have "find (profile_supports t) (cd_profiles offline_descriptor) \<noteq> None"
    using assms by (cases "rt_projection t")
      (auto simp: find_None_iff offline_descriptor_def profile_supports_def)
  then obtain profile where profile: "find (profile_supports t) (cd_profiles offline_descriptor) = Some profile"
    by blast
  obtain request where plan: "plan_target (offline_execution True) ''job'' t profile t0 PolicyFull () =
      (Inr request, ())"
    using offline_plan [of t profile t0 "()"] by blast
  have resolve: "po_resolve_source (ex_ports (offline_execution True)) (rt_source t) 400 = return_eff (SourceId 1)"
    by (simp add: offline_execution_def offline_ports_def)
  show ?thesis
    by (simp add: ensures_def execute_target_def profile bind_eff_def catch_eff_def case_eff_def plan
        resolve return_eff_def)
       (auto simp: bind_eff_def case_eff_def return_eff_def throw_eff_def offline_execution_def
         offline_ports_def modify_eff_def now_eff_def total_eff_def split: prod.splits sum.splits)
qed

lemma offline_targets:
  "set ts \<subseteq> set refresh_targets \<Longrightarrow>
   ensures (P :: unit \<Rightarrow> bool) (execute_targets (offline_execution True) rid PolicyFull ''job'' 400 t0
     offline_descriptor ts pr) (\<lambda>_ _. True) (\<lambda>_ _. False)"
proof (induction ts arbitrary: pr P)
  case Nil
  then show ?case by (simp add: ensures_def return_eff_def)
next
  case (Cons t ts)
  from Cons.prems have "t \<in> set refresh_targets" "set ts \<subseteq> set refresh_targets" by simp_all
  then show ?case
    unfolding execute_targets.simps by (intro ensures_bind [OF offline_target] Cons.IH)
qed

lemma offline_completes:
  "\<exists>result. execute_open_refresh (offline_execution True) (RefreshRunId 1) PolicyFull ''job'' 400 () =
     (Inr result, ())"
proof -
  obtain o' where run: "execute_open_refresh (offline_execution True) (RefreshRunId 1) PolicyFull
      ''job'' 400 () = (o', ())"
    by (cases "execute_open_refresh (offline_execution True) (RefreshRunId 1) PolicyFull ''job'' 400 ()") auto
  have "ensures (\<lambda>_ :: unit. True) (execute_open_refresh (offline_execution True) (RefreshRunId 1) PolicyFull
      ''job'' 400) (\<lambda>_ _. True) (\<lambda>_ _. False)"
  proof -
    have finish: "ensures P (finish_open_refresh (offline_execution True) rid pr) (\<lambda>_ _. True)
        (\<lambda>_ _. False)" for P rid pr
      by (simp add: ensures_def finish_open_refresh_def Let_def bind_eff_def catch_eff_def case_eff_def
          return_eff_def offline_execution_def offline_ports_def)
    have describe: "catch_eff (po_describe (ex_ports (offline_execution True))) h =
        return_eff offline_descriptor" for h :: "collector_failure \<Rightarrow> (unit, execution_failure, _) eff"
      by (simp add: fun_eq_iff catch_eff_def case_eff_def lift_res_def return_eff_def
          offline_execution_def offline_ports_def)
    have time: "from_timestamp_millis (ex_chrono (offline_execution True)) 400 = Some 400000000"
      by (simp add: offline_execution_def offline_chrono_def)
    show ?thesis
      unfolding execute_open_refresh_def time option.case describe
      by (rule ensures_bind [where R = "\<lambda>d _. d = offline_descriptor"],
          simp add: ensures_def return_eff_def, rule ensures_const, assumption, simp only:,
          rule ensures_bind, rule offline_targets, rule order_refl, rule finish)
  qed
  from run ensuresD_err [OF this TrueI] show ?thesis by (cases o') auto
qed

theorem refresh_report_spec_witness:
  "\<exists>result. execute_open_refresh (offline_execution True) (RefreshRunId 1) PolicyFull ''job'' 400 () =
     (Inr result, ()) \<and> length (xr_target_outcomes result) = 22"
proof -
  from offline_completes obtain result where run: "execute_open_refresh (offline_execution True)
      (RefreshRunId 1) PolicyFull ''job'' 400 () = (Inr result, ())" by blast
  from refresh_report_spec [OF run]
  have "map entry_key (xr_target_outcomes result) = map target_key refresh_targets"
    by (simp add: Let_def)
  from arg_cong [OF this, of length] run show ?thesis by (simp add: refresh_targets_def)
qed












end
