(* ===== verification/RefreshContract.thy ===== *)
theory RefreshContract
  imports Execution
begin

text \<open>
  What a refresh execution relies on and guarantees. \<open>refresh_stores\<close> is the contract of its ports:
  every call keeps an invariant of the world, only \<open>begin_*_run\<close> opens a run, and completing a run at
  or after its start closes it. From these laws alone the execution closes every run it opened, on
  every path, when the clock never reads earlier than the start of the refresh.
\<close>

section \<open>The events of a refresh are valid\<close>

lemma diagnostic_parts_valid:
  "diagnostic_code_new s = Inr code \<Longrightarrow>
     \<not> blank (diagnostic_code_as_str code) \<and> length (diagnostic_code_as_str code) \<le> 128"
  "diagnostic_summary_new s = Inr summary \<Longrightarrow>
     \<not> blank (diagnostic_summary_as_str summary) \<and> length (diagnostic_summary_as_str summary) \<le> 240"
  "diagnostic_context_new s = Inr ctx \<Longrightarrow>
     \<not> blank (diagnostic_context_as_str ctx) \<and> length (diagnostic_context_as_str ctx) \<le> 4096"
  by (auto simp: event_constructor_defs split: if_splits)

lemma target_failure_event_valid: "target_failure_event t f now = Inr e \<Longrightarrow> event_valid e"
  unfolding target_failure_event_def bind_res_Inr
  by (elim exE conjE) (drule diagnostic_parts_valid,
      auto simp: event_valid_def diagnostic_event_new_def split: if_splits dest: diagnostic_parts_valid)

lemma retention_failure_event_valid: "retention_failure_event now = Inr e \<Longrightarrow> event_valid e"
  unfolding retention_failure_event_def bind_res_Inr
  by (elim exE conjE) (drule diagnostic_parts_valid,
      auto simp: event_valid_def diagnostic_event_new_def split: if_splits dest: diagnostic_parts_valid)

section \<open>The contract of the ports\<close>

text \<open>A call that opens no run: it keeps the invariant and at most closes runs.\<close>

definition keeps_runs ::
  "('w \<Rightarrow> bool) \<Rightarrow> ('w \<Rightarrow> 'r set) \<Rightarrow> ('w \<Rightarrow> 'i set) \<Rightarrow> ('w \<Rightarrow> 'x \<times> 'w) \<Rightarrow> bool" where
  "keeps_runs sane R I m \<longleftrightarrow>
     (\<forall>w x w'. sane w \<longrightarrow> m w = (x, w') \<longrightarrow> sane w' \<and> R w' \<subseteq> R w \<and> I w' \<subseteq> I w)"

lemma keeps_runsI:
  "(\<And>w x w'. sane w \<Longrightarrow> m w = (x, w') \<Longrightarrow> sane w' \<and> R w' \<subseteq> R w \<and> I w' \<subseteq> I w)
   \<Longrightarrow> keeps_runs sane R I m"
  by (simp add: keeps_runs_def)

locale refresh_stores =
  fixes x :: "'w refresh_execution"
    and sane :: "'w \<Rightarrow> bool"
    and open_refreshes :: "'w \<Rightarrow> (refresh_run_id \<times> i64) set"
    and open_imports :: "'w \<Rightarrow> (import_run_id \<times> i64) set"
  assumes describe_keeps: "keeps_runs sane open_refreshes open_imports (po_describe (ex_ports x))"
    and collect_keeps: "keeps_runs sane open_refreshes open_imports (po_collect (ex_ports x) request)"
    and resolve_keeps:
      "keeps_runs sane open_refreshes open_imports (po_resolve_source (ex_ports x) source started)"
    and daily_keeps:
      "keeps_runs sane open_refreshes open_imports (po_reconcile_daily (ex_ports x) dreq)"
    and session_keeps:
      "keeps_runs sane open_refreshes open_imports (po_reconcile_session (ex_ports x) sreq)"
    and budget_keeps:
      "keeps_runs sane open_refreshes open_imports (po_evaluate_budget (ex_ports x) tz started)"
    and expiry_keeps:
      "keeps_runs sane open_refreshes open_imports (po_delete_expired (ex_ports x) started)"
    and clock_keeps: "keeps_runs sane open_refreshes open_imports (po_now (ex_ports x))"
    and record_keeps: "event_valid event \<Longrightarrow>
      keeps_runs sane open_refreshes open_imports (\<lambda>w. ((), po_record (ex_ports x) event w))"
    and begin_refresh: "\<lbrakk>sane w; po_begin_refresh_run (ex_ports x) rspec started w = (r, w')\<rbrakk> \<Longrightarrow>
      sane w' \<and> open_imports w' \<subseteq> open_imports w \<and>
      open_refreshes w' \<subseteq>
        (case r of Inl _ \<Rightarrow> open_refreshes w | Inr i \<Rightarrow> insert (i, started) (open_refreshes w))"
    and begin_import: "\<lbrakk>sane w; po_begin_import_run (ex_ports x) ispec started w = (s, w')\<rbrakk> \<Longrightarrow>
      sane w' \<and> open_refreshes w' \<subseteq> open_refreshes w \<and>
      open_imports w' \<subseteq>
        (case s of Inl _ \<Rightarrow> open_imports w | Inr i \<Rightarrow> insert (i, started) (open_imports w))"
    and complete_refresh: "sane w \<Longrightarrow> w' = snd (po_complete_refresh_run (ex_ports x) rid rdone w) \<Longrightarrow>
      sane w' \<and> open_imports w' \<subseteq> open_imports w \<and> open_refreshes w' \<subseteq> open_refreshes w \<and>
      (\<forall>started \<le> rrc_finished_at_ms rdone. (rid, started) \<notin> open_refreshes w')"
    and complete_import: "sane w \<Longrightarrow> w' = snd (po_complete_import_run (ex_ports x) iid idone w) \<Longrightarrow>
      sane w' \<and> open_refreshes w' \<subseteq> open_refreshes w \<and> open_imports w' \<subseteq> open_imports w \<and>
      (\<forall>started \<le> irc_finished_at_ms idone. (iid, started) \<notin> open_imports w')"
begin

text \<open>The clock never reads earlier than the start.\<close>

definition timely :: "i64 \<Rightarrow> bool" where
  "timely started \<longleftrightarrow> (\<forall>w. sane w \<longrightarrow> started \<le> fst (po_now (ex_ports x) w))"

text \<open>
  The world during a refresh started at \<open>started\<close>: with a timely clock no refresh run outside \<open>R\<close> is open,
  and no import run outside \<open>I\<close> except the named one. A failure that reaches the end of the refresh
  names the import run left open and carries a time at or after the start.
\<close>

definition during :: "(refresh_run_id \<times> i64) set \<Rightarrow> (import_run_id \<times> i64) set
    \<Rightarrow> i64 \<Rightarrow> import_run_id option \<Rightarrow> 'w \<Rightarrow> bool" where
  "during R I started imp w \<longleftrightarrow>
     sane w \<and> (timely started \<longrightarrow> open_refreshes w \<subseteq> R \<and>
       open_imports w \<subseteq> (case imp of None \<Rightarrow> I | Some i \<Rightarrow> insert (i, started) I))"

definition fails_closed :: "(refresh_run_id \<times> i64) set \<Rightarrow> (import_run_id \<times> i64) set
    \<Rightarrow> i64 \<Rightarrow> execution_failure \<Rightarrow> 'w \<Rightarrow> bool" where
  "fails_closed R I started f w \<longleftrightarrow>
     during R I started (xf_import_run_id f) w \<and> (timely started \<longrightarrow> started \<le> xf_finished_at_ms f)"

lemma ensures_keeps:
  assumes "keeps_runs sane open_refreshes open_imports m"
  shows "ensures (during R I started imp) m (\<lambda>_. during R I started imp) (\<lambda>_. during R I started imp)"
  by (rule ensuresI; use assms in \<open>simp add: keeps_runs_def during_def\<close>; blast)

lemmas call_rules =
  describe_keeps [THEN ensures_keeps] collect_keeps [THEN ensures_keeps]
  resolve_keeps [THEN ensures_keeps] daily_keeps [THEN ensures_keeps]
  session_keeps [THEN ensures_keeps] budget_keeps [THEN ensures_keeps]
  expiry_keeps [THEN ensures_keeps]

lemma ensures_now:
  "ensures (during R I started imp) (now_eff x)
     (\<lambda>now w. during R I started imp w \<and> (timely started \<longrightarrow> started \<le> now)) E"
  unfolding now_eff_def
proof (rule ensures_total)
  fix w now w'
  assume "during R I started imp w" and "po_now (ex_ports x) w = (now, w')"
  then show "during R I started imp w' \<and> (timely started \<longrightarrow> started \<le> now)"
    using clock_keeps unfolding keeps_runs_def during_def timely_def by (metis fst_conv subset_trans)
qed

lemma ensures_failure:
  "ensures (during R I started None) (failure x code summary) Q (fails_closed R I started)"
  unfolding failure_def
  by (rule ensures_bind [OF ensures_now], rule ensures_pre, rule ensures_throw)
     (simp add: fails_closed_def)

lemma ensures_import_failure:
  "ensures (during R I started (Some iid)) (import_failure x iid seen rejected changed code summary) Q
     (fails_closed R I started)"
  unfolding import_failure_def
  by (rule ensures_bind [OF ensures_now], rule ensures_pre, rule ensures_throw)
     (simp add: fails_closed_def)

lemma ensures_reconcile_collection:
  "ensures (during R I started imp) (reconcile_collection x sid iid now collection)
     (\<lambda>_. during R I started imp) (\<lambda>_. during R I started imp)"
  unfolding reconcile_collection_def
  by (cases "res_projection collection"; simp;
      rule ensures_bind, rule call_rules, (rule ensures_ignore, rule call_rules | rule ensures_return))

lemma ensures_catch_failure:
  "ensures P m Q (\<lambda>_. during R I started None) \<Longrightarrow>
   ensures P (catch_eff m (\<lambda>e. failure x (code e) (summary e))) Q (fails_closed R I started)"
  by (rule ensures_catch) (assumption, rule ensures_failure)

lemma ensures_lift_same: "ensures P (lift_res r) (\<lambda>_. P) (\<lambda>_. P)"
  by (rule ensures_pre, rule ensures_lift) (simp split: sum.splits)

lemma ensures_begin_import:
  "ensures (during R I started None) (po_begin_import_run (ex_ports x) spec started)
     (\<lambda>iid. during R I started (Some iid)) (\<lambda>_. during R I started None)"
  by (rule ensuresI; drule begin_import [rotated]; auto simp: during_def)

lemma ensures_complete_import:
  "ensures (\<lambda>w. during R I started (Some iid) w \<and> (timely started \<longrightarrow> started \<le> irc_finished_at_ms fin))
     (po_complete_import_run (ex_ports x) iid fin)
     (\<lambda>_ w. during R I started None w \<and> (timely started \<longrightarrow> started \<le> irc_finished_at_ms fin))
     (\<lambda>_. during R I started (Some iid))"
proof (rule ensuresI)
  fix w r w'
  assume "during R I started (Some iid) w \<and> (timely started \<longrightarrow> started \<le> irc_finished_at_ms fin)"
    and "po_complete_import_run (ex_ports x) iid fin w = (Inr r, w')"
  with complete_import [of w w' iid fin]
  show "during R I started None w' \<and> (timely started \<longrightarrow> started \<le> irc_finished_at_ms fin)"
    by (auto simp: during_def)
next
  fix w e w'
  assume "during R I started (Some iid) w \<and> (timely started \<longrightarrow> started \<le> irc_finished_at_ms fin)"
    and "po_complete_import_run (ex_ports x) iid fin w = (Inl e, w')"
  with complete_import [of w w' iid fin] show "during R I started (Some iid) w'"
    by (auto simp: during_def)
qed

lemma ensures_import_spec:
  "ensures (during R I started None) (import_spec_of x rid sid collection)
     (\<lambda>_. during R I started None) (fails_closed R I started)"
  unfolding import_spec_of_def Let_def
  by (rule ensures_bind; rule ensures_catch_failure, rule ensures_lift_same)

lemma ensures_persist:
  "ensures (during R I started None) (persist x rid sid started collection)
     (\<lambda>r w. during R I started None w \<and> (timely started \<longrightarrow> started \<le> xr_finished_at_ms r))
     (fails_closed R I started)"
  unfolding persist_def Let_def
proof (rule ensures_bind [OF ensures_import_spec], rule ensures_bind)
  show "ensures (during R I started None)
      (catch_eff (po_begin_import_run (ex_ports x) spec started)
        (\<lambda>_. failure x ''refresh.import'' ''Could not begin the import run.''))
      (\<lambda>iid. during R I started (Some iid)) (fails_closed R I started)" for spec
    by (rule ensures_catch_failure, rule ensures_begin_import)
qed (rule ensures_bind, rule ensures_catch, rule ensures_reconcile_collection,
     rule ensures_import_failure, rule ensures_bind, rule ensures_now,
     rule ensures_bind, rule ensures_catch, rule ensures_pre,
     rule ensures_complete_import, simp, rule ensures_import_failure,
     rule ensures_pre, rule ensures_return, simp)

lemma ensures_modify_same:
  "(\<And>w. P w \<Longrightarrow> P (f w)) \<Longrightarrow> ensures P (modify_eff f) (\<lambda>_. P) E"
  by (rule ensures_modify) simp

lemma during_record:
  assumes "during R I started imp w" and "event_valid event"
  shows "during R I started imp (po_record (ex_ports x) event w)"
  using assms record_keeps [OF assms(2)] unfolding keeps_runs_def during_def by (metis subset_trans)

lemma during_record_target:
  "during R I started imp w \<Longrightarrow>
     during R I started imp (record_target_collection_failure x target f now w)"
  by (auto simp: record_target_collection_failure_def split: sum.splits
      intro: during_record target_failure_event_valid)

lemma during_record_retention:
  "during R I started imp w \<Longrightarrow> during R I started imp (record_import_retention_failure x now w)"
  by (auto simp: record_import_retention_failure_def split: sum.splits
      intro: during_record retention_failure_event_valid)

lemma ensures_plan_target:
  "ensures P (plan_target x job target profile requested policy) (\<lambda>_. P) (\<lambda>_. P)"
  unfolding plan_target_def by (rule ensures_pre, rule ensures_read) (simp split: sum.splits)

text \<open>The loop invariant: no import run is left open and the last finishing time is timely.\<close>

definition progressing :: "(refresh_run_id \<times> i64) set \<Rightarrow> (import_run_id \<times> i64) set \<Rightarrow> i64
    \<Rightarrow> refresh_progress \<Rightarrow> 'w \<Rightarrow> bool" where
  "progressing R I started pr w \<longleftrightarrow>
     during R I started None w \<and> (timely started \<longrightarrow> started \<le> pr_finished_at_ms pr)"

lemma ensures_execute_target:
  "ensures (during R I started None)
     (execute_target x rid policy job started requested descriptor target pr)
     (progressing R I started) (fails_closed R I started)"
proof (cases "find (profile_supports target) (cd_profiles descriptor)")
  case None
  then show ?thesis by (simp add: execute_target_def ensures_failure)
next
  case (Some profile)
  have failed: "ensures (during R I started None)
      (bind_eff (now_eff x) (\<lambda>now.
        bind_eff (modify_eff (record_target_collection_failure x target f now)) (\<lambda>_.
        return_eff (progress_failed target scope f now pr))))
      (progressing R I started) (fails_closed R I started)" for scope f
    by (rule ensures_bind, rule ensures_now, rule ensures_bind, rule ensures_modify_same,
        simp add: during_record_target, rule ensures_pre, rule ensures_return)
       (simp add: progressing_def progress_failed_def)
  have persisted: "ensures (during R I started None)
      (bind_eff (catch_eff (persist x rid sid started collection)
          (\<lambda>f. throw_eff (f\<lparr>xf_target_outcomes := os\<rparr>)))
        (\<lambda>result. return_eff (progress_persisted (ex_chrono x) target collection result pr)))
      (progressing R I started) (fails_closed R I started)" for sid collection os
    by (rule ensures_bind, rule ensures_catch, rule ensures_persist, rule ensures_pre,
        rule ensures_throw, simp add: fails_closed_def, rule ensures_pre, rule ensures_return)
       (simp add: progressing_def progress_persisted_def Let_def)
  show ?thesis
    unfolding execute_target_def Some option.case
    by (rule ensures_bind, rule ensures_catch_failure, rule call_rules, rule ensures_bind,
        rule ensures_catch_failure, rule ensures_plan_target, rule ensures_case, rule call_rules,
        rule failed, rule persisted)
qed

lemma ensures_execute_targets:
  "ensures (progressing R I started pr)
     (execute_targets x rid policy job started requested descriptor ts pr)
     (progressing R I started) (fails_closed R I started)"
proof (induction ts arbitrary: pr)
  case Nil
  show ?case by (simp add: ensures_return)
next
  case (Cons t ts)
  show ?case
    unfolding execute_targets.simps
    by (rule ensures_bind, rule ensures_pre, rule ensures_execute_target,
        simp add: progressing_def, rule Cons.IH)
qed

lemma ensures_complete_refresh:
  assumes "started \<le> rrc_finished_at_ms fin \<or> \<not> timely started"
  shows "ensures (during (insert (rid, started) R) I started None)
     (po_complete_refresh_run (ex_ports x) rid fin)
     (\<lambda>_. during R I started None) (\<lambda>_. during R I started None)"
  by (rule ensuresI; insert assms complete_refresh; simp add: during_def)
     (metis (no_types, lifting) snd_conv subset_insert subset_trans)+

lemma ensures_finish:
  "ensures (progressing (insert (rid, started) R) I started pr) (finish_open_refresh x rid pr)
     (\<lambda>_. during R I started None) (fails_closed (insert (rid, started) R) I started)"
proof (cases "timely started \<longrightarrow> started \<le> pr_finished_at_ms pr")
  case False
  then show ?thesis by (simp add: ensures_def progressing_def)
next
  case time: True
  let ?R = "insert (rid, started) R"
  let ?fin = "\<lparr>rrc_outcome = run_outcome_refresh (accumulator_outcome (pr_aggregate pr)),
    rrc_finished_at_ms = pr_finished_at_ms pr,
    rrc_error = (if accumulator_outcome (pr_aggregate pr) = RunSucceeded then None
                 else pr_first_error pr)\<rparr>"
  have "ensures (during ?R I started None) (po_complete_refresh_run (ex_ports x) rid ?fin)
      (\<lambda>_. during R I started None) (\<lambda>_. during R I started None)"
    by (rule ensures_complete_refresh) (use time in auto)
  then have complete: "ensures (progressing ?R I started pr)
      (po_complete_refresh_run (ex_ports x) rid ?fin)
      (\<lambda>_. during R I started None) (\<lambda>_. during R I started None)"
    by (rule ensures_pre) (simp add: progressing_def)
  have weaker: "during ?R I started None w" if "during R I started None w" for w
    using that by (auto simp: during_def)
  show ?thesis
    unfolding finish_open_refresh_def Let_def
    by (rule ensures_bind, rule ensures_catch, rule complete, rule ensures_pre, rule ensures_throw,
        simp add: fails_closed_def time weaker)
       (auto intro!: ensures_bind ensures_case ensures_modify_same ensures_return call_rules
          simp: during_record_retention)
qed

lemma ensures_open_refresh:
  "ensures (during (insert (rid, started) R) I started None)
     (execute_open_refresh x rid policy job started)
     (\<lambda>_. during R I started None) (fails_closed (insert (rid, started) R) I started)"
proof (cases "from_timestamp_millis (ex_chrono x) started")
  case None
  then show ?thesis by (simp add: execute_open_refresh_def ensures_failure)
next
  case (Some requested)
  show ?thesis
    unfolding execute_open_refresh_def Some option.case
    by (rule ensures_bind, rule ensures_catch_failure, rule call_rules, rule ensures_bind,
        rule ensures_pre, rule ensures_execute_targets, simp add: progressing_def progress_start_def,
        rule ensures_finish)
qed

lemma close_failed_refresh_closes:
  assumes "fails_closed (insert (rid, started) R) I started f w"
    and "close_failed_refresh x rid f w = (r, w')"
  shows "during R I started None w'"
proof -
  let ?R = "insert (rid, started) R"
  define ifin where "ifin = \<lparr>irc_outcome = ImportFailed, irc_records_seen = xf_records_seen f,
     irc_records_rejected = xf_records_rejected f, irc_finished_at_ms = xf_finished_at_ms f,
     irc_error = run_error_option (xf_code f) (xf_summary f)\<rparr>"
  define rfin where "rfin = \<lparr>rrc_outcome = RefreshFailed,
     rrc_finished_at_ms = xf_finished_at_ms f,
     rrc_error = run_error_option (xf_code f) (xf_summary f)\<rparr>"
  define w1 where "w1 = (case xf_import_run_id f of None \<Rightarrow> w
    | Some iid \<Rightarrow> snd (po_complete_import_run (ex_ports x) iid ifin w))"
  have fin: "irc_finished_at_ms ifin = xf_finished_at_ms f" "rrc_finished_at_ms rfin = xf_finished_at_ms f"
    by (simp_all add: ifin_def rfin_def)
  have time: "timely started \<longrightarrow> started \<le> xf_finished_at_ms f"
    using assms(1) by (simp add: fails_closed_def)
  have w1: "during ?R I started None w1"
  proof (cases "xf_import_run_id f")
    case None
    with assms(1) show ?thesis by (simp add: w1_def fails_closed_def)
  next
    case (Some iid)
    then have open1: "during ?R I started (Some iid) w" using assms(1) by (simp add: fails_closed_def)
    have "w1 = snd (po_complete_import_run (ex_ports x) iid ifin w)"
      by (simp only: w1_def Some option.case)
    from complete_import [OF _ this] open1 time show ?thesis
      unfolding during_def option.case fin by blast
  qed
  have "snd (close_failed_refresh x rid f w) = snd (po_complete_refresh_run (ex_ports x) rid rfin w1)"
    unfolding close_failed_refresh_def Let_def w1_def ifin_def rfin_def by (simp only: snd_conv)
  then have "w' = snd (po_complete_refresh_run (ex_ports x) rid rfin w1)"
    by (simp only: assms(2) snd_conv)
  from complete_refresh [OF _ this] w1 time show ?thesis
    unfolding during_def option.case fin by blast
qed

text \<open>The guarantee: the invariant always, and with a timely clock no run stays open.\<close>

lemma during_start: "sane w \<Longrightarrow> during (open_refreshes w) (open_imports w) started None w"
  by (simp add: during_def)

lemma execute_refresh_during:
  assumes "sane w" and "execute_refresh x trigger policy job started w = (result, w')"
  shows "during (open_refreshes w) (open_imports w) started None w'"
proof -
  let ?R = "open_refreshes w" and ?I = "open_imports w"
  note start = during_start [OF assms(1)]
  have failed: "during ?R ?I started None w2"
    if "failed_result x c w1 = (r, w2)" "during ?R ?I started None w1" for c r w1 w2
  proof -
    from that(1) have "w2 = snd (po_now (ex_ports x) w1)"
      by (auto simp: failed_result_def split: prod.splits)
    with that(2) clock_keeps show ?thesis
      unfolding keeps_runs_def during_def by (metis prod.collapse subset_trans)
  qed
  show ?thesis
  proof (cases "bind_res (job_key_new job) (\<lambda>key. refresh_run_spec_new key trigger (ex_app_version x))")
    case (Inl e)
    with assms(2) start show ?thesis by (auto simp: execute_refresh_def intro: failed)
  next
    case (Inr spec)
    obtain b w1 where begun: "po_begin_refresh_run (ex_ports x) spec started w = (b, w1)"
      by fastforce
    note laws = begin_refresh [OF assms(1) begun]
    show ?thesis
    proof (cases b)
      case (Inl e)
      with laws have "during ?R ?I started None w1" by (simp add: during_def)
      with assms(2) show ?thesis
        by (auto simp: execute_refresh_def Inr begun Inl intro: failed)
    next
      case rid: (Inr rid)
      with laws have open1: "during (insert (rid, started) ?R) ?I started None w1"
        by (simp add: during_def)
      obtain o' w2 where run: "execute_open_refresh x rid policy job started w1 = (o', w2)"
        by fastforce
      show ?thesis
      proof (cases o')
        case (Inr r)
        with run have "during ?R ?I started None w2"
          by (auto intro: ensuresD_ok [OF ensures_open_refresh open1])
        with assms(2) show ?thesis
          by (simp add: execute_refresh_def \<open>bind_res _ _ = _\<close> begun rid run Inr)
      next
        case (Inl f)
        with run have "fails_closed (insert (rid, started) ?R) ?I started f w2"
          by (auto intro: ensuresD_err [OF ensures_open_refresh open1])
        moreover have "close_failed_refresh x rid f w2 = (result, w')"
          using assms(2) by (simp add: execute_refresh_def \<open>bind_res _ _ = _\<close> begun rid run Inl)
        ultimately show ?thesis by (rule close_failed_refresh_closes)
      qed
    qed
  qed
qed

lemma execute_refresh_sane:
  assumes "sane w"
  shows "sane (snd (execute_refresh x trigger policy job started w))"
  by (rule conjunct1 [OF execute_refresh_during [OF assms prod.collapse [symmetric],
        unfolded during_def]])

lemma execute_refresh_closes:
  assumes "sane w" and "timely started"
    and "w' = snd (execute_refresh x trigger policy job started w)"
  shows "open_refreshes w' \<subseteq> open_refreshes w \<and> open_imports w' \<subseteq> open_imports w"
proof -
  have "during (open_refreshes w) (open_imports w) started None w'"
    unfolding assms(3) by (rule execute_refresh_during [OF assms(1) prod.collapse [symmetric]])
  with assms(2) show ?thesis unfolding during_def option.case by blast
qed

end

end
