(* ===== verification/RefreshOnSqlite.thy ===== *)
theory RefreshOnSqlite
  imports RefreshContract RunStoreFacts
begin

text \<open>
  The refresh execution on the modelled stores: a world holds the database, the diagnostic event log
  and everything else (collectors, clock, budget evaluation, baseline state), which stays abstract.
  The run store, usage store and event log of the earlier theories discharge the contract
  \<open>refresh_stores\<close>, whatever the rest does.
\<close>

section \<open>The wired application\<close>

record 'e app_world =
  aw_database :: database
  aw_events :: "diagnostic_row list"
  aw_env :: 'e

record 'e environment =
  en_describe :: "('e, collector_failure, collector_descriptor) eff"
  en_collect :: "collection_request \<Rightarrow> ('e, collector_failure, collection_result) eff"
  en_evaluate_budget :: "string \<Rightarrow> i64 \<Rightarrow> ('e, unit, unit) eff"
  en_now :: "'e \<Rightarrow> i64 \<times> 'e"
  en_requires_full :: "'e \<Rightarrow> baseline_repair_error + bool"

definition on_database :: "(database \<Rightarrow> 'r \<times> database) \<Rightarrow> 'e app_world \<Rightarrow> 'r \<times> 'e app_world" where
  "on_database m w = (case m (aw_database w) of (r, db) \<Rightarrow> (r, w\<lparr>aw_database := db\<rparr>))"

definition on_env :: "('e \<Rightarrow> 'r \<times> 'e) \<Rightarrow> 'e app_world \<Rightarrow> 'r \<times> 'e app_world" where
  "on_env m w = (case m (aw_env w) of (r, e) \<Rightarrow> (r, w\<lparr>aw_env := e\<rparr>))"

definition sqlite_ports ::
  "chrono \<Rightarrow> (string \<Rightarrow> string) \<Rightarrow> 'e environment \<Rightarrow> 'e app_world refresh_ports" where
  "sqlite_ports c sha256 env =
     \<lparr>po_describe = on_env (en_describe env),
      po_collect = (\<lambda>request. on_env (en_collect env request)),
      po_resolve_source = (\<lambda>source now. on_database (resolve_source source now)),
      po_begin_refresh_run = (\<lambda>spec now. on_database (begin_refresh_run spec now)),
      po_complete_refresh_run = (\<lambda>rid fin. on_database (complete_refresh_run rid fin)),
      po_begin_import_run = (\<lambda>spec now. on_database (begin_import_run c spec now)),
      po_complete_import_run = (\<lambda>iid fin. on_database (complete_import_run iid fin)),
      po_latest_successful_import =
        (\<lambda>lookup w. latest_successful_import c lookup (aw_database w)),
      po_delete_expired = (\<lambda>now. on_database (delete_expired_import_runs now)),
      po_reconcile_daily = (\<lambda>request. on_database (reconcile_daily c request)),
      po_reconcile_session = (\<lambda>request. on_database (reconcile_session c sha256 request)),
      po_evaluate_budget = (\<lambda>tz now. on_env (en_evaluate_budget env tz now)),
      po_now = on_env (en_now env),
      po_record = (\<lambda>event w. w\<lparr>aw_events := record_event event (aw_events w)\<rparr>),
      po_requires_full = (\<lambda>w. en_requires_full env (aw_env w))\<rparr>"

definition sqlite_execution ::
  "chrono \<Rightarrow> (string \<Rightarrow> string) \<Rightarrow> 'e environment \<Rightarrow> string \<Rightarrow> string \<Rightarrow> pricing_snapshot
   \<Rightarrow> 'e app_world refresh_execution" where
  "sqlite_execution c sha256 env version tz snapshot =
     \<lparr>ex_ports = sqlite_ports c sha256 env, ex_app_version = version, ex_timezone = tz,
      ex_chrono = c, ex_snapshot = snapshot\<rparr>"

section \<open>Open runs\<close>

definition world_ok :: "'e app_world \<Rightarrow> bool" where
  "world_ok w \<longleftrightarrow> database_ok (aw_database w) \<and> event_log_ok (aw_events w)"

text \<open>The open rows of a table of runs: their identifiers with their start.\<close>

definition opened ::
  "('r \<Rightarrow> 'k) \<Rightarrow> ('r \<Rightarrow> bool) \<Rightarrow> ('r \<Rightarrow> i64 option) \<Rightarrow> 'r list \<Rightarrow> ('k \<times> i64) set" where
  "opened key running start rows =
     {(key r, s) | r s. r \<in> set rows \<and> running r \<and> start r = Some s}"

definition running_refresh :: "refresh_run_row \<Rightarrow> bool" where
  "running_refresh r \<longleftrightarrow> rr_status r = ''running''"

definition running_import :: "import_run_row \<Rightarrow> bool" where
  "running_import r \<longleftrightarrow> ir_status r = ''running''"

definition open_refreshes :: "database \<Rightarrow> (refresh_run_id \<times> i64) set" where
  "open_refreshes db =
     opened (RefreshRunId \<circ> rr_id) running_refresh rr_started_at_ms (db_refresh_runs db)"

definition open_imports :: "database \<Rightarrow> (import_run_id \<times> i64) set" where
  "open_imports db =
     opened (ImportRunId \<circ> ir_id) running_import (Some \<circ> ir_started_at_ms) (db_import_runs db)"

lemma opened_append: "opened key running start (rows @ [r]) \<subseteq>
    (case start r of None \<Rightarrow> {} | Some s \<Rightarrow> {(key r, s)}) \<union> opened key running start rows"
  by (auto simp: opened_def)

lemma opened_subset: "set rows' \<subseteq> set rows \<Longrightarrow>
    opened key running start rows' \<subseteq> opened key running start rows"
  by (auto simp: opened_def)

text \<open>Completing a run: either every row of that key is ended, or the statement changed nothing.\<close>

lemma update_where_closed:
  assumes "\<And>r. \<not> q (f r)" and "r \<in> set (update_where p f rows)" and "q r"
  shows "r \<in> set rows \<and> \<not> p r"
proof -
  from assms(2) obtain r0 where "r = (if p r0 then f r0 else r0)" and "r0 \<in> set rows"
    unfolding update_where_set by blast
  with assms(1,3) show ?thesis by (cases "p r0") simp_all
qed

lemma opened_completed:
  assumes "distinct (map key rows)" and "\<And>r. \<not> running (f r)"
    and "rows' = update_where (\<lambda>r. key r = k) f rows \<or>
      (rows' = rows \<and> \<not> (\<forall>r \<in> set rows. key r = k \<longrightarrow> check (f r))) \<or>
      (rows' = rows \<and> \<not> (\<exists>r \<in> set rows. key r = k))"
    and "\<And>r s. \<lbrakk>r \<in> set rows; start r = Some s; s \<le> fin\<rbrakk> \<Longrightarrow> check (f r)"
  shows "opened key running start rows' \<subseteq> opened key running start rows \<and>
    (\<forall>s \<le> fin. (k, s) \<notin> opened key running start rows')"
  using assms(3)
proof (elim disjE conjE)
  assume upd: "rows' = update_where (\<lambda>r. key r = k) f rows"
  have "r \<in> set rows \<and> key r \<noteq> k" if "r \<in> set rows'" "running r" for r
    using update_where_closed [of running f r, OF assms(2) _ that(2)] that(1) unfolding upd by blast
  then show ?thesis unfolding opened_def by blast
next
  assume same: "rows' = rows" and "\<not> (\<forall>r \<in> set rows. key r = k \<longrightarrow> check (f r))"
  then obtain r where r: "r \<in> set rows" "key r = k" "\<not> check (f r)" by blast
  have "r' = r" if "r' \<in> set rows" "key r' = k" for r'
    using assms(1) that r(1,2) by (simp add: distinct_map inj_on_def)
  with r assms(4) show ?thesis unfolding opened_def same by blast
next
  assume "rows' = rows" and "\<not> (\<exists>r \<in> set rows. key r = k)"
  then show ?thesis unfolding opened_def by blast
qed

lemma open_runs_cong:
  "db_refresh_runs db' = db_refresh_runs db \<Longrightarrow> open_refreshes db' = open_refreshes db"
  "db_import_runs db' = db_import_runs db \<Longrightarrow> open_imports db' = open_imports db"
  by (simp_all add: open_refreshes_def open_imports_def)

text \<open>What a run store call leaves of the tables of runs.\<close>

lemma resolve_source_runs:
  "db_refresh_runs (snd (resolve_source source now db)) = db_refresh_runs db"
  "db_import_runs (snd (resolve_source source now db)) = db_import_runs db"
  by (auto simp: resolve_source_def transact_def Let_def split: option.splits)

lemma begin_refresh_run_cases:
  assumes "begin_refresh_run spec now db = (r, db')"
  obtains e where "r = Inl e" and "db' = db"
  | row where "r = Inr (RefreshRunId (rr_id row))" and "rr_started_at_ms row = Some now"
      and "db' = db\<lparr>db_refresh_runs := db_refresh_runs db @ [row]\<rparr>"
  using assms unfolding begin_refresh_run_def
proof (cases rule: transact_cases)
  case (2 x)
  define row where "row = last (db_refresh_runs db')"
  have "x = RefreshRunId (rr_id row)" and "rr_started_at_ms row = Some now"
    and "db' = db\<lparr>db_refresh_runs := db_refresh_runs db @ [row]\<rparr>"
    using 2(2) by (auto simp: Let_def row_def split: if_splits)
  with 2(1) show ?thesis by (intro that(2)) simp_all
qed (rule that(1))

lemma begin_refresh_run_row:
  assumes "begin_refresh_run spec now db = (Inr rid, db')"
  obtains row where "rid = RefreshRunId (rr_id row)" and "rr_started_at_ms row = Some now"
    and "rr_status row = ''running''"
    and "db' = db\<lparr>db_refresh_runs := db_refresh_runs db @ [row]\<rparr>"
  using assms unfolding begin_refresh_run_def
proof (cases rule: transact_cases)
  case (2 x)
  define row where "row = last (db_refresh_runs db')"
  have "x = RefreshRunId (rr_id row)" and "rr_started_at_ms row = Some now"
    and "rr_status row = ''running''"
    and "db' = db\<lparr>db_refresh_runs := db_refresh_runs db @ [row]\<rparr>"
    using 2(2) by (auto simp: Let_def row_def split: if_splits)
  with 2(1) show ?thesis by (intro that) simp_all
qed simp

lemma begin_import_run_cases:
  assumes "begin_import_run c spec now db = (r, db')"
  obtains e where "r = Inl e" and "db' = db"
  | row where "r = Inr (ImportRunId (ir_id row))" and "ir_started_at_ms row = now"
      and "db' = db\<lparr>db_import_runs := db_import_runs db @ [row]\<rparr>"
  using assms unfolding begin_import_run_def
proof (cases rule: transact_cases)
  case (2 x)
  define row where "row = last (db_import_runs db')"
  have "x = ImportRunId (ir_id row)" and "ir_started_at_ms row = now"
    and "db' = db\<lparr>db_import_runs := db_import_runs db @ [row]\<rparr>"
    using 2(2) by (auto simp: Let_def row_def split: if_splits prod.splits)
  with 2(1) show ?thesis by (intro that(2)) simp_all
qed (rule that(1))

lemma begin_refresh_run_open:
  assumes "begin_refresh_run spec now db = (r, db')"
  shows "open_imports db' \<subseteq> open_imports db \<and> open_refreshes db' \<subseteq>
    (case r of Inl _ \<Rightarrow> open_refreshes db | Inr i \<Rightarrow> insert (i, now) (open_refreshes db))"
  using assms
proof (cases rule: begin_refresh_run_cases)
  case (2 row)
  with opened_append [of "RefreshRunId \<circ> rr_id" running_refresh rr_started_at_ms "db_refresh_runs db" row]
  show ?thesis by (simp add: open_refreshes_def open_imports_def)
qed simp

lemma begin_import_run_open:
  assumes "begin_import_run c spec now db = (r, db')"
  shows "open_refreshes db' \<subseteq> open_refreshes db \<and> open_imports db' \<subseteq>
    (case r of Inl _ \<Rightarrow> open_imports db | Inr i \<Rightarrow> insert (i, now) (open_imports db))"
  using assms
proof (cases rule: begin_import_run_cases)
  case (2 row)
  with opened_append [of "ImportRunId \<circ> ir_id" running_import "Some \<circ> ir_started_at_ms" "db_import_runs db" row]
  show ?thesis by (simp add: open_refreshes_def open_imports_def)
qed simp

lemma ended_refresh_status: "refresh_outcome_value o1 \<noteq> ''running''"
  by (cases o1) simp_all

lemma ended_import_status: "import_outcome_value o2 \<noteq> ''running''"
  by (cases o2) simp_all

lemma run_update_cases:
  assumes "snd (transact (\<lambda>db. bind_res (run_update check p f (rows db))
      (\<lambda>(n, rs). map_ok (\<lambda>u. (u, put rs db)) (run_found n))) db) = db'"
  shows "db' = put (update_where p f (rows db)) db \<or>
    (db' = db \<and> \<not> (\<forall>r \<in> set (rows db). p r \<longrightarrow> check (f r)))
    \<or> (db' = db \<and> \<not> (\<exists>r \<in> set (rows db). p r))"
  using assms
  by (auto simp: transact_def bind_res_def run_update_def map_ok_def run_found_def list_all_iff
      filter_empty_conv split: if_splits)

definition finish_refresh :: "refresh_run_completion \<Rightarrow> refresh_run_row \<Rightarrow> refresh_run_row" where
  "finish_refresh fin r =
     r\<lparr>rr_status := refresh_outcome_value (rrc_outcome fin),
       rr_finished_at_ms := Some (rrc_finished_at_ms fin),
       rr_error_code := fst (error_fields (rrc_error fin)),
       rr_error_summary := snd (error_fields (rrc_error fin))\<rparr>"

lemma complete_refresh_run_cases:
  assumes "db' = snd (complete_refresh_run rid fin db)"
  shows "db' = db\<lparr>db_refresh_runs := update_where (\<lambda>r. rr_id r = refresh_run_id_value rid)
      (finish_refresh fin) (db_refresh_runs db)\<rparr> \<or>
    (db' = db \<and> \<not> (\<forall>r \<in> set (db_refresh_runs db). rr_id r = refresh_run_id_value rid \<longrightarrow>
       check_refresh_run (finish_refresh fin r))) \<or>
    (db' = db \<and> \<not> (\<exists>r \<in> set (db_refresh_runs db). rr_id r = refresh_run_id_value rid))"
  using assms
  by (intro run_update_cases [where put = "\<lambda>rs db. db\<lparr>db_refresh_runs := rs\<rparr>"])
     (simp add: complete_refresh_run_def finish_refresh_def split_beta)

lemma complete_refresh_run_rejected:
  assumes "r \<in> set (db_refresh_runs db)" and "rr_id r = refresh_run_id_value rid"
    and "\<not> check_refresh_run (finish_refresh fin r)"
  shows "snd (complete_refresh_run rid fin db) = db"
  using assms unfolding finish_refresh_def
  by (auto simp: complete_refresh_run_def transact_def run_update_def list_all_iff split_beta)

lemma complete_import_run_cases:
  assumes "db' = snd (complete_import_run iid fin db)"
  shows "db' = db\<lparr>db_import_runs := update_where (\<lambda>r. ir_id r = import_run_id_value iid)
      (finish_import fin) (db_import_runs db)\<rparr> \<or>
    (db' = db \<and> \<not> (\<forall>r \<in> set (db_import_runs db). ir_id r = import_run_id_value iid \<longrightarrow>
       check_import_run (finish_import fin r))) \<or>
    (db' = db \<and> \<not> (\<exists>r \<in> set (db_import_runs db). ir_id r = import_run_id_value iid))"
  using assms
  by (intro run_update_cases [where put = "\<lambda>rs db. db\<lparr>db_import_runs := rs\<rparr>"])
     (simp add: complete_import_run_def finish_import_def split_beta)

lemma finish_refresh_check:
  assumes "check_refresh_run r" and "rr_started_at_ms r = Some s" and "s \<le> rrc_finished_at_ms fin"
  shows "check_refresh_run (finish_refresh fin r)"
  using assms
  by (cases "rrc_outcome fin") (auto simp: check_refresh_run_def finish_refresh_def non_negative_def)

lemma finish_import_check:
  assumes "check_import_run r" and "ir_started_at_ms r \<le> irc_finished_at_ms fin"
  shows "check_import_run (finish_import fin r)"
  using assms
  by (cases "irc_outcome fin") (auto simp: check_import_run_def finish_import_def)

lemma finish_refresh_not_running: "\<not> running_refresh (finish_refresh fin r)"
  by (simp add: running_refresh_def finish_refresh_def ended_refresh_status)

lemma finish_import_not_running: "\<not> running_import (finish_import fin r)"
  by (simp add: running_import_def finish_import_def ended_import_status)

lemma complete_refresh_run_open:
  assumes "database_ok db" and "db' = snd (complete_refresh_run rid fin db)"
  shows "open_imports db' \<subseteq> open_imports db \<and> open_refreshes db' \<subseteq> open_refreshes db \<and>
    (\<forall>s \<le> rrc_finished_at_ms fin. (rid, s) \<notin> open_refreshes db')"
proof -
  have key: "(\<lambda>r. (RefreshRunId \<circ> rr_id) r = rid) = (\<lambda>r. rr_id r = refresh_run_id_value rid)"
    by (cases rid) (simp add: fun_eq_iff)
  have rows: "\<forall>r \<in> set (db_refresh_runs db). check_refresh_run r" and
    dist: "distinct (map (RefreshRunId \<circ> rr_id) (db_refresh_runs db))"
    using assms(1) by (auto simp: database_ok_def runs_ok_def list_all_iff distinct_map inj_on_def)
  have "db_import_runs db' = db_import_runs db"
    using complete_refresh_run_cases [OF assms(2)] by (elim disjE conjE) simp_all
  then have "open_imports db' = open_imports db" by (rule open_runs_cong(2))
  moreover have "open_refreshes db' \<subseteq> open_refreshes db \<and>
      (\<forall>s \<le> rrc_finished_at_ms fin. (rid, s) \<notin> open_refreshes db')"
    unfolding open_refreshes_def
  proof (rule opened_completed [OF dist, of running_refresh "finish_refresh fin"])
    show "check_refresh_run (finish_refresh fin r)"
      if "r \<in> set (db_refresh_runs db)" "rr_started_at_ms r = Some s" "s \<le> rrc_finished_at_ms fin"
      for r s using finish_refresh_check that rows by blast
    show "db_refresh_runs db' = update_where (\<lambda>r. (RefreshRunId \<circ> rr_id) r = rid)
        (finish_refresh fin) (db_refresh_runs db) \<or>
      (db_refresh_runs db' = db_refresh_runs db \<and>
       \<not> (\<forall>r \<in> set (db_refresh_runs db). (RefreshRunId \<circ> rr_id) r = rid \<longrightarrow>
            check_refresh_run (finish_refresh fin r))) \<or>
      (db_refresh_runs db' = db_refresh_runs db \<and>
       \<not> (\<exists>r \<in> set (db_refresh_runs db). (RefreshRunId \<circ> rr_id) r = rid))"
      using complete_refresh_run_cases [OF assms(2)] unfolding key fun_cong [OF key]
      by (elim disjE conjE) simp_all
  qed (rule finish_refresh_not_running)
  ultimately show ?thesis by simp
qed

lemma complete_import_run_open:
  assumes "database_ok db" and "db' = snd (complete_import_run iid fin db)"
  shows "open_refreshes db' \<subseteq> open_refreshes db \<and> open_imports db' \<subseteq> open_imports db \<and>
    (\<forall>s \<le> irc_finished_at_ms fin. (iid, s) \<notin> open_imports db')"
proof -
  have key: "(\<lambda>r. (ImportRunId \<circ> ir_id) r = iid) = (\<lambda>r. ir_id r = import_run_id_value iid)"
    by (cases iid) (simp add: fun_eq_iff)
  have rows: "\<forall>r \<in> set (db_import_runs db). check_import_run r" and
    dist: "distinct (map (ImportRunId \<circ> ir_id) (db_import_runs db))"
    using assms(1) by (auto simp: database_ok_def runs_ok_def list_all_iff distinct_map inj_on_def)
  have "db_refresh_runs db' = db_refresh_runs db"
    using complete_import_run_cases [OF assms(2)] by (elim disjE conjE) simp_all
  then have "open_refreshes db' = open_refreshes db" by (rule open_runs_cong(1))
  moreover have "open_imports db' \<subseteq> open_imports db \<and>
      (\<forall>s \<le> irc_finished_at_ms fin. (iid, s) \<notin> open_imports db')"
    unfolding open_imports_def
  proof (rule opened_completed [OF dist, of running_import "finish_import fin"])
    show "check_import_run (finish_import fin r)"
      if "r \<in> set (db_import_runs db)" "(Some \<circ> ir_started_at_ms) r = Some s"
        "s \<le> irc_finished_at_ms fin" for r s
      using finish_import_check [of r fin] that rows by simp
    show "db_import_runs db' = update_where (\<lambda>r. (ImportRunId \<circ> ir_id) r = iid)
        (finish_import fin) (db_import_runs db) \<or>
      (db_import_runs db' = db_import_runs db \<and>
       \<not> (\<forall>r \<in> set (db_import_runs db). (ImportRunId \<circ> ir_id) r = iid \<longrightarrow>
            check_import_run (finish_import fin r))) \<or>
      (db_import_runs db' = db_import_runs db \<and>
       \<not> (\<exists>r \<in> set (db_import_runs db). (ImportRunId \<circ> ir_id) r = iid))"
      using complete_import_run_cases [OF assms(2)] unfolding key fun_cong [OF key]
      by (elim disjE conjE) simp_all
  qed (rule finish_import_not_running)
  ultimately show ?thesis by simp
qed

section \<open>The contract holds\<close>

lemma keeps_on_env: "keeps_runs world_ok (open_refreshes \<circ> aw_database) (open_imports \<circ> aw_database) (on_env m)"
  by (rule keeps_runsI) (auto simp: on_env_def world_ok_def split: prod.splits)

lemma keeps_on_database:
  assumes "\<And>db. database_ok db \<Longrightarrow> database_ok (snd (m db)) \<and>
    open_refreshes (snd (m db)) \<subseteq> open_refreshes db \<and> open_imports (snd (m db)) \<subseteq> open_imports db"
  shows "keeps_runs world_ok (open_refreshes \<circ> aw_database) (open_imports \<circ> aw_database) (on_database m)"
proof (rule keeps_runsI)
  fix w r w'
  assume "world_ok w" and "on_database m w = (r, w')"
  moreover from this(2) have "w' = w\<lparr>aw_database := snd (m (aw_database w))\<rparr>"
    by (auto simp: on_database_def split: prod.splits)
  ultimately show "world_ok w' \<and> (open_refreshes \<circ> aw_database) w' \<subseteq> (open_refreshes \<circ> aw_database) w \<and>
      (open_imports \<circ> aw_database) w' \<subseteq> (open_imports \<circ> aw_database) w"
    using assms [of "aw_database w"] by (simp add: world_ok_def)
qed

lemma db_grows_runs:
  "db_grows db db' \<Longrightarrow> open_refreshes db' \<subseteq> open_refreshes db \<and> open_imports db' \<subseteq> open_imports db"
  unfolding db_grows_def open_refreshes_def open_imports_def by auto

lemma keeps_resolve: "keeps_runs world_ok (open_refreshes \<circ> aw_database) (open_imports \<circ> aw_database)
    (on_database (resolve_source source now))"
  by (rule keeps_on_database)
     (simp add: resolve_source_ok open_refreshes_def open_imports_def resolve_source_runs)

lemma keeps_reconcile_daily:
  "keeps_runs world_ok (open_refreshes \<circ> aw_database) (open_imports \<circ> aw_database)
    (on_database (reconcile_daily c request))"
  by (rule keeps_on_database) (simp add: reconcile_daily_ok db_grows_runs)

lemma keeps_reconcile_session:
  "keeps_runs world_ok (open_refreshes \<circ> aw_database) (open_imports \<circ> aw_database)
    (on_database (reconcile_session c sha256 request))"
  by (rule keeps_on_database) (simp add: reconcile_session_ok db_grows_runs)

lemma keeps_delete_expired:
  "keeps_runs world_ok (open_refreshes \<circ> aw_database) (open_imports \<circ> aw_database)
    (on_database (delete_expired_import_runs now))"
proof (rule keeps_on_database)
  fix db :: database
  assume ok: "database_ok db"
  let ?keep = "\<lambda>r. ir_id r \<notin> set (expired_import_runs
    (i64_saturating_sub now import_run_retention_ms) db)"
  have db': "snd (delete_expired_import_runs now db) =
      db\<lparr>db_import_runs := filter ?keep (db_import_runs db)\<rparr>"
    using delete_expired_import_runs_eq(1) [OF ok, of now] by fastforce
  show "database_ok (snd (delete_expired_import_runs now db)) \<and>
      open_refreshes (snd (delete_expired_import_runs now db)) \<subseteq> open_refreshes db \<and>
      open_imports (snd (delete_expired_import_runs now db)) \<subseteq> open_imports db"
    unfolding db' using delete_expired_import_runs_eq(2) [OF ok, of now]
    by (simp add: open_refreshes_def open_imports_def opened_subset)
qed

lemma keeps_record:
  "event_valid event \<Longrightarrow> keeps_runs world_ok (open_refreshes \<circ> aw_database)
     (open_imports \<circ> aw_database) (\<lambda>w. ((), w\<lparr>aw_events := record_event event (aw_events w)\<rparr>))"
  by (rule keeps_runsI) (auto simp: world_ok_def record_event_def intro: insert_event_ok)

lemma on_database_snd: "snd (on_database m w) = w\<lparr>aw_database := snd (m (aw_database w))\<rparr>"
  by (simp add: on_database_def split: prod.splits)

lemma on_databaseE:
  assumes "on_database m w = (r, w')"
  shows "m (aw_database w) = (r, aw_database w')" and "aw_events w' = aw_events w"
  using assms by (auto simp: on_database_def split: prod.splits)

lemmas sqlite_defs = sqlite_execution_def sqlite_ports_def

interpretation sqlite: refresh_stores "sqlite_execution c sha256 env version tz snapshot" world_ok
  "open_refreshes \<circ> aw_database" "open_imports \<circ> aw_database"
proof (unfold_locales, goal_cases)
  case (10 w rspec started r w')
  note run = on_databaseE [OF 10(2) [unfolded sqlite_defs, simplified]]
  have "database_ok (aw_database w')"
    using begin_refresh_run_ok [of "aw_database w" rspec started] 10(1) run(1)
    by (simp add: world_ok_def)
  with 10(1) run begin_refresh_run_open [OF run(1)] show ?case
    by (cases r) (simp_all add: world_ok_def)
next
  case (11 w ispec started r w')
  note run = on_databaseE [OF 11(2) [unfolded sqlite_defs, simplified]]
  have "database_ok (aw_database w')"
    using begin_import_run_ok [of "aw_database w" c ispec started] 11(1) run(1)
    by (simp add: world_ok_def)
  with 11(1) run begin_import_run_open [OF run(1)] show ?case
    by (cases r) (simp_all add: world_ok_def)
next
  case (12 w w' rid fin)
  then have w': "w' = w\<lparr>aw_database := snd (complete_refresh_run rid fin (aw_database w))\<rparr>"
    by (simp add: sqlite_defs on_database_snd)
  from 12(1) complete_refresh_run_open [OF _ refl, of "aw_database w" rid fin]
    complete_refresh_run_ok [of "aw_database w" rid fin]
  show ?case unfolding w' by (simp add: world_ok_def)
next
  case (13 w w' iid fin)
  then have w': "w' = w\<lparr>aw_database := snd (complete_import_run iid fin (aw_database w))\<rparr>"
    by (simp add: sqlite_defs on_database_snd)
  from 13(1) complete_import_run_open [OF _ refl, of "aw_database w" iid fin]
    complete_import_run_ok [of "aw_database w" iid fin]
  show ?case unfolding w' by (simp add: world_ok_def)
qed (simp_all add: sqlite_defs keeps_on_env keeps_resolve keeps_reconcile_daily
      keeps_reconcile_session keeps_delete_expired keeps_record)

section \<open>Properties\<close>

text \<open>
  C2: Every run a refresh begins is closed when it ends. When no clock reading during the refresh is
  earlier than its start, then on every path (complete, partial, failed collection, failed
  reconciliation, failed completion) no refresh run and no import run is open afterwards that was
  not open before.
\<close>
theorem refresh_closes_its_runs:
  assumes "world_ok w" and "\<And>e. started \<le> fst (en_now env e)"
    and "w' = snd (execute_refresh (sqlite_execution c sha256 env version tz snapshot)
      trigger policy job started w)"
  shows "open_refreshes (aw_database w') \<subseteq> open_refreshes (aw_database w) \<and>
    open_imports (aw_database w') \<subseteq> open_imports (aw_database w)"
proof -
  note closes = sqlite.execute_refresh_closes [OF assms(1) _ assms(3)]
  have "(open_refreshes \<circ> aw_database) w' \<subseteq> (open_refreshes \<circ> aw_database) w \<and>
      (open_imports \<circ> aw_database) w' \<subseteq> (open_imports \<circ> aw_database) w"
    by (rule closes)
       (unfold sqlite.timely_def, use assms(2) in \<open>simp add: sqlite_defs on_env_def split_beta\<close>)
  then show ?thesis by simp
qed

text \<open>A small world: the demo database, an empty event log and a clock that counts up.\<close>

definition demo_env :: "i64 environment" where
  "demo_env =
     \<lparr>en_describe = (\<lambda>t. (Inl (collector_failure_new BinaryMissing None None), t)),
      en_collect = (\<lambda>_ t. (Inl (collector_failure_new TimedOut None None), t)),
      en_evaluate_budget = (\<lambda>_ _ t. (Inr (), t)),
      en_now = (\<lambda>t. (max 400 t, t + 1)),
      en_requires_full = (\<lambda>_. Inr False)\<rparr>"

definition demo_world :: "i64 app_world" where
  "demo_world = \<lparr>aw_database = demo_database, aw_events = [], aw_env = 400\<rparr>"

lemma demo_world_ok: "world_ok demo_world"
  by (simp add: world_ok_def demo_world_def demo_database_ok event_log_empty)

theorem refresh_closes_its_runs_witness:
  "open_refreshes (aw_database (snd (execute_refresh
       (sqlite_execution gregorian id demo_env ''1.0'' ''UTC'' []) Manual PolicyFull ''job'' 400 demo_world)))
     \<subseteq> open_refreshes demo_database"
  using refresh_closes_its_runs [OF demo_world_ok _ refl, of 400 demo_env gregorian id
      "''1.0''" "''UTC''" "[]" Manual PolicyFull "''job''"]
  by (simp add: demo_env_def demo_world_def)

text \<open>
  C16: A clock that is set back during a refresh leaves the refresh run open. When the refresh run has
  begun, reading the collector metadata fails and the clock now reads earlier than the start, the
  completion the code falls back to violates the check that a run does not finish before it starts;
  its error is dropped, and the run keeps the status running until the next start of the
  application recovers it. (Recovery clamps the finishing time; execution does not.)
\<close>
theorem early_clock_leaves_run_open:
  assumes "bind_res (job_key_new job) (\<lambda>key. refresh_run_spec_new key trigger version) = Inr spec"
    and "begin_refresh_run spec started (aw_database w) = (Inr rid, db')"
    and "from_timestamp_millis c started = Some t"
    and "\<And>e. \<exists>f e'. en_describe env e = (Inl f, e')"
    and "\<And>e. fst (en_now env e) < started"
  shows "(rid, started) \<in> open_refreshes (aw_database (snd (execute_refresh
    (sqlite_execution c sha256 env version tz snapshot) trigger policy job started w)))"
proof -
  let ?x = "sqlite_execution c sha256 env version tz snapshot"
  let ?w1 = "w\<lparr>aw_database := db'\<rparr>"
  from assms(2) obtain row where row: "rid = RefreshRunId (rr_id row)"
    "rr_started_at_ms row = Some started" "rr_status row = ''running''"
    "db' = (aw_database w)\<lparr>db_refresh_runs := db_refresh_runs (aw_database w) @ [row]\<rparr>"
    by (rule begin_refresh_run_row)
  then have member: "row \<in> set (db_refresh_runs db')" by simp
  from assms(4) obtain f e1 where describe: "en_describe env (aw_env w) = (Inl f, e1)" by blast
  obtain clk e2 where clock: "en_now env e1 = (clk, e2)" by fastforce
  then have early: "clk < started" using assms(5) [of e1] by simp
  have begun: "po_begin_refresh_run (ex_ports ?x) spec started w = (Inr rid, ?w1)"
    by (simp add: sqlite_defs on_database_def assms(2))
  obtain xf where failed: "execute_open_refresh ?x rid policy job started ?w1 = (Inl xf, ?w1\<lparr>aw_env := e2\<rparr>)"
    and xf: "xf_import_run_id xf = None" "xf_finished_at_ms xf = clk"
    by (simp add: execute_open_refresh_def sqlite_defs assms(3) bind_eff_def catch_eff_def case_eff_def
        on_env_def describe failure_def now_eff_def total_eff_def clock throw_eff_def)
  have "\<not> check_refresh_run (finish_refresh fin row)" if "rrc_finished_at_ms fin = clk" for fin
    using early row(2) that by (simp add: check_refresh_run_def finish_refresh_def)
  then have "snd (complete_refresh_run rid fin db') = db'" if "rrc_finished_at_ms fin = clk" for fin
    using that member row(1) by (intro complete_refresh_run_rejected) auto
  then have "aw_database (snd (close_failed_refresh ?x rid xf (?w1\<lparr>aw_env := e2\<rparr>))) = db'"
    by (simp add: close_failed_refresh_def xf Let_def sqlite_defs on_database_snd)
  moreover have "ex_app_version ?x = version" by (simp add: sqlite_execution_def)
  ultimately have "aw_database (snd (execute_refresh ?x trigger policy job started w)) = db'"
    by (simp add: execute_refresh_def assms(1) begun failed)
  moreover have "(rid, started) \<in> open_refreshes db'"
    using member row(1,2,3) by (auto simp: open_refreshes_def opened_def running_refresh_def)
  ultimately show ?thesis by simp
qed

definition early_env :: "i64 environment" where
  "early_env = demo_env\<lparr>en_now := \<lambda>t. (300, t)\<rparr>"

theorem early_clock_leaves_run_open_witness:
  "\<exists>rid. (rid, 400) \<in> open_refreshes (aw_database (snd (execute_refresh
     (sqlite_execution gregorian id early_env ''1.0'' ''UTC'' []) Manual PolicyFull ''job-2'' 400 demo_world)))"
proof -
  have nonblank: "\<not> blank ''job-2''" "\<not> blank ''1.0''"
    by (simp_all add: not_blank_visible visible_def)
  have spec: "bind_res (job_key_new ''job-2'') (\<lambda>key. refresh_run_spec_new key Manual ''1.0'') =
      Inr \<lparr>rrs_job_key = JobKey ''job-2'', rrs_trigger = Manual, rrs_requested_by_app_version = ''1.0''\<rparr>"
    by (simp add: job_key_new_def refresh_run_spec_new_def nonblank)
  have "\<exists>rid db'. begin_refresh_run \<lparr>rrs_job_key = JobKey ''job-2'', rrs_trigger = Manual,
      rrs_requested_by_app_version = ''1.0''\<rparr> 400 (aw_database demo_world) = (Inr rid, db')"
    by (simp add: begin_refresh_run_def transact_def Let_def demo_world_def demo_defs
        check_refresh_run_def sql_nonblank_def non_negative_def)
  then obtain rid db' where "begin_refresh_run \<lparr>rrs_job_key = JobKey ''job-2'', rrs_trigger = Manual,
      rrs_requested_by_app_version = ''1.0''\<rparr> 400 (aw_database demo_world) = (Inr rid, db')"
    by blast
  moreover have "\<exists>t. from_timestamp_millis gregorian 400 = Some t"
    by (simp add: gregorian_def)
  moreover have "\<exists>f e'. en_describe early_env e = (Inl f, e')" "fst (en_now early_env e) < 400" for e
    by (simp_all add: early_env_def demo_env_def)
  ultimately show ?thesis
    using early_clock_leaves_run_open [OF spec] by blast
qed

end
