(* ===== verification/Coordinator.thy ===== *)
theory Coordinator
  imports Execution
begin

text \<open>
  The refresh coordinator of \<open>src/src-tauri/src/application/refresh/coordinator.rs\<close> and the
  scheduler of \<open>scheduler.rs\<close>. The coordinator's shared state is guarded by a mutex; what runs
  between two acquisitions of it (spawning the worker thread, the refresh itself, the work after
  it) is a step of its own, so that every interleaving of requests, cancellations and workers is a
  sequence of steps. The execution of one refresh is one step on the world.
\<close>

section \<open>Decimal numbers\<close>

text \<open>The \<open>Display\<close> form of an integer.\<close>

fun decimal_nat :: "nat \<Rightarrow> string" where
  "decimal_nat n =
     (if n < 10 then [char_of (48 + n)] else decimal_nat (n div 10) @ [char_of (48 + n mod 10)])"

declare decimal_nat.simps [simp del]

definition decimal_int :: "int \<Rightarrow> string" where
  "decimal_int i = (if i < 0 then CHR ''-'' # decimal_nat (nat (- i)) else decimal_nat (nat i))"

definition next_job_id :: "i64 \<Rightarrow> u64 \<Rightarrow> string" where
  "next_job_id now sequence = ''refresh-'' @ decimal_int now @ ''-'' @ decimal_nat (unat sequence)"

section \<open>State\<close>

record refresh_snapshot =
  sn_status :: refresh_status
  sn_job_id :: "string option"
  sn_trigger :: "refresh_trigger option"
  sn_last_successful_refresh_at_ms :: "i64 option"

text \<open>The fields of \<open>CoordinatorState\<close> are those of the snapshot it hands out.\<close>

definition initial_state :: refresh_snapshot where
  "initial_state =
     \<lparr>sn_status = Idle, sn_job_id = None, sn_trigger = None,
      sn_last_successful_refresh_at_ms = None\<rparr>"

text \<open>An accepted request: what its worker thread is given.\<close>

record refresh_job =
  jb_trigger :: refresh_trigger
  jb_policy :: refresh_scope_policy
  jb_id :: string
  jb_started_at_ms :: i64

record 'w refresh_hooks =
  hk_execution :: "'w refresh_execution"
  hk_on_refresh_completed ::
    "target_execution_outcome list \<Rightarrow> i64 \<Rightarrow> ('w, baseline_repair_error, bool option) eff"
  hk_error_json :: "baseline_repair_error \<Rightarrow> string"
  hk_upload :: "committed_daily_upload \<Rightarrow> 'w \<Rightarrow> 'w"

text \<open>
  The shared state; the accepted requests whose snapshot the requesting thread has still to publish
  (it does so after it released the lock); the published ones whose worker is not spawned yet; the
  snapshots of failed spawns still to be published; the workers executing a refresh; the workers in
  the work after it (with the snapshot they will publish); the published events in order; and the
  world.
\<close>

record 'w coordinator =
  co_state :: refresh_snapshot
  co_sequence :: u64
  co_timezone :: string
  co_announcing :: "(refresh_snapshot \<times> refresh_job) list"
  co_unspawned :: "refresh_job list"
  co_spawn_failures :: "refresh_snapshot list"
  co_executing :: "refresh_job list"
  co_finishing :: "(refresh_snapshot \<times> execution_result) list"
  co_published :: "(refresh_snapshot \<times> bool) list"
  co_world :: 'w

definition coordinator_new :: "string \<Rightarrow> 'w \<Rightarrow> 'w coordinator" where
  "coordinator_new tz w =
     \<lparr>co_state = initial_state, co_sequence = 0, co_timezone = tz, co_announcing = [],
      co_unspawned = [], co_spawn_failures = [], co_executing = [], co_finishing = [], co_published = [], co_world = w\<rparr>"

section \<open>Operations\<close>

text \<open>
  A request takes a sequence number before it looks at the state; the lock is held from there to the
  snapshot. \<open>announce\<close> is the publication after it, \<open>announce_failure\<close> that of a failed spawn.
\<close>

definition accept_request ::
  "refresh_trigger \<Rightarrow> refresh_scope_policy \<Rightarrow> i64 \<Rightarrow> 'w coordinator \<Rightarrow> 'w coordinator" where
  "accept_request trigger policy now co =
     (let job_id = next_job_id now (co_sequence co);
          co' = co\<lparr>co_sequence := co_sequence co + 1\<rparr>;
          state = (co_state co)\<lparr>sn_status := Running, sn_job_id := Some job_id,
                                sn_trigger := Some trigger\<rparr>
      in if status_is_active (sn_status (co_state co)) then co'
         else co'\<lparr>co_state := state,
                  co_announcing := co_announcing co @
                    [(state, \<lparr>jb_trigger = trigger, jb_policy = policy, jb_id = job_id,
                              jb_started_at_ms = now\<rparr>)]\<rparr>)"

definition announce :: "refresh_snapshot \<times> refresh_job \<Rightarrow> 'w coordinator \<Rightarrow> 'w coordinator" where
  "announce entry co =
     co\<lparr>co_announcing := remove1 entry (co_announcing co),
        co_unspawned := co_unspawned co @ [snd entry],
        co_published := co_published co @ [(fst entry, False)]\<rparr>"

definition request_refresh :: "refresh_trigger \<Rightarrow> i64 \<Rightarrow> 'w coordinator \<Rightarrow> 'w coordinator" where
  "request_refresh trigger = accept_request trigger PolicyCatchUp"

definition request_full_refresh :: "refresh_trigger \<Rightarrow> i64 \<Rightarrow> 'w coordinator \<Rightarrow> 'w coordinator" where
  "request_full_refresh trigger = accept_request trigger PolicyFull"

definition request_freshness_refresh ::
  "refresh_trigger \<Rightarrow> i64 \<Rightarrow> 'w coordinator \<Rightarrow> 'w coordinator" where
  "request_freshness_refresh trigger = accept_request trigger PolicyFreshness"

definition request_scheduled_refresh :: "i64 \<Rightarrow> 'w coordinator \<Rightarrow> 'w coordinator" where
  "request_scheduled_refresh = request_refresh Scheduled"

definition spawn_worker :: "refresh_job \<Rightarrow> 'w coordinator \<Rightarrow> 'w coordinator" where
  "spawn_worker job co =
     co\<lparr>co_unspawned := remove1 job (co_unspawned co), co_executing := co_executing co @ [job]\<rparr>"

definition spawn_failed :: "refresh_job \<Rightarrow> 'w coordinator \<Rightarrow> 'w coordinator" where
  "spawn_failed job co =
     (let state = (co_state co)\<lparr>sn_status := Failed\<rparr>
      in co\<lparr>co_unspawned := remove1 job (co_unspawned co), co_state := state,
            co_spawn_failures := co_spawn_failures co @ [state]\<rparr>)"

definition announce_failure :: "refresh_snapshot \<Rightarrow> 'w coordinator \<Rightarrow> 'w coordinator" where
  "announce_failure state co =
     co\<lparr>co_spawn_failures := remove1 state (co_spawn_failures co),
        co_published := co_published co @ [(state, False)]\<rparr>"

definition cancel_refresh :: "'w coordinator \<Rightarrow> 'w coordinator" where
  "cancel_refresh co =
     (if status_is_active (sn_status (co_state co))
      then co\<lparr>co_state := (co_state co)\<lparr>sn_status := Cancelling\<rparr>\<rparr> else co)"

definition set_aggregation_timezone :: "string \<Rightarrow> 'w coordinator \<Rightarrow> 'w coordinator" where
  "set_aggregation_timezone tz co = co\<lparr>co_timezone := tz\<rparr>"

text \<open>\<open>finish_refresh\<close> up to the update of the state.\<close>

definition finish_state :: "execution_result \<Rightarrow> refresh_snapshot \<Rightarrow> refresh_snapshot" where
  "finish_state result state =
     (let state' = state\<lparr>sn_status := run_outcome_status (xr_outcome result)\<rparr>
      in if xr_outcome result = RunSucceeded
         then state'\<lparr>sn_last_successful_refresh_at_ms := Some (xr_finished_at_ms result)\<rparr>
         else state')"

definition run_worker :: "'w refresh_hooks \<Rightarrow> refresh_job \<Rightarrow> 'w coordinator \<Rightarrow> 'w coordinator" where
  "run_worker hooks job co =
     (let x = (hk_execution hooks)\<lparr>ex_timezone := co_timezone co\<rparr>;
          (result, w) = execute_refresh x (jb_trigger job) (jb_policy job) (jb_id job)
                          (jb_started_at_ms job) (co_world co);
          state = finish_state result (co_state co)
      in co\<lparr>co_world := w, co_state := state,
            co_executing := remove1 job (co_executing co),
            co_finishing := co_finishing co @ [(state, result)]\<rparr>)"

text \<open>The event of a failed repair; the JSON text of the error is the serializer's.\<close>

definition repair_failure_event :: "string \<Rightarrow> i64 \<Rightarrow> diagnostic_validation_error + diagnostic_event" where
  "repair_failure_event error_json created_at_ms =
     bind_res (diagnostic_code_new ''antigravity.baseline_repair_failed'') (\<lambda>code.
     bind_res (diagnostic_summary_new ''Antigravity baseline repair encountered an error.'') (\<lambda>summary.
     diagnostic_event_new AreaCollector SeverityWarning code summary
       (result_ok (diagnostic_context_new error_json)) created_at_ms))"

definition after_refresh :: "'w refresh_hooks \<Rightarrow> execution_result \<Rightarrow> 'w \<Rightarrow> bool \<times> 'w" where
  "after_refresh hooks result w =
     (let finished = xr_finished_at_ms result;
          (repaired, w1) =
            (case hk_on_refresh_completed hooks (xr_target_outcomes result) finished w of
               (Inr completion, w') \<Rightarrow> (completion, w')
             | (Inl e, w') \<Rightarrow>
                 (None, (case repair_failure_event (hk_error_json hooks e) finished of
                           Inr event \<Rightarrow> po_record (ex_ports (hk_execution hooks)) event w'
                         | Inl _ \<Rightarrow> w')));
          w2 = (if cdu_targets (xr_committed_daily_upload result) = [] then w1
                else hk_upload hooks (xr_committed_daily_upload result) w1)
      in (xr_usage_changed result \<or> repaired = Some True, w2))"

definition finish_worker ::
  "'w refresh_hooks \<Rightarrow> refresh_snapshot \<times> execution_result \<Rightarrow> 'w coordinator \<Rightarrow> 'w coordinator" where
  "finish_worker hooks entry co =
     (let (usage_changed, w) = after_refresh hooks (snd entry) (co_world co)
      in co\<lparr>co_world := w, co_finishing := remove1 entry (co_finishing co),
            co_published := co_published co @ [(fst entry, usage_changed)]\<rparr>)"

inductive coordinator_step :: "'w refresh_hooks \<Rightarrow> 'w coordinator \<Rightarrow> 'w coordinator \<Rightarrow> bool"
  for hooks :: "'w refresh_hooks" where
  request: "coordinator_step hooks co (accept_request trigger policy now co)"
| cancel: "coordinator_step hooks co (cancel_refresh co)"
| timezone: "coordinator_step hooks co (set_aggregation_timezone tz co)"
| announce: "entry \<in> set (co_announcing co) \<Longrightarrow> coordinator_step hooks co (announce entry co)"
| spawn: "job \<in> set (co_unspawned co) \<Longrightarrow> coordinator_step hooks co (spawn_worker job co)"
| spawn_fail: "job \<in> set (co_unspawned co) \<Longrightarrow> coordinator_step hooks co (spawn_failed job co)"
| announce_fail: "state \<in> set (co_spawn_failures co) \<Longrightarrow> coordinator_step hooks co (announce_failure state co)"
| run: "job \<in> set (co_executing co) \<Longrightarrow> coordinator_step hooks co (run_worker hooks job co)"
| finish: "entry \<in> set (co_finishing co) \<Longrightarrow> coordinator_step hooks co (finish_worker hooks entry co)"

inductive coordinator_reachable :: "'w refresh_hooks \<Rightarrow> string \<Rightarrow> 'w \<Rightarrow> 'w coordinator \<Rightarrow> bool"
  for hooks :: "'w refresh_hooks" and tz :: string and w :: 'w where
  start: "coordinator_reachable hooks tz w (coordinator_new tz w)"
| step: "\<lbrakk>coordinator_reachable hooks tz w co; coordinator_step hooks co co'\<rbrakk>
    \<Longrightarrow> coordinator_reachable hooks tz w co'"

inductive_cases coordinator_stepE: "coordinator_step hooks co co'"

section \<open>The scheduler\<close>

text \<open>An interval is a \<open>Duration\<close> in seconds; \<open>None\<close> is the disabled policy.\<close>

definition enabled_minutes :: "i64 \<Rightarrow> u64 option" where
  "enabled_minutes minutes =
     (case (case u64_of_i64 minutes of None \<Rightarrow> None | Some m \<Rightarrow> u64_checked_mul m 60) of
        None \<Rightarrow> None
      | Some seconds \<Rightarrow> if seconds = 0 then None else Some seconds)"

datatype wait_result = WaitStopped | WaitChanged | WaitElapsed

record scheduler_state =
  sch_interval :: "u64 option"
  sch_stopped :: bool

text \<open>
  What ends one call of \<open>Condvar::wait\<close> or \<open>wait_timeout\<close>: the state found on waking up and whether
  the wait timed out. A wake-up may be spurious; \<open>wait_for_interval\<close> consumes wake-ups until it has
  a result, \<open>None\<close> when the list of wake-ups ends first (the thread is still waiting).
\<close>

fun wait_for_interval ::
  "scheduler_state \<Rightarrow> (scheduler_state \<times> bool) list
   \<Rightarrow> (wait_result \<times> scheduler_state \<times> (scheduler_state \<times> bool) list) option" where
  "wait_for_interval state wakes =
     (if sch_stopped state then Some (WaitStopped, state, wakes)
      else case wakes of [] \<Rightarrow> None
        | (state', timed_out) # rest \<Rightarrow>
            (case sch_interval state of
               None \<Rightarrow> wait_for_interval state' rest
             | Some interval \<Rightarrow>
                 if sch_stopped state' then Some (WaitStopped, state', rest)
                 else if sch_interval state' \<noteq> Some interval then Some (WaitChanged, state', rest)
                 else if timed_out then Some (WaitElapsed, state', rest)
                 else wait_for_interval state' rest))"

declare wait_for_interval.simps [simp del]

lemma wait_for_interval_rest:
  "wait_for_interval state wakes = Some (r, state', rest) \<Longrightarrow> length rest \<le> length wakes"
proof (induction state wakes rule: wait_for_interval.induct)
  case (1 state wakes)
  show ?case
  proof (cases wakes)
    case Nil
    with 1(3) show ?thesis by (subst (asm) wait_for_interval.simps) (simp split: if_splits)
  next
    case (Cons a list)
    obtain s t where a: "a = (s, t)" by (cases a)
    from 1(3) show ?thesis
      unfolding wait_for_interval.simps [of state] Cons a
      using 1(1,2) [OF _ Cons a [symmetric]]
      by (cases "sch_interval state") (auto simp: Cons a split: if_splits)
  qed
qed

text \<open>
  The scheduler thread over the states it observes in order: each call of \<open>wait_for_interval\<close>
  first takes the lock and finds a state (the flag of that observation is not read), then wakes up
  some times. The value is the number of refreshes it requests and whether it has returned.
\<close>

function run_scheduler :: "(scheduler_state \<times> bool) list \<Rightarrow> nat \<times> bool" where
  "run_scheduler [] = (0, False)"
| "run_scheduler ((state, locked) # wakes) =
     (case wait_for_interval state wakes of
        None \<Rightarrow> (0, False)
      | Some (WaitStopped, _, _) \<Rightarrow> (0, True)
      | Some (WaitChanged, _, rest) \<Rightarrow> run_scheduler rest
      | Some (WaitElapsed, _, rest) \<Rightarrow>
          (case run_scheduler rest of (n, ended) \<Rightarrow> (Suc n, ended)))"
  by pat_completeness auto
termination
  by (relation "measure length") (auto dest: wait_for_interval_rest)

declare run_scheduler.simps(2) [simp del]

end
