(* ===== verification/CoordinatorFacts.thy ===== *)
theory CoordinatorFacts
  imports Coordinator RefreshOnSqlite "HOL-Library.Multiset"
begin

text \<open>
  The coordinator over all its interleavings: at most one accepted request is under way, an active
  refresh can always end, and every refresh is announced once and ended once; and what the
  coordinator does not promise, the order of its published events. The scheduler requests one
  refresh per elapsed interval.
\<close>

section \<open>One refresh at a time\<close>

definition under_way :: "'w coordinator \<Rightarrow> refresh_job list" where
  "under_way co = map snd (co_announcing co) @ co_unspawned co @ co_executing co"

definition single_job :: "'w coordinator \<Rightarrow> bool" where
  "single_job co \<longleftrightarrow>
     (if status_is_active (sn_status (co_state co))
      then \<exists>job. under_way co = [job] \<and> sn_job_id (co_state co) = Some (jb_id job) \<and>
             sn_trigger (co_state co) = Some (jb_trigger job)
      else under_way co = [])"

lemma outcome_status_inactive: "\<not> status_is_active (run_outcome_status o1)"
  by (cases o1) simp_all

lemma finish_state_inactive: "\<not> status_is_active (sn_status (finish_state result state))"
  by (simp add: finish_state_def outcome_status_inactive Let_def)

lemma single_job_new: "single_job (coordinator_new tz w)"
  by (simp add: single_job_def coordinator_new_def initial_state_def under_way_def)

lemma run_worker_fields:
  "co_announcing (run_worker hooks job co) = co_announcing co"
  "co_unspawned (run_worker hooks job co) = co_unspawned co"
  "co_executing (run_worker hooks job co) = remove1 job (co_executing co)"
  "\<exists>result. co_state (run_worker hooks job co) = finish_state result (co_state co)"
  by (auto simp: run_worker_def Let_def split: prod.splits)

lemma finish_worker_fields:
  "co_announcing (finish_worker hooks entry co) = co_announcing co"
  "co_unspawned (finish_worker hooks entry co) = co_unspawned co"
  "co_executing (finish_worker hooks entry co) = co_executing co"
  "co_state (finish_worker hooks entry co) = co_state co"
  by (simp_all add: finish_worker_def Let_def split: prod.splits)

lemma single_job_active:
  assumes "single_job co" and "job \<in> set (under_way co)"
  shows "under_way co = [job]" and "status_is_active (sn_status (co_state co))"
    and "sn_job_id (co_state co) = Some (jb_id job)" and "sn_trigger (co_state co) = Some (jb_trigger job)"
  using assms by (auto simp: single_job_def split: if_splits)

text \<open>With a single job under way, the list it stands in holds it alone and the others are empty.\<close>

lemma under_way_single:
  assumes "under_way co = [job]"
  shows "entry \<in> set (co_announcing co) \<Longrightarrow>
      co_announcing co = [entry] \<and> snd entry = job \<and> co_unspawned co = [] \<and> co_executing co = []"
    and "j \<in> set (co_unspawned co) \<Longrightarrow>
      co_announcing co = [] \<and> co_unspawned co = [job] \<and> j = job \<and> co_executing co = []"
    and "j \<in> set (co_executing co) \<Longrightarrow>
      co_announcing co = [] \<and> co_unspawned co = [] \<and> co_executing co = [job] \<and> j = job"
  using assms by (auto simp: under_way_def append_eq_Cons_conv map_eq_Cons_conv)

lemma single_job_step:
  assumes "coordinator_step hooks co co'" and "single_job co"
  shows "single_job co'"
  using assms(1)
proof cases
  case (request trigger policy now)
  then show ?thesis
    using assms(2) by (auto simp: accept_request_def single_job_def under_way_def Let_def)
next
  case cancel
  then show ?thesis using assms(2) by (auto simp: cancel_refresh_def single_job_def under_way_def)
next
  case (timezone tz)
  then show ?thesis
    using assms(2)
    by (auto simp: set_aggregation_timezone_def single_job_def under_way_def split: if_splits)
next
  case (announce entry)
  then have "snd entry \<in> set (under_way co)" by (simp add: under_way_def)
  note only = single_job_active [OF assms(2) this]
  from under_way_single(1) [OF only(1) announce(2)] only announce(1) show ?thesis
    by (simp add: announce_def single_job_def under_way_def)
next
  case (spawn job)
  then have "job \<in> set (under_way co)" by (simp add: under_way_def)
  note only = single_job_active [OF assms(2) this]
  from under_way_single(2) [OF only(1) spawn(2)] only spawn(1) show ?thesis
    by (simp add: spawn_worker_def single_job_def under_way_def)
next
  case (spawn_fail job)
  then have "job \<in> set (under_way co)" by (simp add: under_way_def)
  note only = single_job_active [OF assms(2) this]
  from under_way_single(2) [OF only(1) spawn_fail(2)] spawn_fail(1) show ?thesis
    by (simp add: spawn_failed_def single_job_def under_way_def Let_def)
next
  case (announce_fail state)
  then show ?thesis
    using assms(2) by (auto simp: announce_failure_def single_job_def under_way_def split: if_splits)
next
  case (run job)
  then have "job \<in> set (under_way co)" by (simp add: under_way_def)
  note only = single_job_active [OF assms(2) this]
  from under_way_single(3) [OF only(1) run(2)] run(1) run_worker_fields [of hooks job co]
    finish_state_inactive
  show ?thesis by (auto simp: single_job_def under_way_def)
next
  case (finish entry)
  then show ?thesis
    using assms(2) by (auto simp: single_job_def under_way_def finish_worker_fields split: if_splits)
qed

lemma single_job_reachable: "coordinator_reachable hooks tz w co \<Longrightarrow> single_job co"
  by (induction rule: coordinator_reachable.induct) (auto intro: single_job_new single_job_step)

section \<open>Every refresh is announced once and ended once\<close>

definition snapshot_key :: "refresh_snapshot \<Rightarrow> string option \<times> refresh_trigger option" where
  "snapshot_key s = (sn_job_id s, sn_trigger s)"

definition job_key_pair :: "refresh_job \<Rightarrow> string option \<times> refresh_trigger option" where
  "job_key_pair job = (Some (jb_id job), Some (jb_trigger job))"

abbreviation snapshot_active :: "refresh_snapshot \<Rightarrow> bool" where
  "snapshot_active s \<equiv> status_is_active (sn_status s)"

definition started_events :: "'w coordinator \<Rightarrow> (string option \<times> refresh_trigger option) multiset" where
  "started_events co =
     mset (map (snapshot_key \<circ> fst) (filter (\<lambda>e. snapshot_active (fst e)) (co_published co)))"

definition ended_events :: "'w coordinator \<Rightarrow> (string option \<times> refresh_trigger option) multiset" where
  "ended_events co =
     mset (map (snapshot_key \<circ> fst) (filter (\<lambda>e. \<not> snapshot_active (fst e)) (co_published co)))"

text \<open>The refreshes that are announced and have not published their end.\<close>

definition open_events :: "'w coordinator \<Rightarrow> (string option \<times> refresh_trigger option) multiset" where
  "open_events co =
     mset (map job_key_pair (co_unspawned co @ co_executing co)) +
     mset (map snapshot_key (co_spawn_failures co)) +
     mset (map (snapshot_key \<circ> fst) (co_finishing co))"

definition events_balance :: "'w coordinator \<Rightarrow> bool" where
  "events_balance co \<longleftrightarrow>
     started_events co = ended_events co + open_events co \<and>
     (\<forall>e \<in> set (co_announcing co). snapshot_active (fst e) \<and> snapshot_key (fst e) = job_key_pair (snd e)) \<and>
     (\<forall>s \<in> set (co_spawn_failures co). \<not> snapshot_active s) \<and>
     (\<forall>e \<in> set (co_finishing co). \<not> snapshot_active (fst e))"

lemma events_balance_new: "events_balance (coordinator_new tz w)"
  by (simp add: events_balance_def started_events_def ended_events_def open_events_def coordinator_new_def)

lemma mset_map_remove1:
  "x \<in> set xs \<Longrightarrow> mset (map f xs) = add_mset (f x) (mset (map f (remove1 x xs)))"
  by (induction xs) auto

lemma finish_state_key: "snapshot_key (finish_state result state) = snapshot_key state"
  by (simp add: snapshot_key_def finish_state_def Let_def)

lemma single_job_key:
  assumes "single_job co" and "job \<in> set (under_way co)"
  shows "snapshot_key (co_state co) = job_key_pair job"
proof -
  note only = single_job_active [OF assms]
  from assms(2) only(1) show ?thesis
    by (simp add: snapshot_key_def job_key_pair_def only(3,4))
qed

lemmas event_defs = events_balance_def started_events_def ended_events_def open_events_def

lemma events_balance_step:
  assumes "coordinator_step hooks co co'" and "single_job co" and "events_balance co"
  shows "events_balance co'"
  using assms(1)
proof cases
  case (request trigger policy now)
  then show ?thesis
    using assms(3)
    by (auto simp: accept_request_def event_defs Let_def snapshot_key_def job_key_pair_def)
next
  case cancel
  then show ?thesis using assms(3) by (auto simp: cancel_refresh_def event_defs)
next
  case (timezone tz)
  then show ?thesis using assms(3) by (auto simp: set_aggregation_timezone_def event_defs)
next
  case (announce entry)
  then show ?thesis
    using assms(3) by (auto simp: announce_def event_defs dest: in_set_remove1 notin_set_remove1)
next
  case (spawn job)
  with mset_map_remove1 [of job "co_unspawned co" job_key_pair] show ?thesis
    using assms(3) by (simp add: spawn_worker_def event_defs)
next
  case (spawn_fail job)
  then have "job \<in> set (under_way co)" by (simp add: under_way_def)
  note key = single_job_key [OF assms(2) this]
  with spawn_fail mset_map_remove1 [of job "co_unspawned co" job_key_pair] show ?thesis
    using assms(3) by (simp add: spawn_failed_def event_defs Let_def snapshot_key_def)
next
  case (announce_fail state)
  with mset_map_remove1 [of state "co_spawn_failures co" snapshot_key] show ?thesis
    using assms(3) by (auto simp: announce_failure_def event_defs dest: notin_set_remove1)
next
  case (run job)
  then have "job \<in> set (under_way co)" by (simp add: under_way_def)
  note key = single_job_key [OF assms(2) this]
  with run mset_map_remove1 [of job "co_executing co" job_key_pair] show ?thesis
    using assms(3)
    by (auto simp: run_worker_def event_defs Let_def finish_state_key finish_state_inactive
        split: prod.splits)
next
  case (finish entry)
  with mset_map_remove1 [of entry "co_finishing co" "snapshot_key \<circ> fst"] show ?thesis
    using assms(3)
    by (auto simp: finish_worker_def event_defs Let_def split: prod.splits dest: notin_set_remove1)
qed

lemma events_balance_reachable: "coordinator_reachable hooks tz w co \<Longrightarrow> events_balance co"
  by (induction rule: coordinator_reachable.induct)
     (auto intro: events_balance_new events_balance_step single_job_reachable)

section \<open>Job identifiers\<close>

definition digit_char :: "char \<Rightarrow> bool" where
  "digit_char ch \<longleftrightarrow> of_char ch \<in> {48 .. 57 :: nat}"

definition decimal_value :: "string \<Rightarrow> nat" where
  "decimal_value s = foldl (\<lambda>acc ch. acc * 10 + (of_char ch - 48)) 0 s"

lemma decimal_nat_value: "decimal_value (decimal_nat n) = n"
  and decimal_nat_digits: "list_all digit_char (decimal_nat n)"
  and decimal_nat_nonempty: "decimal_nat n \<noteq> []"
proof -
  have digit: "digit_char (char_of (48 + k :: nat))" "of_char (char_of (48 + k :: nat)) = 48 + k"
    if "k < 10" for k :: nat
    using that by (simp_all add: digit_char_def)
  have "decimal_value (decimal_nat n) = n \<and> list_all digit_char (decimal_nat n) \<and> decimal_nat n \<noteq> []"
  proof (induction n rule: decimal_nat.induct)
    case (1 n)
    show ?case
    proof (cases "n < 10")
      case True
      then show ?thesis by (simp add: decimal_nat.simps [of n] decimal_value_def digit)
    next
      case False
      with 1 show ?thesis
        by (subst (1 2 3) decimal_nat.simps) (simp add: decimal_value_def digit)
    qed
  qed
  then show "decimal_value (decimal_nat n) = n" "list_all digit_char (decimal_nat n)"
    "decimal_nat n \<noteq> []" by simp_all
qed

lemma decimal_nat_inj: "decimal_nat a = decimal_nat b \<Longrightarrow> a = b"
  by (metis decimal_nat_value)

lemma dash_not_digit: "\<not> digit_char (CHR ''-'')"
  by (simp add: digit_char_def)

lemma decimal_int_inj:
  assumes "decimal_int a = decimal_int b"
  shows "a = b"
proof -
  have no_dash: "decimal_nat n \<noteq> CHR ''-'' # xs" for n xs
    using decimal_nat_digits [of n] dash_not_digit by (metis list.pred_inject(2))
  show ?thesis
    using assms no_dash no_dash [symmetric]
    by (auto simp: decimal_int_def split: if_splits dest!: decimal_nat_inj)
qed

text \<open>Two texts of digits behind a separator that is not a digit.\<close>

lemma split_at_dash:
  assumes "list_all digit_char b" and "list_all digit_char d"
    and "a @ CHR ''-'' # b = c @ CHR ''-'' # d"
  shows "a = c \<and> b = d"
proof -
  let ?digits = "takeWhile digit_char"
  have "?digits (rev (e @ CHR ''-'' # f)) = rev f" if "list_all digit_char f" for e f
    using takeWhile_append2 [of "rev f" digit_char "CHR ''-'' # rev e"] that dash_not_digit
    by (simp add: list_all_iff)
  from this [OF assms(1), of a] this [OF assms(2), of c] assms(3) have "b = d" by simp
  with assms(3) show ?thesis by simp
qed

lemma next_job_id_inj:
  assumes "next_job_id now i = next_job_id later j"
  shows "now = later \<and> i = j"
proof -
  have "decimal_int now @ CHR ''-'' # decimal_nat (unat i) =
      decimal_int later @ CHR ''-'' # decimal_nat (unat j)"
    using assms by (simp add: next_job_id_def)
  from split_at_dash [OF decimal_nat_digits decimal_nat_digits this]
  have "decimal_int now = decimal_int later" and "decimal_nat (unat i) = decimal_nat (unat j)" by auto
  then show ?thesis
    using decimal_int_inj decimal_nat_inj by (metis word_unat_eq_iff)
qed

section \<open>The worker threads\<close>

text \<open>
  The steps that need nobody outside: those of the threads the coordinator has started, and the rest
  of an accepted request in the thread that made it.
\<close>

inductive worker_step :: "'w refresh_hooks \<Rightarrow> 'w coordinator \<Rightarrow> 'w coordinator \<Rightarrow> bool"
  for hooks :: "'w refresh_hooks" where
  spawn: "job \<in> set (co_unspawned co) \<Longrightarrow> worker_step hooks co (spawn_worker job co)"
| spawn_fail: "job \<in> set (co_unspawned co) \<Longrightarrow> worker_step hooks co (spawn_failed job co)"
| announce: "entry \<in> set (co_announcing co) \<Longrightarrow> worker_step hooks co (announce entry co)"
| announce_fail: "state \<in> set (co_spawn_failures co) \<Longrightarrow> worker_step hooks co (announce_failure state co)"
| run: "job \<in> set (co_executing co) \<Longrightarrow> worker_step hooks co (run_worker hooks job co)"
| finish: "entry \<in> set (co_finishing co) \<Longrightarrow> worker_step hooks co (finish_worker hooks entry co)"

lemma worker_step_is_step: "worker_step hooks co co' \<Longrightarrow> coordinator_step hooks co co'"
  by (induction rule: worker_step.induct) (auto intro: coordinator_step.intros)

text \<open>What the workers still have to do.\<close>

definition pending_work :: "'w coordinator \<Rightarrow> nat" where
  "pending_work co =
     4 * length (co_announcing co) + 3 * length (co_unspawned co) + 2 * length (co_executing co) +
     length (co_finishing co) + length (co_spawn_failures co)"

lemma length_remove1_member: "x \<in> set xs \<Longrightarrow> length xs = Suc (length (remove1 x xs))"
  using length_pos_if_in_set [of x xs] by (simp add: length_remove1)

lemma worker_step_decreases:
  assumes "worker_step hooks co co'"
  shows "pending_work co' < pending_work co"
  using assms
proof cases
  case (spawn job)
  with length_remove1_member [OF spawn(2)] show ?thesis by (simp add: spawn_worker_def pending_work_def)
next
  case (spawn_fail job)
  with length_remove1_member [OF spawn_fail(2)] show ?thesis
    by (simp add: spawn_failed_def pending_work_def Let_def)
next
  case (announce entry)
  with length_remove1_member [OF announce(2)] show ?thesis by (simp add: announce_def pending_work_def)
next
  case (announce_fail state)
  with length_remove1_member [OF announce_fail(2)] show ?thesis
    by (simp add: announce_failure_def pending_work_def)
next
  case (run job)
  with length_remove1_member [OF run(2)] show ?thesis
    by (simp add: run_worker_def pending_work_def Let_def split: prod.splits)
next
  case (finish entry)
  with length_remove1_member [OF finish(2)] show ?thesis
    by (simp add: finish_worker_def pending_work_def Let_def split: prod.splits)
qed

lemma worker_step_enabled:
  "(\<exists>co'. worker_step hooks co co') \<longleftrightarrow>
     under_way co \<noteq> [] \<or> co_finishing co \<noteq> [] \<or> co_spawn_failures co \<noteq> []"
proof
  assume "\<exists>co'. worker_step hooks co co'"
  then show "under_way co \<noteq> [] \<or> co_finishing co \<noteq> [] \<or> co_spawn_failures co \<noteq> []"
    by (auto simp: under_way_def elim: worker_step.cases)
next
  assume "under_way co \<noteq> [] \<or> co_finishing co \<noteq> [] \<or> co_spawn_failures co \<noteq> []"
  then consider "co_announcing co \<noteq> []" | "co_unspawned co \<noteq> []" | "co_executing co \<noteq> []"
    | "co_finishing co \<noteq> []" | "co_spawn_failures co \<noteq> []"
    by (auto simp: under_way_def)
  then show "\<exists>co'. worker_step hooks co co'"
    by cases (meson worker_step.intros last_in_set)+
qed

lemma reachable_workers:
  assumes "(worker_step hooks)\<^sup>*\<^sup>* co co'" and "coordinator_reachable hooks tz w co"
  shows "coordinator_reachable hooks tz w co'"
  using assms by (induction rule: rtranclp_induct) (auto intro: coordinator_reachable.step worker_step_is_step)

lemma workers_reach_rest:
  "\<exists>co'. (worker_step hooks)\<^sup>*\<^sup>* co co' \<and> \<not> (\<exists>co''. worker_step hooks co' co'')"
proof (induction "pending_work co" arbitrary: co rule: less_induct)
  case less
  show ?case
  proof (cases "\<exists>co1. worker_step hooks co co1")
    case True
    then obtain co1 where step: "worker_step hooks co co1" by auto
    from less [OF worker_step_decreases [OF step]] step show ?thesis
      by (meson converse_rtranclp_into_rtranclp)
  qed auto
qed

section \<open>The scheduler\<close>

abbreviation observes_stop :: "(scheduler_state \<times> bool) list \<Rightarrow> bool" where
  "observes_stop \<equiv> list_ex (\<lambda>ob. sch_stopped (fst ob))"

abbreviation observes_interval :: "(scheduler_state \<times> bool) list \<Rightarrow> bool" where
  "observes_interval \<equiv> list_ex (\<lambda>ob. sch_interval (fst ob) \<noteq> None)"

definition timeouts_until_stop :: "(scheduler_state \<times> bool) list \<Rightarrow> nat" where
  "timeouts_until_stop obs = length (filter snd (takeWhile (\<lambda>ob. \<not> sch_stopped (fst ob)) obs))"

lemma timeouts_until_stop_simps [simp]:
  "timeouts_until_stop [] = 0"
  "timeouts_until_stop ((s, t) # obs) =
     (if sch_stopped s then 0 else (if t then 1 else 0) + timeouts_until_stop obs)"
  by (simp_all add: timeouts_until_stop_def)

lemma wait_for_interval_simps:
  "sch_stopped s \<Longrightarrow> wait_for_interval s wakes = Some (WaitStopped, s, wakes)"
  "\<not> sch_stopped s \<Longrightarrow> wait_for_interval s [] = None"
  "\<lbrakk>\<not> sch_stopped s; sch_interval s = None\<rbrakk> \<Longrightarrow>
     wait_for_interval s ((s', t) # rest) = wait_for_interval s' rest"
  "\<lbrakk>\<not> sch_stopped s; sch_interval s = Some i\<rbrakk> \<Longrightarrow>
     wait_for_interval s ((s', t) # rest) =
       (if sch_stopped s' then Some (WaitStopped, s', rest)
        else if sch_interval s' \<noteq> Some i then Some (WaitChanged, s', rest)
        else if t then Some (WaitElapsed, s', rest)
        else wait_for_interval s' rest)"
  by (simp_all add: wait_for_interval.simps [of s])

text \<open>What one wait says of the observations it leaves.\<close>

definition wait_says :: "(scheduler_state \<times> bool) list \<Rightarrow>
    (wait_result \<times> scheduler_state \<times> (scheduler_state \<times> bool) list) option \<Rightarrow> bool" where
  "wait_says obs outcome =
     (case outcome of
        None \<Rightarrow> \<not> observes_stop obs
      | Some (result, _, rest) \<Rightarrow>
          if result = WaitStopped then observes_stop obs
          else observes_stop rest = observes_stop obs \<and>
               (if result = WaitElapsed then Suc (timeouts_until_stop rest) else timeouts_until_stop rest)
                 \<le> timeouts_until_stop obs \<and>
               observes_interval obs)"

lemma wait_says_mono:
  assumes "wait_says obs outcome" and "observes_stop obs' = observes_stop obs"
    and "timeouts_until_stop obs \<le> timeouts_until_stop obs'"
    and "observes_interval obs \<Longrightarrow> observes_interval obs'"
  shows "wait_says obs' outcome"
  using assms unfolding wait_says_def by (cases outcome) (auto split: if_splits)

lemma wait_says_Cons:
  assumes "wait_says ((s', False) # rest) outcome" and "\<not> sch_stopped s"
  shows "wait_says ((s, l) # (s', t) # rest) outcome"
  by (rule wait_says_mono [OF assms(1)]) (use assms(2) in auto)

lemma wait_says_flag: "wait_says ((s, False) # wakes) outcome \<Longrightarrow> wait_says ((s, l) # wakes) outcome"
  by (erule wait_says_mono) auto

lemma wait_for_interval_says: "wait_says ((s, False) # wakes) (wait_for_interval s wakes)"
proof (induction wakes arbitrary: s)
  case Nil
  show ?case by (cases "sch_stopped s") (simp_all add: wait_for_interval_simps wait_says_def)
next
  case (Cons wake rest)
  obtain s' t where wake: "wake = (s', t)" by (cases wake)
  show ?case
  proof (cases "sch_stopped s")
    case True
    then show ?thesis by (simp add: wait_for_interval_simps wait_says_def)
  next
    case running: False
    note IH = wait_says_Cons [OF Cons.IH [of s'] running, of False t, folded wake]
    show ?thesis
    proof (cases "sch_interval s")
      case None
      with IH running show ?thesis by (simp add: wait_for_interval_simps wake)
    next
      case (Some i)
      with IH running show ?thesis
        by (auto simp: wait_for_interval_simps wake) (auto simp: wait_says_def)
    qed
  qed
qed

definition scheduler_says :: "(scheduler_state \<times> bool) list \<Rightarrow> nat \<times> bool \<Rightarrow> bool" where
  "scheduler_says obs r \<longleftrightarrow>
     (snd r \<longleftrightarrow> observes_stop obs) \<and> fst r \<le> timeouts_until_stop obs \<and>
     (fst r = 0 \<or> observes_interval obs)"

lemma run_scheduler_says: "scheduler_says obs (run_scheduler obs)"
proof (induction obs rule: run_scheduler.induct)
  case 1
  show ?case by (simp add: scheduler_says_def)
next
  case (2 state locked wakes)
  have says: "wait_says ((state, locked) # wakes) (wait_for_interval state wakes)"
    by (rule wait_says_flag) (rule wait_for_interval_says)
  show ?case
  proof (cases "wait_for_interval state wakes")
    case None
    with says show ?thesis by (simp add: run_scheduler.simps(2) scheduler_says_def wait_says_def)
  next
    case (Some p)
    obtain result state' rest where p: "p = (result, state', rest)" by (cases p)
    show ?thesis
    proof (cases "result = WaitStopped")
      case True
      with says p Some show ?thesis
        by (simp add: run_scheduler.simps(2) scheduler_says_def wait_says_def)
    next
      case False
      obtain n ended where r: "run_scheduler rest = (n, ended)" by (cases "run_scheduler rest")
      have "scheduler_says rest (run_scheduler rest)"
        using 2 Some p False by (cases result) auto
      moreover have "run_scheduler ((state, locked) # wakes) =
          (if result = WaitElapsed then Suc n else n, ended)"
        using Some p False r by (cases result) (simp_all add: run_scheduler.simps(2))
      ultimately show ?thesis
        using says False unfolding Some p r scheduler_says_def wait_says_def
        by (cases "result = WaitElapsed") auto
    qed
  qed
qed

section \<open>Properties\<close>

text \<open>
  C4: At most one refresh is under way. Over every interleaving of requests, cancellations, time
  zone changes, publications, thread spawns (or failed spawns) and workers, the snapshot is active
  exactly when one accepted job is being announced, unspawned or executing, and then the snapshot
  names that job and its trigger.
\<close>
theorem one_refresh_at_a_time:
  assumes "coordinator_reachable hooks tz w co"
  shows "if status_is_active (sn_status (co_state co))
    then \<exists>job. map snd (co_announcing co) @ co_unspawned co @ co_executing co = [job] \<and>
      sn_job_id (co_state co) = Some (jb_id job) \<and> sn_trigger (co_state co) = Some (jb_trigger job)
    else map snd (co_announcing co) @ co_unspawned co @ co_executing co = []"
  using single_job_reachable [OF assms] by (simp only: single_job_def under_way_def)

text \<open>
  C5: Every accepted refresh ends. The steps of the threads the coordinator has started and of the
  requests it accepted cannot go on forever, whatever their order; and wherever no such step is
  left, nothing is active, unspawned, executing or waiting to publish. So from every reachable state
  these steps alone reach a state that accepts the next request.
\<close>
theorem accepted_refresh_ends:
  assumes "coordinator_reachable hooks tz w co"
  shows "wfp (\<lambda>co2 co1. worker_step hooks co1 co2) \<and>
    (\<forall>co'. (worker_step hooks)\<^sup>*\<^sup>* co co' \<and> \<not> (\<exists>co2. worker_step hooks co' co2) \<longrightarrow>
      \<not> status_is_active (sn_status (co_state co')) \<and>
      co_announcing co' = [] \<and> co_unspawned co' = [] \<and> co_spawn_failures co' = [] \<and>
      co_executing co' = [] \<and> co_finishing co' = []) \<and>
    (\<exists>co'. (worker_step hooks)\<^sup>*\<^sup>* co co' \<and> \<not> status_is_active (sn_status (co_state co')) \<and>
      co_announcing co' = [] \<and> co_unspawned co' = [] \<and> co_spawn_failures co' = [] \<and>
      co_executing co' = [] \<and> co_finishing co' = [])"
proof -
  have ends: "wfp (\<lambda>co2 co1. worker_step hooks co1 co2)"
    by (rule wfp_if_convertible_to_nat [of _ pending_work]) (rule worker_step_decreases)
  have resting: "\<not> status_is_active (sn_status (co_state co')) \<and>
      co_announcing co' = [] \<and> co_unspawned co' = [] \<and> co_spawn_failures co' = [] \<and>
      co_executing co' = [] \<and> co_finishing co' = []"
    if run: "(worker_step hooks)\<^sup>*\<^sup>* co co'" and rest: "\<not> (\<exists>co2. worker_step hooks co' co2)" for co'
  proof -
    from rest have none: "under_way co' = []" "co_finishing co' = []" "co_spawn_failures co' = []"
      by (auto simp: worker_step_enabled)
    with single_job_reachable [OF reachable_workers [OF run assms]]
    have "\<not> status_is_active (sn_status (co_state co'))" by (auto simp: single_job_def)
    with none show ?thesis by (simp add: under_way_def)
  qed
  obtain co' where run: "(worker_step hooks)\<^sup>*\<^sup>* co co'" and rest: "\<not> (\<exists>co2. worker_step hooks co' co2)"
    using workers_reach_rest [of hooks co] by auto
  from ends resting resting [OF run rest] run show ?thesis by blast
qed

text \<open>
  C31: The scheduler thread returns exactly when it observes the stop flag, and until then requests
  at most one refresh for every wait that timed out; after the stop it requests none, and it
  requests none at all while the policy is disabled.
\<close>
theorem run_scheduler_spec:
  "(snd (run_scheduler obs) \<longleftrightarrow> list_ex (\<lambda>ob. sch_stopped (fst ob)) obs) \<and>
   fst (run_scheduler obs) \<le> length (filter snd (takeWhile (\<lambda>ob. \<not> sch_stopped (fst ob)) obs)) \<and>
   (fst (run_scheduler obs) = 0 \<or> list_ex (\<lambda>ob. sch_interval (fst ob) \<noteq> None) obs)"
  using run_scheduler_says [of obs] by (simp only: scheduler_says_def timeouts_until_stop_def)

text \<open>
  Job identifiers are unique: two identifiers are equal only for the same clock reading (also a
  negative one) and the same sequence number.
\<close>
lemma next_job_id_unique:
  "next_job_id now i = next_job_id later j \<longleftrightarrow> now = later \<and> i = j"
  by (auto dest: next_job_id_inj)

text \<open>
  C30: Every refresh is announced once and ended once. Over every interleaving, the announcements
  published so far (snapshots with an active status, by job and trigger, counted with repetitions)
  are the ends published so far together with the jobs that are spawned or about to be, the failed
  spawns and the ended refreshes whose end is still to be published. So no accepted refresh is
  announced twice, lost or ended twice, and none is ended before it was announced; when the
  coordinator is at rest, announcements and ends are the same.
\<close>
theorem announced_once_ended_once:
  assumes "coordinator_reachable hooks tz w co"
  defines "key \<equiv> \<lambda>s. (sn_job_id s, sn_trigger s)"
    and "job_key \<equiv> \<lambda>job. (Some (jb_id job), Some (jb_trigger job))"
  shows "mset (map (key \<circ> fst) (filter (\<lambda>e. status_is_active (sn_status (fst e))) (co_published co))) =
    mset (map (key \<circ> fst) (filter (\<lambda>e. \<not> status_is_active (sn_status (fst e))) (co_published co))) +
    mset (map job_key (co_unspawned co @ co_executing co)) +
    mset (map key (co_spawn_failures co)) + mset (map (key \<circ> fst) (co_finishing co))"
proof -
  have keys: "key = snapshot_key" "job_key = job_key_pair"
    by (simp_all add: fun_eq_iff key_def job_key_def snapshot_key_def job_key_pair_def)
  have "started_events co = ended_events co + open_events co"
    using events_balance_reachable [OF assms(1)] by (simp only: events_balance_def)
  then show ?thesis
    by (simp add: keys started_events_def ended_events_def open_events_def ac_simps)
qed

text \<open>
  C32: The last published event can be stale. The snapshot a worker publishes is taken when its
  refresh ends, and the repair and the upload run before it is published, so the next request can be
  accepted and published first: for every execution and hooks there is a run whose current state is
  a running refresh while the last event says that an earlier job is no longer running.
\<close>
theorem published_snapshot_can_be_stale:
  "\<exists>co. coordinator_reachable hooks tz w co \<and> sn_status (co_state co) = Running \<and>
     \<not> status_is_active (sn_status (fst (last (co_published co)))) \<and>
     sn_job_id (fst (last (co_published co))) \<noteq> sn_job_id (co_state co)"
proof -
  let ?step = "coordinator_step hooks"
  let ?job = "\<lparr>jb_trigger = Manual, jb_policy = PolicyCatchUp, jb_id = next_job_id 0 0, jb_started_at_ms = 0\<rparr>"
  define co0 where "co0 = coordinator_new tz w"
  let ?later = "\<lparr>jb_trigger = Manual, jb_policy = PolicyCatchUp, jb_id = next_job_id 0 1, jb_started_at_ms = 0\<rparr>"
  define coa where "coa = accept_request Manual PolicyCatchUp 0 co0"
  define co1 where "co1 = announce (co_state coa, ?job) coa"
  define co2 where "co2 = spawn_worker ?job co1"
  define co3 where "co3 = run_worker hooks ?job co2"
  define cob where "cob = accept_request Manual PolicyCatchUp 0 co3"
  define co4 where "co4 = announce (co_state cob, ?later) cob"
  have coa: "co_announcing coa = [(co_state coa, ?job)]" "co_unspawned coa = []" "co_executing coa = []"
    "co_finishing coa = []" "co_sequence coa = 1" "sn_job_id (co_state coa) = Some (next_job_id 0 0)"
    by (simp_all add: coa_def co0_def accept_request_def coordinator_new_def initial_state_def Let_def)
  then have co1: "co_unspawned co1 = [?job]" "co_executing co1 = []" "co_finishing co1 = []"
    "co_sequence co1 = 1" "sn_job_id (co_state co1) = Some (next_job_id 0 0)" "co_announcing co1 = []"
    by (simp_all add: co1_def announce_def)
  then have co2: "co_executing co2 = [?job]" "co_finishing co2 = []" "co_sequence co2 = 1"
    "co_state co2 = co_state co1" "co_announcing co2 = []"
    by (simp_all add: co2_def spawn_worker_def)
  obtain result w' where run: "execute_refresh ((hk_execution hooks)\<lparr>ex_timezone := co_timezone co2\<rparr>)
      Manual PolicyCatchUp (next_job_id 0 0) 0 (co_world co2) = (result, w')"
    by (cases "execute_refresh ((hk_execution hooks)\<lparr>ex_timezone := co_timezone co2\<rparr>)
      Manual PolicyCatchUp (next_job_id 0 0) 0 (co_world co2)") simp
  define ended where "ended = finish_state result (co_state co1)"
  have co3: "co_finishing co3 = [(ended, result)]" "co_state co3 = ended" "co_sequence co3 = 1"
    "co_announcing co3 = []"
    using co2 run by (simp_all add: co3_def run_worker_def ended_def Let_def)
  have ended: "\<not> status_is_active (sn_status ended)" "sn_job_id ended = Some (next_job_id 0 0)"
    using co1 by (simp_all add: ended_def finish_state_inactive) (simp add: finish_state_def Let_def)
  from ended co3 have cob: "co_finishing cob = [(ended, result)]" "sn_status (co_state cob) = Running"
    "sn_job_id (co_state cob) = Some (next_job_id 0 1)" "co_announcing cob = [(co_state cob, ?later)]"
    by (simp_all add: cob_def accept_request_def Let_def)
  then have co4: "co_finishing co4 = [(ended, result)]" "sn_status (co_state co4) = Running"
    "sn_job_id (co_state co4) = Some (next_job_id 0 1)"
    by (simp_all add: co4_def announce_def)
  define co5 where "co5 = finish_worker hooks (ended, result) co4"
  have co5: "co_state co5 = co_state co4" "last (co_published co5) = (ended, fst (after_refresh hooks result (co_world co4)))"
    by (simp_all add: co5_def finish_worker_def Let_def split: prod.splits)
  have "?step co0 coa" by (simp add: coa_def coordinator_step.request)
  moreover have "?step coa co1" by (simp add: co1_def coa coordinator_step.announce)
  moreover have "?step co1 co2" by (simp add: co2_def co1 coordinator_step.spawn)
  moreover have "?step co2 co3" by (simp add: co3_def co2 coordinator_step.run)
  moreover have "?step co3 cob" by (simp add: cob_def coordinator_step.request)
  moreover have "?step cob co4" by (simp add: co4_def cob coordinator_step.announce)
  moreover have "?step co4 co5" by (simp add: co5_def co4 coordinator_step.finish)
  ultimately have "coordinator_reachable hooks tz w co5"
    using coordinator_reachable.start [of hooks tz w] unfolding co0_def
    by (meson coordinator_reachable.step)
  moreover have "sn_job_id ended \<noteq> sn_job_id (co_state co5)"
    using ended co4 by (simp add: co5 next_job_id_def decimal_nat.simps)
  ultimately show ?thesis using ended co4 co5 by (intro exI [of _ co5]) simp
qed

text \<open>Witnesses: the demo stores with a manual refresh under way.\<close>

definition demo_hooks :: "i64 app_world refresh_hooks" where
  "demo_hooks =
     \<lparr>hk_execution = sqlite_execution gregorian id demo_env ''1.0'' ''UTC'' [],
      hk_on_refresh_completed = (\<lambda>_ _ w. (Inr None, w)), hk_error_json = (\<lambda>_. ''{}''),
      hk_upload = (\<lambda>_ w. w)\<rparr>"

definition demo_coordinator :: "i64 app_world coordinator" where
  "demo_coordinator =
     accept_request Manual PolicyFull 400 (coordinator_new ''UTC'' demo_world)"

lemma demo_coordinator_reachable:
  "coordinator_reachable demo_hooks ''UTC'' demo_world demo_coordinator"
  unfolding demo_coordinator_def
  by (rule coordinator_reachable.step [OF coordinator_reachable.start coordinator_step.request])

lemma demo_coordinator_active: "status_is_active (sn_status (co_state demo_coordinator))"
  by (simp add: demo_coordinator_def accept_request_def coordinator_new_def initial_state_def Let_def)

theorem one_refresh_at_a_time_witness:
  "\<exists>job. map snd (co_announcing demo_coordinator) @ co_unspawned demo_coordinator @
     co_executing demo_coordinator = [job]"
  using one_refresh_at_a_time [OF demo_coordinator_reachable] demo_coordinator_active by auto

theorem accepted_refresh_ends_witness:
  "\<exists>co'. (worker_step demo_hooks)\<^sup>*\<^sup>* demo_coordinator co' \<and> co_finishing co' = []"
  using accepted_refresh_ends [OF demo_coordinator_reachable] by auto

text \<open>The same request, announced: one announcement, and its job is still to be spawned.\<close>

definition demo_announced :: "i64 app_world coordinator" where
  "demo_announced = announce (hd (co_announcing demo_coordinator)) demo_coordinator"

lemma demo_announced_reachable: "coordinator_reachable demo_hooks ''UTC'' demo_world demo_announced"
  unfolding demo_announced_def
  by (rule coordinator_reachable.step [OF demo_coordinator_reachable coordinator_step.announce])
     (simp add: demo_coordinator_def accept_request_def coordinator_new_def initial_state_def Let_def)

theorem announced_once_ended_once_witness:
  "size (filter_mset (\<lambda>e. status_is_active (sn_status (fst e))) (mset (co_published demo_announced))) =
     length (co_unspawned demo_announced) \<and> length (co_published demo_announced) = 1"
  using arg_cong [OF announced_once_ended_once [OF demo_announced_reachable], of size]
  by (simp add: demo_announced_def demo_coordinator_def accept_request_def announce_def
      coordinator_new_def initial_state_def Let_def)

end
