(* ===== verification/UploadScope.thy ===== *)
theory UploadScope
  imports Execution Gregorian
begin

text \<open>
  The scopes of the upload: \<open>src/src-tauri/src/application/collect_sync/scope.rs\<close> and the scope of a
  committed refresh in \<open>collect_sync/service.rs\<close>. A \<open>BTreeSet<String>\<close> is the set of its elements,
  iterated in ascending order.
\<close>

section \<open>Scopes\<close>

datatype upload_scope =
  UploadFull
| UploadIncremental (scope_keys: "string set") (scope_start: naive_date) (scope_end: naive_date)

datatype stored_upload_scope =
  StoredFull
| StoredIncremental "string list" string string

datatype scope_error = EmptySourceKeys | InvertedDateRange | InvalidStoredDate

definition upload_scope_incremental ::
  "string list \<Rightarrow> naive_date \<Rightarrow> naive_date \<Rightarrow> scope_error + upload_scope" where
  "upload_scope_incremental source_keys s e =
     (if e < s then Inl InvertedDateRange
      else let keys = filter (\<lambda>key. key \<noteq> []) (map str_trim source_keys)
           in if keys = [] then Inl EmptySourceKeys
              else Inr (UploadIncremental (set keys) s e))"

fun stored_of_scope :: "chrono \<Rightarrow> upload_scope \<Rightarrow> stored_upload_scope" where
  "stored_of_scope c UploadFull = StoredFull"
| "stored_of_scope c (UploadIncremental keys s e) =
     StoredIncremental (sorted_list_of_set keys) (date_to_string c s) (date_to_string c e)"

fun scope_of_stored :: "chrono \<Rightarrow> stored_upload_scope \<Rightarrow> scope_error + upload_scope" where
  "scope_of_stored c StoredFull = Inr UploadFull"
| "scope_of_stored c (StoredIncremental keys s e) =
     bind_res (ok_or InvalidStoredDate (parse_date c s)) (\<lambda>s'.
     bind_res (ok_or InvalidStoredDate (parse_date c e)) (\<lambda>e'.
       upload_scope_incremental keys s' e'))"

fun merge_upload_scopes :: "upload_scope option \<Rightarrow> upload_scope \<Rightarrow> upload_scope" where
  "merge_upload_scopes existing UploadFull = UploadFull"
| "merge_upload_scopes (Some UploadFull) incoming = UploadFull"
| "merge_upload_scopes None incoming = incoming"
| "merge_upload_scopes (Some (UploadIncremental ks s e)) (UploadIncremental ks' s' e') =
     UploadIncremental (ks \<union> ks') (min s s') (max e e')"

section \<open>The scope of a committed refresh\<close>

text \<open>One step of the loop over the targets: the keys, the start and the end so far.\<close>

definition widen_scope ::
  "chrono \<Rightarrow> committed_daily_target \<Rightarrow> string list \<times> naive_date \<times> naive_date
   \<Rightarrow> string list \<times> naive_date \<times> naive_date" where
  "widen_scope c target acc =
     (case acc of (keys, start, final) \<Rightarrow>
        let start' = min start (cdt_start_date target)
        in (keys @ [cdt_source_key target],
            if cdt_full_history target
            then (case from_ymd_opt c 1970 1 1 of None \<Rightarrow> start' | Some epoch \<Rightarrow> epoch) else start',
            max final (cdt_end_date target)))"

definition into_upload_scope :: "chrono \<Rightarrow> committed_daily_upload \<Rightarrow> upload_scope option" where
  "into_upload_scope c upload =
     (case cdu_targets upload of
        [] \<Rightarrow> None
      | first # _ \<Rightarrow>
          if cdu_full_refresh_complete upload \<and> list_all cdt_full_history (cdu_targets upload)
          then Some UploadFull
          else (case fold (widen_scope c) (cdu_targets upload)
                       ([], cdt_start_date first, cdt_end_date first) of
                  (keys, start, final) \<Rightarrow> result_ok (upload_scope_incremental keys start final)))"

section \<open>What a scope covers\<close>

fun upload_covers :: "upload_scope \<Rightarrow> string \<Rightarrow> naive_date \<Rightarrow> bool" where
  "upload_covers UploadFull key day = True"
| "upload_covers (UploadIncremental keys s e) key day = (key \<in> keys \<and> s \<le> day \<and> day \<le> e)"

fun upload_scope_ok :: "upload_scope \<Rightarrow> bool" where
  "upload_scope_ok UploadFull = True"
| "upload_scope_ok (UploadIncremental keys s e) =
     (finite keys \<and> keys \<noteq> {} \<and> (\<forall>key \<in> keys. key \<noteq> [] \<and> str_trim key = key) \<and> s \<le> e)"

lemma upload_scope_incremental_ok:
  "upload_scope_incremental keys s e = Inr scope \<Longrightarrow> upload_scope_ok scope"
  by (auto simp: upload_scope_incremental_def Let_def filter_empty_conv split: if_splits)

lemma upload_scope_incremental_keys:
  "upload_scope_incremental keys s e = Inr scope \<Longrightarrow>
     scope = UploadIncremental (set (filter (\<lambda>key. key \<noteq> []) (map str_trim keys))) s e"
  by (auto simp: upload_scope_incremental_def Let_def split: if_splits)

lemma upload_scope_incremental_self:
  assumes "upload_scope_ok (UploadIncremental keys s e)"
  shows "upload_scope_incremental (sorted_list_of_set keys) s e = Inr (UploadIncremental keys s e)"
proof -
  have "map str_trim (sorted_list_of_set keys) = sorted_list_of_set keys"
    using assms by (intro map_idI) auto
  moreover have "filter (\<lambda>key. key \<noteq> []) (sorted_list_of_set keys) = sorted_list_of_set keys"
    using assms by (intro filter_True) auto
  ultimately show ?thesis
    using assms by (auto simp: upload_scope_incremental_def Let_def)
qed

lemma scope_of_stored_ok: "scope_of_stored c stored = Inr scope \<Longrightarrow> upload_scope_ok scope"
  by (cases stored) (auto simp: bind_res_Inr dest: upload_scope_incremental_ok)

lemma merge_upload_scopes_ok:
  assumes "pred_option upload_scope_ok existing" and "upload_scope_ok incoming"
  shows "upload_scope_ok (merge_upload_scopes existing incoming)"
  using assms
  by (induction existing incoming rule: merge_upload_scopes.induct) (auto simp: le_max_iff_disj min_le_iff_disj)

lemma merge_covers:
  "upload_covers a key day \<or> upload_covers b key day \<Longrightarrow>
     upload_covers (merge_upload_scopes (Some a) b) key day"
  by (cases a; cases b) (auto simp: min_le_iff_disj le_max_iff_disj)

lemma merge_least:
  assumes "upload_scope_ok a" and "upload_scope_ok b"
    and x: "\<And>key day. upload_covers a key day \<or> upload_covers b key day \<Longrightarrow> upload_covers x key day"
    and m: "upload_covers (merge_upload_scopes (Some a) b) key day"
  shows "upload_covers x key day"
proof (cases "a = UploadFull \<or> b = UploadFull")
  case True
  then show ?thesis using x [of key day] by auto
next
  case False
  then obtain ka sa ea kb sb eb
    where a: "a = UploadIncremental ka sa ea" and b: "b = UploadIncremental kb sb eb"
    by (cases a; cases b) auto
  show ?thesis
  proof (cases x)
    case (UploadIncremental kx sx ex)
    from assms(1,2) a b obtain k1 k2 where k: "k1 \<in> ka" "k2 \<in> kb" and le: "sa \<le> ea" "sb \<le> eb" by auto
    have "upload_covers x k1 sa" "upload_covers x k1 ea" "upload_covers x k2 sb" "upload_covers x k2 eb"
      using x [of k1 sa] x [of k1 ea] x [of k2 sb] x [of k2 eb] k le by (auto simp: a b)
    then have bounds: "sx \<le> min sa sb" "max ea eb \<le> ex" by (auto simp: UploadIncremental)
    have "key \<in> kx"
      using m x [of key sa] x [of key sb] le by (auto simp: a b UploadIncremental)
    moreover have "sx \<le> day" "day \<le> ex"
      using order_trans [OF bounds(1), of day] order_trans [OF _ bounds(2), of day] m
      by (simp_all only: a b merge_upload_scopes.simps upload_covers.simps)
    ultimately show ?thesis by (simp add: UploadIncremental)
  qed simp
qed

fun upload_scope_dates :: "upload_scope \<Rightarrow> naive_date set" where
  "upload_scope_dates UploadFull = {}"
| "upload_scope_dates (UploadIncremental keys s e) = {s, e}"

section \<open>Properties\<close>

text \<open>
  C33: Merging pending scopes loses nothing and adds no more than it must: the merged scope covers
  every source and day that either scope covers, and every scope that covers both covers it.
\<close>
theorem merge_upload_scopes_least_cover:
  assumes "upload_scope_ok a" and "upload_scope_ok b"
  shows "(\<forall>x. (\<forall>key day. upload_covers (merge_upload_scopes (Some a) b) key day \<longrightarrow> upload_covers x key day)
    \<longleftrightarrow> (\<forall>key day. upload_covers a key day \<or> upload_covers b key day \<longrightarrow> upload_covers x key day))"
  using merge_covers [of a _ _ b] merge_least [OF assms] by blast

theorem merge_upload_scopes_least_cover_witness:
  "upload_covers (merge_upload_scopes (Some (UploadIncremental {''codex''} (NaiveDate 5) (NaiveDate 8)))
     (UploadIncremental {''claude-code''} (NaiveDate 1) (NaiveDate 6))) ''claude-code'' (NaiveDate 3)"
proof -
  have "str_trim ''codex'' = ''codex''" "str_trim ''claude-code'' = ''claude-code''"
    by (simp_all add: str_trim_visible visible_def)
  then have ok: "upload_scope_ok (UploadIncremental {''codex''} (NaiveDate 5) (NaiveDate 8))"
    "upload_scope_ok (UploadIncremental {''claude-code''} (NaiveDate 1) (NaiveDate 6))"
    by (simp_all add: less_eq_naive_date_def)
  show ?thesis
    using merge_upload_scopes_least_cover [OF ok] by (auto simp: less_eq_naive_date_def)
qed

text \<open>
  C35: A pending scope survives its storage: the stored form of a well-formed scope reads back as the
  same scope, and whatever is read back successfully is well formed.
\<close>
theorem upload_scope_storage_roundtrip:
  assumes "\<And>d. d \<in> upload_scope_dates scope \<Longrightarrow> parse_date c (date_to_string c d) = Some d"
  shows "scope_of_stored c (stored_of_scope c scope) = Inr scope \<longleftrightarrow> upload_scope_ok scope"
proof (cases scope)
  case (UploadIncremental keys s e)
  show ?thesis
  proof
    assume "scope_of_stored c (stored_of_scope c scope) = Inr scope"
    then show "upload_scope_ok scope" by (rule scope_of_stored_ok)
  next
    assume "upload_scope_ok scope"
    then show "scope_of_stored c (stored_of_scope c scope) = Inr scope"
      using assms upload_scope_incremental_self [of keys s e] by (simp add: UploadIncremental)
  qed
qed simp

lemma demo_dates_parse:
  "gregorian_parse (gregorian_date (NaiveDate 20618)) = Some (NaiveDate 20618)"
  "gregorian_parse (gregorian_date (NaiveDate 20619)) = Some (NaiveDate 20619)"
  by code_simp+

theorem upload_scope_storage_roundtrip_witness:
  "scope_of_stored gregorian (stored_of_scope gregorian
     (UploadIncremental {''codex''} (NaiveDate 20618) (NaiveDate 20619))) =
   Inr (UploadIncremental {''codex''} (NaiveDate 20618) (NaiveDate 20619))"
proof -
  have "parse_date gregorian (date_to_string gregorian d) = Some d"
    if "d \<in> {NaiveDate 20618, NaiveDate 20619}" for d
    using that demo_dates_parse by auto
  moreover have "str_trim ''codex'' = ''codex''" by (simp add: str_trim_visible visible_def)
  ultimately show ?thesis
    using upload_scope_storage_roundtrip
      [of "UploadIncremental {''codex''} (NaiveDate 20618) (NaiveDate 20619)" gregorian]
    by (simp add: less_eq_naive_date_def)
qed

text \<open>The loop over the targets of a committed refresh.\<close>

lemma fold_widen_scope:
  assumes "fold (widen_scope c) ts (keys, s, e) = (keys', s', e')"
    and "from_ymd_opt c 1970 1 1 = Some epoch" and "epoch \<le> s"
    and "\<forall>t \<in> set ts. epoch \<le> cdt_start_date t"
  shows "keys' = keys @ map cdt_source_key ts \<and> s' \<le> s \<and> e \<le> e' \<and>
    (\<forall>t \<in> set ts. s' \<le> cdt_start_date t \<and> cdt_end_date t \<le> e' \<and>
       (cdt_full_history t \<longrightarrow> s' \<le> epoch))"
  using assms(1,3,4)
proof (induction ts arbitrary: keys s e)
  case (Cons t ts)
  obtain k1 s1 e1 where one: "widen_scope c t (keys, s, e) = (k1, s1, e1)"
    by (cases "widen_scope c t (keys, s, e)")
  then have first: "k1 = keys @ [cdt_source_key t]" "s1 \<le> s" "e \<le> e1" "epoch \<le> s1"
    "s1 \<le> cdt_start_date t" "cdt_end_date t \<le> e1" "cdt_full_history t \<longrightarrow> s1 \<le> epoch"
    using Cons.prems(2,3) assms(2)
    by (auto simp: widen_scope_def Let_def split: if_splits)
  have "fold (widen_scope c) ts (k1, s1, e1) = (keys', s', e')"
    using Cons.prems(1) one by simp
  from Cons.IH [OF this first(4)] Cons.prems(3)
  have rest: "keys' = k1 @ map cdt_source_key ts" "s' \<le> s1" "e1 \<le> e'"
    "\<forall>t \<in> set ts. s' \<le> cdt_start_date t \<and> cdt_end_date t \<le> e' \<and> (cdt_full_history t \<longrightarrow> s' \<le> epoch)"
    by auto
  with first show ?case by (auto intro: order_trans)
qed simp

text \<open>
  C34: The scope of a committed refresh covers everything it committed. When the targets carry source
  keys and days of the Unix era in order, the refresh yields a scope, which covers every committed
  day of every target, and for a target collected with its full history every day since 1970.
\<close>
theorem into_upload_scope_covers:
  assumes "cdu_targets upload \<noteq> []" and "from_ymd_opt c 1970 1 1 = Some epoch"
    and "\<forall>t \<in> set (cdu_targets upload). cdt_source_key t \<noteq> [] \<and>
      str_trim (cdt_source_key t) = cdt_source_key t \<and>
      epoch \<le> cdt_start_date t \<and> cdt_start_date t \<le> cdt_end_date t"
  shows "\<exists>scope. into_upload_scope c upload = Some scope \<and> upload_scope_ok scope \<and>
    (\<forall>t \<in> set (cdu_targets upload). \<forall>day.
       (if cdt_full_history t then epoch else cdt_start_date t) \<le> day \<and> day \<le> cdt_end_date t
       \<longrightarrow> upload_covers scope (cdt_source_key t) day)"
proof (cases "cdu_full_refresh_complete upload \<and> list_all cdt_full_history (cdu_targets upload)")
  case True
  then show ?thesis using assms(1) by (cases "cdu_targets upload") (auto simp: into_upload_scope_def)
next
  case False
  obtain first rest where ts: "cdu_targets upload = first # rest"
    using assms(1) by (cases "cdu_targets upload") auto
  obtain keys s e where loop: "fold (widen_scope c) (cdu_targets upload)
      ([], cdt_start_date first, cdt_end_date first) = (keys, s, e)"
    by (cases "fold (widen_scope c) (cdu_targets upload) ([], cdt_start_date first, cdt_end_date first)")
  from fold_widen_scope [OF loop assms(2)] assms(3) ts
  have bounds: "keys = map cdt_source_key (cdu_targets upload)"
    "\<forall>t \<in> set (cdu_targets upload). s \<le> cdt_start_date t \<and> cdt_end_date t \<le> e \<and>
       (cdt_full_history t \<longrightarrow> s \<le> epoch)" by auto
  have trimmed: "filter (\<lambda>key. key \<noteq> []) (map str_trim keys) = keys"
    unfolding bounds(1) using assms(3) by (simp add: filter_True map_idI o_def cong: map_cong)
  have "s \<le> e" using bounds(2) assms(3) ts by (metis list.set_intros(1) order_trans)
  then have "upload_scope_incremental keys s e = Inr (UploadIncremental (set keys) s e)"
    using trimmed ts bounds(1) by (auto simp: upload_scope_incremental_def Let_def)
  moreover have "into_upload_scope c upload = result_ok (upload_scope_incremental keys s e)"
    using False loop unfolding into_upload_scope_def ts list.case
    by (simp only: if_False split_conv)
  ultimately have "into_upload_scope c upload = Some (UploadIncremental (set keys) s e)"
    and "upload_scope_ok (UploadIncremental (set keys) s e)"
    using upload_scope_incremental_ok [of keys s e "UploadIncremental (set keys) s e"]
    by (simp_all only: result_ok_simps)
  moreover have "upload_covers (UploadIncremental (set keys) s e) (cdt_source_key t) day"
    if "t \<in> set (cdu_targets upload)" and "day \<le> cdt_end_date t"
      and "(if cdt_full_history t then epoch else cdt_start_date t) \<le> day" for t day
  proof -
    from that(1) bounds have "s \<le> cdt_start_date t" "cdt_end_date t \<le> e"
      "cdt_full_history t \<longrightarrow> s \<le> epoch" by auto
    with that(2,3) have "s \<le> day" "day \<le> e" by (auto split: if_splits intro: order_trans)
    then show ?thesis using that(1) by (simp add: bounds(1))
  qed
  ultimately show ?thesis by blast
qed

theorem into_upload_scope_covers_witness:
  "\<exists>scope. into_upload_scope gregorian
      \<lparr>cdu_targets = [\<lparr>cdt_source_key = ''codex'', cdt_start_date = NaiveDate 20618,
         cdt_end_date = NaiveDate 20620, cdt_full_history = False\<rparr>],
       cdu_full_refresh_complete = True\<rparr> = Some scope \<and>
     upload_covers scope ''codex'' (NaiveDate 20619)"
proof -
  have "str_trim ''codex'' = ''codex''" by (simp add: str_trim_visible visible_def)
  moreover have "from_ymd_opt gregorian 1970 1 1 = Some (NaiveDate 0)"
    by code_simp
  ultimately show ?thesis
    using into_upload_scope_covers [of "\<lparr>cdu_targets = [\<lparr>cdt_source_key = ''codex'',
        cdt_start_date = NaiveDate 20618, cdt_end_date = NaiveDate 20620,
        cdt_full_history = False\<rparr>], cdu_full_refresh_complete = True\<rparr>" gregorian "NaiveDate 0"]
    by (auto simp: less_eq_naive_date_def)
qed

end
