(* ===== verification/UploadBatch.thy ===== *)
theory UploadBatch
  imports UploadScope
begin

text \<open>
  What is uploaded and in which pieces: the wire types and the mapping of exported facts
  (\<open>src/src-tauri/src/application/collect_sync/dto.rs\<close>, \<open>export.rs\<close>), the export of daily facts from
  SQLite (\<open>infrastructure/database/daily_usage_export_store.rs\<close>) and the construction of batches
  (\<open>collect_sync/batch.rs\<close>). The JSON serializer, SHA-256 and the generator of UUIDs are
  third-party code and enter as the record \<open>wire_codec\<close>.
\<close>

section \<open>Wire types\<close>

datatype wire_upload_scope = WireFull | WireIncremental

fun wire_scope_of :: "upload_scope \<Rightarrow> wire_upload_scope" where
  "wire_scope_of UploadFull = WireFull"
| "wire_scope_of (UploadIncremental keys s e) = WireIncremental"

fun wire_scope_as_str :: "wire_upload_scope \<Rightarrow> string" where
  "wire_scope_as_str WireFull = ''full''"
| "wire_scope_as_str WireIncremental = ''incremental''"

record model_usage_cost_dto =
  mcd_status :: string
  mcd_amount_micros :: "i64 option"
  mcd_currency :: "string option"

record daily_usage_model_dto =
  dmd_raw_model_id :: "string option"
  dmd_display_name :: "string option"
  dmd_provider_key :: "string option"
  dmd_input_tokens :: "u64 option"
  dmd_output_tokens :: "u64 option"
  dmd_cache_creation_tokens :: "u64 option"
  dmd_cache_read_tokens :: "u64 option"
  dmd_total_tokens :: "u64 option"
  dmd_cost :: model_usage_cost_dto

record daily_usage_cost_dto =
  dcd_status :: string
  dcd_kind :: string
  dcd_amount_micros :: "i64 option"
  dcd_currency :: "string option"

record daily_usage_fact_dto =
  dfd_identity_key :: string
  dfd_identity_version :: u16
  dfd_source_key :: string
  dfd_usage_date :: string
  dfd_aggregation_timezone :: string
  dfd_input_tokens :: "u64 option"
  dfd_output_tokens :: "u64 option"
  dfd_cache_creation_tokens :: "u64 option"
  dfd_cache_read_tokens :: "u64 option"
  dfd_total_tokens :: u64
  dfd_unclassified_tokens :: "u64 option"
  dfd_cost :: daily_usage_cost_dto
  dfd_data_quality :: string
  dfd_record_state :: string
  dfd_first_seen_at :: string
  dfd_last_seen_at :: string
  dfd_removed_at :: "string option"
  dfd_models :: "daily_usage_model_dto list"

record daily_usage_window_dto =
  dwd_start_date :: string
  dwd_end_date :: string
  dwd_scope :: wire_upload_scope

record daily_usage_push_request_dto =
  dpr_contract_version :: u32
  dpr_client_device_id :: string
  dpr_app_version :: string
  dpr_reporting_timezone :: string
  dpr_client_revision :: i64
  dpr_window :: daily_usage_window_dto
  dpr_facts :: "daily_usage_fact_dto list"

definition collect_contract_version :: u32 where
  "collect_contract_version = 1"

section \<open>Exported facts\<close>

record exported_daily_model =
  edm_raw_model_id :: "string option"
  edm_display_name :: "string option"
  edm_provider_key :: "string option"
  edm_input_tokens :: "u64 option"
  edm_output_tokens :: "u64 option"
  edm_cache_creation_tokens :: "u64 option"
  edm_cache_read_tokens :: "u64 option"
  edm_total_tokens :: "u64 option"
  edm_cost_status :: string
  edm_cost_amount_micros :: "i64 option"
  edm_cost_currency :: "string option"

record exported_daily_fact =
  edf_identity_key :: string
  edf_identity_version :: u16
  edf_source_key :: string
  edf_usage_date :: string
  edf_aggregation_timezone :: string
  edf_input_tokens :: "u64 option"
  edf_output_tokens :: "u64 option"
  edf_cache_creation_tokens :: "u64 option"
  edf_cache_read_tokens :: "u64 option"
  edf_total_tokens :: u64
  edf_unclassified_tokens :: "u64 option"
  edf_cost_status :: string
  edf_cost_kind :: string
  edf_cost_amount_micros :: "i64 option"
  edf_cost_currency :: "string option"
  edf_data_quality :: string
  edf_record_state :: string
  edf_first_seen_at_ms :: i64
  edf_last_seen_at_ms :: i64
  edf_removed_at_ms :: "i64 option"
  edf_models :: "exported_daily_model list"

datatype export_map_error = InvalidTimestamp

definition ms_to_rfc3339 :: "chrono \<Rightarrow> i64 \<Rightarrow> export_map_error + string" where
  "ms_to_rfc3339 c ms = ok_or InvalidTimestamp (millis_to_rfc3339 c ms)"

definition map_exported_model :: "exported_daily_model \<Rightarrow> daily_usage_model_dto" where
  "map_exported_model m =
     \<lparr>dmd_raw_model_id = edm_raw_model_id m, dmd_display_name = edm_display_name m,
      dmd_provider_key = edm_provider_key m, dmd_input_tokens = edm_input_tokens m,
      dmd_output_tokens = edm_output_tokens m,
      dmd_cache_creation_tokens = edm_cache_creation_tokens m,
      dmd_cache_read_tokens = edm_cache_read_tokens m, dmd_total_tokens = edm_total_tokens m,
      dmd_cost = \<lparr>mcd_status = edm_cost_status m, mcd_amount_micros = edm_cost_amount_micros m,
                  mcd_currency = edm_cost_currency m\<rparr>\<rparr>"

definition map_exported_fact ::
  "chrono \<Rightarrow> exported_daily_fact \<Rightarrow> export_map_error + daily_usage_fact_dto" where
  "map_exported_fact c f =
     bind_res (ms_to_rfc3339 c (edf_first_seen_at_ms f)) (\<lambda>first_seen.
     bind_res (ms_to_rfc3339 c (edf_last_seen_at_ms f)) (\<lambda>last_seen.
     bind_res (transpose_opt (ms_to_rfc3339 c) (edf_removed_at_ms f)) (\<lambda>removed.
       Inr \<lparr>dfd_identity_key = edf_identity_key f, dfd_identity_version = edf_identity_version f,
            dfd_source_key = edf_source_key f, dfd_usage_date = edf_usage_date f,
            dfd_aggregation_timezone = edf_aggregation_timezone f,
            dfd_input_tokens = edf_input_tokens f, dfd_output_tokens = edf_output_tokens f,
            dfd_cache_creation_tokens = edf_cache_creation_tokens f,
            dfd_cache_read_tokens = edf_cache_read_tokens f,
            dfd_total_tokens = edf_total_tokens f,
            dfd_unclassified_tokens = edf_unclassified_tokens f,
            dfd_cost = \<lparr>dcd_status = edf_cost_status f, dcd_kind = edf_cost_kind f,
                        dcd_amount_micros = edf_cost_amount_micros f,
                        dcd_currency = edf_cost_currency f\<rparr>,
            dfd_data_quality = edf_data_quality f, dfd_record_state = edf_record_state f,
            dfd_first_seen_at = first_seen, dfd_last_seen_at = last_seen,
            dfd_removed_at = removed, dfd_models = map map_exported_model (edf_models f)\<rparr>)))"

section \<open>The export query\<close>

record daily_usage_export_query =
  deq_scope :: upload_scope
  deq_reporting_timezone :: string

datatype export_store_error = ExportInvalidScope | ExportBackend

definition export_query_full :: "string \<Rightarrow> daily_usage_export_query" where
  "export_query_full tz = \<lparr>deq_scope = UploadFull, deq_reporting_timezone = tz\<rparr>"

definition export_query_incremental ::
  "string \<Rightarrow> string list \<Rightarrow> naive_date \<Rightarrow> naive_date
   \<Rightarrow> export_store_error + daily_usage_export_query" where
  "export_query_incremental tz keys s e =
     bind_res (map_err (\<lambda>_. ExportInvalidScope) (upload_scope_incremental keys s e)) (\<lambda>scope.
       Inr \<lparr>deq_scope = scope, deq_reporting_timezone = tz\<rparr>)"

text \<open>Reading an integer column into an unsigned type.\<close>

definition optional_u64 :: "int option \<Rightarrow> export_store_error + u64 option" where
  "optional_u64 v = transpose_opt (\<lambda>n. ok_or ExportBackend (u64_of_i64 n)) v"

definition u16_column :: "int \<Rightarrow> export_store_error + u16" where
  "u16_column n = (if 0 \<le> n \<and> n < 65536 then Inr (word_of_int n) else Inl ExportBackend)"

text \<open>The joined row of \<open>daily_usage\<close> and \<open>sources\<close>; \<open>models\<close> is filled in later.\<close>

definition map_parent_row ::
  "daily_row \<times> source_row \<Rightarrow> export_store_error + int \<times> exported_daily_fact" where
  "map_parent_row row =
     (case row of (du, so) \<Rightarrow>
        let f = du_facts du; t = fc_tokens f
        in bind_res (u16_column (fc_identity_version f)) (\<lambda>version.
           bind_res (ok_or ExportBackend (u64_of_i64 (tc_total t))) (\<lambda>tot.
           bind_res (optional_u64 (tc_input t)) (\<lambda>inp.
           bind_res (optional_u64 (tc_output t)) (\<lambda>outp.
           bind_res (optional_u64 (tc_cache_creation t)) (\<lambda>cc.
           bind_res (optional_u64 (tc_cache_read t)) (\<lambda>cr.
           bind_res (optional_u64 (tc_unclassified t)) (\<lambda>un.
             Inr (du_id du,
               \<lparr>edf_identity_key = du_source_key du, edf_identity_version = version,
                edf_source_key = so_source_key so, edf_usage_date = du_usage_date du,
                edf_aggregation_timezone = du_aggregation_timezone du,
                edf_input_tokens = inp, edf_output_tokens = outp,
                edf_cache_creation_tokens = cc, edf_cache_read_tokens = cr,
                edf_total_tokens = tot, edf_unclassified_tokens = un,
                edf_cost_status = dcc_status (fc_cost f), edf_cost_kind = dcc_kind (fc_cost f),
                edf_cost_amount_micros = dcc_amount_micros (fc_cost f),
                edf_cost_currency = dcc_currency (fc_cost f),
                edf_data_quality = fc_data_quality f, edf_record_state = fc_record_state f,
                edf_first_seen_at_ms = fc_first_seen_at_ms f,
                edf_last_seen_at_ms = fc_last_seen_at_ms f,
                edf_removed_at_ms = fc_removed_at_ms f, edf_models = []\<rparr>)))))))))"

text \<open>The rows a query selects, and the \<open>BTreeMap\<close> of the parents in ascending id.\<close>

definition export_selects :: "chrono \<Rightarrow> upload_scope \<Rightarrow> string \<Rightarrow> daily_row \<times> source_row \<Rightarrow> bool" where
  "export_selects c scope tz row =
     (case row of (du, so) \<Rightarrow>
        so_id so = du_source_id du \<and> du_aggregation_timezone du = tz \<and>
        fc_record_state (du_facts du) \<in> {''active'', ''missing'', ''removed''} \<and>
        (case scope of UploadFull \<Rightarrow> True
         | UploadIncremental keys s e \<Rightarrow>
             date_to_string c s \<le> du_usage_date du \<and> du_usage_date du \<le> date_to_string c e \<and>
             so_source_key so \<in> keys))"

definition load_parents ::
  "chrono \<Rightarrow> upload_scope \<Rightarrow> string \<Rightarrow> database \<Rightarrow> export_store_error + (int \<times> exported_daily_fact) list" where
  "load_parents c scope tz db =
     (case scope of
        UploadIncremental keys s e \<Rightarrow>
          if keys = {} then Inl ExportInvalidScope
          else map_ok (sort_key fst) (collect_res map_parent_row
                 (filter (export_selects c scope tz) (List.product (db_daily_usage db) (db_sources db))))
      | UploadFull \<Rightarrow>
          map_ok (sort_key fst) (collect_res map_parent_row
            (filter (export_selects c scope tz) (List.product (db_daily_usage db) (db_sources db)))))"

text \<open>The left join with \<open>source_models\<close>: a breakdown without its model row has no names.\<close>

definition model_of_usage :: "database \<Rightarrow> model_usage_row \<Rightarrow> model_row option" where
  "model_of_usage db mu =
     find (\<lambda>sm. sm_id sm = mu_model_id mu \<and> sm_source_id sm = mu_source_id mu) (db_source_models db)"

definition map_model_row :: "database \<Rightarrow> model_usage_row \<Rightarrow> export_store_error + exported_daily_model" where
  "map_model_row db mu =
     (let sm = model_of_usage db mu; t = mu_tokens mu
      in bind_res (optional_u64 (tc_input t)) (\<lambda>inp.
         bind_res (optional_u64 (tc_output t)) (\<lambda>outp.
         bind_res (optional_u64 (tc_cache_creation t)) (\<lambda>cc.
         bind_res (optional_u64 (tc_cache_read t)) (\<lambda>cr.
         bind_res (optional_u64 (Some (tc_total t))) (\<lambda>tot.
           Inr \<lparr>edm_raw_model_id = map_option sm_raw_model_id sm,
                edm_display_name = Option.bind sm sm_display_name,
                edm_provider_key = Option.bind sm sm_provider_key,
                edm_input_tokens = inp, edm_output_tokens = outp,
                edm_cache_creation_tokens = cc, edm_cache_read_tokens = cr,
                edm_total_tokens = tot, edm_cost_status = mcc_status (mu_cost mu),
                edm_cost_amount_micros = mcc_amount_micros (mu_cost mu),
                edm_cost_currency = mcc_currency (mu_cost mu)\<rparr>))))))"

text \<open>\<open>ORDER BY raw_model_id, id\<close>: NULL sorts first.\<close>

definition model_order :: "database \<Rightarrow> model_usage_row \<Rightarrow> string list \<times> int" where
  "model_order db mu =
     (case model_of_usage db mu of None \<Rightarrow> [] | Some sm \<Rightarrow> [sm_raw_model_id sm], mu_id mu)"

definition load_models ::
  "database \<Rightarrow> int \<Rightarrow> export_store_error + exported_daily_model list" where
  "load_models db parent =
     collect_res (map_model_row db)
       (sort_key (model_order db) (filter (\<lambda>mu. mu_parent_id mu = parent) (db_daily_model_usage db)))"

definition fact_order :: "exported_daily_fact \<Rightarrow> string \<times> string" where
  "fact_order f = (edf_usage_date f, edf_identity_key f)"

definition export_daily_facts ::
  "chrono \<Rightarrow> daily_usage_export_query \<Rightarrow> database \<Rightarrow> export_store_error + exported_daily_fact list" where
  "export_daily_facts c query db =
     (let tz = str_trim (deq_reporting_timezone query)
      in if tz = [] then Inl ExportInvalidScope
         else bind_res (load_parents c (deq_scope query) tz db) (\<lambda>parents.
              bind_res (collect_res (\<lambda>(i, f). map_ok (\<lambda>ms. f\<lparr>edf_models := ms\<rparr>) (load_models db i)) parents)
                (\<lambda>facts. Inr (sort_key fact_order facts))))"

section \<open>Batches\<close>

record batch_build_limits =
  bbl_max_facts_per_batch :: nat
  bbl_max_models_per_fact :: nat

definition backend_v1 :: batch_build_limits where
  "backend_v1 = \<lparr>bbl_max_facts_per_batch = 1000, bbl_max_models_per_fact = 100\<rparr>"

record batch_request_meta =
  brm_client_device_id :: string
  brm_app_version :: string
  brm_reporting_timezone :: string
  brm_scope :: upload_scope

record prepared_batch =
  pb_batch_index :: u32
  pb_batch_count :: u32
  pb_client_revision :: i64
  pb_idempotency_key :: string
  pb_request_body :: string
  pb_payload_hash :: string
  pb_window_scope :: wire_upload_scope
  pb_window_start :: string
  pb_window_end :: string

datatype batch_build_error = TooManyModels nat | BatchSerialize

text \<open>\<open>serde_json::to_string\<close>, the SHA-256 hex digest and the \<open>n\<close>-th UUID generated.\<close>

record wire_codec =
  wc_to_json :: "daily_usage_push_request_dto \<Rightarrow> string option"
  wc_sha256 :: "string \<Rightarrow> string"
  wc_uuid :: "nat \<Rightarrow> string"

text \<open>\<open>slice::chunks\<close>; a chunk size of zero, which panics in Rust, is not used: the limits are \<open>backend_v1\<close>.\<close>

function chunks :: "nat \<Rightarrow> 'a list \<Rightarrow> 'a list list" where
  "chunks n xs = (if n = 0 \<or> xs = [] then [] else take n xs # chunks n (drop n xs))"
  by pat_completeness auto
termination
  by (relation "measure (\<lambda>(n, xs). length xs)") auto

declare chunks.simps [simp del]

definition u32_or_max :: "nat \<Rightarrow> u32" where
  "u32_or_max n = (case u32_of_nat n of None \<Rightarrow> - 1 | Some x \<Rightarrow> x)"

definition i64_or_max :: "nat \<Rightarrow> i64" where
  "i64_or_max n = (if int n \<le> i64_max then int n else i64_max)"

text \<open>\<open>min()\<close> and \<open>max()\<close> of the dates of a chunk, \<open>unwrap_or("")\<close>.\<close>

definition first_date :: "string list \<Rightarrow> string" where
  "first_date dates = (case dates of [] \<Rightarrow> [] | d # ds \<Rightarrow> foldl min d ds)"

definition last_date :: "string list \<Rightarrow> string" where
  "last_date dates = (case dates of [] \<Rightarrow> [] | d # ds \<Rightarrow> foldl max d ds)"

definition push_request ::
  "batch_request_meta \<Rightarrow> i64 \<Rightarrow> daily_usage_fact_dto list \<Rightarrow> daily_usage_push_request_dto" where
  "push_request meta number chunk =
     (let dates = map dfd_usage_date chunk
      in \<lparr>dpr_contract_version = collect_contract_version,
          dpr_client_device_id = brm_client_device_id meta, dpr_app_version = brm_app_version meta,
          dpr_reporting_timezone = brm_reporting_timezone meta, dpr_client_revision = number,
          dpr_window = \<lparr>dwd_start_date = first_date dates, dwd_end_date = last_date dates,
                        dwd_scope = wire_scope_of (brm_scope meta)\<rparr>,
          dpr_facts = chunk\<rparr>)"

definition prepare_batch ::
  "wire_codec \<Rightarrow> batch_request_meta \<Rightarrow> u32 \<Rightarrow> i64 \<Rightarrow> nat \<Rightarrow> daily_usage_fact_dto list
   \<Rightarrow> batch_build_error + prepared_batch" where
  "prepare_batch codec meta count first index chunk =
     bind_res (ok_or BatchSerialize (i64_checked_add first (i64_or_max index))) (\<lambda>number.
       let request = push_request meta number chunk
       in bind_res (ok_or BatchSerialize (wc_to_json codec request)) (\<lambda>body.
            Inr \<lparr>pb_batch_index = u32_or_max index, pb_batch_count = count,
                 pb_client_revision = number, pb_idempotency_key = wc_uuid codec index,
                 pb_request_body = body, pb_payload_hash = wc_sha256 codec body,
                 pb_window_scope = wire_scope_of (brm_scope meta),
                 pb_window_start = dwd_start_date (dpr_window request),
                 pb_window_end = dwd_end_date (dpr_window request)\<rparr>))"

definition dto_order :: "daily_usage_fact_dto \<Rightarrow> string \<times> string" where
  "dto_order f = (dfd_usage_date f, dfd_identity_key f)"

definition build_prepared_batches ::
  "wire_codec \<Rightarrow> daily_usage_fact_dto list \<Rightarrow> batch_request_meta \<Rightarrow> batch_build_limits \<Rightarrow> i64
   \<Rightarrow> batch_build_error + prepared_batch list" where
  "build_prepared_batches codec facts meta limits first =
     (if facts = [] then Inr []
      else if list_ex (\<lambda>f. bbl_max_models_per_fact limits < length (dfd_models f)) facts
      then Inl (TooManyModels (bbl_max_models_per_fact limits))
      else let pieces = chunks (bbl_max_facts_per_batch limits) (sort_key dto_order facts)
           in collect_res (\<lambda>(index, chunk).
                prepare_batch codec meta (u32_or_max (length pieces)) first index chunk)
              (enumerate 0 pieces))"

end
