(* ===== verification/UploadBatchFacts.thy ===== *)
theory UploadBatchFacts
  imports UploadBatch UsageIntegrity DemoData "HOL-Library.Multiset"
begin

text \<open>
  The export is exact and the batches partition it: lemmas on chunks and their windows, on the
  sorted facts, and the properties of \<open>export_daily_facts\<close> and \<open>build_prepared_batches\<close>.
\<close>

section \<open>Chunks and windows\<close>

lemma concat_chunks: "0 < n \<Longrightarrow> concat (chunks n xs) = xs"
  by (induction n xs rule: chunks.induct) (subst chunks.simps, auto)

lemma chunks_sizes: "chunk \<in> set (chunks n xs) \<Longrightarrow> chunk \<noteq> [] \<and> length chunk \<le> n"
proof (induction n xs rule: chunks.induct)
  case (1 n xs)
  show ?case
  proof (cases "n = 0 \<or> xs = []")
    case True
    with 1(2) show ?thesis by (simp add: chunks.simps [of n xs])
  next
    case False
    with 1(2) have "chunk = take n xs \<or> chunk \<in> set (chunks n (drop n xs))"
      by (simp add: chunks.simps [of n xs])
    with False 1(1) show ?thesis by auto
  qed
qed

lemma length_chunks_le: "length (chunks n xs) \<le> length xs"
proof (induction n xs rule: chunks.induct)
  case (1 n xs)
  then show ?case by (cases "n = 0 \<or> xs = []") (auto simp: chunks.simps [of n xs] neq_Nil_conv)
qed

lemma foldl_min_spec: "foldl min d ds \<in> set (d # ds) \<and> (\<forall>x \<in> set (d # ds). foldl min d ds \<le> (x :: 'a :: linorder))"
proof (induction ds arbitrary: d)
  case (Cons a ds)
  from Cons [of "min d a"] show ?case by (auto simp: min_def split: if_splits)
qed simp

lemma foldl_max_spec: "foldl max d ds \<in> set (d # ds) \<and> (\<forall>x \<in> set (d # ds). (x :: 'a :: linorder) \<le> foldl max d ds)"
proof (induction ds arbitrary: d)
  case (Cons a ds)
  from Cons [of "max d a"] show ?case by (auto simp: max_def split: if_splits)
qed simp

lemma first_date_spec: "dates \<noteq> [] \<Longrightarrow> first_date dates \<in> set dates \<and> (\<forall>d \<in> set dates. first_date dates \<le> d)"
  using foldl_min_spec by (cases dates) (simp_all add: first_date_def)

lemma last_date_spec: "dates \<noteq> [] \<Longrightarrow> last_date dates \<in> set dates \<and> (\<forall>d \<in> set dates. d \<le> last_date dates)"
  using foldl_max_spec by (cases dates) (simp_all add: last_date_def)

text \<open>Consecutive pieces of a sorted list are ordered.\<close>

lemma sorted_pieces:
  assumes "sorted (concat pieces)" and "i < j" and "j < length pieces"
    and "x \<in> set (pieces ! i)" and "y \<in> set (pieces ! j)"
  shows "x \<le> (y :: 'a :: linorder)"
  using assms
proof (induction pieces arbitrary: i j)
  case (Cons p ps)
  then obtain j' where j: "j = Suc j'" by (cases j) auto
  show ?case
  proof (cases i)
    case 0
    have "y \<in> set (concat ps)" using Cons.prems(3,5) j by auto
    with Cons.prems(1,4) 0 show ?thesis by (auto simp: sorted_append)
  next
    case (Suc i')
    with Cons.prems j have "sorted (concat ps)" "i' < j'" "j' < length ps"
      "x \<in> set (ps ! i')" "y \<in> set (ps ! j')" by (simp_all add: sorted_append)
    then show ?thesis by (rule Cons.IH)
  qed
qed simp

lemma u32_or_max_small: "n < 2 ^ 32 \<Longrightarrow> u32_or_max n = of_nat n"
  by (simp add: u32_or_max_def u32_of_nat_def)

lemma i64_or_max_small: "n < 2 ^ 32 \<Longrightarrow> i64_or_max n = int n"
  by (simp add: i64_or_max_def i64_max_def)

lemma prepare_batch_Inr:
  "prepare_batch codec meta total_batches first index chunk = Inr b \<longleftrightarrow>
     in_i64 (first + i64_or_max index) \<and>
     (\<exists>body. wc_to_json codec (push_request meta (first + i64_or_max index) chunk) = Some body \<and>
        b = \<lparr>pb_batch_index = u32_or_max index, pb_batch_count = total_batches,
             pb_client_revision = first + i64_or_max index, pb_idempotency_key = wc_uuid codec index,
             pb_request_body = body, pb_payload_hash = wc_sha256 codec body,
             pb_window_scope = wire_scope_of (brm_scope meta),
             pb_window_start = first_date (map dfd_usage_date chunk),
             pb_window_end = last_date (map dfd_usage_date chunk)\<rparr>)"
  by (auto simp: prepare_batch_def bind_res_Inr ok_or_Inr i64_checked_add_Some Let_def push_request_def)

text \<open>What the loop over the pieces prepares.\<close>

lemma build_prepared_batches_Inr:
  assumes "build_prepared_batches codec facts meta limits first = Inr batches"
    and "0 < bbl_max_facts_per_batch limits"
  obtains pieces where "concat pieces = sort_key dto_order facts"
    "pieces = chunks (bbl_max_facts_per_batch limits) (sort_key dto_order facts)"
    "length pieces = length batches" "length batches \<le> length facts"
    "\<forall>f \<in> set facts. length (dfd_models f) \<le> bbl_max_models_per_fact limits"
    "\<forall>i < length batches. prepare_batch codec meta (u32_or_max (length batches)) first i (pieces ! i)
       = Inr (batches ! i)"
proof -
  define pieces where "pieces = chunks (bbl_max_facts_per_batch limits) (sort_key dto_order facts)"
  have pieces: "concat pieces = sort_key dto_order facts"
    unfolding pieces_def by (rule concat_chunks) (rule assms(2))
  have len: "length pieces \<le> length facts"
    using length_chunks_le [of "bbl_max_facts_per_batch limits" "sort_key dto_order facts"]
    by (simp add: pieces_def)
  show thesis
  proof (cases "facts = []")
    case True
    with assms(1) len show thesis
      by (intro that [OF pieces pieces_def]) (simp_all add: build_prepared_batches_def)
  next
    case False
    with assms(1) have models: "\<forall>f \<in> set facts. length (dfd_models f) \<le> bbl_max_models_per_fact limits"
      and all: "list_all2 (\<lambda>p b. prepare_batch codec meta (u32_or_max (length pieces)) first (fst p) (snd p) = Inr b)
        (enumerate 0 pieces) batches"
      by (auto simp: build_prepared_batches_def Let_def pieces_def collect_res_Inr list_ex_iff
          not_less split_beta split: if_splits)
    then have same: "length pieces = length batches" by (auto dest: list_all2_lengthD)
    with all have "\<forall>i < length batches.
        prepare_batch codec meta (u32_or_max (length batches)) first i (pieces ! i) = Inr (batches ! i)"
      by (auto simp: list_all2_conv_all_nth nth_enumerate_eq)
    with same len models show thesis by (intro that [OF pieces pieces_def]) simp_all
  qed
qed

section \<open>The exported facts\<close>

text \<open>What one selected row becomes.\<close>

definition export_row ::
  "database \<Rightarrow> daily_row \<times> source_row \<Rightarrow> export_store_error + exported_daily_fact" where
  "export_row db row =
     bind_res (map_parent_row row) (\<lambda>(i, f). map_ok (\<lambda>ms. f\<lparr>edf_models := ms\<rparr>) (load_models db i))"

abbreviation exported_rows :: "chrono \<Rightarrow> daily_usage_export_query \<Rightarrow> database \<Rightarrow> (daily_row \<times> source_row) list" where
  "exported_rows c query db \<equiv>
     filter (export_selects c (deq_scope query) (str_trim (deq_reporting_timezone query)))
       (List.product (db_daily_usage db) (db_sources db))"

lemma map_ok_Inr: "map_ok g r = Inr y \<longleftrightarrow> (\<exists>x. r = Inr x \<and> y = g x)"
  by (cases r) auto

lemma collect_res_image_mset:
  "collect_res f xs = Inr ys \<Longrightarrow> image_mset Inr (mset ys) = image_mset f (mset xs)"
  by (induction xs arbitrary: ys) (auto split: sum.splits)

lemma load_parents_Inr:
  assumes "load_parents c scope tz db = Inr parents"
  shows "image_mset Inr (mset parents) = image_mset map_parent_row
    (mset (filter (export_selects c scope tz) (List.product (db_daily_usage db) (db_sources db))))"
proof -
  obtain ps where "collect_res map_parent_row (filter (export_selects c scope tz)
      (List.product (db_daily_usage db) (db_sources db))) = Inr ps" "parents = sort_key fst ps"
    using assms by (auto simp: load_parents_def map_ok_Inr split: upload_scope.splits if_splits)
  then show ?thesis by (simp flip: mset_filter add: collect_res_image_mset)
qed

lemma bind_res_image_mset:
  assumes "image_mset Inr xs = image_mset f rows"
  shows "image_mset g xs = image_mset (\<lambda>row. bind_res (f row) g) rows"
proof -
  have "image_mset g xs = image_mset (\<lambda>r. bind_res r g) (image_mset Inr xs)"
    by (simp add: multiset.map_comp o_def)
  then show ?thesis by (simp add: assms multiset.map_comp o_def)
qed

lemma export_daily_facts_rows:
  assumes "export_daily_facts c query db = Inr facts"
  shows "image_mset Inr (mset facts) = image_mset (export_row db) (mset (exported_rows c query db))"
    and "sorted (map fact_order facts)"
proof -
  obtain parents fs where
    parents: "load_parents c (deq_scope query) (str_trim (deq_reporting_timezone query)) db = Inr parents"
    and fs: "collect_res (\<lambda>(i, f). map_ok (\<lambda>ms. f\<lparr>edf_models := ms\<rparr>) (load_models db i)) parents = Inr fs"
    and facts: "facts = sort_key fact_order fs"
    using assms by (auto simp: export_daily_facts_def Let_def bind_res_Inr split: if_splits)
  have "image_mset Inr (mset fs) =
      image_mset (\<lambda>(i, f). map_ok (\<lambda>ms. f\<lparr>edf_models := ms\<rparr>) (load_models db i)) (mset parents)"
    by (rule collect_res_image_mset) (rule fs)
  also have "\<dots> = image_mset (export_row db) (mset (exported_rows c query db))"
    unfolding export_row_def by (rule bind_res_image_mset) (rule load_parents_Inr [OF parents])
  finally show "image_mset Inr (mset facts) = image_mset (export_row db) (mset (exported_rows c query db))"
    by (simp add: facts)
  show "sorted (map fact_order facts)" by (simp add: facts)
qed

definition fact_identity :: "exported_daily_fact \<Rightarrow> string \<times> string" where
  "fact_identity f = (edf_source_key f, edf_identity_key f)"

lemma export_row_identity:
  "export_row db row = Inr f \<Longrightarrow> fact_identity f = (so_source_key (snd row), du_source_key (fst row))"
  by (cases row)
     (auto simp: export_row_def map_parent_row_def Let_def bind_res_Inr map_ok_Inr fact_identity_def)

lemma exported_rows_identities_distinct:
  assumes "database_ok db"
  shows "distinct (map (\<lambda>row. (so_source_key (snd row), du_source_key (fst row))) (exported_rows c query db))"
proof (subst distinct_map, intro conjI inj_onI)
  from assms have keys: "distinct (map so_source_key (db_sources db))" "distinct (map so_id (db_sources db))"
    "distinct (map du_id (db_daily_usage db))"
    "distinct (map (\<lambda>r. (du_source_id r, du_source_key r)) (db_daily_usage db))"
    by (simp_all add: database_ok_def sources_ok_def daily_ok_def)
  then show "distinct (exported_rows c query db)"
    by (simp add: distinct_product distinct_map)
  fix x y
  assume "x \<in> set (exported_rows c query db)" "y \<in> set (exported_rows c query db)"
    and same: "(so_source_key (snd x), du_source_key (fst x)) = (so_source_key (snd y), du_source_key (fst y))"
  then have members: "fst x \<in> set (db_daily_usage db)" "fst y \<in> set (db_daily_usage db)"
    "snd x \<in> set (db_sources db)" "snd y \<in> set (db_sources db)"
    and ids: "so_id (snd x) = du_source_id (fst x)" "so_id (snd y) = du_source_id (fst y)"
    by (auto simp: export_selects_def)
  from keys(1) members(3,4) same have "snd x = snd y" by (auto simp: distinct_map inj_on_def)
  with ids keys(4) members(1,2) same have "fst x = fst y"
    by (auto simp: distinct_map inj_on_def)
  with \<open>snd x = snd y\<close> show "x = y" by (simp add: prod_eq_iff)
qed

section \<open>Properties\<close>

text \<open>
  C10: The export is exact. The exported facts are, up to order, the selected rows of the scope and
  time zone (active, missing and removed) each mapped once with its model breakdowns; they are
  sorted by day and identity; and from a database that satisfies its schema no identity of a source
  is exported twice.
\<close>
theorem export_daily_facts_exact:
  assumes "export_daily_facts c query db = Inr facts" and "database_ok db"
  shows "image_mset Inr (mset facts) = image_mset (export_row db) (mset (exported_rows c query db)) \<and>
    sorted (map fact_order facts) \<and> distinct (map fact_identity facts)"
proof (intro conjI)
  note rows = export_daily_facts_rows [OF assms(1)]
  show "image_mset Inr (mset facts) = image_mset (export_row db) (mset (exported_rows c query db))"
    "sorted (map fact_order facts)" by (rule rows)+
  let ?key = "\<lambda>row. (so_source_key (snd row), du_source_key (fst row))"
  have ok: "export_row db row \<in> Inr ` set facts" if "row \<in> set (exported_rows c query db)" for row
  proof -
    from that have "export_row db row \<in># image_mset (export_row db) (mset (exported_rows c query db))" by simp
    then have "export_row db row \<in># image_mset Inr (mset facts)" unfolding rows(1) .
    then show ?thesis by auto
  qed
  have "mset (map fact_identity facts) =
      image_mset (\<lambda>r :: export_store_error + _. fact_identity (projr r)) (image_mset Inr (mset facts))"
    by (simp add: multiset.map_comp o_def)
  also have "\<dots> = image_mset (\<lambda>row. fact_identity (projr (export_row db row))) (mset (exported_rows c query db))"
    unfolding rows(1) by (simp add: multiset.map_comp o_def)
  also have "\<dots> = image_mset ?key (mset (exported_rows c query db))"
  proof (rule image_mset_cong)
    fix row assume "row \<in># mset (exported_rows c query db)"
    then obtain f where "export_row db row = Inr f" using ok [of row] by auto
    then show "fact_identity (projr (export_row db row)) = ?key row" by (simp add: export_row_identity)
  qed
  finally have "mset (map fact_identity facts) = mset (map ?key (exported_rows c query db))" by simp
  then show "distinct (map fact_identity facts)"
    using exported_rows_identities_distinct [OF assms(2)] mset_eq_imp_distinct_iff by blast
qed

text \<open>
  C9: The batches are the facts, in order, in pieces the backend accepts. For a positive batch size
  and fewer than \<open>2 ^ 32\<close> facts, the request bodies are the serialized pushes of consecutive
  nonempty pieces of the facts sorted by day and identity; no piece exceeds the limits; indices count
  from 0, every batch carries the number of batches and the next client revision; its hash is that
  of its body; and its window starts and ends on days of its piece and contains all of them.
\<close>
theorem prepared_batches_partition_facts:
  assumes "build_prepared_batches codec facts meta limits first = Inr batches"
    and "0 < bbl_max_facts_per_batch limits" and "length facts < 2 ^ 32"
  shows "\<exists>pieces. concat pieces = sort_key dto_order facts \<and> length pieces = length batches \<and>
    (\<forall>i < length batches.
       pieces ! i \<noteq> [] \<and> length (pieces ! i) \<le> bbl_max_facts_per_batch limits \<and>
       (\<forall>f \<in> set (pieces ! i). length (dfd_models f) \<le> bbl_max_models_per_fact limits) \<and>
       unat (pb_batch_index (batches ! i)) = i \<and>
       unat (pb_batch_count (batches ! i)) = length batches \<and>
       pb_client_revision (batches ! i) = first + int i \<and>
       wc_to_json codec (push_request meta (first + int i) (pieces ! i)) =
         Some (pb_request_body (batches ! i)) \<and>
       pb_payload_hash (batches ! i) = wc_sha256 codec (pb_request_body (batches ! i)) \<and>
       {pb_window_start (batches ! i), pb_window_end (batches ! i)} \<subseteq> dfd_usage_date ` set (pieces ! i) \<and>
       (\<forall>f \<in> set (pieces ! i). pb_window_start (batches ! i) \<le> dfd_usage_date f \<and>
          dfd_usage_date f \<le> pb_window_end (batches ! i)))"
proof -
  from assms(1,2) obtain pieces where pieces: "concat pieces = sort_key dto_order facts"
    "pieces = chunks (bbl_max_facts_per_batch limits) (sort_key dto_order facts)"
    "length pieces = length batches" "length batches \<le> length facts"
    "\<forall>f \<in> set facts. length (dfd_models f) \<le> bbl_max_models_per_fact limits"
    "\<forall>i < length batches. prepare_batch codec meta (u32_or_max (length batches)) first i (pieces ! i)
       = Inr (batches ! i)"
    by (rule build_prepared_batches_Inr)
  show ?thesis
  proof (intro exI [of _ pieces] conjI allI impI ballI; (rule pieces)?)
    fix i assume i: "i < length batches"
    with pieces(3) have member: "pieces ! i \<in> set pieces" by simp
    then have sizes: "pieces ! i \<noteq> []" "length (pieces ! i) \<le> bbl_max_facts_per_batch limits"
      using chunks_sizes by (auto simp: pieces(2))
    from sizes show "pieces ! i \<noteq> []" "length (pieces ! i) \<le> bbl_max_facts_per_batch limits" by auto
    have "set (pieces ! i) \<subseteq> set (concat pieces)" using member by auto
    then have "set (pieces ! i) \<subseteq> set facts" by (simp add: pieces(1))
    with pieces(5) show "length (dfd_models f) \<le> bbl_max_models_per_fact limits"
      if "f \<in> set (pieces ! i)" for f using that by auto
    have small: "i < 2 ^ 32" "length batches < 2 ^ 32" using i pieces(4) assms(3) by auto
    from pieces(6) i obtain body where
      body: "wc_to_json codec (push_request meta (first + int i) (pieces ! i)) = Some body"
      and b: "batches ! i = \<lparr>pb_batch_index = of_nat i, pb_batch_count = of_nat (length batches),
             pb_client_revision = first + int i, pb_idempotency_key = wc_uuid codec i,
             pb_request_body = body, pb_payload_hash = wc_sha256 codec body,
             pb_window_scope = wire_scope_of (brm_scope meta),
             pb_window_start = first_date (map dfd_usage_date (pieces ! i)),
             pb_window_end = last_date (map dfd_usage_date (pieces ! i))\<rparr>"
      using small by (auto simp: prepare_batch_Inr u32_or_max_small i64_or_max_small)
    have dates: "map dfd_usage_date (pieces ! i) \<noteq> []" using sizes by simp
    show "unat (pb_batch_index (batches ! i)) = i" "unat (pb_batch_count (batches ! i)) = length batches"
      using small by (simp_all add: b unat_of_nat)
    show "pb_client_revision (batches ! i) = first + int i" by (simp add: b)
    show "wc_to_json codec (push_request meta (first + int i) (pieces ! i)) =
        Some (pb_request_body (batches ! i))" by (simp add: b body)
    show "pb_payload_hash (batches ! i) = wc_sha256 codec (pb_request_body (batches ! i))" by (simp add: b)
    show "{pb_window_start (batches ! i), pb_window_end (batches ! i)} \<subseteq> dfd_usage_date ` set (pieces ! i)"
      using first_date_spec [OF dates] last_date_spec [OF dates] by (simp add: b)
    show "pb_window_start (batches ! i) \<le> dfd_usage_date f" "dfd_usage_date f \<le> pb_window_end (batches ! i)"
      if "f \<in> set (pieces ! i)" for f
      using that first_date_spec [OF dates] last_date_spec [OF dates] by (simp_all add: b)
  qed
qed

text \<open>Witnesses: the days of the demo database, uploaded with a constant serializer.\<close>

definition demo_codec :: wire_codec where
  "demo_codec = \<lparr>wc_to_json = (\<lambda>r. Some ''{}''), wc_sha256 = id, wc_uuid = (\<lambda>n. replicate n CHR ''u'')\<rparr>"

definition demo_fact :: "string \<Rightarrow> daily_usage_fact_dto" where
  "demo_fact day =
     \<lparr>dfd_identity_key = ''k'', dfd_identity_version = 1, dfd_source_key = ''codex'',
      dfd_usage_date = day, dfd_aggregation_timezone = ''UTC'', dfd_input_tokens = None,
      dfd_output_tokens = None, dfd_cache_creation_tokens = None, dfd_cache_read_tokens = None,
      dfd_total_tokens = 0, dfd_unclassified_tokens = None,
      dfd_cost = \<lparr>dcd_status = ''unavailable'', dcd_kind = ''unknown'', dcd_amount_micros = None,
                  dcd_currency = None\<rparr>,
      dfd_data_quality = ''complete'', dfd_record_state = ''active'', dfd_first_seen_at = [],
      dfd_last_seen_at = [], dfd_removed_at = None, dfd_models = []\<rparr>"

definition demo_meta :: batch_request_meta where
  "demo_meta = \<lparr>brm_client_device_id = ''dev'', brm_app_version = ''1'',
     brm_reporting_timezone = ''UTC'', brm_scope = UploadFull\<rparr>"

lemma demo_build:
  "\<exists>b1 b2. build_prepared_batches demo_codec [demo_fact ''2026-06-15'', demo_fact ''2026-06-14'']
     demo_meta \<lparr>bbl_max_facts_per_batch = 1, bbl_max_models_per_fact = 100\<rparr> 7 = Inr [b1, b2]"
  by (simp add: build_prepared_batches_def demo_codec_def demo_fact_def Let_def chunks.simps
      prepare_batch_def i64_checked_add_def i64_or_max_def i64_max_def i64_min_def in_i64_def dto_order_def)

theorem prepared_batches_partition_facts_witness:
  "\<exists>batches. build_prepared_batches demo_codec [demo_fact ''2026-06-15'', demo_fact ''2026-06-14'']
       demo_meta \<lparr>bbl_max_facts_per_batch = 1, bbl_max_models_per_fact = 100\<rparr> 7 = Inr batches \<and>
     pb_client_revision (batches ! 1) = 8"
proof -
  obtain b1 b2 where built: "build_prepared_batches demo_codec
      [demo_fact ''2026-06-15'', demo_fact ''2026-06-14''] demo_meta
      \<lparr>bbl_max_facts_per_batch = 1, bbl_max_models_per_fact = 100\<rparr> 7 = Inr [b1, b2]"
    using demo_build by blast
  from prepared_batches_partition_facts [OF built]
  have "pb_client_revision ([b1, b2] ! 1) = 7 + int 1" by fastforce
  with built show ?thesis by (intro exI [of _ "[b1, b2]"]) simp
qed

lemma demo_export: "is_ok (export_daily_facts gregorian (export_query_full ''UTC'') demo_database)"
  by code_simp

theorem export_daily_facts_exact_witness:
  "\<exists>facts. export_daily_facts gregorian (export_query_full ''UTC'') demo_database = Inr facts \<and>
     distinct (map fact_identity facts)"
proof (cases "export_daily_facts gregorian (export_query_full ''UTC'') demo_database")
  case (Inl e)
  with demo_export show ?thesis by simp
next
  case (Inr facts)
  from export_daily_facts_exact [OF this demo_database_ok] Inr show ?thesis by blast
qed

end
