(* ===== verification/CollectSyncStore.thy ===== *)
theory CollectSyncStore
  imports UploadBatch
begin

text \<open>
  The durable state and outbox of the upload:
  \<open>src/src-tauri/src/infrastructure/database/collect_sync_store.rs\<close> behind the port
  \<open>application/ports/collect_sync_store.rs\<close>, on the tables of \<open>migrations/0008_collect_sync.sql\<close>. A
  table is the list of its rows in ascending \<open>id\<close>; the JSON text of a pending scope is written and
  read by the third-party serializer, the record \<open>scope_codec\<close>.
\<close>

section \<open>Port types\<close>

record account_key =
  ak_user_id :: string
  ak_client_device_id :: string

datatype baseline_status = BaselineNone | BaselineInProgress | BaselineComplete

fun baseline_as_str :: "baseline_status \<Rightarrow> string" where
  "baseline_as_str BaselineNone = ''none''"
| "baseline_as_str BaselineInProgress = ''in_progress''"
| "baseline_as_str BaselineComplete = ''complete''"

definition baseline_parse :: "string \<Rightarrow> baseline_status option" where
  "baseline_parse s =
     (if s = ''none'' then Some BaselineNone
      else if s = ''in_progress'' then Some BaselineInProgress
      else if s = ''complete'' then Some BaselineComplete else None)"

record collect_sync_state =
  cs_account :: account_key
  cs_next_client_revision :: i64
  cs_baseline_status :: baseline_status
  cs_pending_scope :: "upload_scope option"
  cs_active_generation_id :: "string option"
  cs_last_attempt_at_ms :: "i64 option"
  cs_last_accepted_at_ms :: "i64 option"
  cs_last_error_code :: "string option"
  cs_last_error_message :: "string option"
  cs_last_error_retryable :: "bool option"
  cs_device_metadata_fingerprint :: "string option"
  cs_device_registered_revision :: "i64 option"

datatype outbox_status = OutboxPending | OutboxAccepted

definition outbox_status_parse :: "string \<Rightarrow> outbox_status option" where
  "outbox_status_parse s =
     (if s = ''pending'' then Some OutboxPending
      else if s = ''accepted'' then Some OutboxAccepted else None)"

record outbox_batch =
  xb_id :: i64
  xb_account :: account_key
  xb_generation_id :: string
  xb_batch_index :: u32
  xb_batch_count :: u32
  xb_client_revision :: i64
  xb_idempotency_key :: string
  xb_request_body :: string
  xb_payload_hash :: string
  xb_window_scope :: wire_upload_scope
  xb_window_start :: string
  xb_window_end :: string
  xb_status :: outbox_status
  xb_created_at_ms :: i64
  xb_accepted_at_ms :: "i64 option"

record create_generation_input =
  cgi_account :: account_key
  cgi_generation_id :: string
  cgi_meta :: batch_request_meta
  cgi_prepared_batches :: "prepared_batch list"
  cgi_now_ms :: i64
  cgi_marks_baseline_in_progress :: bool
  cgi_clear_pending_scope :: bool

datatype collect_sync_store_error =
  SyncNotFound | PendingGenerationExists | RevisionMismatch | SyncBatchBuild batch_build_error
  | SyncInvalidState | SyncBackend

section \<open>Tables\<close>

record sync_state_row =
  sy_account :: account_key
  sy_next_client_revision :: int
  sy_baseline_status :: string
  sy_pending_scope_json :: "string option"
  sy_active_generation_id :: "string option"
  sy_last_attempt_at_ms :: "int option"
  sy_last_accepted_at_ms :: "int option"
  sy_last_error_code :: "string option"
  sy_last_error_message :: "string option"
  sy_last_error_retryable :: "int option"
  sy_device_metadata_fingerprint :: "string option"
  sy_device_registered_revision :: "int option"
  sy_created_at_ms :: int
  sy_updated_at_ms :: int

definition check_account :: "account_key \<Rightarrow> bool" where
  "check_account a \<longleftrightarrow> sql_nonblank (ak_user_id a) \<and> sql_nonblank (ak_client_device_id a)"

definition check_sync_state :: "sync_state_row \<Rightarrow> bool" where
  "check_sync_state r \<longleftrightarrow>
     check_account (sy_account r) \<and> 0 < sy_next_client_revision r \<and>
     sy_baseline_status r \<in> {''none'', ''in_progress'', ''complete''} \<and>
     non_negative (sy_last_attempt_at_ms r) \<and> non_negative (sy_last_accepted_at_ms r) \<and>
     (case sy_last_error_retryable r of None \<Rightarrow> True | Some n \<Rightarrow> n = 0 \<or> n = 1) \<and>
     (case sy_device_registered_revision r of None \<Rightarrow> True | Some n \<Rightarrow> 0 < n) \<and>
     0 \<le> sy_created_at_ms r \<and> sy_created_at_ms r \<le> sy_updated_at_ms r"

record outbox_row =
  ob_id :: int
  ob_account :: account_key
  ob_generation_id :: string
  ob_batch_index :: int
  ob_batch_count :: int
  ob_client_revision :: int
  ob_idempotency_key :: string
  ob_request_body :: string
  ob_payload_hash :: string
  ob_window_scope :: string
  ob_window_start :: string
  ob_window_end :: string
  ob_status :: string
  ob_created_at_ms :: int
  ob_accepted_at_ms :: "int option"

text \<open>\<open>length(x) > 0\<close>: SQLite's \<open>length\<close> stops at a NUL character.\<close>

definition sql_nonempty :: "string \<Rightarrow> bool" where
  "sql_nonempty s = (case s of [] \<Rightarrow> False | ch # _ \<Rightarrow> ch \<noteq> CHR 0x00)"

definition check_outbox :: "outbox_row \<Rightarrow> bool" where
  "check_outbox r \<longleftrightarrow>
     check_account (ob_account r) \<and> sql_nonblank (ob_generation_id r) \<and>
     0 \<le> ob_batch_index r \<and> 0 < ob_batch_count r \<and> 0 < ob_client_revision r \<and>
     sql_nonblank (ob_idempotency_key r) \<and> sql_nonempty (ob_request_body r) \<and>
     sql_nonblank (ob_payload_hash r) \<and> ob_window_scope r \<in> {''full'', ''incremental''} \<and>
     sql_date_shape (ob_window_start r) \<and> sql_date_shape (ob_window_end r) \<and>
     ob_status r \<in> {''pending'', ''accepted''} \<and> 0 \<le> ob_created_at_ms r \<and>
     (case ob_accepted_at_ms r of None \<Rightarrow> True | Some a \<Rightarrow> ob_created_at_ms r \<le> a) \<and>
     (ob_status r = ''pending'' \<and> ob_accepted_at_ms r = None \<or>
      ob_status r = ''accepted'' \<and> ob_accepted_at_ms r \<noteq> None) \<and>
     ob_batch_index r < ob_batch_count r \<and> ob_window_start r \<le> ob_window_end r"

text \<open>Two rows the \<open>UNIQUE\<close> constraints do not allow together.\<close>

definition outbox_clash :: "outbox_row \<Rightarrow> outbox_row \<Rightarrow> bool" where
  "outbox_clash r r' \<longleftrightarrow>
     ob_account r = ob_account r' \<and>
       (ob_generation_id r = ob_generation_id r' \<and> ob_batch_index r = ob_batch_index r' \<or>
        ob_client_revision r = ob_client_revision r') \<or>
     ob_idempotency_key r = ob_idempotency_key r'"

record sync_db =
  sd_states :: "sync_state_row list"
  sd_outbox :: "outbox_row list"

text \<open>\<open>serde_json\<close> on \<open>StoredUploadScope\<close>.\<close>

record scope_codec =
  sc_write :: "stored_upload_scope \<Rightarrow> string option"
  sc_read :: "string \<Rightarrow> stored_upload_scope option"

section \<open>Reading the state\<close>

definition read_pending_scope ::
  "chrono \<Rightarrow> scope_codec \<Rightarrow> string \<Rightarrow> collect_sync_store_error + upload_scope" where
  "read_pending_scope c codec json =
     bind_res (ok_or SyncInvalidState (sc_read codec json)) (\<lambda>stored.
       map_err (\<lambda>_. SyncInvalidState) (scope_of_stored c stored))"

definition state_of_row ::
  "chrono \<Rightarrow> scope_codec \<Rightarrow> account_key \<Rightarrow> sync_state_row \<Rightarrow> collect_sync_store_error + collect_sync_state" where
  "state_of_row c codec account r =
     bind_res (transpose_opt (read_pending_scope c codec) (sy_pending_scope_json r)) (\<lambda>scope.
     bind_res (ok_or SyncInvalidState (baseline_parse (sy_baseline_status r))) (\<lambda>baseline.
       Inr \<lparr>cs_account = account, cs_next_client_revision = sy_next_client_revision r,
            cs_baseline_status = baseline, cs_pending_scope = scope,
            cs_active_generation_id = sy_active_generation_id r,
            cs_last_attempt_at_ms = sy_last_attempt_at_ms r,
            cs_last_accepted_at_ms = sy_last_accepted_at_ms r,
            cs_last_error_code = sy_last_error_code r,
            cs_last_error_message = sy_last_error_message r,
            cs_last_error_retryable = map_option (\<lambda>n. n \<noteq> 0) (sy_last_error_retryable r),
            cs_device_metadata_fingerprint = sy_device_metadata_fingerprint r,
            cs_device_registered_revision = sy_device_registered_revision r\<rparr>))"

definition state_row :: "account_key \<Rightarrow> sync_db \<Rightarrow> sync_state_row option" where
  "state_row account db = find (\<lambda>r. sy_account r = account) (sd_states db)"

definition load_state ::
  "chrono \<Rightarrow> scope_codec \<Rightarrow> account_key \<Rightarrow> sync_db
   \<Rightarrow> collect_sync_store_error + collect_sync_state option" where
  "load_state c codec account db = transpose_opt (state_of_row c codec account) (state_row account db)"

definition fresh_state_row :: "account_key \<Rightarrow> i64 \<Rightarrow> sync_state_row" where
  "fresh_state_row account now =
     \<lparr>sy_account = account, sy_next_client_revision = 1, sy_baseline_status = ''none'',
      sy_pending_scope_json = None, sy_active_generation_id = None, sy_last_attempt_at_ms = None,
      sy_last_accepted_at_ms = None, sy_last_error_code = None, sy_last_error_message = None,
      sy_last_error_retryable = None, sy_device_metadata_fingerprint = None,
      sy_device_registered_revision = None, sy_created_at_ms = now, sy_updated_at_ms = now\<rparr>"

definition ensure_state ::
  "chrono \<Rightarrow> scope_codec \<Rightarrow> account_key \<Rightarrow> i64 \<Rightarrow> sync_db
   \<Rightarrow> collect_sync_store_error + collect_sync_state \<times> sync_db" where
  "ensure_state c codec account now db =
     bind_res (load_state c codec account db) (\<lambda>existing.
       case existing of
         Some state \<Rightarrow> Inr (state, db)
       | None \<Rightarrow>
           let row = fresh_state_row account now; db' = db\<lparr>sd_states := sd_states db @ [row]\<rparr>
           in if \<not> check_sync_state row \<or> account \<in> sy_account ` set (sd_states db)
              then Inl SyncBackend
              else bind_res (load_state c codec account db') (\<lambda>loaded.
                     bind_res (ok_or SyncNotFound loaded) (\<lambda>state. Inr (state, db'))))"

text \<open>\<open>UPDATE collect_sync_state SET ... WHERE user_id = ? AND client_device_id = ?\<close>.\<close>

definition update_state ::
  "account_key \<Rightarrow> (sync_state_row \<Rightarrow> sync_state_row) \<Rightarrow> sync_db \<Rightarrow> collect_sync_store_error + sync_db" where
  "update_state account f db =
     (if list_all (\<lambda>r. sy_account r = account \<longrightarrow> check_sync_state (f r)) (sd_states db)
      then Inr (db\<lparr>sd_states := update_where (\<lambda>r. sy_account r = account) f (sd_states db)\<rparr>)
      else Inl SyncBackend)"

section \<open>Reading the outbox\<close>

definition map_outbox_row :: "account_key \<Rightarrow> outbox_row \<Rightarrow> collect_sync_store_error + outbox_batch" where
  "map_outbox_row account r =
     bind_res (if ob_window_scope r = ''full'' then Inr WireFull
               else if ob_window_scope r = ''incremental'' then Inr WireIncremental
               else Inl SyncBackend) (\<lambda>scope.
     bind_res (ok_or SyncBackend (outbox_status_parse (ob_status r))) (\<lambda>status.
       Inr \<lparr>xb_id = ob_id r, xb_account = account, xb_generation_id = ob_generation_id r,
            xb_batch_index = word_of_int (ob_batch_index r),
            xb_batch_count = word_of_int (ob_batch_count r),
            xb_client_revision = ob_client_revision r,
            xb_idempotency_key = ob_idempotency_key r, xb_request_body = ob_request_body r,
            xb_payload_hash = ob_payload_hash r, xb_window_scope = scope,
            xb_window_start = ob_window_start r, xb_window_end = ob_window_end r,
            xb_status = status, xb_created_at_ms = ob_created_at_ms r,
            xb_accepted_at_ms = ob_accepted_at_ms r\<rparr>))"

definition pending_rows :: "account_key \<Rightarrow> sync_db \<Rightarrow> outbox_row list" where
  "pending_rows account db =
     filter (\<lambda>r. ob_account r = account \<and> ob_status r = ''pending'') (sd_outbox db)"

definition count_pending_batches :: "account_key \<Rightarrow> sync_db \<Rightarrow> collect_sync_store_error + u32" where
  "count_pending_batches account db = ok_or SyncBackend (u32_of_nat (length (pending_rows account db)))"

definition list_pending_batches ::
  "account_key \<Rightarrow> sync_db \<Rightarrow> collect_sync_store_error + outbox_batch list" where
  "list_pending_batches account db =
     collect_res (map_outbox_row account) (sort_key ob_client_revision (pending_rows account db))"

definition load_batch ::
  "account_key \<Rightarrow> i64 \<Rightarrow> sync_db \<Rightarrow> collect_sync_store_error + outbox_batch option" where
  "load_batch account batch_id db =
     transpose_opt (map_outbox_row account)
       (find (\<lambda>r. ob_id r = batch_id \<and> ob_account r = account) (sd_outbox db))"

section \<open>Operations of the port\<close>

definition sync_ensure_state ::
  "chrono \<Rightarrow> scope_codec \<Rightarrow> account_key \<Rightarrow> i64 \<Rightarrow> sync_db
   \<Rightarrow> (collect_sync_store_error + collect_sync_state) \<times> sync_db" where
  "sync_ensure_state c codec account now = transact (ensure_state c codec account now)"

definition write_pending_scope ::
  "chrono \<Rightarrow> scope_codec \<Rightarrow> upload_scope \<Rightarrow> collect_sync_store_error + string" where
  "write_pending_scope c codec scope = ok_or SyncBackend (sc_write codec (stored_of_scope c scope))"

definition merge_pending_scope ::
  "chrono \<Rightarrow> scope_codec \<Rightarrow> account_key \<Rightarrow> upload_scope \<Rightarrow> i64 \<Rightarrow> sync_db
   \<Rightarrow> (collect_sync_store_error + upload_scope) \<times> sync_db" where
  "merge_pending_scope c codec account scope now =
     transact (\<lambda>db.
       bind_res (ensure_state c codec account now db) (\<lambda>(_, db1).
       bind_res (load_state c codec account db1) (\<lambda>loaded.
       bind_res (ok_or SyncNotFound loaded) (\<lambda>current.
       let merged = merge_upload_scopes (cs_pending_scope current) scope
       in bind_res (write_pending_scope c codec merged) (\<lambda>json.
          bind_res (update_state account
                      (\<lambda>r. r\<lparr>sy_pending_scope_json := Some json, sy_updated_at_ms := now\<rparr>) db1) (\<lambda>db2.
            Inr (merged, db2)))))))"

text \<open>Merging into every account: a scope that does not read back counts as none.\<close>

definition merge_row_scope ::
  "chrono \<Rightarrow> scope_codec \<Rightarrow> upload_scope \<Rightarrow> i64 \<Rightarrow> sync_state_row \<Rightarrow> sync_db
   \<Rightarrow> collect_sync_store_error + sync_db" where
  "merge_row_scope c codec scope now row db =
     (let current = Option.bind (sy_pending_scope_json row)
            (\<lambda>json. result_ok (read_pending_scope c codec json));
          merged = merge_upload_scopes current scope
      in bind_res (write_pending_scope c codec merged) (\<lambda>json.
           update_state (sy_account row)
             (\<lambda>r. r\<lparr>sy_pending_scope_json := Some json, sy_updated_at_ms := now\<rparr>) db))"

fun merge_rows_scope ::
  "chrono \<Rightarrow> scope_codec \<Rightarrow> upload_scope \<Rightarrow> i64 \<Rightarrow> sync_state_row list \<Rightarrow> sync_db
   \<Rightarrow> collect_sync_store_error + nat \<times> sync_db" where
  "merge_rows_scope c codec scope now [] db = Inr (0, db)"
| "merge_rows_scope c codec scope now (row # rows) db =
     bind_res (merge_row_scope c codec scope now row db) (\<lambda>db1.
     bind_res (merge_rows_scope c codec scope now rows db1) (\<lambda>(n, db2). Inr (Suc n, db2)))"

definition merge_pending_scope_for_all_accounts ::
  "chrono \<Rightarrow> scope_codec \<Rightarrow> upload_scope \<Rightarrow> i64 \<Rightarrow> sync_db
   \<Rightarrow> (collect_sync_store_error + nat) \<times> sync_db" where
  "merge_pending_scope_for_all_accounts c codec scope now =
     transact (\<lambda>db. merge_rows_scope c codec scope now (sd_states db) db)"

fun validate_prepared_revisions ::
  "i64 \<Rightarrow> nat \<Rightarrow> prepared_batch list \<Rightarrow> collect_sync_store_error + unit" where
  "validate_prepared_revisions first index [] = Inr ()"
| "validate_prepared_revisions first index (b # bs) =
     bind_res (ok_or SyncBackend (i64_checked_add first (int index))) (\<lambda>expected.
       if pb_client_revision b \<noteq> expected then Inl RevisionMismatch
       else if unat (pb_batch_index b) \<noteq> index then Inl SyncInvalidState
       else validate_prepared_revisions first (Suc index) bs)"

definition row_of_batch :: "account_key \<Rightarrow> string \<Rightarrow> i64 \<Rightarrow> int \<Rightarrow> prepared_batch \<Rightarrow> outbox_row" where
  "row_of_batch account gen now i b =
     \<lparr>ob_id = i, ob_account = account, ob_generation_id = gen,
      ob_batch_index = uint (pb_batch_index b), ob_batch_count = uint (pb_batch_count b),
      ob_client_revision = pb_client_revision b, ob_idempotency_key = pb_idempotency_key b,
      ob_request_body = pb_request_body b, ob_payload_hash = pb_payload_hash b,
      ob_window_scope = wire_scope_as_str (pb_window_scope b), ob_window_start = pb_window_start b,
      ob_window_end = pb_window_end b, ob_status = ''pending'', ob_created_at_ms = now,
      ob_accepted_at_ms = None\<rparr>"

definition insert_outbox_batch ::
  "account_key \<Rightarrow> string \<Rightarrow> i64 \<Rightarrow> prepared_batch \<Rightarrow> outbox_row list
   \<Rightarrow> collect_sync_store_error + outbox_row list" where
  "insert_outbox_batch account gen now b rows =
     (let row = row_of_batch account gen now (next_rowid (map ob_id rows)) b
      in if check_outbox row \<and> \<not> list_ex (outbox_clash row) rows then Inr (rows @ [row])
         else Inl SyncBackend)"

fun insert_outbox_batches ::
  "account_key \<Rightarrow> string \<Rightarrow> i64 \<Rightarrow> prepared_batch list \<Rightarrow> outbox_row list
   \<Rightarrow> collect_sync_store_error + outbox_row list" where
  "insert_outbox_batches account gen now [] rows = Inr rows"
| "insert_outbox_batches account gen now (b # bs) rows =
     bind_res (insert_outbox_batch account gen now b rows) (insert_outbox_batches account gen now bs)"

text \<open>The pending scope and the row of the account after a generation is materialized.\<close>

definition generation_pending_json ::
  "chrono \<Rightarrow> scope_codec \<Rightarrow> create_generation_input \<Rightarrow> collect_sync_state
   \<Rightarrow> collect_sync_store_error + string option" where
  "generation_pending_json c codec input state =
     (if cgi_clear_pending_scope input then Inr None
      else transpose_opt (write_pending_scope c codec) (cs_pending_scope state))"

definition generation_row ::
  "create_generation_input \<Rightarrow> collect_sync_state \<Rightarrow> i64 \<Rightarrow> string option \<Rightarrow> sync_state_row \<Rightarrow> sync_state_row" where
  "generation_row input state next_revision pending_json r =
     r\<lparr>sy_next_client_revision := next_revision,
       sy_baseline_status := baseline_as_str
         (if cgi_marks_baseline_in_progress input then BaselineInProgress else cs_baseline_status state),
       sy_active_generation_id :=
         (if cgi_prepared_batches input = [] then None else Some (cgi_generation_id input)),
       sy_pending_scope_json := pending_json, sy_updated_at_ms := cgi_now_ms input\<rparr>"

definition create_generation ::
  "chrono \<Rightarrow> scope_codec \<Rightarrow> create_generation_input \<Rightarrow> sync_db
   \<Rightarrow> (collect_sync_store_error + collect_sync_state \<times> outbox_batch list) \<times> sync_db" where
  "create_generation c codec input =
     transact (\<lambda>db.
       let account = cgi_account input; now = cgi_now_ms input; batches = cgi_prepared_batches input
       in bind_res (ensure_state c codec account now db) (\<lambda>(_, db1).
          bind_res (count_pending_batches account db1) (\<lambda>pending.
          if 0 < pending then Inl PendingGenerationExists
          else
          bind_res (load_state c codec account db1) (\<lambda>loaded.
          bind_res (ok_or SyncNotFound loaded) (\<lambda>state.
          bind_res (validate_prepared_revisions (cs_next_client_revision state) 0 batches) (\<lambda>_.
          bind_res (insert_outbox_batches account (cgi_generation_id input) now batches (sd_outbox db1)) (\<lambda>rows.
          bind_res (ok_or SyncBackend
              (i64_checked_add (cs_next_client_revision state) (int (length batches)))) (\<lambda>next_revision.
          bind_res (generation_pending_json c codec input state) (\<lambda>pending_json.
          bind_res (update_state account (generation_row input state next_revision pending_json)
                      (db1\<lparr>sd_outbox := rows\<rparr>)) (\<lambda>db2.
          bind_res (list_pending_batches account db2) (\<lambda>listed.
          bind_res (load_state c codec account db2) (\<lambda>reloaded.
          bind_res (ok_or SyncNotFound reloaded) (\<lambda>state'.
            Inr ((state', listed), db2))))))))))))))"

text \<open>The three statements of the acceptance: the row, the state of its account, the deletion.\<close>

definition accept_target :: "account_key \<Rightarrow> i64 \<Rightarrow> outbox_row \<Rightarrow> bool" where
  "accept_target account batch_id r \<longleftrightarrow>
     ob_id r = batch_id \<and> ob_account r = account \<and> ob_status r = ''pending''"

definition accept_row :: "i64 \<Rightarrow> outbox_row \<Rightarrow> outbox_row" where
  "accept_row accepted_at r = r\<lparr>ob_status := ''accepted'', ob_accepted_at_ms := Some accepted_at\<rparr>"

definition accepted_state :: "i64 \<Rightarrow> bool \<Rightarrow> sync_state_row \<Rightarrow> sync_state_row" where
  "accepted_state accepted_at none_left r =
     r\<lparr>sy_last_accepted_at_ms := Some accepted_at,
       sy_active_generation_id := (if none_left then None else sy_active_generation_id r),
       sy_updated_at_ms := accepted_at\<rparr>"

definition delete_target :: "account_key \<Rightarrow> i64 \<Rightarrow> outbox_row \<Rightarrow> bool" where
  "delete_target account batch_id r \<longleftrightarrow>
     ob_id r = batch_id \<and> ob_account r = account \<and> ob_status r = ''accepted''"

definition accept_in_transaction ::
  "account_key \<Rightarrow> i64 \<Rightarrow> i64 \<Rightarrow> sync_db \<Rightarrow> collect_sync_store_error + outbox_batch \<times> sync_db" where
  "accept_in_transaction account batch_id accepted_at db =
     (if list_ex (\<lambda>r. accept_target account batch_id r \<and> \<not> check_outbox (accept_row accepted_at r))
          (sd_outbox db) then Inl SyncBackend
      else if length (filter (accept_target account batch_id) (sd_outbox db)) \<noteq> 1 then Inl SyncNotFound
      else let db1 = db\<lparr>sd_outbox :=
                 update_where (accept_target account batch_id) (accept_row accepted_at) (sd_outbox db)\<rparr>
           in bind_res (update_state account
                (accepted_state accepted_at (pending_rows account db1 = [])) db1) (\<lambda>db2.
              bind_res (load_batch account batch_id db2) (\<lambda>loaded.
              bind_res (ok_or SyncNotFound loaded) (\<lambda>batch.
                Inr (batch, db2\<lparr>sd_outbox :=
                  filter (\<lambda>r. \<not> delete_target account batch_id r) (sd_outbox db2)\<rparr>)))))"

definition mark_batch_accepted ::
  "account_key \<Rightarrow> i64 \<Rightarrow> i64 \<Rightarrow> sync_db \<Rightarrow> (collect_sync_store_error + outbox_batch) \<times> sync_db" where
  "mark_batch_accepted account batch_id accepted_at =
     transact (accept_in_transaction account batch_id accepted_at)"

text \<open>
  The three updates outside a transaction: the row \<open>ensure_state\<close> inserts stays when the update
  fails.
\<close>

definition ensure_then_update ::
  "chrono \<Rightarrow> scope_codec \<Rightarrow> account_key \<Rightarrow> i64 \<Rightarrow> (sync_state_row \<Rightarrow> sync_state_row) \<Rightarrow> sync_db
   \<Rightarrow> (collect_sync_store_error + unit) \<times> sync_db" where
  "ensure_then_update c codec account now f db =
     (case ensure_state c codec account now db of
        Inl e \<Rightarrow> (Inl e, db)
      | Inr (_, db1) \<Rightarrow>
          (case update_state account f db1 of Inl e \<Rightarrow> (Inl e, db1) | Inr db2 \<Rightarrow> (Inr (), db2)))"

definition record_attempt_result ::
  "chrono \<Rightarrow> scope_codec \<Rightarrow> account_key \<Rightarrow> i64 \<Rightarrow> string option \<Rightarrow> string option \<Rightarrow> bool option
   \<Rightarrow> sync_db \<Rightarrow> (collect_sync_store_error + unit) \<times> sync_db" where
  "record_attempt_result c codec account now code message retryable =
     ensure_then_update c codec account now
       (\<lambda>r. r\<lparr>sy_last_attempt_at_ms := Some now, sy_last_error_code := code,
              sy_last_error_message := message,
              sy_last_error_retryable := map_option (\<lambda>b. if b then 1 else 0) retryable,
              sy_updated_at_ms := now\<rparr>)"

definition mark_baseline_complete ::
  "chrono \<Rightarrow> scope_codec \<Rightarrow> account_key \<Rightarrow> i64 \<Rightarrow> sync_db
   \<Rightarrow> (collect_sync_store_error + unit) \<times> sync_db" where
  "mark_baseline_complete c codec account now =
     ensure_then_update c codec account now
       (\<lambda>r. r\<lparr>sy_baseline_status := ''complete'', sy_updated_at_ms := now\<rparr>)"

definition set_device_registration ::
  "chrono \<Rightarrow> scope_codec \<Rightarrow> account_key \<Rightarrow> string \<Rightarrow> i64 \<Rightarrow> i64 \<Rightarrow> sync_db
   \<Rightarrow> (collect_sync_store_error + unit) \<times> sync_db" where
  "set_device_registration c codec account fingerprint registered now =
     ensure_then_update c codec account now
       (\<lambda>r. r\<lparr>sy_device_metadata_fingerprint := Some fingerprint,
              sy_device_registered_revision := Some registered, sy_updated_at_ms := now\<rparr>)"

end
