(* ===== verification/CollectSyncStoreFacts.thy ===== *)
theory CollectSyncStoreFacts
  imports CollectSyncStore
begin

text \<open>
  The upload store keeps its tables well formed and its outbox coherent: every row of the outbox is
  pending, its revision is below the next one of its account, all rows of an account belong to its
  active generation, and the pending scope always reads back.
\<close>

section \<open>Well-formed stores\<close>

text \<open>What the code relies on of the serializer and the calendar: a scope it wrote reads back.\<close>

definition scope_reads_back :: "chrono \<Rightarrow> scope_codec \<Rightarrow> bool" where
  "scope_reads_back c codec \<longleftrightarrow>
     (\<forall>scope json. upload_scope_ok scope \<longrightarrow> write_pending_scope c codec scope = Inr json \<longrightarrow>
        read_pending_scope c codec json = Inr scope)"

definition state_row_ok :: "chrono \<Rightarrow> scope_codec \<Rightarrow> sync_state_row \<Rightarrow> bool" where
  "state_row_ok c codec r \<longleftrightarrow>
     check_sync_state r \<and>
     (\<forall>json. sy_pending_scope_json r = Some json \<longrightarrow> (\<exists>scope. read_pending_scope c codec json = Inr scope))"

text \<open>An outbox row fits the state of its account.\<close>

definition outbox_fits :: "sync_state_row \<Rightarrow> outbox_row \<Rightarrow> bool" where
  "outbox_fits s r \<longleftrightarrow>
     sy_account s = ob_account r \<and> ob_client_revision r < sy_next_client_revision s \<and>
     sy_active_generation_id s = Some (ob_generation_id r)"

definition outbox_row_ok :: "sync_state_row list \<Rightarrow> outbox_row \<Rightarrow> bool" where
  "outbox_row_ok states r \<longleftrightarrow>
     check_outbox r \<and> ob_status r = ''pending'' \<and> list_ex (\<lambda>s. outbox_fits s r) states"

definition sync_db_ok :: "chrono \<Rightarrow> scope_codec \<Rightarrow> sync_db \<Rightarrow> bool" where
  "sync_db_ok c codec db \<longleftrightarrow>
     distinct (map sy_account (sd_states db)) \<and> list_all (state_row_ok c codec) (sd_states db) \<and>
     distinct (map ob_id (sd_outbox db)) \<and> list_all (outbox_row_ok (sd_states db)) (sd_outbox db) \<and>
     pairwise (\<lambda>r r'. \<not> outbox_clash r r') (set (sd_outbox db))"

lemma sync_db_ok_empty: "sync_db_ok c codec \<lparr>sd_states = [], sd_outbox = []\<rparr>"
  by (simp add: sync_db_ok_def pairwise_def)

section \<open>Reading\<close>

lemma transpose_opt_Inr:
  "transpose_opt f x = Inr y \<longleftrightarrow>
     (case x of None \<Rightarrow> y = None | Some v \<Rightarrow> (\<exists>z. f v = Inr z \<and> y = Some z))"
  by (cases x; cases y) (auto simp: transpose_opt_def map_ok_def split: sum.splits)

lemma baseline_parse_as_str [simp]: "baseline_parse (baseline_as_str b) = Some b"
  by (cases b) (simp_all add: baseline_parse_def)

lemma baseline_parse_checked:
  "s \<in> {''none'', ''in_progress'', ''complete''} \<Longrightarrow> \<exists>b. baseline_parse s = Some b"
  by (auto simp: baseline_parse_def)

lemma baseline_as_str_checked: "baseline_as_str b \<in> {''none'', ''in_progress'', ''complete''}"
  by (cases b) simp_all

lemma state_row_Some:
  "state_row account db = Some r \<Longrightarrow> r \<in> set (sd_states db) \<and> sy_account r = account"
  by (auto simp: state_row_def find_Some_iff)

lemma state_row_None: "state_row account db = None \<longleftrightarrow> account \<notin> sy_account ` set (sd_states db)"
  by (auto simp: state_row_def find_None_iff)

lemma state_row_member:
  assumes "distinct (map sy_account (sd_states db))" and "r \<in> set (sd_states db)"
  shows "state_row (sy_account r) db = Some r"
proof -
  have "state_row (sy_account r) db \<noteq> None" using assms(2) by (auto simp: state_row_None)
  then obtain r' where r': "state_row (sy_account r) db = Some r'" by auto
  with assms state_row_Some [OF r'] show ?thesis
    by (auto simp: distinct_map inj_on_def)
qed

lemma state_of_row_ok:
  assumes "state_row_ok c codec r"
  obtains s where "state_of_row c codec account r = Inr s"
proof -
  from assms obtain b where "baseline_parse (sy_baseline_status r) = Some b"
    using baseline_parse_checked by (auto simp: state_row_ok_def check_sync_state_def)
  moreover obtain sc where "transpose_opt (read_pending_scope c codec) (sy_pending_scope_json r) = Inr sc"
  proof (cases "sy_pending_scope_json r")
    case None
    then show thesis by (intro that) (simp add: transpose_opt_def)
  next
    case (Some json)
    with assms obtain scope where "read_pending_scope c codec json = Inr scope"
      by (auto simp: state_row_ok_def)
    with Some show thesis by (intro that) (simp add: transpose_opt_def)
  qed
  ultimately show thesis by (intro that) (simp add: state_of_row_def)
qed

lemma state_of_row_fields:
  assumes "state_of_row c codec account r = Inr s"
  shows "cs_account s = account" "cs_next_client_revision s = sy_next_client_revision r"
    "baseline_parse (sy_baseline_status r) = Some (cs_baseline_status s)"
    "transpose_opt (read_pending_scope c codec) (sy_pending_scope_json r) = Inr (cs_pending_scope s)"
    "cs_device_registered_revision s = sy_device_registered_revision r"
    "cs_active_generation_id s = sy_active_generation_id r"
  using assms by (auto simp: state_of_row_def bind_res_Inr ok_or_Inr)

lemma load_state_Inr:
  "load_state c codec account db = Inr loaded \<longleftrightarrow>
     (case state_row account db of None \<Rightarrow> loaded = None
      | Some r \<Rightarrow> (\<exists>s. state_of_row c codec account r = Inr s \<and> loaded = Some s))"
  by (simp add: load_state_def transpose_opt_Inr split: option.splits)

lemma pending_scope_ok:
  assumes "state_of_row c codec account r = Inr s" and "cs_pending_scope s = Some scope"
  shows "upload_scope_ok scope"
  using state_of_row_fields(4) [OF assms(1)] assms(2)
  by (auto simp: transpose_opt_Inr read_pending_scope_def bind_res_Inr map_err_Inr
      split: option.splits dest: scope_of_stored_ok)

section \<open>Writing the state\<close>

lemma ensure_state_Inr:
  assumes "ensure_state c codec account now db = Inr (s, db1)" and "sync_db_ok c codec db"
  shows "sync_db_ok c codec db1" and "sd_outbox db1 = sd_outbox db"
    and "\<exists>r. state_row account db1 = Some r \<and> state_of_row c codec account r = Inr s"
    and "set (sd_states db) \<subseteq> set (sd_states db1)"
proof -
  let ?row = "fresh_state_row account now"
  let ?db1 = "db\<lparr>sd_states := sd_states db @ [?row]\<rparr>"
  have "sync_db_ok c codec db1 \<and> sd_outbox db1 = sd_outbox db \<and>
      (\<exists>r. state_row account db1 = Some r \<and> state_of_row c codec account r = Inr s) \<and>
      set (sd_states db) \<subseteq> set (sd_states db1)"
  proof (cases "state_row account db")
    case None
    with assms(1) have fresh: "check_sync_state ?row" "account \<notin> sy_account ` set (sd_states db)"
      and db1: "db1 = ?db1" and loaded: "load_state c codec account ?db1 = Inr (Some s)"
      by (auto simp: ensure_state_def load_state_def transpose_opt_def Let_def bind_res_Inr ok_or_Inr
          split: if_splits)
    have "state_row_ok c codec ?row"
      using fresh(1) by (simp add: state_row_ok_def fresh_state_row_def)
    moreover have "sy_account ?row = account" by (simp add: fresh_state_row_def)
    ultimately have "sync_db_ok c codec db1"
      using assms(2) fresh(2) by (auto simp: sync_db_ok_def db1 outbox_row_ok_def list_all_iff)
    with loaded show ?thesis
      by (auto simp: db1 load_state_Inr split: option.splits)
  next
    case (Some r)
    with assms(1) have "load_state c codec account db = Inr (Some s) \<and> db1 = db"
      by (auto simp: ensure_state_def bind_res_Inr load_state_Inr Let_def split: option.splits if_splits)
    with assms(2) Some show ?thesis by (auto simp: load_state_Inr)
  qed
  then show "sync_db_ok c codec db1" "sd_outbox db1 = sd_outbox db"
    "\<exists>r. state_row account db1 = Some r \<and> state_of_row c codec account r = Inr s"
    "set (sd_states db) \<subseteq> set (sd_states db1)" by auto
qed

text \<open>An update of one account's row.\<close>

lemma update_state_ok:
  assumes "update_state account f db = Inr db'" and "sync_db_ok c codec db"
    and acc: "\<And>r. sy_account (f r) = sy_account r"
    and scope: "\<And>r json. \<lbrakk>r \<in> set (sd_states db); sy_account r = account; sy_pending_scope_json (f r) = Some json\<rbrakk>
      \<Longrightarrow> \<exists>scope. read_pending_scope c codec json = Inr scope"
    and fits: "\<And>r ob. \<lbrakk>ob \<in> set (sd_outbox db); outbox_fits r ob; sy_account r = account\<rbrakk> \<Longrightarrow> outbox_fits (f r) ob"
  shows "sync_db_ok c codec db'"
proof -
  have checked: "\<And>r. \<lbrakk>r \<in> set (sd_states db); sy_account r = account\<rbrakk> \<Longrightarrow> check_sync_state (f r)"
    and db': "db' = db\<lparr>sd_states := update_where (\<lambda>r. sy_account r = account) f (sd_states db)\<rparr>"
    using assms(1) by (auto simp: update_state_def list_all_iff split: if_splits)
  have "map sy_account (update_where (\<lambda>r. sy_account r = account) f (sd_states db)) =
      map sy_account (sd_states db)" by (rule update_where_map) (rule acc)
  moreover have "list_all (state_row_ok c codec) (update_where (\<lambda>r. sy_account r = account) f (sd_states db))"
    using assms(2) checked scope
    by (auto simp: update_where_set list_all_iff sync_db_ok_def state_row_ok_def)
  moreover have "outbox_row_ok (update_where (\<lambda>r. sy_account r = account) f (sd_states db)) ob"
    if "ob \<in> set (sd_outbox db)" for ob
  proof -
    from that assms(2) obtain s where s: "s \<in> set (sd_states db)" "outbox_fits s ob"
      and ob: "check_outbox ob" "ob_status ob = ''pending''"
      by (auto simp: sync_db_ok_def list_all_iff outbox_row_ok_def list_ex_iff)
    then have "outbox_fits (if sy_account s = account then f s else s) ob" using fits that by auto
    with s(1) ob show ?thesis
      by (cases "sy_account s = account") (auto simp: outbox_row_ok_def list_ex_iff update_where_def)
  qed
  ultimately show ?thesis
    using assms(2) by (simp add: sync_db_ok_def db' list_all_iff)
qed

lemma update_state_frame:
  "update_state account f db = Inr db' \<Longrightarrow>
     sd_outbox db' = sd_outbox db \<and> sd_states db' = update_where (\<lambda>r. sy_account r = account) f (sd_states db)"
  by (auto simp: update_state_def split: if_splits)

lemma transact_ok:
  assumes "I db" and "\<And>x db'. body db = Inr (x, db') \<Longrightarrow> I db'"
  shows "I (snd (transact body db))"
  using assms by (cases "body db") (auto simp: transact_def)

lemma sync_ensure_state_keeps:
  "sync_db_ok c codec db \<Longrightarrow> sync_db_ok c codec (snd (sync_ensure_state c codec account now db))"
  unfolding sync_ensure_state_def by (rule transact_ok) (auto dest: ensure_state_Inr(1))

lemma write_reads_back:
  assumes "scope_reads_back c codec" and "upload_scope_ok scope" and "write_pending_scope c codec scope = Inr json"
  shows "read_pending_scope c codec json = Inr scope"
  using assms by (auto simp: scope_reads_back_def)

lemma merge_pending_scope_Inr:
  assumes "merge_pending_scope c codec account scope now db = (Inr merged, db')" and "sync_db_ok c codec db"
  obtains s db1 r json where "ensure_state c codec account now db = Inr (s, db1)"
    "state_row account db1 = Some r" "state_of_row c codec account r = Inr s"
    "merged = merge_upload_scopes (cs_pending_scope s) scope"
    "write_pending_scope c codec merged = Inr json"
    "update_state account (\<lambda>r. r\<lparr>sy_pending_scope_json := Some json, sy_updated_at_ms := now\<rparr>) db1 = Inr db'"
proof -
  from assms(1) obtain s db1 loaded current json where
    ensured: "ensure_state c codec account now db = Inr (s, db1)"
    and rest: "load_state c codec account db1 = Inr loaded" "loaded = Some current"
    "merged = merge_upload_scopes (cs_pending_scope current) scope"
    "write_pending_scope c codec merged = Inr json"
    "update_state account (\<lambda>r. r\<lparr>sy_pending_scope_json := Some json, sy_updated_at_ms := now\<rparr>) db1 = Inr db'"
    by (auto simp: merge_pending_scope_def transact_def bind_res_Inr ok_or_Inr Let_def split: sum.splits)
  from ensure_state_Inr(3) [OF ensured assms(2)] obtain r where
    r: "state_row account db1 = Some r" "state_of_row c codec account r = Inr s" by auto
  with rest(1,2) have "current = s" by (simp add: load_state_Inr)
  with ensured r rest show thesis by (intro that) auto
qed

lemma merge_pending_scope_keeps:
  assumes "sync_db_ok c codec db" and "scope_reads_back c codec" and "upload_scope_ok scope"
  shows "sync_db_ok c codec (snd (merge_pending_scope c codec account scope now db))"
proof (cases "merge_pending_scope c codec account scope now db")
  case (Pair result db')
  show ?thesis
  proof (cases result)
    case (Inl e)
    with Pair assms(1) show ?thesis by (auto simp: merge_pending_scope_def transact_def split: sum.splits)
  next
    case (Inr merged)
    obtain s db1 r json where run: "ensure_state c codec account now db = Inr (s, db1)"
      "state_of_row c codec account r = Inr s"
      "merged = merge_upload_scopes (cs_pending_scope s) scope"
      "write_pending_scope c codec merged = Inr json"
      "update_state account (\<lambda>r. r\<lparr>sy_pending_scope_json := Some json, sy_updated_at_ms := now\<rparr>) db1 = Inr db'"
      using merge_pending_scope_Inr [OF Pair [unfolded Inr] assms(1)] by metis
    have "upload_scope_ok merged"
      unfolding run(3) using pending_scope_ok [OF run(2)] assms(3)
      by (intro merge_upload_scopes_ok) (auto simp: option.pred_set)
    from write_reads_back [OF assms(2) this run(4)] have "read_pending_scope c codec json = Inr merged" .
    then have "sync_db_ok c codec db'"
      by (intro update_state_ok [OF run(5) ensure_state_Inr(1) [OF run(1) assms(1)]])
         (auto simp: outbox_fits_def)
    with Pair show ?thesis by simp
  qed
qed

lemma merge_row_scope_keeps:
  assumes "merge_row_scope c codec scope now row db = Inr db'" and "sync_db_ok c codec db"
    and "scope_reads_back c codec" and "upload_scope_ok scope"
  shows "sync_db_ok c codec db'"
proof -
  obtain merged json where m: "merged = merge_upload_scopes (Option.bind (sy_pending_scope_json row)
        (\<lambda>json. result_ok (read_pending_scope c codec json))) scope"
    and json: "write_pending_scope c codec merged = Inr json"
    and upd: "update_state (sy_account row)
        (\<lambda>r. r\<lparr>sy_pending_scope_json := Some json, sy_updated_at_ms := now\<rparr>) db = Inr db'"
    using assms(1) by (auto simp: merge_row_scope_def Let_def bind_res_Inr)
  have "upload_scope_ok merged"
    unfolding m using assms(4)
    by (intro merge_upload_scopes_ok)
       (auto simp: option.pred_set bind_eq_Some_conv result_ok_def read_pending_scope_def bind_res_Inr
         map_err_Inr split: sum.splits dest: scope_of_stored_ok)
  from write_reads_back [OF assms(3) this json] have "read_pending_scope c codec json = Inr merged" .
  then show ?thesis
    by (intro update_state_ok [OF upd assms(2)]) (auto simp: outbox_fits_def)
qed

lemma merge_rows_scope_keeps:
  "\<lbrakk>merge_rows_scope c codec scope now rows db = Inr (n, db'); sync_db_ok c codec db;
    scope_reads_back c codec; upload_scope_ok scope\<rbrakk> \<Longrightarrow> sync_db_ok c codec db'"
proof (induction rows arbitrary: db n db')
  case (Cons row rows)
  then obtain db1 m where "merge_row_scope c codec scope now row db = Inr db1"
    "merge_rows_scope c codec scope now rows db1 = Inr (m, db')"
    by (auto simp: bind_res_Inr)
  with Cons merge_row_scope_keeps show ?case by blast
qed simp

lemma merge_for_all_keeps:
  assumes "sync_db_ok c codec db" and "scope_reads_back c codec" and "upload_scope_ok scope"
  shows "sync_db_ok c codec (snd (merge_pending_scope_for_all_accounts c codec scope now db))"
  unfolding merge_pending_scope_for_all_accounts_def
  by (rule transact_ok) (use assms merge_rows_scope_keeps in \<open>auto intro: assms(1)\<close>)

lemma ensure_then_update_keeps:
  assumes "sync_db_ok c codec db" and "\<And>r. sy_account (f r) = sy_account r"
    and "\<And>r. sy_pending_scope_json (f r) = sy_pending_scope_json r"
    and "\<And>r. sy_next_client_revision (f r) = sy_next_client_revision r"
    and "\<And>r. sy_active_generation_id (f r) = sy_active_generation_id r"
  shows "sync_db_ok c codec (snd (ensure_then_update c codec account now f db))"
proof (cases "ensure_state c codec account now db")
  case (Inl e)
  with assms(1) show ?thesis by (simp add: ensure_then_update_def)
next
  case (Inr p)
  obtain s db1 where p: "p = (s, db1)" by (cases p)
  note ensured = ensure_state_Inr [OF Inr [unfolded p] assms(1)]
  show ?thesis
  proof (cases "update_state account f db1")
    case upd: (Inr db2)
    have "sync_db_ok c codec db2"
      by (rule update_state_ok [OF upd ensured(1) assms(2)])
         (use assms(2-5) ensured(1) in
           \<open>auto simp: outbox_fits_def sync_db_ok_def list_all_iff state_row_ok_def\<close>)
    with Inr p upd show ?thesis by (simp add: ensure_then_update_def)
  qed (use Inr p ensured in \<open>simp add: ensure_then_update_def\<close>)
qed

section \<open>Writing the outbox\<close>

lemma insert_outbox_batch_Inr:
  "insert_outbox_batch account gen now b rows = Inr rows' \<longleftrightarrow>
     (let row = row_of_batch account gen now (next_rowid (map ob_id rows)) b
      in check_outbox row \<and> \<not> list_ex (outbox_clash row) rows \<and> rows' = rows @ [row])"
  by (auto simp: insert_outbox_batch_def Let_def)

lemma outbox_clash_sym: "outbox_clash r r' = outbox_clash r' r"
  by (auto simp: outbox_clash_def)

text \<open>What inserting a generation appends.\<close>

lemma insert_outbox_batches_Inr:
  assumes "insert_outbox_batches account gen now bs rows = Inr rows'"
    and "distinct (map ob_id rows)" and "pairwise (\<lambda>r r'. \<not> outbox_clash r r') (set rows)"
  shows "\<exists>added. rows' = rows @ added \<and>
      list_all2 (\<lambda>b r. \<exists>i. r = row_of_batch account gen now i b \<and> check_outbox r) bs added \<and>
      distinct (map ob_id rows') \<and> pairwise (\<lambda>r r'. \<not> outbox_clash r r') (set rows')"
  using assms
proof (induction bs arbitrary: rows)
  case (Cons b bs)
  define row where "row = row_of_batch account gen now (next_rowid (map ob_id rows)) b"
  from Cons.prems(1) have row: "check_outbox row" "\<not> list_ex (outbox_clash row) rows"
    and rest: "insert_outbox_batches account gen now bs (rows @ [row]) = Inr rows'"
    by (auto simp: bind_res_Inr insert_outbox_batch_Inr Let_def row_def)
  have "distinct (map ob_id (rows @ [row]))"
    using Cons.prems(2) next_rowid_not_in [of "map ob_id rows"] by (simp add: row_def row_of_batch_def)
  moreover have "pairwise (\<lambda>r r'. \<not> outbox_clash r r') (set (rows @ [row]))"
    using Cons.prems(3) row(2) by (auto simp: pairwise_insert list_ex_iff outbox_clash_sym)
  ultimately obtain added where "rows' = (rows @ [row]) @ added"
    "list_all2 (\<lambda>b r. \<exists>i. r = row_of_batch account gen now i b \<and> check_outbox r) bs added"
    "distinct (map ob_id rows')" "pairwise (\<lambda>r r'. \<not> outbox_clash r r') (set rows')"
    using Cons.IH [OF rest] by blast
  with row(1) show ?case by (intro exI [of _ "row # added"]) (auto simp: row_def)
qed simp

lemma validate_prepared_revisions_Inr:
  "validate_prepared_revisions first index bs = Inr () \<Longrightarrow>
     \<forall>k < length bs. pb_client_revision (bs ! k) = first + int (index + k) \<and>
       unat (pb_batch_index (bs ! k)) = index + k"
proof (induction bs arbitrary: index)
  case (Cons b bs)
  then have now: "pb_client_revision b = first + int index" "unat (pb_batch_index b) = index"
    and rest: "validate_prepared_revisions first (Suc index) bs = Inr ()"
    by (auto simp: bind_res_Inr ok_or_Inr i64_checked_add_Some split: if_splits)
  show ?case
  proof (intro allI impI)
    fix k assume "k < length (b # bs)"
    then show "pb_client_revision ((b # bs) ! k) = first + int (index + k) \<and>
        unat (pb_batch_index ((b # bs) ! k)) = index + k"
      using now Cons.IH [OF rest] by (cases k) (auto simp: algebra_simps)
  qed
qed simp

text \<open>An update of one account's row together with a new outbox.\<close>

lemma update_state_with_outbox:
  assumes "update_state account f (db\<lparr>sd_outbox := rows\<rparr>) = Inr db'" and "sync_db_ok c codec db"
    and acc: "\<And>r. sy_account (f r) = sy_account r"
    and scope: "\<And>r json. \<lbrakk>r \<in> set (sd_states db); sy_account r = account; sy_pending_scope_json (f r) = Some json\<rbrakk>
      \<Longrightarrow> \<exists>scope. read_pending_scope c codec json = Inr scope"
    and ids: "distinct (map ob_id rows)" and clash: "pairwise (\<lambda>r r'. \<not> outbox_clash r r') (set rows)"
    and others: "\<And>ob. \<lbrakk>ob \<in> set rows; ob_account ob \<noteq> account\<rbrakk> \<Longrightarrow> ob \<in> set (sd_outbox db)"
    and mine: "\<And>ob. \<lbrakk>ob \<in> set rows; ob_account ob = account\<rbrakk> \<Longrightarrow>
      check_outbox ob \<and> ob_status ob = ''pending'' \<and>
      (\<exists>r \<in> set (sd_states db). sy_account r = account \<and> outbox_fits (f r) ob)"
  shows "sync_db_ok c codec db'"
proof -
  let ?states = "update_where (\<lambda>r. sy_account r = account) f (sd_states db)"
  have checked: "\<And>r. \<lbrakk>r \<in> set (sd_states db); sy_account r = account\<rbrakk> \<Longrightarrow> check_sync_state (f r)"
    and db': "db' = db\<lparr>sd_outbox := rows, sd_states := ?states\<rparr>"
    using assms(1) by (auto simp: update_state_def list_all_iff split: if_splits)
  have "map sy_account ?states = map sy_account (sd_states db)" by (rule update_where_map) (rule acc)
  moreover have "list_all (state_row_ok c codec) ?states"
    using assms(2) checked scope
    by (auto simp: update_where_set list_all_iff sync_db_ok_def state_row_ok_def)
  moreover have "outbox_row_ok ?states ob" if ob: "ob \<in> set rows" for ob
  proof (cases "ob_account ob = account")
    case True
    with mine [OF ob] show ?thesis
      by (auto simp: outbox_row_ok_def list_ex_iff update_where_def)
  next
    case False
    with others ob have "ob \<in> set (sd_outbox db)" by simp
    with assms(2) obtain s where s: "s \<in> set (sd_states db)" "outbox_fits s ob"
      and ok: "check_outbox ob" "ob_status ob = ''pending''"
      by (auto simp: sync_db_ok_def list_all_iff outbox_row_ok_def list_ex_iff)
    with False have "sy_account s \<noteq> account" by (simp add: outbox_fits_def)
    with s(1) have "s \<in> set ?states" by (auto simp: update_where_set)
    with s(2) ok show ?thesis by (auto simp: outbox_row_ok_def list_ex_iff)
  qed
  ultimately show ?thesis
    using assms(2) ids clash by (simp add: sync_db_ok_def db' list_all_iff)
qed

lemma count_pending_zero:
  "\<lbrakk>count_pending_batches account db = Inr n; \<not> 0 < n\<rbrakk> \<Longrightarrow> pending_rows account db = []"
proof -
  assume "count_pending_batches account db = Inr n" and "\<not> 0 < n"
  then have "length (pending_rows account db) < 2 ^ 32" "n = word_of_nat (length (pending_rows account db))"
    and "n = 0"
    by (auto simp: count_pending_batches_def ok_or_Inr u32_of_nat_def word_gt_0 split: if_splits)
  then have "(word_of_nat (length (pending_rows account db)) :: u32) = 0" by simp
  then have "unat (word_of_nat (length (pending_rows account db)) :: u32) = 0" by (simp only: unsigned_0)
  with \<open>length (pending_rows account db) < 2 ^ 32\<close> show ?thesis by (simp add: unat_of_nat)
qed

lemma pending_rows_ok:
  "sync_db_ok c codec db \<Longrightarrow> pending_rows account db = filter (\<lambda>r. ob_account r = account) (sd_outbox db)"
  by (auto simp: pending_rows_def sync_db_ok_def list_all_iff outbox_row_ok_def intro!: filter_cong)

lemma create_generation_Inr:
  assumes "create_generation c codec input db = (Inr (s', listed), db')" and "sync_db_ok c codec db"
  obtains s db1 r rows json where
    "ensure_state c codec (cgi_account input) (cgi_now_ms input) db = Inr (s, db1)"
    "pending_rows (cgi_account input) db1 = []"
    "state_row (cgi_account input) db1 = Some r" "state_of_row c codec (cgi_account input) r = Inr s"
    "validate_prepared_revisions (cs_next_client_revision s) 0 (cgi_prepared_batches input) = Inr ()"
    "insert_outbox_batches (cgi_account input) (cgi_generation_id input) (cgi_now_ms input)
       (cgi_prepared_batches input) (sd_outbox db1) = Inr rows"
    "generation_pending_json c codec input s = Inr json"
    "update_state (cgi_account input)
       (generation_row input s (cs_next_client_revision s + int (length (cgi_prepared_batches input))) json)
       (db1\<lparr>sd_outbox := rows\<rparr>) = Inr db'"
    "list_pending_batches (cgi_account input) db' = Inr listed"
    "load_state c codec (cgi_account input) db' = Inr (Some s')"
proof -
  from assms(1) obtain s db1 pending state rows json where
    ensured: "ensure_state c codec (cgi_account input) (cgi_now_ms input) db = Inr (s, db1)"
    and count: "count_pending_batches (cgi_account input) db1 = Inr pending" "\<not> 0 < pending"
    and load: "load_state c codec (cgi_account input) db1 = Inr (Some state)"
    and more: "validate_prepared_revisions (cs_next_client_revision state) 0 (cgi_prepared_batches input) = Inr ()"
      "insert_outbox_batches (cgi_account input) (cgi_generation_id input) (cgi_now_ms input)
       (cgi_prepared_batches input) (sd_outbox db1) = Inr rows"
      "generation_pending_json c codec input state = Inr json"
      "update_state (cgi_account input)
       (generation_row input state (cs_next_client_revision state + int (length (cgi_prepared_batches input))) json)
       (db1\<lparr>sd_outbox := rows\<rparr>) = Inr db'"
      "list_pending_batches (cgi_account input) db' = Inr listed"
      "load_state c codec (cgi_account input) db' = Inr (Some s')"
    by (auto simp: create_generation_def transact_def Let_def bind_res_Inr ok_or_Inr
        i64_checked_add_Some split: sum.splits if_split_asm)
  from ensure_state_Inr(3) [OF ensured assms(2)] obtain r where
    r: "state_row (cgi_account input) db1 = Some r" "state_of_row c codec (cgi_account input) r = Inr s" by auto
  with load have "state = s" by (simp add: load_state_Inr)
  with ensured count_pending_zero [OF count] r more show thesis by (intro that) auto
qed

lemma create_generation_keeps:
  assumes "sync_db_ok c codec db" and "scope_reads_back c codec"
  shows "sync_db_ok c codec (snd (create_generation c codec input db))"
proof (cases "create_generation c codec input db")
  case (Pair result db')
  show ?thesis
  proof (cases result)
    case (Inl e)
    with Pair assms(1) show ?thesis by (auto simp: create_generation_def transact_def split: sum.splits)
  next
    case (Inr out)
    obtain s' listed where out: "out = (s', listed)" by (cases out)
    obtain s db1 r rows json where run:
      "ensure_state c codec (cgi_account input) (cgi_now_ms input) db = Inr (s, db1)"
      "pending_rows (cgi_account input) db1 = []"
      "state_row (cgi_account input) db1 = Some r" "state_of_row c codec (cgi_account input) r = Inr s"
      "validate_prepared_revisions (cs_next_client_revision s) 0 (cgi_prepared_batches input) = Inr ()"
      "insert_outbox_batches (cgi_account input) (cgi_generation_id input) (cgi_now_ms input)
         (cgi_prepared_batches input) (sd_outbox db1) = Inr rows"
      "generation_pending_json c codec input s = Inr json"
      "update_state (cgi_account input)
       (generation_row input s (cs_next_client_revision s + int (length (cgi_prepared_batches input))) json)
       (db1\<lparr>sd_outbox := rows\<rparr>) = Inr db'"
      by (rule create_generation_Inr [OF Pair [unfolded Inr out] assms(1)]) blast
    note ok1 = ensure_state_Inr(1) [OF run(1) assms(1)]
    have old: "\<forall>ob \<in> set (sd_outbox db1). ob_account ob \<noteq> cgi_account input"
      using run(2) by (simp add: pending_rows_ok [OF ok1] filter_empty_conv)
    from ok1 have "distinct (map ob_id (sd_outbox db1))" "pairwise (\<lambda>r r'. \<not> outbox_clash r r') (set (sd_outbox db1))"
      by (simp_all add: sync_db_ok_def)
    from insert_outbox_batches_Inr [OF run(6) this] obtain added where added: "rows = sd_outbox db1 @ added"
      "list_all2 (\<lambda>b r. \<exists>i. r = row_of_batch (cgi_account input) (cgi_generation_id input) (cgi_now_ms input) i b
         \<and> check_outbox r) (cgi_prepared_batches input) added"
      "distinct (map ob_id rows)" "pairwise (\<lambda>r r'. \<not> outbox_clash r r') (set rows)" by blast
    have added_account: "\<forall>ob \<in> set added. ob_account ob = cgi_account input"
    proof
      fix ob assume "ob \<in> set added"
      then obtain k where "k < length added" "ob = added ! k" by (auto simp: in_set_conv_nth)
      with added(2) obtain i where "ob = row_of_batch (cgi_account input) (cgi_generation_id input)
          (cgi_now_ms input) i (cgi_prepared_batches input ! k)"
        by (auto dest: list_all2_nthD2)
      then show "ob_account ob = cgi_account input" by (simp add: row_of_batch_def)
    qed
    have "sync_db_ok c codec db'"
    proof (rule update_state_with_outbox [OF run(8) ok1 _ _ added(3,4)])
      fix row payload assume "sy_pending_scope_json (generation_row input s
        (cs_next_client_revision s + int (length (cgi_prepared_batches input))) json row) = Some payload"
      then obtain scope where "cs_pending_scope s = Some scope" "write_pending_scope c codec scope = Inr payload"
        using run(7) by (auto simp: generation_row_def generation_pending_json_def transpose_opt_Inr
            split: if_splits option.splits)
      with write_reads_back [OF assms(2) pending_scope_ok [OF run(4)]]
      show "\<exists>scope. read_pending_scope c codec payload = Inr scope" by blast
    next
      fix ob assume ob: "ob \<in> set rows" "ob_account ob = cgi_account input"
      with added(1) old have "ob \<in> set added" by auto
      with added(2) obtain k i where k: "k < length (cgi_prepared_batches input)"
        and obk: "ob = row_of_batch (cgi_account input) (cgi_generation_id input) (cgi_now_ms input) i
           (cgi_prepared_batches input ! k)" and chk: "check_outbox ob"
        by (auto simp: list_all2_conv_all_nth in_set_conv_nth)
      have "ob_client_revision ob < cs_next_client_revision s + int (length (cgi_prepared_batches input))"
        using validate_prepared_revisions_Inr [OF run(5)] k by (simp add: obk row_of_batch_def)
      then show "check_outbox ob \<and> ob_status ob = ''pending'' \<and>
          (\<exists>row \<in> set (sd_states db1). sy_account row = cgi_account input \<and> outbox_fits (generation_row input s
            (cs_next_client_revision s + int (length (cgi_prepared_batches input))) json row) ob)"
        using chk state_row_Some [OF run(3)] k ob(2)
        by (auto simp: outbox_fits_def generation_row_def obk row_of_batch_def intro!: bexI [of _ r])
    qed (use added(1) added_account in \<open>auto simp: generation_row_def\<close>)
    with Pair show ?thesis by simp
  qed
qed

lemma map_outbox_row_id: "map_outbox_row account r = Inr b \<Longrightarrow> xb_id b = ob_id r \<and>
    xb_request_body b = ob_request_body r \<and> xb_idempotency_key b = ob_idempotency_key r \<and>
    xb_client_revision b = ob_client_revision r"
  by (auto simp: map_outbox_row_def bind_res_Inr split: if_splits)

lemma filter_map_same:
  "(\<And>x. x \<in> set xs \<Longrightarrow> p (g x) = q x \<and> (q x \<longrightarrow> g x = x)) \<Longrightarrow> filter p (map g xs) = filter q xs"
  by (induction xs) auto

lemma find_Some_member: "find p xs = Some x \<Longrightarrow> x \<in> set xs \<and> p x"
  by (auto simp: find_Some_iff)

text \<open>Accepting a batch removes exactly its row.\<close>

lemma accept_in_transaction_Inr:
  assumes "accept_in_transaction account batch_id t db = Inr (b, db')"
  obtains rows db2 where
    "rows = update_where (accept_target account batch_id) (accept_row t) (sd_outbox db)"
    "length (filter (accept_target account batch_id) (sd_outbox db)) = 1"
    "update_state account (accepted_state t (pending_rows account (db\<lparr>sd_outbox := rows\<rparr>) = []))
       (db\<lparr>sd_outbox := rows\<rparr>) = Inr db2"
    "load_batch account batch_id db2 = Inr (Some b)"
    "db' = db2\<lparr>sd_outbox := filter (\<lambda>r. \<not> delete_target account batch_id r) rows\<rparr>"
proof -
  define rows where "rows = update_where (accept_target account batch_id) (accept_row t) (sd_outbox db)"
  from assms obtain db2 where one: "length (filter (accept_target account batch_id) (sd_outbox db)) = 1"
    and upd: "update_state account (accepted_state t (pending_rows account (db\<lparr>sd_outbox := rows\<rparr>) = []))
       (db\<lparr>sd_outbox := rows\<rparr>) = Inr db2"
    and load: "load_batch account batch_id db2 = Inr (Some b)"
    and db': "db' = db2\<lparr>sd_outbox := filter (\<lambda>r. \<not> delete_target account batch_id r) (sd_outbox db2)\<rparr>"
    unfolding accept_in_transaction_def Let_def rows_def [symmetric]
    by (auto simp: bind_res_Inr ok_or_Inr split: if_split_asm)
  from update_state_frame [OF upd] have "sd_outbox db2 = rows" by simp
  with one upd load db' show thesis by (intro that [OF rows_def]) simp_all
qed

text \<open>What accepting does to one row of a well-formed outbox.\<close>

lemma accept_row_cases:
  assumes "x \<in> set (sd_outbox db)" and "sync_db_ok c codec db" and "r \<in> set (sd_outbox db)"
    and "ob_id r = batch_id" and "ob_account r = account"
  shows "accept_target account batch_id x \<longleftrightarrow> ob_id x = batch_id" and "ob_id x = batch_id \<Longrightarrow> x = r"
    and "\<not> delete_target account batch_id x"
proof -
  from assms(2) have "distinct (map ob_id (sd_outbox db))" "ob_status r = ''pending''"
    using assms(3) by (auto simp: sync_db_ok_def list_all_iff outbox_row_ok_def)
  moreover have "ob_status x = ''pending''"
    using assms(1,2) by (auto simp: sync_db_ok_def list_all_iff outbox_row_ok_def)
  ultimately show "accept_target account batch_id x \<longleftrightarrow> ob_id x = batch_id" "ob_id x = batch_id \<Longrightarrow> x = r"
    "\<not> delete_target account batch_id x"
    using assms(1,3-5) by (auto simp: distinct_map inj_on_def accept_target_def delete_target_def)
qed

lemma mark_batch_accepted_Inr:
  assumes "mark_batch_accepted account batch_id t db = (Inr b, db')" and "sync_db_ok c codec db"
  obtains r where "r \<in> set (sd_outbox db)" "ob_id r = batch_id" "ob_account r = account"
    "xb_id b = batch_id" "xb_request_body b = ob_request_body r"
    "update_state account (accepted_state t (filter (\<lambda>r. ob_account r = account \<and> ob_id r \<noteq> batch_id) (sd_outbox db) = []))
       (db\<lparr>sd_outbox := filter (\<lambda>r. ob_id r \<noteq> batch_id) (sd_outbox db)\<rparr>) = Inr db'"
proof -
  let ?outbox = "sd_outbox db" and ?target = "accept_target account batch_id"
  from assms(1) have "accept_in_transaction account batch_id t db = Inr (b, db')"
    by (auto simp: mark_batch_accepted_def transact_def split: sum.splits)
  then obtain rows db2 where rows: "rows = update_where ?target (accept_row t) ?outbox"
    and one: "length (filter ?target ?outbox) = 1"
    and upd: "update_state account (accepted_state t (pending_rows account (db\<lparr>sd_outbox := rows\<rparr>) = []))
       (db\<lparr>sd_outbox := rows\<rparr>) = Inr db2"
    and load: "load_batch account batch_id db2 = Inr (Some b)"
    and db': "db' = db2\<lparr>sd_outbox := filter (\<lambda>r. \<not> delete_target account batch_id r) rows\<rparr>"
    by (rule accept_in_transaction_Inr)
  from one obtain r where "filter ?target ?outbox = [r]" by (auto simp: length_Suc_conv)
  then have "r \<in> set (filter ?target ?outbox)" by simp
  then have r: "r \<in> set ?outbox" "ob_id r = batch_id" "ob_account r = account"
    by (auto simp: accept_target_def)
  note cases = accept_row_cases [OF _ assms(2) r]
  have deleted: "delete_target account batch_id (accept_row t r)"
    by (simp add: delete_target_def accept_row_def r)
  have removed: "filter (\<lambda>r. \<not> delete_target account batch_id r) rows = filter (\<lambda>r. ob_id r \<noteq> batch_id) ?outbox"
    unfolding rows update_where_def
    by (rule filter_map_same) (use cases deleted in \<open>auto split: if_splits\<close>)
  have pending: "\<forall>x \<in> set ?outbox. ob_status x = ''pending''"
    using assms(2) by (auto simp: sync_db_ok_def list_all_iff outbox_row_ok_def)
  have "filter (\<lambda>r. ob_account r = account \<and> ob_status r = ''pending'') rows =
      filter (\<lambda>r. ob_account r = account \<and> ob_id r \<noteq> batch_id) ?outbox"
    unfolding rows update_where_def
    by (rule filter_map_same) (use cases pending in \<open>auto simp: accept_row_def split: if_splits\<close>)
  then have left: "pending_rows account (db\<lparr>sd_outbox := rows\<rparr>) =
      filter (\<lambda>r. ob_account r = account \<and> ob_id r \<noteq> batch_id) ?outbox"
    by (simp add: pending_rows_def)
  have out2: "sd_outbox db2 = rows" using update_state_frame [OF upd] by simp
  from load obtain x where "find (\<lambda>r. ob_id r = batch_id \<and> ob_account r = account) rows = Some x"
    and mapped: "map_outbox_row account x = Inr b"
    by (auto simp: load_batch_def transpose_opt_Inr out2 split: option.splits)
  then have x: "x \<in> set rows" "ob_id x = batch_id" by (auto dest: find_Some_member)
  from x(1) obtain y where y: "y \<in> set ?outbox" "x = (if ?target y then accept_row t y else y)"
    unfolding rows update_where_def set_map by (elim imageE)
  then have "ob_id y = ob_id x" "ob_request_body x = ob_request_body y"
    by (simp_all add: accept_row_def split: if_splits)
  with x(2) cases(2) [OF y(1)] have "ob_request_body x = ob_request_body r" by simp
  with map_outbox_row_id [OF mapped] x(2) have b: "xb_id b = batch_id" "xb_request_body b = ob_request_body r"
    by simp_all
  from upd have "update_state account (accepted_state t
      (filter (\<lambda>r. ob_account r = account \<and> ob_id r \<noteq> batch_id) ?outbox = []))
      (db\<lparr>sd_outbox := filter (\<lambda>r. ob_id r \<noteq> batch_id) ?outbox\<rparr>) = Inr db'"
    unfolding left removed [symmetric] by (auto simp: update_state_def db' split: if_split_asm)
  with r b show thesis by (intro that)
qed

lemma mark_batch_accepted_keeps:
  assumes "sync_db_ok c codec db"
  shows "sync_db_ok c codec (snd (mark_batch_accepted account batch_id t db))"
proof (cases "mark_batch_accepted account batch_id t db")
  case (Pair result db')
  show ?thesis
  proof (cases result)
    case (Inl e)
    with Pair assms show ?thesis by (auto simp: mark_batch_accepted_def transact_def split: sum.splits)
  next
    case (Inr b)
    let ?rows = "filter (\<lambda>r. ob_id r \<noteq> batch_id) (sd_outbox db)"
    obtain r where upd: "update_state account
        (accepted_state t (filter (\<lambda>r. ob_account r = account \<and> ob_id r \<noteq> batch_id) (sd_outbox db) = []))
        (db\<lparr>sd_outbox := ?rows\<rparr>) = Inr db'"
      by (rule mark_batch_accepted_Inr [OF Pair [unfolded Inr] assms]) blast
    have "sync_db_ok c codec db'"
    proof (rule update_state_with_outbox [OF upd assms])
      fix row json assume "row \<in> set (sd_states db)"
        and "sy_pending_scope_json (accepted_state t (filter (\<lambda>r. ob_account r = account \<and> ob_id r \<noteq> batch_id)
          (sd_outbox db) = []) row) = Some json"
      with assms show "\<exists>scope. read_pending_scope c codec json = Inr scope"
        by (auto simp: sync_db_ok_def list_all_iff state_row_ok_def accepted_state_def)
    next
      fix ob assume ob: "ob \<in> set ?rows" "ob_account ob = account"
      with assms obtain s where "s \<in> set (sd_states db)" "outbox_fits s ob" "check_outbox ob"
        "ob_status ob = ''pending''"
        by (auto simp: sync_db_ok_def list_all_iff outbox_row_ok_def list_ex_iff)
      with ob show "check_outbox ob \<and> ob_status ob = ''pending'' \<and>
          (\<exists>row \<in> set (sd_states db). sy_account row = account \<and> outbox_fits (accepted_state t
            (filter (\<lambda>r. ob_account r = account \<and> ob_id r \<noteq> batch_id) (sd_outbox db) = []) row) ob)"
        by (auto simp: outbox_fits_def accepted_state_def filter_empty_conv intro!: bexI [of _ s])
    qed (use assms in \<open>auto simp: accepted_state_def sync_db_ok_def distinct_map_filter pairwise_def\<close>)
    with Pair show ?thesis by simp
  qed
qed

section \<open>A generation in the outbox\<close>

lemma map_outbox_row_of_batch:
  assumes "check_outbox (row_of_batch account gen now i b)"
  shows "map_outbox_row account (row_of_batch account gen now i b) =
    Inr \<lparr>xb_id = i, xb_account = account, xb_generation_id = gen, xb_batch_index = pb_batch_index b,
         xb_batch_count = pb_batch_count b, xb_client_revision = pb_client_revision b,
         xb_idempotency_key = pb_idempotency_key b, xb_request_body = pb_request_body b,
         xb_payload_hash = pb_payload_hash b, xb_window_scope = pb_window_scope b,
         xb_window_start = pb_window_start b, xb_window_end = pb_window_end b,
         xb_status = OutboxPending, xb_created_at_ms = now, xb_accepted_at_ms = None\<rparr>"
  by (cases "pb_window_scope b")
     (simp_all add: map_outbox_row_def row_of_batch_def outbox_status_parse_def)

lemma sorted_by_revision:
  assumes "list_all2 (\<lambda>b r. ob_client_revision r = pb_client_revision b) bs rows"
    and "\<forall>k < length bs. pb_client_revision (bs ! k) = first + int k"
  shows "sort_key ob_client_revision rows = rows"
proof (rule sort_key_id_if_sorted)
  have "map ob_client_revision rows ! k = first + int k" if "k < length rows" for k
    using that assms by (auto simp: list_all2_conv_all_nth)
  then show "sorted (map ob_client_revision rows)"
    by (simp add: sorted_iff_nth_mono)
qed

lemma create_generation_listed:
  assumes "create_generation c codec input db = (Inr (s', listed), db')" and "sync_db_ok c codec db"
  shows "list_all2 (\<lambda>b x. xb_account x = cgi_account input \<and> xb_generation_id x = cgi_generation_id input \<and>
      xb_batch_index x = pb_batch_index b \<and> xb_client_revision x = pb_client_revision b \<and>
      xb_idempotency_key x = pb_idempotency_key b \<and> xb_request_body x = pb_request_body b \<and>
      xb_payload_hash x = pb_payload_hash b \<and> xb_status x = OutboxPending)
      (cgi_prepared_batches input) listed"
    and "list_pending_batches (cgi_account input) db' = Inr listed"
    and "\<forall>k < length listed. xb_client_revision (listed ! k) =
      cs_next_client_revision s' - int (length listed) + int k"
    and "load_state c codec (cgi_account input) db' = Inr (Some s')"
    and "cgi_clear_pending_scope input \<Longrightarrow> cs_pending_scope s' = None"
proof -
  obtain s db1 r rows json where run:
    "ensure_state c codec (cgi_account input) (cgi_now_ms input) db = Inr (s, db1)"
    "pending_rows (cgi_account input) db1 = []"
    "state_row (cgi_account input) db1 = Some r" "state_of_row c codec (cgi_account input) r = Inr s"
    "validate_prepared_revisions (cs_next_client_revision s) 0 (cgi_prepared_batches input) = Inr ()"
    "insert_outbox_batches (cgi_account input) (cgi_generation_id input) (cgi_now_ms input)
       (cgi_prepared_batches input) (sd_outbox db1) = Inr rows"
    "generation_pending_json c codec input s = Inr json"
    "update_state (cgi_account input)
     (generation_row input s (cs_next_client_revision s + int (length (cgi_prepared_batches input))) json)
     (db1\<lparr>sd_outbox := rows\<rparr>) = Inr db'"
    "list_pending_batches (cgi_account input) db' = Inr listed"
    "load_state c codec (cgi_account input) db' = Inr (Some s')"
    by (rule create_generation_Inr [OF assms])
  note ok1 = ensure_state_Inr(1) [OF run(1) assms(2)]
  from ok1 have "distinct (map ob_id (sd_outbox db1))" "pairwise (\<lambda>r r'. \<not> outbox_clash r r') (set (sd_outbox db1))"
    by (simp_all add: sync_db_ok_def)
  from insert_outbox_batches_Inr [OF run(6) this] obtain added where added: "rows = sd_outbox db1 @ added"
    "list_all2 (\<lambda>b r. \<exists>i. r = row_of_batch (cgi_account input) (cgi_generation_id input) (cgi_now_ms input) i b
       \<and> check_outbox r) (cgi_prepared_batches input) added" by blast
  have "filter (\<lambda>r. ob_account r = cgi_account input \<and> ob_status r = ''pending'') added = added"
    using added(2) by (induction rule: list_all2_induct) (auto simp: row_of_batch_def)
  with run(2) update_state_frame [OF run(8)] added(1)
  have pending: "pending_rows (cgi_account input) db' = added" by (simp add: pending_rows_def)
  note revisions = validate_prepared_revisions_Inr [OF run(5), simplified]
  have "list_all2 (\<lambda>b r. ob_client_revision r = pb_client_revision b) (cgi_prepared_batches input) added"
    using added(2) by (rule list_all2_mono) (auto simp: row_of_batch_def)
  then have "sort_key ob_client_revision added = added"
    by (rule sorted_by_revision) (use revisions in blast)
  with run(9) pending have mapped: "list_all2 (\<lambda>r x. map_outbox_row (cgi_account input) r = Inr x) added listed"
    by (simp add: list_pending_batches_def collect_res_Inr)
  have each: "\<exists>i. listed ! k = \<lparr>xb_id = i, xb_account = cgi_account input, xb_generation_id = cgi_generation_id input,
         xb_batch_index = pb_batch_index b, xb_batch_count = pb_batch_count b,
         xb_client_revision = pb_client_revision b, xb_idempotency_key = pb_idempotency_key b,
         xb_request_body = pb_request_body b, xb_payload_hash = pb_payload_hash b,
         xb_window_scope = pb_window_scope b, xb_window_start = pb_window_start b,
         xb_window_end = pb_window_end b, xb_status = OutboxPending,
         xb_created_at_ms = cgi_now_ms input, xb_accepted_at_ms = None\<rparr>"
    if "k < length listed" and "b = cgi_prepared_batches input ! k" for k b
  proof -
    from that(1) mapped have k: "k < length added" by (simp add: list_all2_lengthD)
    with added(2) that(2) obtain i where
      "added ! k = row_of_batch (cgi_account input) (cgi_generation_id input) (cgi_now_ms input) i b"
      and "check_outbox (added ! k)"
      by (auto dest: list_all2_nthD2)
    with map_outbox_row_of_batch [of "cgi_account input" "cgi_generation_id input" "cgi_now_ms input" i b]
      list_all2_nthD [OF mapped k]
    show ?thesis by (intro exI [of _ i]) simp
  qed
  have len: "length listed = length (cgi_prepared_batches input)"
    using list_all2_lengthD [OF mapped] list_all2_lengthD [OF added(2)] by simp
  show "list_all2 (\<lambda>b x. xb_account x = cgi_account input \<and> xb_generation_id x = cgi_generation_id input \<and>
      xb_batch_index x = pb_batch_index b \<and> xb_client_revision x = pb_client_revision b \<and>
      xb_idempotency_key x = pb_idempotency_key b \<and> xb_request_body x = pb_request_body b \<and>
      xb_payload_hash x = pb_payload_hash b \<and> xb_status x = OutboxPending)
      (cgi_prepared_batches input) listed"
    unfolding list_all2_conv_all_nth
  proof (intro conjI allI impI)
    fix k assume "k < length (cgi_prepared_batches input)"
    with len obtain i where "listed ! k = \<lparr>xb_id = i, xb_account = cgi_account input,
         xb_generation_id = cgi_generation_id input,
         xb_batch_index = pb_batch_index (cgi_prepared_batches input ! k),
         xb_batch_count = pb_batch_count (cgi_prepared_batches input ! k),
         xb_client_revision = pb_client_revision (cgi_prepared_batches input ! k),
         xb_idempotency_key = pb_idempotency_key (cgi_prepared_batches input ! k),
         xb_request_body = pb_request_body (cgi_prepared_batches input ! k),
         xb_payload_hash = pb_payload_hash (cgi_prepared_batches input ! k),
         xb_window_scope = pb_window_scope (cgi_prepared_batches input ! k),
         xb_window_start = pb_window_start (cgi_prepared_batches input ! k),
         xb_window_end = pb_window_end (cgi_prepared_batches input ! k), xb_status = OutboxPending,
         xb_created_at_ms = cgi_now_ms input, xb_accepted_at_ms = None\<rparr>"
      using each [of k, OF _ refl] by auto
    then show "xb_account (listed ! k) = cgi_account input"
      "xb_generation_id (listed ! k) = cgi_generation_id input"
      "xb_batch_index (listed ! k) = pb_batch_index (cgi_prepared_batches input ! k)"
      "xb_client_revision (listed ! k) = pb_client_revision (cgi_prepared_batches input ! k)"
      "xb_idempotency_key (listed ! k) = pb_idempotency_key (cgi_prepared_batches input ! k)"
      "xb_request_body (listed ! k) = pb_request_body (cgi_prepared_batches input ! k)"
      "xb_payload_hash (listed ! k) = pb_payload_hash (cgi_prepared_batches input ! k)"
      "xb_status (listed ! k) = OutboxPending" by simp_all
  qed (simp add: len)
  show "list_pending_batches (cgi_account input) db' = Inr listed"
    "load_state c codec (cgi_account input) db' = Inr (Some s')" by (fact run)+
  have final: "cs_next_client_revision s' = cs_next_client_revision s + int (length listed) \<and>
      (json = None \<longrightarrow> cs_pending_scope s' = None)"
  proof -
    from run(10) obtain r' where r': "state_row (cgi_account input) db' = Some r'"
      "state_of_row c codec (cgi_account input) r' = Inr s'"
      by (auto simp: load_state_Inr split: option.splits)
    from state_row_Some [OF r'(1)] update_state_frame [OF run(8)]
    obtain r0 where "r' = generation_row input s
        (cs_next_client_revision s + int (length (cgi_prepared_batches input))) json r0"
      by (auto simp: update_where_set split: if_splits)
    with state_of_row_fields(2,4) [OF r'(2)] len show ?thesis
      by (auto simp: generation_row_def transpose_opt_def)
  qed
  show "\<forall>k < length listed. xb_client_revision (listed ! k) =
      cs_next_client_revision s' - int (length listed) + int k"
  proof (intro allI impI)
    fix k assume k: "k < length listed"
    with each [OF k refl] revisions len
    show "xb_client_revision (listed ! k) = cs_next_client_revision s' - int (length listed) + int k"
      by (auto simp: final)
  qed
  show "cs_pending_scope s' = None" if "cgi_clear_pending_scope input"
    using that final run(7) by (simp add: generation_pending_json_def)
qed

section \<open>Properties\<close>

text \<open>
  C36: The upload store stays coherent. When the serializer reads back what it wrote, every operation
  of the store, successful or not, keeps the tables well formed: accounts, row ids, revisions,
  idempotency keys and batch positions are unique, every outbox row is pending, below its account's
  next revision and part of its active generation, and every pending scope reads back.
\<close>
theorem collect_store_keeps_ok:
  assumes "sync_db_ok c codec db" and "scope_reads_back c codec" and "upload_scope_ok scope"
  shows "sync_db_ok c codec (snd (sync_ensure_state c codec account now db)) \<and>
    sync_db_ok c codec (snd (merge_pending_scope c codec account scope now db)) \<and>
    sync_db_ok c codec (snd (merge_pending_scope_for_all_accounts c codec scope now db)) \<and>
    sync_db_ok c codec (snd (create_generation c codec input db)) \<and>
    sync_db_ok c codec (snd (mark_batch_accepted account batch_id now db)) \<and>
    sync_db_ok c codec (snd (record_attempt_result c codec account now code message retryable db)) \<and>
    sync_db_ok c codec (snd (mark_baseline_complete c codec account now db)) \<and>
    sync_db_ok c codec (snd (set_device_registration c codec account fingerprint registered now db))"
  unfolding record_attempt_result_def mark_baseline_complete_def set_device_registration_def
  using assms
  by (intro conjI sync_ensure_state_keeps merge_pending_scope_keeps merge_for_all_keeps
      create_generation_keeps mark_batch_accepted_keeps ensure_then_update_keeps) auto

text \<open>
  C37: A materialized generation is exactly the prepared batches, in order. When creating a generation
  succeeds, the pending batches of the account are the prepared ones with their bodies, hashes,
  idempotency keys and positions, listed by ascending revision; the revisions are consecutive and
  end just below the next revision, which the state now stores.
\<close>
theorem create_generation_queues_batches:
  assumes "create_generation c codec input db = (Inr (s, listed), db')" and "sync_db_ok c codec db"
  shows "list_all2 (\<lambda>b x. xb_account x = cgi_account input \<and> xb_generation_id x = cgi_generation_id input \<and>
      xb_batch_index x = pb_batch_index b \<and> xb_client_revision x = pb_client_revision b \<and>
      xb_idempotency_key x = pb_idempotency_key b \<and> xb_request_body x = pb_request_body b \<and>
      xb_payload_hash x = pb_payload_hash b \<and> xb_status x = OutboxPending)
      (cgi_prepared_batches input) listed \<and>
    list_pending_batches (cgi_account input) db' = Inr listed \<and>
    load_state c codec (cgi_account input) db' = Inr (Some s) \<and>
    (\<forall>k < length listed. xb_client_revision (listed ! k) =
      cs_next_client_revision s - int (length listed) + int k)"
  using create_generation_listed [OF assms] by simp

text \<open>
  C38: The invalidation of a device registration is never stored: its revision 0 violates the check of
  the column, so the update always fails, and the worker drops that error.
\<close>
theorem device_invalidation_never_stored:
  "fst (set_device_registration c codec account fingerprint 0 now db) \<noteq> Inr ()"
proof (cases "ensure_state c codec account now db")
  case (Inl e)
  then show ?thesis by (simp add: set_device_registration_def ensure_then_update_def)
next
  case (Inr p)
  obtain s db1 where p: "p = (s, db1)" by (cases p)
  from Inr p have "load_state c codec account db1 = Inr (Some s)"
    by (auto simp: ensure_state_def bind_res_Inr ok_or_Inr Let_def split: option.splits if_splits)
  then obtain r where "state_row account db1 = Some r" by (auto simp: load_state_Inr split: option.splits)
  then have "r \<in> set (sd_states db1)" "sy_account r = account" by (auto dest: state_row_Some)
  then have "update_state account (\<lambda>r. r\<lparr>sy_device_metadata_fingerprint := Some fingerprint,
      sy_device_registered_revision := Some 0, sy_updated_at_ms := now\<rparr>) db1 = Inl SyncBackend"
    by (auto simp: update_state_def list_all_iff check_sync_state_def)
  with Inr p show ?thesis by (simp add: set_device_registration_def ensure_then_update_def)
qed

text \<open>Witnesses: one account, a serializer that writes full scopes only, one batch.\<close>

definition demo_account :: account_key where
  "demo_account = \<lparr>ak_user_id = ''user'', ak_client_device_id = ''device''\<rparr>"

definition demo_scope_codec :: scope_codec where
  "demo_scope_codec =
     \<lparr>sc_write = (\<lambda>stored. if stored = StoredFull then Some ''full'' else None),
      sc_read = (\<lambda>json. if json = ''full'' then Some StoredFull else None)\<rparr>"

definition demo_batch :: prepared_batch where
  "demo_batch =
     \<lparr>pb_batch_index = 0, pb_batch_count = 1, pb_client_revision = 1, pb_idempotency_key = ''uuid'',
      pb_request_body = ''{}'', pb_payload_hash = ''hash'', pb_window_scope = WireFull,
      pb_window_start = ''2026-06-14'', pb_window_end = ''2026-06-15''\<rparr>"

definition demo_input :: create_generation_input where
  "demo_input =
     \<lparr>cgi_account = demo_account, cgi_generation_id = ''gen'',
      cgi_meta = \<lparr>brm_client_device_id = ''device'', brm_app_version = ''1'', brm_reporting_timezone = ''UTC'',
        brm_scope = UploadFull\<rparr>,
      cgi_prepared_batches = [demo_batch],
      cgi_now_ms = 400, cgi_marks_baseline_in_progress = True, cgi_clear_pending_scope = True\<rparr>"

lemma demo_scope_reads_back: "scope_reads_back gregorian demo_scope_codec"
  unfolding scope_reads_back_def
proof (intro allI impI)
  fix scope json
  assume "write_pending_scope gregorian demo_scope_codec scope = Inr json"
  then show "read_pending_scope gregorian demo_scope_codec json = Inr scope"
    by (cases scope) (auto simp: write_pending_scope_def read_pending_scope_def demo_scope_codec_def)
qed

theorem collect_store_keeps_ok_witness:
  "sync_db_ok gregorian demo_scope_codec (snd (merge_pending_scope gregorian demo_scope_codec demo_account
     UploadFull 400 \<lparr>sd_states = [], sd_outbox = []\<rparr>))"
  using collect_store_keeps_ok [OF sync_db_ok_empty demo_scope_reads_back, of UploadFull] by simp

definition demo_state :: collect_sync_state where
  "demo_state =
     \<lparr>cs_account = demo_account, cs_next_client_revision = 1, cs_baseline_status = BaselineNone,
      cs_pending_scope = None, cs_active_generation_id = None, cs_last_attempt_at_ms = None,
      cs_last_accepted_at_ms = None, cs_last_error_code = None, cs_last_error_message = None,
      cs_last_error_retryable = None, cs_device_metadata_fingerprint = None,
      cs_device_registered_revision = None\<rparr>"

definition demo_db :: sync_db where
  "demo_db = \<lparr>sd_states = [fresh_state_row demo_account 400], sd_outbox = []\<rparr>"

definition demo_row :: outbox_row where
  "demo_row = row_of_batch demo_account ''gen'' 400 1 demo_batch"

lemma demo_checked: "check_account demo_account"
  by code_simp

lemma demo_fresh_ok: "check_sync_state (fresh_state_row demo_account 400)"
  by (simp add: check_sync_state_def fresh_state_row_def demo_checked non_negative_def)

lemma demo_loaded: "load_state c codec demo_account demo_db = Inr (Some demo_state)"
  by (simp add: demo_db_def load_state_def state_row_def state_of_row_def fresh_state_row_def
      transpose_opt_def baseline_parse_def demo_state_def)

lemma demo_ensured:
  "ensure_state c codec demo_account 400 \<lparr>sd_states = [], sd_outbox = []\<rparr> = Inr (demo_state, demo_db)"
proof -
  have "load_state c codec demo_account \<lparr>sd_states = [], sd_outbox = []\<rparr> = Inr None"
    by (simp add: load_state_def state_row_def transpose_opt_def)
  then show ?thesis
    using demo_loaded [of c codec] demo_fresh_ok by (simp add: ensure_state_def Let_def demo_db_def)
qed

lemma demo_row_ok: "check_outbox demo_row"
  by code_simp

lemma demo_inserted: "insert_outbox_batches demo_account ''gen'' 400 [demo_batch] [] = Inr [demo_row]"
  using demo_row_ok by (simp add: insert_outbox_batch_def next_rowid_def demo_row_def Let_def)

lemma demo_validated: "validate_prepared_revisions 1 0 [demo_batch] = Inr ()"
  by code_simp

lemma demo_next: "i64_checked_add 1 (1::int) = Some 2"
  by code_simp

lemma demo_generation:
  "is_ok (fst (create_generation gregorian demo_scope_codec demo_input \<lparr>sd_states = [], sd_outbox = []\<rparr>))"
proof -
  let ?c = gregorian and ?codec = demo_scope_codec
  let ?row = "generation_row demo_input demo_state 2 None (fresh_state_row demo_account 400)"
  let ?db = "\<lparr>sd_states = [?row], sd_outbox = [demo_row]\<rparr>"
  have input: "cgi_account demo_input = demo_account" "cgi_now_ms demo_input = 400"
    "cgi_generation_id demo_input = ''gen''" "cgi_prepared_batches demo_input = [demo_batch]"
    "cgi_clear_pending_scope demo_input" "cgi_marks_baseline_in_progress demo_input"
    by (simp_all add: demo_input_def)
  have pending: "count_pending_batches demo_account demo_db = Inr 0"
    by (simp add: count_pending_batches_def pending_rows_def demo_db_def u32_of_nat_def)
  have json: "generation_pending_json ?c ?codec demo_input demo_state = Inr None"
    by (simp add: generation_pending_json_def input)
  have "check_sync_state ?row"
    by (simp add: check_sync_state_def generation_row_def fresh_state_row_def demo_checked non_negative_def input)
  then have updated: "update_state demo_account (generation_row demo_input demo_state 2 None)
      (demo_db\<lparr>sd_outbox := [demo_row]\<rparr>) = Inr ?db"
    by (simp add: update_state_def demo_db_def update_where_def fresh_state_row_def)
  have "is_ok (list_pending_batches demo_account ?db)"
    by (simp add: list_pending_batches_def pending_rows_def demo_row_def row_of_batch_def
        map_outbox_row_def outbox_status_parse_def demo_batch_def)
  then obtain listed where listed: "list_pending_batches demo_account ?db = Inr listed"
    by (cases "list_pending_batches demo_account ?db") auto
  have "is_ok (load_state ?c ?codec demo_account ?db) \<and> load_state ?c ?codec demo_account ?db \<noteq> Inr None"
    by (simp add: load_state_def state_row_def state_of_row_def generation_row_def fresh_state_row_def
        transpose_opt_def baseline_parse_def input)
  then obtain s where reloaded: "load_state ?c ?codec demo_account ?db = Inr (Some s)"
    by (cases "load_state ?c ?codec demo_account ?db") auto
  have state: "cs_next_client_revision demo_state = 1" by (simp add: demo_state_def)
  have outbox: "sd_outbox demo_db = []" by (simp add: demo_db_def)
  show ?thesis
    by (simp add: create_generation_def transact_def input demo_ensured Let_def pending demo_loaded state
        demo_validated outbox demo_inserted demo_next json updated listed reloaded
        del: validate_prepared_revisions.simps insert_outbox_batches.simps)
qed

theorem create_generation_queues_batches_witness:
  "\<exists>s x db'. create_generation gregorian demo_scope_codec demo_input \<lparr>sd_states = [], sd_outbox = []\<rparr> =
     (Inr (s, [x]), db') \<and> xb_request_body x = ''{}'' \<and> xb_client_revision x = 1"
proof (cases "create_generation gregorian demo_scope_codec demo_input \<lparr>sd_states = [], sd_outbox = []\<rparr>")
  case (Pair result db')
  with demo_generation obtain s listed where run: "create_generation gregorian demo_scope_codec demo_input
      \<lparr>sd_states = [], sd_outbox = []\<rparr> = (Inr (s, listed), db')"
    by (cases result) auto
  from create_generation_queues_batches [OF run sync_db_ok_empty]
  obtain x where "listed = [x]" "xb_request_body x = ''{}''" "xb_client_revision x = 1"
    by (auto simp: demo_input_def demo_batch_def list_all2_Cons1)
  with run show ?thesis by blast
qed

end
