(* ===== verification/CloudSession.thy ===== *)
theory CloudSession
  imports Effects
begin

text \<open>
  The signed-in session of the cloud account: \<open>src/src-tauri/src/application/cloud_session.rs\<close> with
  the ports \<open>cloud_token_store.rs\<close>, \<open>cloud_token_refresher.rs\<close>, \<open>cloud_remote_logout.rs\<close> and
  \<open>cloud_auth_credentials.rs\<close> under \<open>application/ports\<close>. The state in memory is one field of the
  world. The token store is called with the lock on that state held, so its operations act on the
  rest of the world; the refresher, the remote logout and the observer are called without it, so they
  act on the whole world: other threads may sign in or out meanwhile. Poisoned locks are left out.
\<close>

section \<open>Types\<close>

record cloud_tokens =
  tk_access_token :: string
  tk_refresh_token :: string
  tk_access_expires_at_ms :: "i64 option"

record account_summary =
  su_user_id :: string
  su_email :: string

datatype session_snapshot =
  SignedOut | SignedIn account_summary | SessionExpired account_summary

definition is_terminal_auth_code :: "string \<Rightarrow> bool" where
  "is_terminal_auth_code code \<longleftrightarrow>
     code \<in> {''AUTH_REFRESH_TOKEN_EXPIRED'', ''AUTH_REFRESH_TOKEN_INVALID'',
             ''AUTH_REFRESH_TOKEN_REUSED'', ''AUTH_SESSION_REVOKED''}"

datatype cloud_session_error =
  SessionStorage | NotSignedIn | RefreshFailed "string option" | LogoutFailed "string option"
  | RefreshInFlightFailed | AccountChanged

datatype cloud_token_store_error = TokenStoreBackend

fun session_error_of_store :: "cloud_token_store_error \<Rightarrow> cloud_session_error" where
  "session_error_of_store TokenStoreBackend = SessionStorage"

record stored_cloud_session =
  ss_tokens :: cloud_tokens
  ss_account :: account_summary

datatype session_state =
  SessionActive cloud_tokens account_summary
| SessionLapsed account_summary

record 'w session_world =
  cs_state :: "session_state option"
  cs_rest :: 'w

record 'w session_ports =
  sp_load :: "('w session_world, cloud_token_store_error, stored_cloud_session option) eff"
  sp_save :: "stored_cloud_session \<Rightarrow> ('w, cloud_token_store_error, unit) eff"
  sp_clear :: "('w, cloud_token_store_error, unit) eff"
  sp_refresh :: "string \<Rightarrow> ('w session_world, cloud_session_error, cloud_tokens) eff"
  sp_logout_remote :: "string \<Rightarrow> ('w session_world, cloud_session_error, unit) eff"
  sp_observer :: "(account_summary \<Rightarrow> 'w session_world \<Rightarrow> 'w session_world) option"

section \<open>Reading the session\<close>

definition session_snapshot_of :: "session_state option \<Rightarrow> session_snapshot" where
  "session_snapshot_of s =
     (case s of Some (SessionActive _ account) \<Rightarrow> SignedIn account
      | Some (SessionLapsed account) \<Rightarrow> SessionExpired account
      | None \<Rightarrow> SignedOut)"

definition session_is_signed_in :: "'w session_world \<Rightarrow> bool" where
  "session_is_signed_in w = (case cs_state w of Some (SessionActive _ _) \<Rightarrow> True | _ \<Rightarrow> False)"

definition session_account :: "'w session_world \<Rightarrow> account_summary option" where
  "session_account w =
     (case cs_state w of Some (SessionActive _ account) \<Rightarrow> Some account
      | Some (SessionLapsed account) \<Rightarrow> Some account | None \<Rightarrow> None)"

definition access_token :: "'w session_world \<Rightarrow> string option" where
  "access_token w =
     (case cs_state w of Some (SessionActive tokens _) \<Rightarrow> Some (tk_access_token tokens) | _ \<Rightarrow> None)"

definition access_token_for_user :: "string \<Rightarrow> 'w session_world \<Rightarrow> string option" where
  "access_token_for_user expected w =
     (case cs_state w of
        Some (SessionActive tokens account) \<Rightarrow>
          if su_user_id account = expected then Some (tk_access_token tokens) else None
      | _ \<Rightarrow> None)"

definition is_access_expiring_soon :: "i64 \<Rightarrow> i64 \<Rightarrow> 'w session_world \<Rightarrow> bool" where
  "is_access_expiring_soon now leeway w =
     (case cs_state w of
        Some (SessionActive tokens _) \<Rightarrow>
          (case tk_access_expires_at_ms tokens of None \<Rightarrow> False
           | Some expires_at \<Rightarrow> i64_saturating_sub expires_at leeway \<le> now)
      | _ \<Rightarrow> False)"

section \<open>Changing the session\<close>

text \<open>A call of the token store under the lock, its error converted.\<close>

definition locked ::
  "('w, cloud_token_store_error, 'a) eff \<Rightarrow> ('w session_world, cloud_session_error, 'a) eff" where
  "locked m w =
     (case m (cs_rest w) of (r, x) \<Rightarrow> (map_err session_error_of_store r, w\<lparr>cs_rest := x\<rparr>))"

definition set_state :: "session_state option \<Rightarrow> ('w session_world, cloud_session_error, unit) eff" where
  "set_state s = modify_eff (\<lambda>w. w\<lparr>cs_state := s\<rparr>)"

definition session_restore ::
  "'w session_ports \<Rightarrow> ('w session_world, cloud_session_error, session_snapshot) eff" where
  "session_restore p w =
     (case sp_load p w of
        (Inl e, w1) \<Rightarrow> (Inl (session_error_of_store e), w1)
      | (Inr (Some stored), w1) \<Rightarrow>
          (Inr (SignedIn (ss_account stored)),
           w1\<lparr>cs_state := Some (SessionActive (ss_tokens stored) (ss_account stored))\<rparr>)
      | (Inr None, w1) \<Rightarrow> (Inr SignedOut, w1\<lparr>cs_state := None\<rparr>))"

definition apply_tokens ::
  "'w session_ports \<Rightarrow> cloud_tokens \<Rightarrow> account_summary \<Rightarrow> ('w session_world, cloud_session_error, unit) eff" where
  "apply_tokens p tokens account =
     (if blank (tk_access_token tokens) \<or> blank (tk_refresh_token tokens) then throw_eff SessionStorage
      else if blank (su_user_id account) \<or> blank (su_email account) then throw_eff SessionStorage
      else bind_eff (locked (sp_save p \<lparr>ss_tokens = tokens, ss_account = account\<rparr>)) (\<lambda>_.
             set_state (Some (SessionActive tokens account))))"

definition clear_local :: "'w session_ports \<Rightarrow> ('w session_world, cloud_session_error, unit) eff" where
  "clear_local p = bind_eff (locked (sp_clear p)) (\<lambda>_. set_state None)"

definition session_logout :: "'w session_ports \<Rightarrow> ('w session_world, cloud_session_error, unit) eff" where
  "session_logout p w =
     (case cs_state w of
        None \<Rightarrow> (Inr (), w)
      | Some s \<Rightarrow>
          bind_eff (clear_local p) (\<lambda>_.
            case s of SessionActive tokens _ \<Rightarrow> ignore_eff (sp_logout_remote p (tk_refresh_token tokens))
            | SessionLapsed _ \<Rightarrow> return_eff ()) w)"

text \<open>\<open>session_unchanged\<close>: still the account and the refresh token the refresh was started with.\<close>

definition session_unchanged :: "account_summary \<Rightarrow> string \<Rightarrow> session_state option \<Rightarrow> bool" where
  "session_unchanged account refresh_token s =
     (case s of
        Some (SessionActive tokens current) \<Rightarrow>
          su_user_id current = su_user_id account \<and> tk_refresh_token tokens = refresh_token
      | _ \<Rightarrow> False)"

definition is_terminal_error :: "cloud_session_error \<Rightarrow> bool" where
  "is_terminal_error e = (case e of RefreshFailed (Some code) \<Rightarrow> is_terminal_auth_code code | _ \<Rightarrow> False)"

definition notify_expired ::
  "'w session_ports \<Rightarrow> account_summary \<Rightarrow> ('w session_world, cloud_session_error, unit) eff" where
  "notify_expired p account =
     modify_eff (\<lambda>w. case sp_observer p of None \<Rightarrow> w | Some f \<Rightarrow> f account w)"

definition expire_session ::
  "'w session_ports \<Rightarrow> account_summary \<Rightarrow> string \<Rightarrow> ('w session_world, cloud_session_error, unit) eff" where
  "expire_session p account refresh_token w =
     (if session_unchanged account refresh_token (cs_state w)
      then bind_eff (locked (sp_clear p)) (\<lambda>_.
           bind_eff (set_state (Some (SessionLapsed account))) (\<lambda>_. notify_expired p account)) w
      else (Inr (), w))"

definition refresh_failed ::
  "'w session_ports \<Rightarrow> account_summary \<Rightarrow> string \<Rightarrow> cloud_session_error
   \<Rightarrow> ('w session_world, cloud_session_error, unit) eff" where
  "refresh_failed p account refresh_token err =
     bind_eff (if is_terminal_error err then expire_session p account refresh_token else return_eff ())
       (\<lambda>_. throw_eff err)"

definition store_refreshed ::
  "'w session_ports \<Rightarrow> account_summary \<Rightarrow> string \<Rightarrow> cloud_tokens
   \<Rightarrow> ('w session_world, cloud_session_error, unit) eff" where
  "store_refreshed p account refresh_token new w =
     (if session_unchanged account refresh_token (cs_state w)
      then bind_eff (locked (sp_save p \<lparr>ss_tokens = new, ss_account = account\<rparr>)) (\<lambda>_.
             set_state (Some (SessionActive new account))) w
      else (Inl AccountChanged, w))"

definition refresh_single_flight_for_expected_user ::
  "'w session_ports \<Rightarrow> string option \<Rightarrow> ('w session_world, cloud_session_error, unit) eff" where
  "refresh_single_flight_for_expected_user p expected w =
     (case cs_state w of
        Some (SessionActive tokens account) \<Rightarrow>
          if (case expected of None \<Rightarrow> True | Some user \<Rightarrow> su_user_id account = user)
          then case_eff (sp_refresh p (tk_refresh_token tokens))
                 (refresh_failed p account (tk_refresh_token tokens))
                 (store_refreshed p account (tk_refresh_token tokens)) w
          else (Inl AccountChanged, w)
      | Some (SessionLapsed _) \<Rightarrow> (Inl NotSignedIn, w)
      | None \<Rightarrow> (Inl NotSignedIn, w))"

definition refresh_single_flight :: "'w session_ports \<Rightarrow> ('w session_world, cloud_session_error, unit) eff" where
  "refresh_single_flight p = refresh_single_flight_for_expected_user p None"

definition refresh_single_flight_for_user ::
  "'w session_ports \<Rightarrow> string \<Rightarrow> ('w session_world, cloud_session_error, unit) eff" where
  "refresh_single_flight_for_user p user = refresh_single_flight_for_expected_user p (Some user)"

end
