(* ===== verification/CloudSessionFacts.thy ===== *)
theory CloudSessionFacts
  imports CloudSession
begin

text \<open>
  A refresh of the session's tokens against everything that can happen while the request is under way:
  the state it finds afterwards is replaced only when it is still the session the request was made for.
\<close>

lemmas eff_defs =
  bind_eff_def case_eff_def modify_eff_def return_eff_def throw_eff_def locked_def set_state_def

lemma session_error_of_store_any [simp]: "session_error_of_store e = SessionStorage"
  by (cases e) simp

text \<open>The new tokens are saved and put in place, or nothing in memory changes.\<close>

lemma store_refreshed_cases:
  assumes "store_refreshed p account token new w = (r, w')"
  shows "\<not> session_unchanged account token (cs_state w) \<and> r = Inl AccountChanged \<and> w' = w \<or>
    session_unchanged account token (cs_state w) \<and>
    (case sp_save p \<lparr>ss_tokens = new, ss_account = account\<rparr> (cs_rest w) of
       (Inl _, x) \<Rightarrow> r = Inl SessionStorage \<and> w' = w\<lparr>cs_rest := x\<rparr>
     | (Inr _, x) \<Rightarrow> r = Inr () \<and> w' = w\<lparr>cs_rest := x, cs_state := Some (SessionActive new account)\<rparr>)"
proof (cases "sp_save p \<lparr>ss_tokens = new, ss_account = account\<rparr> (cs_rest w)")
  case (Pair s x)
  with assms show ?thesis
    by (cases s) (auto simp: store_refreshed_def eff_defs split: if_splits)
qed

text \<open>A failed refresh lapses the session only for a terminal code and a cleared store.\<close>

lemma refresh_failed_cases:
  assumes "refresh_failed p account token err w = (r, w')"
  shows "(\<not> is_terminal_error err \<or> \<not> session_unchanged account token (cs_state w)) \<and> r = Inl err \<and> w' = w \<or>
    is_terminal_error err \<and> session_unchanged account token (cs_state w) \<and>
    (case sp_clear p (cs_rest w) of
       (Inl _, x) \<Rightarrow> r = Inl SessionStorage \<and> w' = w\<lparr>cs_rest := x\<rparr>
     | (Inr _, x) \<Rightarrow> r = Inl err \<and>
         w' = snd (notify_expired p account (w\<lparr>cs_rest := x, cs_state := Some (SessionLapsed account)\<rparr>)))"
proof (cases "sp_clear p (cs_rest w)")
  case (Pair s x)
  with assms show ?thesis
    by (cases s)
       (auto simp: refresh_failed_def expire_session_def notify_expired_def eff_defs split: if_splits)
qed

text \<open>
  C40: A token refresh never touches another session. Whatever other threads do while the request is
  under way: if the session in memory is no longer the one the refresh token belongs to, the refresh
  leaves the world as it found it and fails; it succeeds only with the new tokens saved and in place
  for the same account; and it signs the account out only on a terminal code, after the stored tokens
  are gone. When saving the new tokens fails the session keeps the refresh token just spent.
\<close>
theorem token_refresh_touches_only_its_session:
  assumes "refresh_single_flight_for_expected_user p expected w = (r, w')"
    and "cs_state w = Some (SessionActive tokens account)"
    and "expected = None \<or> expected = Some (su_user_id account)"
    and "sp_refresh p (tk_refresh_token tokens) w = (answer, w1)"
  shows "(\<not> session_unchanged account (tk_refresh_token tokens) (cs_state w1) \<longrightarrow> w' = w1 \<and> r \<noteq> Inr ()) \<and>
    (r = Inr () \<longleftrightarrow> (\<exists>new. answer = Inr new \<and>
       session_unchanged account (tk_refresh_token tokens) (cs_state w1) \<and>
       fst (sp_save p \<lparr>ss_tokens = new, ss_account = account\<rparr> (cs_rest w1)) = Inr ())) \<and>
    (r = Inr () \<longrightarrow> (\<exists>new. answer = Inr new \<and> cs_state w' = Some (SessionActive new account) \<and>
       sp_save p \<lparr>ss_tokens = new, ss_account = account\<rparr> (cs_rest w1) = (Inr (), cs_rest w'))) \<and>
    (\<forall>e. r = Inl e \<longrightarrow> cs_state w' = cs_state w1 \<or>
       answer = Inl e \<and> is_terminal_error e \<and> fst (sp_clear p (cs_rest w1)) = Inr ())"
proof (cases answer)
  case (Inl err)
  with assms have "refresh_failed p account (tk_refresh_token tokens) err w1 = (r, w')"
    by (auto simp: refresh_single_flight_for_expected_user_def case_eff_def)
  from refresh_failed_cases [OF this] Inl show ?thesis
    by (auto split: prod.splits sum.splits)
next
  case (Inr new)
  with assms have "store_refreshed p account (tk_refresh_token tokens) new w1 = (r, w')"
    by (auto simp: refresh_single_flight_for_expected_user_def case_eff_def)
  from store_refreshed_cases [OF this] Inr show ?thesis
    by (auto split: prod.splits sum.splits)
qed

text \<open>Witness: the account is switched while the request is under way.\<close>

definition demo_user_tokens :: "string \<Rightarrow> session_state" where
  "demo_user_tokens user =
     SessionActive \<lparr>tk_access_token = ''a'', tk_refresh_token = ''refresh-1'', tk_access_expires_at_ms = None\<rparr>
       \<lparr>su_user_id = user, su_email = ''mail''\<rparr>"

definition switching_ports :: "unit session_ports" where
  "switching_ports =
     \<lparr>sp_load = return_eff None, sp_save = (\<lambda>_. return_eff ()), sp_clear = return_eff (),
      sp_refresh = (\<lambda>_ w. (Inr \<lparr>tk_access_token = ''b'', tk_refresh_token = ''refresh-2'',
          tk_access_expires_at_ms = None\<rparr>, w\<lparr>cs_state := Some (demo_user_tokens ''other'')\<rparr>)),
      sp_logout_remote = (\<lambda>_. return_eff ()), sp_observer = None\<rparr>"

theorem token_refresh_touches_only_its_session_witness:
  "snd (refresh_single_flight switching_ports \<lparr>cs_state = Some (demo_user_tokens ''user''), cs_rest = ()\<rparr>)
     = \<lparr>cs_state = Some (demo_user_tokens ''other''), cs_rest = ()\<rparr>"
proof -
  let ?w = "\<lparr>cs_state = Some (demo_user_tokens ''user''), cs_rest = ()\<rparr>"
  obtain r w' where run: "refresh_single_flight switching_ports ?w = (r, w')" by fastforce
  have "w' = \<lparr>cs_state = Some (demo_user_tokens ''other''), cs_rest = ()\<rparr>"
    using token_refresh_touches_only_its_session [OF run [unfolded refresh_single_flight_def]
        _ _ surjective_pairing]
    by (auto simp: demo_user_tokens_def switching_ports_def session_unchanged_def)
  with run show ?thesis by simp
qed

end
