(* ===== verification/CollectSync.thy ===== *)
theory CollectSync
  imports CollectSyncStore CloudSession
begin

text \<open>
  The upload worker: \<open>src/src-tauri/src/application/collect_sync/service.rs\<close> with the remote port
  \<open>application/ports/collect_sync_remote.rs\<close>. The world holds what the worker shares with the other
  threads: the upload store, the session, its atomic flags, the threads it started. A call through a
  port (clock, export, UUID, remote, status sink, starting a thread) acts on the whole world, so other
  threads may act there; between two calls the worker runs alone. Poisoned locks are left out, and
  the store fails only as its model does.
\<close>

section \<open>The remote port\<close>

datatype collect_sync_platform = SyncLinux | SyncMacos | SyncWindows

fun platform_as_str :: "collect_sync_platform \<Rightarrow> string" where
  "platform_as_str SyncLinux = ''linux''"
| "platform_as_str SyncMacos = ''macos''"
| "platform_as_str SyncWindows = ''windows''"

record upsert_sync_device_request =
  ud_expected_user_id :: string
  ud_client_device_id :: string
  ud_display_name :: "string option"
  ud_platform :: collect_sync_platform
  ud_app_version :: string
  ud_reporting_timezone :: string

record sync_device_snapshot =
  sd_client_device_id :: string
  sd_display_name :: "string option"
  sd_platform :: string
  sd_app_version :: string
  sd_reporting_timezone :: string
  sd_last_sync_at :: "string option"
  sd_created_at :: string
  sd_updated_at :: string

record push_daily_usage_request =
  pq_expected_user_id :: string
  pq_request_body :: string
  pq_idempotency_key :: string

record daily_usage_push_counts =
  pc_received :: u32
  pc_upserted :: u32
  pc_removed :: u32
  pc_unchanged :: u32
  pc_rejected :: u32

record daily_usage_push_result =
  pp_client_device_id :: string
  pp_accepted_at :: string
  pp_client_revision :: i64
  pp_window_start :: string
  pp_window_end :: string
  pp_window_scope :: wire_upload_scope
  pp_counts :: daily_usage_push_counts

record collect_sync_field_error =
  fe_field :: string
  fe_code :: string
  fe_message :: string

datatype collect_sync_remote_error =
  RemoteNetwork string
| RemoteTimeout string
| RemoteUnauthorized "string option" string
| RemoteForbidden "string option" string
| RemoteValidation "string option" string "collect_sync_field_error list"
| RemoteRateLimited "string option" string "u64 option"
| RemoteDeviceNotFound string
| RemoteContractUnsupported string
| RemoteIdempotencyInProgress string
| RemoteConflict "string option" string
| RemotePayloadTooLarge string
| RemoteProblem "string option" "u16 option" string "string option"
| RemoteDecode string
| RemoteInternal string

text \<open>The code, the message, whether to retry and after how many milliseconds.\<close>

definition rate_limit_backoff :: "u64 option \<Rightarrow> i64" where
  "rate_limit_backoff retry_after =
     (case retry_after of
        None \<Rightarrow> 15000
      | Some seconds \<Rightarrow>
          i64_saturating_mul (case i64_of_u64 seconds of None \<Rightarrow> 60 | Some s \<Rightarrow> s) 1000)"

definition problem_retryable :: "string option \<Rightarrow> bool" where
  "problem_retryable code =
     (case code of None \<Rightarrow> True
      | Some value \<Rightarrow> value \<notin> {''VALIDATION_FAILED'', ''SYNC_CONTRACT_UNSUPPORTED'', ''FORBIDDEN''})"

fun classify_remote_error :: "collect_sync_remote_error \<Rightarrow> string \<times> string \<times> bool \<times> i64" where
  "classify_remote_error (RemoteNetwork message) = (''NETWORK'', message, True, 5000)"
| "classify_remote_error (RemoteTimeout message) = (''TIMEOUT'', message, True, 5000)"
| "classify_remote_error (RemoteRateLimited code message retry_after) =
     (''RATE_LIMITED'', message, True, rate_limit_backoff retry_after)"
| "classify_remote_error (RemoteIdempotencyInProgress message) =
     (''IDEMPOTENCY_IN_PROGRESS'', message, True, 2000)"
| "classify_remote_error (RemoteUnauthorized code message) =
     (''UNAUTHORIZED'', message @ '' ('' @ (case code of None \<Rightarrow> ''?'' | Some c \<Rightarrow> c) @ '')'', False, 0)"
| "classify_remote_error (RemoteValidation code message errors) = (''VALIDATION_FAILED'', message, False, 0)"
| "classify_remote_error (RemoteContractUnsupported message) =
     (''SYNC_CONTRACT_UNSUPPORTED'', message, False, 0)"
| "classify_remote_error (RemoteDeviceNotFound message) = (''SYNC_DEVICE_NOT_FOUND'', message, True, 1000)"
| "classify_remote_error (RemoteConflict code message) = (''CONFLICT'', message, False, 0)"
| "classify_remote_error (RemotePayloadTooLarge message) = (''PAYLOAD_TOO_LARGE'', message, False, 0)"
| "classify_remote_error (RemoteForbidden code message) = (''FORBIDDEN'', message, False, 0)"
| "classify_remote_error (RemoteProblem code status message trace) =
     (let retryable = problem_retryable code
      in (''PROBLEM'', message, retryable, if retryable then 5000 else 0))"
| "classify_remote_error (RemoteDecode message) = (''DECODE'', message, False, 0)"
| "classify_remote_error (RemoteInternal message) = (''INTERNAL'', message, True, 5000)"

section \<open>The service\<close>

datatype collect_sync_ui_status = UiSignedOut | UiIdle | UiSyncing | UiError

record collect_sync_status_snapshot =
  st_status :: collect_sync_ui_status
  st_last_accepted_at_ms :: "i64 option"
  st_last_error_code :: "string option"
  st_last_error_message :: "string option"
  st_last_error_retryable :: "bool option"

record collect_sync_config =
  cf_device_id :: string
  cf_device_name :: string
  cf_app_version :: string
  cf_platform :: collect_sync_platform
  cf_reporting_timezone :: string

text \<open>
  \<open>cw_workers\<close> holds the epoch of every worker from its start to the moment it releases \<open>running\<close>;
  \<open>cw_retries\<close> the deadline and the epoch of every retry thread.
\<close>

record 'w collect_world =
  cw_db :: sync_db
  cw_session :: "session_state option"
  cw_running :: bool
  cw_cancel :: bool
  cw_terminal_blocked_epoch :: u64
  cw_epoch :: u64
  cw_active_user_id :: "string option"
  cw_next_retry :: "(u64 \<times> i64) option"
  cw_workers :: "u64 list"
  cw_retries :: "(i64 \<times> u64) list"
  cw_rest :: 'w

record 'w collect_sync =
  cp_config :: collect_sync_config
  cp_chrono :: chrono
  cp_scope_codec :: scope_codec
  cp_wire_codec :: wire_codec
  cp_now :: "'w collect_world \<Rightarrow> i64 \<times> 'w collect_world"
  cp_uuid :: "'w collect_world \<Rightarrow> string \<times> 'w collect_world"
  cp_batch_uuids :: "'w collect_world \<Rightarrow> (nat \<Rightarrow> string) \<times> 'w collect_world"
  cp_export :: "daily_usage_export_query \<Rightarrow> ('w collect_world, export_store_error, exported_daily_fact list) eff"
  cp_upsert_device :: "upsert_sync_device_request
    \<Rightarrow> ('w collect_world, collect_sync_remote_error, sync_device_snapshot) eff"
  cp_push_daily_usage :: "push_daily_usage_request
    \<Rightarrow> ('w collect_world, collect_sync_remote_error, daily_usage_push_result) eff"
  cp_on_status_changed :: "collect_sync_status_snapshot \<Rightarrow> 'w collect_world \<Rightarrow> 'w collect_world"
  cp_spawn :: "'w collect_world \<Rightarrow> bool \<times> 'w collect_world"

definition on_store :: "(sync_db \<Rightarrow> ('e + 'a) \<times> sync_db) \<Rightarrow> ('w collect_world, 'e, 'a) eff" where
  "on_store m w = (case m (cw_db w) of (r, db) \<Rightarrow> (r, w\<lparr>cw_db := db\<rparr>))"

text \<open>\<open>let _ = self.collect_store....\<close>\<close>

definition store_ignoring :: "(sync_db \<Rightarrow> ('e + 'a) \<times> sync_db) \<Rightarrow> 'w collect_world \<Rightarrow> 'w collect_world" where
  "store_ignoring m w = snd (on_store m w)"

definition stored_state :: "'w collect_sync \<Rightarrow> account_key \<Rightarrow> 'w collect_world \<Rightarrow> collect_sync_state option" where
  "stored_state p account w =
     (case load_state (cp_chrono p) (cp_scope_codec p) account (cw_db w) of
        Inr (Some s) \<Rightarrow> Some s | _ \<Rightarrow> None)"

definition baseline_open :: "collect_sync_state \<Rightarrow> bool" where
  "baseline_open s \<longleftrightarrow> cs_baseline_status s \<in> {BaselineNone, BaselineInProgress}"

definition collect_account_key :: "'w collect_sync \<Rightarrow> 'w collect_world \<Rightarrow> account_key option" where
  "collect_account_key p w =
     (case session_snapshot_of (cw_session w) of
        SignedIn account \<Rightarrow>
          (let device_id = str_trim (cf_device_id (cp_config p))
           in if device_id = [] then None
              else Some \<lparr>ak_user_id = su_user_id account, ak_client_device_id = device_id\<rparr>)
      | _ \<Rightarrow> None)"

definition account_key_matching_epoch ::
  "'w collect_sync \<Rightarrow> u64 \<Rightarrow> 'w collect_world \<Rightarrow> account_key option" where
  "account_key_matching_epoch p epoch w =
     (if cw_epoch w \<noteq> epoch then None
      else Option.bind (collect_account_key p w) (\<lambda>key.
           Option.bind (cw_active_user_id w) (\<lambda>active.
             if active \<noteq> ak_user_id key then None else Some key)))"

definition signed_out_status :: collect_sync_status_snapshot where
  "signed_out_status =
     \<lparr>st_status = UiSignedOut, st_last_accepted_at_ms = None, st_last_error_code = None,
      st_last_error_message = None, st_last_error_retryable = None\<rparr>"

definition status_snapshot :: "'w collect_sync \<Rightarrow> 'w collect_world \<Rightarrow> collect_sync_status_snapshot" where
  "status_snapshot p w =
     (case session_snapshot_of (cw_session w) of
        SignedIn _ \<Rightarrow>
          (case collect_account_key p w of
             None \<Rightarrow> signed_out_status
           | Some account \<Rightarrow>
               let state = stored_state p account w
               in \<lparr>st_status =
                     (if cw_running w then UiSyncing
                      else if Option.bind state cs_last_error_code \<noteq> None then UiError else UiIdle),
                   st_last_accepted_at_ms = Option.bind state cs_last_accepted_at_ms,
                   st_last_error_code = Option.bind state cs_last_error_code,
                   st_last_error_message = Option.bind state cs_last_error_message,
                   st_last_error_retryable = Option.bind state cs_last_error_retryable\<rparr>)
      | _ \<Rightarrow> signed_out_status)"

definition publish_status :: "'w collect_sync \<Rightarrow> 'w collect_world \<Rightarrow> 'w collect_world" where
  "publish_status p w = cp_on_status_changed p (status_snapshot p w) w"

definition device_fingerprint :: "'w collect_sync \<Rightarrow> string" where
  "device_fingerprint p =
     (let cf = cp_config p
      in wc_sha256 (cp_wire_codec p)
           (cf_device_name cf @ ''|'' @ platform_as_str (cf_platform cf) @ ''|'' @ cf_app_version cf @
            ''|'' @ cf_reporting_timezone cf))"

definition batch_meta :: "'w collect_sync \<Rightarrow> upload_scope \<Rightarrow> batch_request_meta" where
  "batch_meta p scope =
     \<lparr>brm_client_device_id = cf_device_id (cp_config p), brm_app_version = cf_app_version (cp_config p),
      brm_reporting_timezone = cf_reporting_timezone (cp_config p), brm_scope = scope\<rparr>"

section \<open>Device registration\<close>

definition upsert_request :: "'w collect_sync \<Rightarrow> account_key \<Rightarrow> upsert_sync_device_request" where
  "upsert_request p account =
     (let cf = cp_config p
      in \<lparr>ud_expected_user_id = ak_user_id account, ud_client_device_id = ak_client_device_id account,
          ud_display_name = Some (cf_device_name cf), ud_platform = cf_platform cf,
          ud_app_version = cf_app_version cf, ud_reporting_timezone = cf_reporting_timezone cf\<rparr>)"

definition register_device ::
  "'w collect_sync \<Rightarrow> account_key \<Rightarrow> string \<Rightarrow> i64 \<Rightarrow> i64 \<Rightarrow> sync_db
   \<Rightarrow> (collect_sync_store_error + unit) \<times> sync_db" where
  "register_device p = set_device_registration (cp_chrono p) (cp_scope_codec p)"

definition force_device_register ::
  "'w collect_sync \<Rightarrow> account_key \<Rightarrow> u64 \<Rightarrow> i64 \<Rightarrow> ('w collect_world, collect_sync_remote_error, unit) eff" where
  "force_device_register p account epoch now w =
     (if cw_epoch w \<noteq> epoch then (Inl (RemoteInternal ''cancelled''), w)
      else bind_eff (cp_upsert_device p (upsert_request p account)) (\<lambda>_.
             modify_eff (store_ignoring (register_device p account (device_fingerprint p) 1 now))) w)"

definition device_registered :: "'w collect_sync \<Rightarrow> collect_sync_state \<Rightarrow> bool" where
  "device_registered p state \<longleftrightarrow>
     cs_device_metadata_fingerprint state = Some (device_fingerprint p) \<and>
     cs_device_registered_revision state \<noteq> None"

definition ensure_device_registered ::
  "'w collect_sync \<Rightarrow> account_key \<Rightarrow> u64 \<Rightarrow> collect_sync_state \<Rightarrow> i64
   \<Rightarrow> ('w collect_world, collect_sync_remote_error, unit) eff" where
  "ensure_device_registered p account epoch state now =
     (if device_registered p state then return_eff () else force_device_register p account epoch now)"

section \<open>One step of the worker\<close>

datatype step_result =
  StepContinue | StepQuiescent | StepBackoff i64 | StepTerminal | StepStoreFailure | StepStop

datatype step_error = StepErrorStore | StepErrorRemote collect_sync_remote_error | StepErrorCancelled

definition attempt_result ::
  "'w collect_sync \<Rightarrow> account_key \<Rightarrow> i64 \<Rightarrow> string option \<Rightarrow> string option \<Rightarrow> bool option
   \<Rightarrow> 'w collect_world \<Rightarrow> 'w collect_world" where
  "attempt_result p account now code message retryable =
     store_ignoring
       (record_attempt_result (cp_chrono p) (cp_scope_codec p) account now code message retryable)"

definition baseline_completed ::
  "'w collect_sync \<Rightarrow> account_key \<Rightarrow> i64 \<Rightarrow> 'w collect_world \<Rightarrow> 'w collect_world" where
  "baseline_completed p account now =
     store_ignoring (mark_baseline_complete (cp_chrono p) (cp_scope_codec p) account now)"

definition map_remote_step_error ::
  "'w collect_sync \<Rightarrow> account_key \<Rightarrow> i64 \<Rightarrow> collect_sync_remote_error \<Rightarrow> 'w collect_world
   \<Rightarrow> step_result \<times> 'w collect_world" where
  "map_remote_step_error p account now error w =
     (case classify_remote_error error of
        (code, message, retryable, backoff) \<Rightarrow>
          (if retryable then StepBackoff (i64_saturating_add now backoff) else StepTerminal,
           publish_status p
             (attempt_result p account now (Some code) (Some message) (Some retryable) w)))"

definition push_request_of :: "account_key \<Rightarrow> outbox_batch \<Rightarrow> push_daily_usage_request" where
  "push_request_of account batch =
     \<lparr>pq_expected_user_id = ak_user_id account, pq_request_body = xb_request_body batch,
      pq_idempotency_key = xb_idempotency_key batch\<rparr>"

text \<open>The remote accepted the batch.\<close>

definition batch_accepted ::
  "'w collect_sync \<Rightarrow> account_key \<Rightarrow> outbox_batch \<Rightarrow> 'w collect_world \<Rightarrow> step_result \<times> 'w collect_world" where
  "batch_accepted p account batch w =
     (case cp_now p w of (accepted_at, w1) \<Rightarrow>
      case on_store (mark_batch_accepted account (xb_id batch) accepted_at) w1 of
        (Inl _, w2) \<Rightarrow> (StepStoreFailure, w2)
      | (Inr _, w2) \<Rightarrow>
          (case count_pending_batches account (cw_db w2) of
             Inl _ \<Rightarrow> (StepStoreFailure, w2)
           | Inr remaining \<Rightarrow>
               let w3 = (if remaining = 0 then
                           (case stored_state p account w2 of
                              Some state \<Rightarrow>
                                if cs_baseline_status state = BaselineInProgress
                                then baseline_completed p account accepted_at w2 else w2
                            | None \<Rightarrow> w2)
                         else w2)
               in (StepContinue,
                   publish_status p (attempt_result p account accepted_at None None None w3))))"

text \<open>The remote does not know the device: register it again, the next step sends the batch again.\<close>

definition register_again ::
  "'w collect_sync \<Rightarrow> account_key \<Rightarrow> u64 \<Rightarrow> i64 \<Rightarrow> 'w collect_world \<Rightarrow> step_result \<times> 'w collect_world" where
  "register_again p account epoch now w =
     (case stored_state p account w of
        None \<Rightarrow> (StepContinue, w)
      | Some state \<Rightarrow>
          (case force_device_register p account epoch now
                  (store_ignoring (register_device p account ''invalidate'' 0 now) w) of
             (Inl error, w1) \<Rightarrow> map_remote_step_error p account now error w1
           | (Inr _, w1) \<Rightarrow> (StepContinue, w1)))"

definition push_batch ::
  "'w collect_sync \<Rightarrow> account_key \<Rightarrow> u64 \<Rightarrow> i64 \<Rightarrow> outbox_batch \<Rightarrow> 'w collect_world
   \<Rightarrow> step_result \<times> 'w collect_world" where
  "push_batch p account epoch now batch w =
     (case cp_push_daily_usage p (push_request_of account batch) w of
        (Inr _, w1) \<Rightarrow> batch_accepted p account batch w1
      | (Inl error, w1) \<Rightarrow>
          (case error of RemoteDeviceNotFound _ \<Rightarrow> register_again p account epoch now w1
           | _ \<Rightarrow> map_remote_step_error p account now error w1))"

definition send_batch ::
  "'w collect_sync \<Rightarrow> account_key \<Rightarrow> u64 \<Rightarrow> outbox_batch \<Rightarrow> 'w collect_world
   \<Rightarrow> step_result \<times> 'w collect_world" where
  "send_batch p account epoch batch w =
     (if cw_epoch w \<noteq> epoch \<or> cw_cancel w then (StepStop, w)
      else if collect_account_key p w \<noteq> Some account then (StepStop, w)
      else
        (case cp_now p w of (now, w1) \<Rightarrow>
         case (case stored_state p account w1 of
                 None \<Rightarrow> (Inr (), w1)
               | Some state \<Rightarrow> ensure_device_registered p account epoch state now w1) of
           (Inl error, w2) \<Rightarrow> map_remote_step_error p account now error w2
         | (Inr _, w2) \<Rightarrow> push_batch p account epoch now batch w2))"

definition export_query_of ::
  "string \<Rightarrow> upload_scope \<Rightarrow> step_error + daily_usage_export_query" where
  "export_query_of tz scope =
     (case scope of
        UploadFull \<Rightarrow> Inr (export_query_full tz)
      | UploadIncremental keys s e \<Rightarrow>
          map_err (\<lambda>_. StepErrorStore) (export_query_incremental tz (sorted_list_of_set keys) s e))"

definition generation_input ::
  "'w collect_sync \<Rightarrow> account_key \<Rightarrow> string \<Rightarrow> upload_scope \<Rightarrow> prepared_batch list \<Rightarrow> i64 \<Rightarrow> bool
   \<Rightarrow> create_generation_input" where
  "generation_input p account gen scope prepared now marks =
     \<lparr>cgi_account = account, cgi_generation_id = gen, cgi_meta = batch_meta p scope,
      cgi_prepared_batches = prepared, cgi_now_ms = now, cgi_marks_baseline_in_progress = marks,
      cgi_clear_pending_scope = True\<rparr>"

definition as_store_error :: "('w, 'e, 'a) eff \<Rightarrow> ('w, step_error, 'a) eff" where
  "as_store_error m = catch_eff m (\<lambda>_. throw_eff StepErrorStore)"

definition materialize_generation ::
  "'w collect_sync \<Rightarrow> account_key \<Rightarrow> upload_scope \<Rightarrow> i64 \<Rightarrow> ('w collect_world, step_error, nat) eff" where
  "materialize_generation p account scope now =
     bind_eff (lift_res (export_query_of (cf_reporting_timezone (cp_config p)) scope)) (\<lambda>query.
     bind_eff (as_store_error (cp_export p query)) (\<lambda>exported.
     bind_eff (as_store_error (lift_res (collect_res (map_exported_fact (cp_chrono p)) exported))) (\<lambda>facts.
     bind_eff (read_res (\<lambda>w. ok_or StepErrorStore (stored_state p account w))) (\<lambda>state.
     bind_eff (total_eff (cp_batch_uuids p)) (\<lambda>uuids.
     bind_eff (as_store_error (lift_res (build_prepared_batches ((cp_wire_codec p)\<lparr>wc_uuid := uuids\<rparr>)
         facts (batch_meta p scope) backend_v1 (cs_next_client_revision state)))) (\<lambda>prepared.
     bind_eff (total_eff (cp_uuid p)) (\<lambda>gen.
     bind_eff (as_store_error (on_store (create_generation (cp_chrono p) (cp_scope_codec p)
         (generation_input p account gen scope prepared now
            (baseline_open state \<and> scope = UploadFull))))) (\<lambda>_.
       return_eff (length prepared)))))))))"

text \<open>Nothing to upload: the pending scope is cleared and the baseline completed.\<close>

definition empty_generation ::
  "'w collect_sync \<Rightarrow> account_key \<Rightarrow> collect_sync_state \<Rightarrow> i64 \<Rightarrow> 'w collect_world \<Rightarrow> 'w collect_world" where
  "empty_generation p account state now w =
     (case cp_uuid p w of (gen, w1) \<Rightarrow>
        let w2 = store_ignoring (create_generation (cp_chrono p) (cp_scope_codec p)
                   (generation_input p account gen UploadFull [] now False)) w1;
            w3 = (if baseline_open state then baseline_completed p account now w2 else w2)
        in attempt_result p account now None None None w3)"

definition step_generation ::
  "'w collect_sync \<Rightarrow> account_key \<Rightarrow> u64 \<Rightarrow> i64 \<Rightarrow> collect_sync_state \<Rightarrow> upload_scope \<Rightarrow> 'w collect_world
   \<Rightarrow> step_result \<times> 'w collect_world" where
  "step_generation p account epoch now state scope w =
     (case ensure_device_registered p account epoch state now w of
        (Inl error, w1) \<Rightarrow> map_remote_step_error p account now error w1
      | (Inr _, w1) \<Rightarrow>
          (case materialize_generation p account scope now w1 of
             (Inr n, w2) \<Rightarrow> (StepContinue, if n = 0 then empty_generation p account state now w2 else w2)
           | (Inl StepErrorStore, w2) \<Rightarrow> (StepStoreFailure, w2)
           | (Inl (StepErrorRemote error), w2) \<Rightarrow> map_remote_step_error p account now error w2
           | (Inl StepErrorCancelled, w2) \<Rightarrow> (StepStop, w2)))"

definition next_scope :: "collect_sync_state \<Rightarrow> upload_scope option" where
  "next_scope state =
     (case cs_pending_scope state of
        Some scope \<Rightarrow> Some scope
      | None \<Rightarrow> if baseline_open state then Some UploadFull else None)"

definition collect_step ::
  "'w collect_sync \<Rightarrow> account_key \<Rightarrow> u64 \<Rightarrow> 'w collect_world \<Rightarrow> step_result \<times> 'w collect_world" where
  "collect_step p account epoch w =
     (case cp_now p w of (now, w1) \<Rightarrow>
      case list_pending_batches account (cw_db w1) of
        Inl _ \<Rightarrow> (StepStoreFailure, w1)
      | Inr (batch # _) \<Rightarrow> send_batch p account epoch batch w1
      | Inr [] \<Rightarrow>
          (case load_state (cp_chrono p) (cp_scope_codec p) account (cw_db w1) of
             Inl _ \<Rightarrow> (StepStoreFailure, w1)
           | Inr None \<Rightarrow>
               (StepContinue,
                store_ignoring (sync_ensure_state (cp_chrono p) (cp_scope_codec p) account now) w1)
           | Inr (Some state) \<Rightarrow>
               (case next_scope state of
                  None \<Rightarrow> (StepQuiescent, w1)
                | Some scope \<Rightarrow> step_generation p account epoch now state scope w1)))"

section \<open>The loop of the worker\<close>

datatype worker_exit =
  ExitQuiescent | ExitBackoff i64 | ExitTerminal | ExitStoreFailure | ExitStopped

definition stopped :: "u64 \<Rightarrow> 'w collect_world \<Rightarrow> bool" where
  "stopped epoch w \<longleftrightarrow> cw_cancel w \<or> cw_epoch w \<noteq> epoch"

text \<open>The deadline of a retry of this epoch that has not come yet.\<close>

definition retry_deadline ::
  "'w collect_sync \<Rightarrow> u64 \<Rightarrow> 'w collect_world \<Rightarrow> i64 option \<times> 'w collect_world" where
  "retry_deadline p epoch w =
     (case cw_next_retry w of
        Some (retry_epoch, not_before) \<Rightarrow>
          if retry_epoch = epoch
          then (case cp_now p w of (now, w1) \<Rightarrow> (if now < not_before then Some not_before else None, w1))
          else (None, w)
      | None \<Rightarrow> (None, w))"

fun exit_of_step :: "step_result \<Rightarrow> worker_exit option" where
  "exit_of_step StepContinue = None"
| "exit_of_step StepQuiescent = Some ExitQuiescent"
| "exit_of_step (StepBackoff until_ms) = Some (ExitBackoff until_ms)"
| "exit_of_step StepTerminal = Some ExitTerminal"
| "exit_of_step StepStoreFailure = Some ExitStoreFailure"
| "exit_of_step StepStop = Some ExitStopped"

definition note_backoff :: "u64 \<Rightarrow> step_result \<Rightarrow> 'w collect_world \<Rightarrow> 'w collect_world" where
  "note_backoff epoch r w =
     (case r of StepBackoff until_ms \<Rightarrow> w\<lparr>cw_next_retry := Some (epoch, until_ms)\<rparr> | _ \<Rightarrow> w)"

definition worker_iteration ::
  "'w collect_sync \<Rightarrow> u64 \<Rightarrow> 'w collect_world \<Rightarrow> worker_exit option \<times> 'w collect_world" where
  "worker_iteration p epoch w =
     (if stopped epoch w then (Some ExitStopped, w)
      else
        (case account_key_matching_epoch p epoch w of
           None \<Rightarrow> (Some ExitStopped, w)
         | Some account \<Rightarrow>
             (case retry_deadline p epoch w of
                (Some not_before, w1) \<Rightarrow> (Some (ExitBackoff not_before), w1)
              | (None, w1) \<Rightarrow>
                  (case collect_step p account epoch w1 of (r, w2) \<Rightarrow>
                     if stopped epoch w2 then (Some ExitStopped, w2)
                     else (exit_of_step r, note_backoff epoch r w2)))))"

text \<open>The loop may run for ever: then its value is \<open>None\<close>.\<close>

partial_function (option) worker_loop ::
  "'w collect_sync \<Rightarrow> u64 \<Rightarrow> 'w collect_world \<Rightarrow> (worker_exit \<times> 'w collect_world) option" where
  "worker_loop p epoch w =
     (case worker_iteration p epoch w of (result, w1) \<Rightarrow>
        (case result of Some exit \<Rightarrow> Some (exit, w1) | None \<Rightarrow> worker_loop p epoch w1))"

definition collect_run_worker ::
  "'w collect_sync \<Rightarrow> u64 \<Rightarrow> 'w collect_world \<Rightarrow> (worker_exit \<times> 'w collect_world) option" where
  "collect_run_worker p epoch w = worker_loop p epoch (publish_status p w)"

section \<open>Starting workers\<close>

definition has_work :: "'w collect_sync \<Rightarrow> 'w collect_world \<Rightarrow> bool" where
  "has_work p w =
     (case collect_account_key p w of
        None \<Rightarrow> False
      | Some account \<Rightarrow>
          (case count_pending_batches account (cw_db w) of Inr n \<Rightarrow> 0 < n | Inl _ \<Rightarrow> False) \<or>
          (case stored_state p account w of
             None \<Rightarrow> False
           | Some state \<Rightarrow> cs_pending_scope state \<noteq> None \<or> baseline_open state))"

definition start_worker :: "'w collect_sync \<Rightarrow> 'w collect_world \<Rightarrow> 'w collect_world" where
  "start_worker p w =
     (let epoch = cw_epoch w
      in case cp_spawn p (w\<lparr>cw_workers := epoch # cw_workers w\<rparr>) of
           (spawned, w1) \<Rightarrow>
             publish_status p
               (if spawned then w1
                else w1\<lparr>cw_running := False, cw_workers := remove1 epoch (cw_workers w1)\<rparr>))"

definition kick :: "'w collect_sync \<Rightarrow> 'w collect_world \<Rightarrow> 'w collect_world" where
  "kick p w =
     (let epoch = cw_epoch w
      in if cw_cancel w \<or> cw_terminal_blocked_epoch w = epoch then w
         else (case retry_deadline p epoch w of
                 (Some _, w1) \<Rightarrow> w1
               | (None, w1) \<Rightarrow>
                   if cw_running w1 then w1
                   else start_worker p (w1\<lparr>cw_running := True, cw_cancel := False\<rparr>)))"

definition schedule_retry :: "'w collect_sync \<Rightarrow> i64 \<Rightarrow> u64 \<Rightarrow> 'w collect_world \<Rightarrow> 'w collect_world" where
  "schedule_retry p until_ms epoch w =
     (case cp_spawn p w of (spawned, w1) \<Rightarrow>
        if spawned then w1\<lparr>cw_retries := (until_ms, epoch) # cw_retries w1\<rparr> else w1)"

text \<open>What a worker's thread does after its loop, and the whole thread.\<close>

definition release_worker :: "u64 \<Rightarrow> worker_exit \<Rightarrow> 'w collect_world \<Rightarrow> 'w collect_world" where
  "release_worker epoch exit w =
     w\<lparr>cw_terminal_blocked_epoch := (if exit = ExitTerminal then epoch else cw_terminal_blocked_epoch w),
       cw_running := False, cw_workers := remove1 epoch (cw_workers w)\<rparr>"

definition after_worker ::
  "'w collect_sync \<Rightarrow> u64 \<Rightarrow> worker_exit \<Rightarrow> 'w collect_world \<Rightarrow> 'w collect_world" where
  "after_worker p epoch exit w =
     (case exit of
        ExitQuiescent \<Rightarrow>
          if \<not> cw_cancel w \<and> cw_epoch w = epoch \<and> has_work p w then kick p w else w
      | ExitStopped \<Rightarrow>
          if \<not> cw_cancel w \<and> cw_epoch w \<noteq> epoch \<and> has_work p w then kick p w else w
      | ExitBackoff until_ms \<Rightarrow> schedule_retry p until_ms epoch w
      | _ \<Rightarrow> w)"

definition worker_thread ::
  "'w collect_sync \<Rightarrow> u64 \<Rightarrow> 'w collect_world \<Rightarrow> 'w collect_world option" where
  "worker_thread p epoch w =
     (case collect_run_worker p epoch w of
        None \<Rightarrow> None
      | Some (exit, w1) \<Rightarrow>
          Some (after_worker p epoch exit (publish_status p (release_worker epoch exit w1))))"

text \<open>One round of a retry thread: whether it ends, and the world.\<close>

definition retry_round ::
  "'w collect_sync \<Rightarrow> i64 \<Rightarrow> u64 \<Rightarrow> 'w collect_world \<Rightarrow> bool \<times> 'w collect_world" where
  "retry_round p until_ms epoch w =
     (if stopped epoch w then (True, w)
      else (case cp_now p w of (now, w1) \<Rightarrow>
              if 0 < i64_saturating_sub until_ms now then (False, w1)
              else if cw_next_retry w1 \<noteq> Some (epoch, until_ms) then (True, w1)
              else (True, kick p (w1\<lparr>cw_next_retry := None\<rparr>))))"

section \<open>Requests from the application\<close>

definition merge_scope ::
  "'w collect_sync \<Rightarrow> account_key \<Rightarrow> upload_scope \<Rightarrow> i64 \<Rightarrow> 'w collect_world \<Rightarrow> 'w collect_world" where
  "merge_scope p account scope now =
     store_ignoring (merge_pending_scope (cp_chrono p) (cp_scope_codec p) account scope now)"

definition prepare_account :: "'w collect_sync \<Rightarrow> account_key \<Rightarrow> 'w collect_world \<Rightarrow> 'w collect_world" where
  "prepare_account p account w =
     (case cp_now p w of (now, w1) \<Rightarrow>
        let w2 = store_ignoring (sync_ensure_state (cp_chrono p) (cp_scope_codec p) account now) w1
        in case stored_state p account w2 of
             Some state \<Rightarrow> if baseline_open state then merge_scope p account UploadFull now w2 else w2
           | None \<Rightarrow> w2)"

definition on_signed_in :: "'w collect_sync \<Rightarrow> string \<Rightarrow> 'w collect_world \<Rightarrow> 'w collect_world" where
  "on_signed_in p user_id w =
     (let w1 = w\<lparr>cw_active_user_id := Some user_id, cw_cancel := False,
                 cw_terminal_blocked_epoch := - 1, cw_epoch := cw_epoch w + 1, cw_next_retry := None\<rparr>
      in kick p (case collect_account_key p w1 of
                   None \<Rightarrow> w1 | Some account \<Rightarrow> prepare_account p account w1))"

definition on_signed_out :: "'w collect_sync \<Rightarrow> 'w collect_world \<Rightarrow> 'w collect_world" where
  "on_signed_out p w =
     publish_status p (w\<lparr>cw_cancel := True, cw_epoch := cw_epoch w + 1, cw_active_user_id := None,
                         cw_next_retry := None\<rparr>)"

definition on_committed_daily_upload ::
  "'w collect_sync \<Rightarrow> committed_daily_upload \<Rightarrow> 'w collect_world \<Rightarrow> 'w collect_world" where
  "on_committed_daily_upload p upload w =
     (if cdu_targets upload = [] then w
      else (case into_upload_scope (cp_chrono p) upload of
              None \<Rightarrow> w
            | Some scope \<Rightarrow>
                (case collect_account_key p w of
                   None \<Rightarrow> w
                 | Some account \<Rightarrow>
                     (case cp_now p w of (now, w1) \<Rightarrow> kick p (merge_scope p account scope now w1)))))"

definition retry_now :: "'w collect_sync \<Rightarrow> 'w collect_world \<Rightarrow> 'w collect_world" where
  "retry_now p w = kick p (w\<lparr>cw_terminal_blocked_epoch := - 1, cw_next_retry := None\<rparr>)"

definition on_startup :: "'w collect_sync \<Rightarrow> 'w collect_world \<Rightarrow> 'w collect_world" where
  "on_startup p w =
     (case session_snapshot_of (cw_session w) of
        SignedIn account \<Rightarrow> on_signed_in p (su_user_id account) w | _ \<Rightarrow> w)"

text \<open>The threads of the service and the rest of the application, one operation at a time.\<close>

inductive upload_step :: "'w collect_sync \<Rightarrow> 'w collect_world \<Rightarrow> 'w collect_world \<Rightarrow> bool"
  for p :: "'w collect_sync" where
  signed_in: "upload_step p w (on_signed_in p user_id w)"
| signed_out: "upload_step p w (on_signed_out p w)"
| committed: "upload_step p w (on_committed_daily_upload p upload w)"
| retried: "upload_step p w (retry_now p w)"
| startup: "upload_step p w (on_startup p w)"
| session: "upload_step p w (w\<lparr>cw_session := s\<rparr>)"
| worker: "\<lbrakk>epoch \<in> set (cw_workers w); worker_thread p epoch w = Some w'\<rbrakk> \<Longrightarrow> upload_step p w w'"
| waiting: "\<lbrakk>(until_ms, epoch) \<in> set (cw_retries w); retry_round p until_ms epoch w = (False, w')\<rbrakk>
    \<Longrightarrow> upload_step p w w'"
| waited: "\<lbrakk>(until_ms, epoch) \<in> set (cw_retries w); retry_round p until_ms epoch w = (True, w')\<rbrakk>
    \<Longrightarrow> upload_step p w (w'\<lparr>cw_retries := remove1 (until_ms, epoch) (cw_retries w')\<rparr>)"

end
