(* ===== verification/CollectSyncFacts.thy ===== *)
theory CollectSyncFacts
  imports CollectSync CollectSyncStoreFacts
begin

text \<open>
  The upload worker delivers what is in the outbox. The locale \<open>upload_environment\<close> states what the
  worker relies on while it waits in a port: other threads may sign in, sign out, merge scopes and
  change its flags, but only the worker writes the outbox, and the remote remembers what it accepted.
\<close>

section \<open>What the worker relies on\<close>

text \<open>\<open>accepted\<close> observes what the remote has accepted: an idempotency key with a body.\<close>

definition upload_ok :: "'w collect_sync \<Rightarrow> 'w collect_world \<Rightarrow> bool" where
  "upload_ok p w \<longleftrightarrow>
     scope_reads_back (cp_chrono p) (cp_scope_codec p) \<and>
     sync_db_ok (cp_chrono p) (cp_scope_codec p) (cw_db w)"

definition delivers ::
  "'w collect_sync \<Rightarrow> ('w \<Rightarrow> string \<Rightarrow> string \<Rightarrow> bool) \<Rightarrow> 'w collect_world \<Rightarrow> 'w collect_world \<Rightarrow> bool" where
  "delivers p accepted w w' \<longleftrightarrow>
     (upload_ok p w \<longrightarrow>
        upload_ok p w' \<and>
        (\<forall>r \<in> set (sd_outbox (cw_db w)). r \<in> set (sd_outbox (cw_db w')) \<or>
           accepted (cw_rest w') (ob_idempotency_key r) (ob_request_body r)) \<and>
        (\<forall>key body. accepted (cw_rest w) key body \<longrightarrow> accepted (cw_rest w') key body))"

text \<open>What other threads do while the worker waits.\<close>

definition quiet_for ::
  "'w collect_sync \<Rightarrow> ('w \<Rightarrow> string \<Rightarrow> string \<Rightarrow> bool) \<Rightarrow> 'w collect_world \<Rightarrow> 'w collect_world \<Rightarrow> bool" where
  "quiet_for p accepted w w' \<longleftrightarrow>
     sd_outbox (cw_db w') = sd_outbox (cw_db w) \<and>
     (upload_ok p w \<longrightarrow> upload_ok p w') \<and>
     (\<forall>key body. accepted (cw_rest w) key body \<longrightarrow> accepted (cw_rest w') key body)"

locale upload_environment =
  fixes p :: "'w collect_sync" and accepted :: "'w \<Rightarrow> string \<Rightarrow> string \<Rightarrow> bool"
  assumes now_quiet: "quiet_for p accepted w (snd (cp_now p w))"
    and uuid_quiet: "quiet_for p accepted w (snd (cp_uuid p w))"
    and batch_uuids_quiet: "quiet_for p accepted w (snd (cp_batch_uuids p w))"
    and export_quiet: "quiet_for p accepted w (snd (cp_export p query w))"
    and upsert_quiet: "quiet_for p accepted w (snd (cp_upsert_device p device w))"
    and push_quiet: "quiet_for p accepted w (snd (cp_push_daily_usage p request w))"
    and push_accepted: "cp_push_daily_usage p request w = (Inr answer, w') \<Longrightarrow>
      accepted (cw_rest w') (pq_idempotency_key request) (pq_request_body request)"
    and publish_quiet: "quiet_for p accepted w (cp_on_status_changed p snapshot w)"

section \<open>Calls of the store\<close>

text \<open>A step that loses no row of the outbox.\<close>

definition keeping ::
  "'w collect_sync \<Rightarrow> ('w \<Rightarrow> string \<Rightarrow> string \<Rightarrow> bool) \<Rightarrow> 'w collect_world \<Rightarrow> 'w collect_world \<Rightarrow> bool" where
  "keeping p accepted w w' \<longleftrightarrow>
     (upload_ok p w \<longrightarrow>
        upload_ok p w' \<and> set (sd_outbox (cw_db w)) \<subseteq> set (sd_outbox (cw_db w')) \<and>
        (\<forall>key body. accepted (cw_rest w) key body \<longrightarrow> accepted (cw_rest w') key body))"

lemma quiet_keeping: "quiet_for p accepted w w' \<Longrightarrow> keeping p accepted w w'"
  by (auto simp: quiet_for_def keeping_def)

lemma keeping_delivers: "keeping p accepted w w' \<Longrightarrow> delivers p accepted w w'"
  unfolding keeping_def delivers_def by blast

lemma keeping_refl [simp, intro]: "keeping p accepted w w"
  by (simp add: keeping_def)

lemma keeping_trans [trans]:
  "\<lbrakk>keeping p accepted w1 w2; keeping p accepted w2 w3\<rbrakk> \<Longrightarrow> keeping p accepted w1 w3"
  unfolding keeping_def by blast

lemma delivers_trans [trans]:
  "\<lbrakk>delivers p accepted w1 w2; delivers p accepted w2 w3\<rbrakk> \<Longrightarrow> delivers p accepted w1 w3"
  unfolding delivers_def by blast

text \<open>A call of the store that keeps the tables well formed and every row of the outbox.\<close>

definition keeps_rows :: "'w collect_sync \<Rightarrow> (sync_db \<Rightarrow> ('e + 'a) \<times> sync_db) \<Rightarrow> bool" where
  "keeps_rows p m \<longleftrightarrow>
     (\<forall>db. scope_reads_back (cp_chrono p) (cp_scope_codec p) \<longrightarrow>
           sync_db_ok (cp_chrono p) (cp_scope_codec p) db \<longrightarrow>
           sync_db_ok (cp_chrono p) (cp_scope_codec p) (snd (m db)) \<and>
           set (sd_outbox db) \<subseteq> set (sd_outbox (snd (m db))))"

lemma store_ignoring_world: "store_ignoring m w = w\<lparr>cw_db := snd (m (cw_db w))\<rparr>"
  by (simp add: store_ignoring_def on_store_def split: prod.splits)

lemma on_store_keeping: "keeps_rows p m \<Longrightarrow> keeping p accepted w (snd (on_store m w))"
proof (cases "m (cw_db w)")
  case (Pair r db')
  assume "keeps_rows p m"
  then have "upload_ok p w \<Longrightarrow>
      sync_db_ok (cp_chrono p) (cp_scope_codec p) db' \<and> set (sd_outbox (cw_db w)) \<subseteq> set (sd_outbox db')"
    unfolding keeps_rows_def upload_ok_def using Pair by (metis snd_conv)
  with Pair show ?thesis by (auto simp: keeping_def upload_ok_def on_store_def)
qed

lemma store_ignoring_keeping: "keeps_rows p m \<Longrightarrow> keeping p accepted w (store_ignoring m w)"
  by (simp add: store_ignoring_def on_store_keeping)

lemma ensure_then_update_outbox:
  assumes "sync_db_ok c codec db"
  shows "sd_outbox (snd (ensure_then_update c codec account now f db)) = sd_outbox db"
  using ensure_state_Inr(2) [OF _ assms] update_state_frame
  by (auto simp: ensure_then_update_def split: sum.splits)

lemma keeps_attempt_result:
  "keeps_rows p (record_attempt_result (cp_chrono p) (cp_scope_codec p) account now code message retryable)"
  unfolding keeps_rows_def record_attempt_result_def
  by (intro allI impI conjI ensure_then_update_keeps) (simp_all add: ensure_then_update_outbox)

lemma keeps_baseline_complete:
  "keeps_rows p (mark_baseline_complete (cp_chrono p) (cp_scope_codec p) account now)"
  unfolding keeps_rows_def mark_baseline_complete_def
  by (intro allI impI conjI ensure_then_update_keeps) (simp_all add: ensure_then_update_outbox)

lemma keeps_register_device: "keeps_rows p (register_device p account fingerprint registered now)"
  unfolding keeps_rows_def register_device_def set_device_registration_def
  by (intro allI impI conjI ensure_then_update_keeps) (simp_all add: ensure_then_update_outbox)

lemma transact_outbox:
  assumes "\<And>x db'. body db = Inr (x, db') \<Longrightarrow> set (sd_outbox db) \<subseteq> set (sd_outbox db')"
  shows "set (sd_outbox db) \<subseteq> set (sd_outbox (snd (transact body db)))"
  using assms by (cases "body db") (auto simp: transact_def)

lemma keeps_ensure_state:
  "keeps_rows p (sync_ensure_state (cp_chrono p) (cp_scope_codec p) account now)"
  unfolding keeps_rows_def
proof (intro allI impI conjI sync_ensure_state_keeps)
  fix db assume "sync_db_ok (cp_chrono p) (cp_scope_codec p) db"
  from ensure_state_Inr(2) [OF _ this]
  show "set (sd_outbox db) \<subseteq>
      set (sd_outbox (snd (sync_ensure_state (cp_chrono p) (cp_scope_codec p) account now db)))"
    unfolding sync_ensure_state_def by (intro transact_outbox) auto
qed

lemma insert_outbox_batches_mono:
  "insert_outbox_batches account gen now bs rows = Inr rows' \<Longrightarrow> set rows \<subseteq> set rows'"
proof (induction bs arbitrary: rows)
  case (Cons b bs)
  then obtain rows1 where "insert_outbox_batch account gen now b rows = Inr rows1"
    "insert_outbox_batches account gen now bs rows1 = Inr rows'"
    by (auto simp: bind_res_Inr)
  with Cons.IH [of rows1] show ?case by (auto simp: insert_outbox_batch_def Let_def split: if_splits)
qed simp

lemma keeps_create_generation:
  "keeps_rows p (create_generation (cp_chrono p) (cp_scope_codec p) input)"
  unfolding keeps_rows_def
proof (intro allI impI conjI create_generation_keeps)
  let ?c = "cp_chrono p" and ?codec = "cp_scope_codec p"
  fix db assume ok: "sync_db_ok ?c ?codec db"
  show "set (sd_outbox db) \<subseteq> set (sd_outbox (snd (create_generation ?c ?codec input db)))"
  proof (cases "create_generation ?c ?codec input db")
    case (Pair r db')
    show ?thesis
    proof (cases r)
      case (Inl e)
      with Pair show ?thesis by (auto simp: create_generation_def transact_def split: sum.splits)
    next
      case (Inr x)
      obtain s' listed where "x = (s', listed)" by (cases x)
      with Pair Inr have run: "create_generation ?c ?codec input db = (Inr (s', listed), db')" by simp
      obtain s db1 rows json where steps:
        "ensure_state ?c ?codec (cgi_account input) (cgi_now_ms input) db = Inr (s, db1)"
        "insert_outbox_batches (cgi_account input) (cgi_generation_id input) (cgi_now_ms input)
           (cgi_prepared_batches input) (sd_outbox db1) = Inr rows"
        "update_state (cgi_account input)
           (generation_row input s (cs_next_client_revision s + int (length (cgi_prepared_batches input))) json)
           (db1\<lparr>sd_outbox := rows\<rparr>) = Inr db'"
        by (rule create_generation_Inr [OF run ok]) blast
      from update_state_frame [OF steps(3)] have "sd_outbox db' = rows" by simp
      with ensure_state_Inr(2) [OF steps(1) ok] insert_outbox_batches_mono [OF steps(2)] Pair
      show ?thesis by simp
    qed
  qed
qed

section \<open>The worker keeps its promise\<close>

definition names_row :: "outbox_batch \<Rightarrow> 'w collect_world \<Rightarrow> bool" where
  "names_row batch w \<longleftrightarrow>
     (\<exists>r \<in> set (sd_outbox (cw_db w)). ob_id r = xb_id batch \<and>
        ob_idempotency_key r = xb_idempotency_key batch \<and> ob_request_body r = xb_request_body batch)"

lemma listed_names_row:
  assumes "list_pending_batches account (cw_db w) = Inr (batch # rest)"
  shows "names_row batch w"
proof -
  let ?rows = "sort_key ob_client_revision (pending_rows account (cw_db w))"
  from assms obtain r rows where r: "?rows = r # rows" "map_outbox_row account r = Inr batch"
    by (auto simp: list_pending_batches_def collect_res_Inr list_all2_Cons2)
  then have "r \<in> set ?rows" by simp
  then have "r \<in> set (sd_outbox (cw_db w))" by (simp add: pending_rows_def)
  with map_outbox_row_id [OF r(2)] show ?thesis by (auto simp: names_row_def)
qed

lemma names_row_keeping:
  "\<lbrakk>names_row batch w; keeping p accepted w w'; upload_ok p w\<rbrakk> \<Longrightarrow> names_row batch w'"
  by (auto simp: names_row_def keeping_def)

lemma accept_delivers:
  assumes "names_row batch w" and "accepted (cw_rest w) (xb_idempotency_key batch) (xb_request_body batch)"
  shows "delivers p accepted w (snd (on_store (mark_batch_accepted account (xb_id batch) t) w))"
proof (cases "mark_batch_accepted account (xb_id batch) t (cw_db w)")
  case (Pair result db')
  show ?thesis
  proof (cases result)
    case (Inl e)
    with Pair show ?thesis
      by (auto simp: on_store_def delivers_def mark_batch_accepted_def transact_def upload_ok_def split: sum.splits)
  next
    case (Inr b)
    have "delivers p accepted w (w\<lparr>cw_db := db'\<rparr>)"
      unfolding delivers_def
    proof (intro impI)
      assume ok: "upload_ok p w"
      then have db_ok: "sync_db_ok (cp_chrono p) (cp_scope_codec p) (cw_db w)" by (simp add: upload_ok_def)
      obtain f where "update_state account f
          ((cw_db w)\<lparr>sd_outbox := filter (\<lambda>r. ob_id r \<noteq> xb_id batch) (sd_outbox (cw_db w))\<rparr>) = Inr db'"
        by (rule mark_batch_accepted_Inr [OF Pair [unfolded Inr] db_ok]) blast
      then have left: "sd_outbox db' = filter (\<lambda>r. ob_id r \<noteq> xb_id batch) (sd_outbox (cw_db w))"
        by (simp add: update_state_frame)
      from db_ok have ids: "inj_on ob_id (set (sd_outbox (cw_db w)))"
        by (simp add: sync_db_ok_def distinct_map)
      have "sync_db_ok (cp_chrono p) (cp_scope_codec p) db'"
        using mark_batch_accepted_keeps [OF db_ok, of account "xb_id batch" t] Pair by simp
      with ok have "upload_ok p (w\<lparr>cw_db := db'\<rparr>)" by (simp add: upload_ok_def)
      moreover have "r \<in> set (sd_outbox db') \<or> accepted (cw_rest w) (ob_idempotency_key r) (ob_request_body r)"
        if "r \<in> set (sd_outbox (cw_db w))" for r
      proof (cases "ob_id r = xb_id batch")
        case True
        from assms(1) obtain r' where r': "r' \<in> set (sd_outbox (cw_db w))" "ob_id r' = xb_id batch"
          "ob_idempotency_key r' = xb_idempotency_key batch" "ob_request_body r' = xb_request_body batch"
          by (auto simp: names_row_def)
        with True have "r = r'" by (intro inj_onD [OF ids _ that r'(1)]) simp
        with r' assms(2) show ?thesis by simp
      qed (use that left in simp)
      ultimately show "upload_ok p (w\<lparr>cw_db := db'\<rparr>) \<and>
          (\<forall>r \<in> set (sd_outbox (cw_db w)). r \<in> set (sd_outbox (cw_db (w\<lparr>cw_db := db'\<rparr>))) \<or>
             accepted (cw_rest (w\<lparr>cw_db := db'\<rparr>)) (ob_idempotency_key r) (ob_request_body r)) \<and>
          (\<forall>key body. accepted (cw_rest w) key body \<longrightarrow> accepted (cw_rest (w\<lparr>cw_db := db'\<rparr>)) key body)"
        by simp
    qed
    with Pair show ?thesis by (simp add: on_store_def)
  qed
qed

text \<open>Operations through which no row is lost, one rule per combinator.\<close>

definition keeping_eff ::
  "'w collect_sync \<Rightarrow> ('w \<Rightarrow> string \<Rightarrow> string \<Rightarrow> bool) \<Rightarrow> ('w collect_world, 'e, 'a) eff \<Rightarrow> bool" where
  "keeping_eff p accepted m \<longleftrightarrow> (\<forall>w. keeping p accepted w (snd (m w)))"

named_theorems keeping_rules \<open>operations that lose no row\<close>

lemma keeping_effD: "\<lbrakk>keeping_eff p accepted m; m w = (r, w')\<rbrakk> \<Longrightarrow> keeping p accepted w w'"
  by (metis keeping_eff_def snd_conv)

lemma keeping_bind [keeping_rules]:
  assumes "keeping_eff p accepted m" and "\<And>x. keeping_eff p accepted (f x)"
  shows "keeping_eff p accepted (bind_eff m f)"
  unfolding keeping_eff_def
proof
  fix w
  obtain r w1 where m: "m w = (r, w1)" by fastforce
  note first = keeping_effD [OF assms(1) m]
  show "keeping p accepted w (snd (bind_eff m f w))"
  proof (cases r)
    case (Inr x)
    from assms(2) have "keeping p accepted w1 (snd (f x w1))" by (simp add: keeping_eff_def)
    with first m Inr show ?thesis by (auto simp: bind_eff_def intro: keeping_trans)
  qed (use first m in \<open>simp add: bind_eff_def\<close>)
qed

lemma keeping_as_store_error [keeping_rules]:
  assumes "keeping_eff p accepted m"
  shows "keeping_eff p accepted (as_store_error m)"
  unfolding keeping_eff_def
proof
  fix w
  obtain r w1 where "m w = (r, w1)" by fastforce
  with keeping_effD [OF assms this] show "keeping p accepted w (snd (as_store_error m w))"
    by (cases r) (simp_all add: as_store_error_def catch_eff_def case_eff_def throw_eff_def return_eff_def)
qed

lemma keeping_pure [keeping_rules]:
  "keeping_eff p accepted (lift_res r)" "keeping_eff p accepted (read_res g)"
  "keeping_eff p accepted (return_eff x)" "keeping_eff p accepted (throw_eff e)"
  by (simp_all add: keeping_eff_def lift_res_def read_res_def return_eff_def throw_eff_def)

lemma keeping_total [keeping_rules]:
  "(\<And>w. keeping p accepted w (snd (m w))) \<Longrightarrow> keeping_eff p accepted (total_eff m)"
  by (auto simp: keeping_eff_def total_eff_def split: prod.splits) (metis snd_conv)

lemma keeping_on_store [keeping_rules]:
  "keeps_rows p m \<Longrightarrow> keeping_eff p accepted (on_store m)"
  by (simp add: keeping_eff_def on_store_keeping)

lemma keeping_modify [keeping_rules]:
  "(\<And>w. keeping p accepted w (g w)) \<Longrightarrow> keeping_eff p accepted (modify_eff g)"
  by (simp add: keeping_eff_def modify_eff_def)

lemma keeping_if [keeping_rules]:
  "\<lbrakk>keeping_eff p accepted m; keeping_eff p accepted m'\<rbrakk> \<Longrightarrow> keeping_eff p accepted (if b then m else m')"
  by simp

lemma keeping_flags [simp]:
  "keeping p accepted w (w'\<lparr>cw_next_retry := x\<rparr>) = keeping p accepted w w'"
  by (simp add: keeping_def upload_ok_def)

lemma delivers_flags [simp]:
  "delivers p accepted w (w'\<lparr>cw_next_retry := x\<rparr>) = delivers p accepted w w'"
  by (simp add: delivers_def upload_ok_def)

context upload_environment
begin

lemmas port_keeping =
  now_quiet [THEN quiet_keeping] uuid_quiet [THEN quiet_keeping] batch_uuids_quiet [THEN quiet_keeping]
  export_quiet [THEN quiet_keeping] upsert_quiet [THEN quiet_keeping] push_quiet [THEN quiet_keeping]
  publish_quiet [THEN quiet_keeping]

lemma attempt_result_keeping: "keeping p accepted w (attempt_result p account now code message retryable w)"
  unfolding attempt_result_def by (intro store_ignoring_keeping keeps_attempt_result)

lemma baseline_completed_keeping: "keeping p accepted w (baseline_completed p account now w)"
  unfolding baseline_completed_def by (intro store_ignoring_keeping keeps_baseline_complete)

lemma publish_status_keeping: "keeping p accepted w (publish_status p w)"
  unfolding publish_status_def by (rule port_keeping)

lemma remote_error_keeping:
  "map_remote_step_error p account now error w = (r, w') \<Longrightarrow> keeping p accepted w w'"
  by (auto simp: map_remote_step_error_def split: prod.splits
      intro: keeping_trans [OF attempt_result_keeping publish_status_keeping])

lemma force_device_register_keeping: "keeping_eff p accepted (force_device_register p account epoch now)"
proof -
  have "keeping_eff p accepted (bind_eff (cp_upsert_device p (upsert_request p account)) (\<lambda>_.
      modify_eff (store_ignoring (register_device p account (device_fingerprint p) 1 now))))"
    by (intro keeping_rules store_ignoring_keeping keeps_register_device)
       (simp add: keeping_eff_def port_keeping)
  then show ?thesis by (simp add: keeping_eff_def force_device_register_def)
qed

lemma ensure_device_registered_keeping:
  "keeping_eff p accepted (ensure_device_registered p account epoch state now)"
  unfolding ensure_device_registered_def by (intro keeping_rules force_device_register_keeping)

lemma materialize_generation_keeping: "keeping_eff p accepted (materialize_generation p account scope now)"
  unfolding materialize_generation_def
  by (intro keeping_rules keeps_create_generation port_keeping)
     (simp add: keeping_eff_def port_keeping)

lemma empty_generation_keeping: "keeping p accepted w (empty_generation p account state now w)"
proof -
  obtain gen w1 where gen: "cp_uuid p w = (gen, w1)" by fastforce
  let ?w2 = "store_ignoring (create_generation (cp_chrono p) (cp_scope_codec p)
      (generation_input p account gen UploadFull [] now False)) w1"
  let ?w3 = "if baseline_open state then baseline_completed p account now ?w2 else ?w2"
  have "keeping p accepted w w1" using port_keeping(2) [of w] gen by simp
  also have "keeping p accepted w1 ?w2" by (intro store_ignoring_keeping keeps_create_generation)
  also have "keeping p accepted ?w2 ?w3" by (simp add: baseline_completed_keeping)
  also have "keeping p accepted ?w3 (attempt_result p account now None None None ?w3)"
    by (rule attempt_result_keeping)
  finally show ?thesis by (simp add: empty_generation_def gen Let_def)
qed

lemma register_again_keeping:
  assumes "register_again p account epoch now w = (r, w')"
  shows "keeping p accepted w w'"
proof (cases "stored_state p account w")
  case (Some state)
  let ?w1 = "store_ignoring (register_device p account ''invalidate'' 0 now) w"
  obtain x w2 where force: "force_device_register p account epoch now ?w1 = (x, w2)" by fastforce
  have "keeping p accepted w ?w1" by (intro store_ignoring_keeping keeps_register_device)
  also from force_device_register_keeping force have "keeping p accepted ?w1 w2" by (rule keeping_effD)
  finally have w2: "keeping p accepted w w2" .
  show ?thesis
  proof (cases x)
    case (Inl error)
    with assms Some force have "map_remote_step_error p account now error w2 = (r, w')"
      by (simp add: register_again_def)
    from keeping_trans [OF w2 remote_error_keeping [OF this]] show ?thesis .
  qed (use assms Some force w2 in \<open>simp add: register_again_def\<close>)
qed (use assms in \<open>simp add: register_again_def\<close>)

lemma batch_accepted_delivers:
  assumes "names_row batch w \<or> \<not> upload_ok p w"
    and "accepted (cw_rest w) (xb_idempotency_key batch) (xb_request_body batch)"
    and run: "batch_accepted p account batch w = (r, w')"
  shows "delivers p accepted w w'"
proof (cases "upload_ok p w")
  case True
  obtain t w1 where t: "cp_now p w = (t, w1)" by fastforce
  have w1: "keeping p accepted w w1" using port_keeping(1) [of w] t by simp
  with True assms(1,2) have names: "names_row batch w1"
    and acc: "accepted (cw_rest w1) (xb_idempotency_key batch) (xb_request_body batch)"
    by (auto intro: names_row_keeping simp: keeping_def)
  obtain x w2 where mark: "on_store (mark_batch_accepted account (xb_id batch) t) w1 = (x, w2)" by fastforce
  from accept_delivers [of batch w1 accepted p account t, OF names acc] mark
  have w2: "delivers p accepted w w2"
    using delivers_trans [OF keeping_delivers [OF w1]] by simp
  define w3 where "w3 =
      (case stored_state p account w2 of
         Some state \<Rightarrow> if cs_baseline_status state = BaselineInProgress
           then baseline_completed p account t w2 else w2
       | None \<Rightarrow> w2)"
  have "keeping p accepted w2 w3"
    by (auto simp: w3_def baseline_completed_keeping split: option.split)
  then have last: "delivers p accepted w (publish_status p (attempt_result p account t None None None x))"
    if "x = w2 \<or> x = w3" for x
    using that w2 keeping_delivers
    by (meson attempt_result_keeping publish_status_keeping delivers_trans)
  from run t mark w2 last show ?thesis
    by (cases x; cases "count_pending_batches account (cw_db w2)")
       (auto simp: batch_accepted_def Let_def w3_def split: if_splits)
qed (simp add: delivers_def)

end

context upload_environment
begin

lemma push_batch_delivers:
  assumes "names_row batch w \<or> \<not> upload_ok p w" and "push_batch p account epoch now batch w = (r, w')"
  shows "delivers p accepted w w'"
proof -
  obtain x w1 where push: "cp_push_daily_usage p (push_request_of account batch) w = (x, w1)" by fastforce
  have w1: "keeping p accepted w w1" using port_keeping(6) [of w] push by (metis snd_conv)
  show ?thesis
  proof (cases x)
    case (Inr answer)
    have "accepted (cw_rest w1) (xb_idempotency_key batch) (xb_request_body batch)"
      using push_accepted [OF push [unfolded Inr]] by (simp add: push_request_of_def)
    moreover have "batch_accepted p account batch w1 = (r, w')"
      using assms(2) push Inr by (simp add: push_batch_def)
    moreover have "names_row batch w1 \<or> \<not> upload_ok p w1 \<or> \<not> upload_ok p w"
      using assms(1) w1 names_row_keeping by blast
    ultimately show ?thesis
      using batch_accepted_delivers keeping_delivers [OF w1] by (meson delivers_def delivers_trans)
  next
    case (Inl error)
    have "register_again p account epoch now w1 = (r, w') \<or>
        map_remote_step_error p account now error w1 = (r, w')"
      using assms(2) push Inl by (auto simp: push_batch_def split: collect_sync_remote_error.splits)
    then have "keeping p accepted w1 w'" by (auto intro: register_again_keeping remote_error_keeping)
    with w1 show ?thesis by (blast intro: keeping_delivers keeping_trans)
  qed
qed

lemma send_batch_delivers:
  assumes "names_row batch w \<or> \<not> upload_ok p w" and "send_batch p account epoch batch w = (r, w')"
  shows "delivers p accepted w w'"
proof (cases "cw_epoch w \<noteq> epoch \<or> cw_cancel w \<or> collect_account_key p w \<noteq> Some account")
  case False
  obtain now w1 where now: "cp_now p w = (now, w1)" by fastforce
  have w1: "keeping p accepted w w1" using port_keeping(1) [of w] now by simp
  let ?register = "case stored_state p account w1 of None \<Rightarrow> return_eff ()
    | Some state \<Rightarrow> ensure_device_registered p account epoch state now"
  obtain x w2 where reg: "?register w1 = (x, w2)" by fastforce
  have "keeping_eff p accepted ?register"
    by (auto simp: ensure_device_registered_keeping keeping_rules split: option.split)
  from keeping_trans [OF w1 keeping_effD [OF this reg]] have w2: "keeping p accepted w w2" .
  have cases: "(case stored_state p account w1 of None \<Rightarrow> (Inr (), w1)
      | Some state \<Rightarrow> ensure_device_registered p account epoch state now w1) = (x, w2)"
    using reg by (auto simp: return_eff_def split: option.splits)
  show ?thesis
  proof (cases x)
    case (Inl error)
    with assms(2) now cases False have "map_remote_step_error p account now error w2 = (r, w')"
      by (auto simp: send_batch_def split: if_splits)
    from keeping_trans [OF w2 remote_error_keeping [OF this]] show ?thesis by (rule keeping_delivers)
  next
    case (Inr u)
    with assms(2) now cases False have "push_batch p account epoch now batch w2 = (r, w')"
      by (auto simp: send_batch_def split: if_splits)
    moreover have "names_row batch w2 \<or> \<not> upload_ok p w2 \<or> \<not> upload_ok p w"
      using assms(1) w2 names_row_keeping by blast
    ultimately show ?thesis
      using push_batch_delivers keeping_delivers [OF w2] by (meson delivers_def delivers_trans)
  qed
qed (use assms(2) in \<open>auto simp: send_batch_def keeping_delivers split: if_splits\<close>)

lemma step_generation_delivers:
  assumes "step_generation p account epoch now state scope w = (r, w')"
  shows "delivers p accepted w w'"
proof -
  obtain x w1 where reg: "ensure_device_registered p account epoch state now w = (x, w1)" by fastforce
  from keeping_effD [OF ensure_device_registered_keeping reg] have w1: "keeping p accepted w w1" .
  obtain y w2 where mat: "materialize_generation p account scope now w1 = (y, w2)" by fastforce
  from keeping_trans [OF w1 keeping_effD [OF materialize_generation_keeping mat]]
  have w2: "keeping p accepted w w2" .
  have "keeping p accepted w w'"
    using assms reg mat w1 w2 empty_generation_keeping
    by (auto simp: step_generation_def split: sum.splits step_error.splits if_splits
        intro: keeping_trans remote_error_keeping)
  then show ?thesis by (rule keeping_delivers)
qed

lemma collect_step_delivers:
  assumes "collect_step p account epoch w = (r, w')"
  shows "delivers p accepted w w'"
proof -
  obtain now w1 where now: "cp_now p w = (now, w1)" by fastforce
  have w1: "delivers p accepted w w1"
    using port_keeping(1) [of w] now by (auto intro: keeping_delivers)
  let ?ensured = "store_ignoring (sync_ensure_state (cp_chrono p) (cp_scope_codec p) account now) w1"
  have ensured: "delivers p accepted w1 ?ensured"
    by (intro keeping_delivers store_ignoring_keeping keeps_ensure_state)
  show ?thesis
  proof (cases "list_pending_batches account (cw_db w1)")
    case (Inr batches)
    show ?thesis
    proof (cases batches)
      case (Cons batch rest)
      with Inr listed_names_row [of account w1 batch rest] assms now
        send_batch_delivers [of batch w1 account epoch r w'] delivers_trans [OF w1]
      show ?thesis by (simp add: collect_step_def)
    next
      case Nil
      with Inr assms now w1 ensured show ?thesis
        by (auto simp: collect_step_def split: sum.splits option.splits
            intro: delivers_trans step_generation_delivers)
    qed
  qed (use assms now w1 in \<open>simp add: collect_step_def\<close>)
qed

lemma worker_iteration_delivers:
  assumes "worker_iteration p epoch w = (r, w')"
  shows "delivers p accepted w w'"
proof -
  obtain d w1 where wait: "retry_deadline p epoch w = (d, w1)" by fastforce
  have w1: "delivers p accepted w w1"
    using wait port_keeping(1) [of w]
    by (auto simp: retry_deadline_def keeping_delivers split: option.splits prod.splits if_splits)
  have "delivers p accepted w w2" if "collect_step p account epoch w1 = (s, w2)" for account s w2
    using delivers_trans [OF w1 collect_step_delivers [OF that]] .
  then show ?thesis
    using assms wait w1 keeping_delivers [OF keeping_refl]
    by (auto simp: worker_iteration_def note_backoff_def split: if_splits option.splits prod.splits step_result.splits)
qed

lemma worker_loop_delivers:
  assumes "worker_loop p epoch w = Some result"
  shows "delivers p accepted w (snd result)"
proof -
  have "p = p \<longrightarrow> delivers p accepted w (snd result)"
  proof (rule worker_loop.raw_induct [of "\<lambda>q epoch w result. q = p \<longrightarrow> delivers p accepted w (snd result)"])
    fix loop :: "'w collect_sync \<Rightarrow> u64 \<Rightarrow> 'w collect_world \<Rightarrow> (worker_exit \<times> 'w collect_world) option"
      and q epoch w result
    assume IH: "\<And>q e w y. loop q e w = Some y \<Longrightarrow> q = p \<longrightarrow> delivers p accepted w (snd y)"
      and run: "(case worker_iteration q epoch w of (None, w1) \<Rightarrow> loop q epoch w1
        | (Some exit, w1) \<Rightarrow> Some (exit, w1)) = Some result"
    obtain r w1 where iter: "worker_iteration p epoch w = (r, w1)" by fastforce
    note first = worker_iteration_delivers [OF iter]
    show "q = p \<longrightarrow> delivers p accepted w (snd result)"
    proof (cases r)
      case None
      with run iter have "q = p \<Longrightarrow> loop q epoch w1 = Some result" by auto
      with IH [of q epoch w1 result] have "q = p \<longrightarrow> delivers p accepted w1 (snd result)" by blast
      with first show ?thesis by (blast intro: delivers_trans)
    qed (use run iter first in auto)
  qed (fact assms)
  then show ?thesis by simp
qed

lemma run_worker_delivers:
  "collect_run_worker p epoch w = Some (exit, w') \<Longrightarrow> delivers p accepted w w'"
  unfolding collect_run_worker_def
  by (drule worker_loop_delivers,
      auto intro: delivers_trans [OF keeping_delivers [OF publish_status_keeping]])

end

end
