(* ===== verification/CollectSyncSend.thy ===== *)
theory CollectSyncSend
  imports CollectSyncFacts
begin

text \<open>
  Sending one batch of the upload worker: when the calls of the store succeed, and the world after a
  batch the remote accepted.
\<close>

section \<open>Store calls that succeed\<close>

lemma map_outbox_row_checked:
  assumes "check_outbox r" and "ob_status r \<in> {''pending'', ''accepted''}"
  obtains b where "map_outbox_row account r = Inr b"
proof -
  from assms have "ob_window_scope r = ''full'' \<or> ob_window_scope r = ''incremental''"
    by (auto simp: check_outbox_def)
  then obtain scope where scope: "(if ob_window_scope r = ''full'' then Inr WireFull
      else if ob_window_scope r = ''incremental'' then Inr WireIncremental else Inl SyncBackend) = Inr scope"
    by auto
  from assms(2) obtain status where "outbox_status_parse (ob_status r) = Some status"
    by (auto simp: outbox_status_parse_def)
  with scope show thesis by (intro that) (simp add: map_outbox_row_def)
qed

lemma update_where_state_row:
  assumes "state_row account db = Some s" and "\<And>r. sy_account (f r) = sy_account r"
  shows "state_row account (db\<lparr>sd_states := update_where (\<lambda>r. sy_account r = account) f (sd_states db)\<rparr>) = Some (f s)"
proof -
  have "find (\<lambda>r. sy_account r = account) (update_where (\<lambda>r. sy_account r = account) f rows) =
      map_option f (find (\<lambda>r. sy_account r = account) rows)" for rows
    using assms(2) by (induction rows) (auto simp: update_where_def)
  with assms(1) show ?thesis by (simp add: state_row_def)
qed

lemma update_state_one:
  assumes "sync_db_ok c codec db" and "state_row account db = Some s" and "check_sync_state (f s)"
  shows "update_state account f db =
    Inr (db\<lparr>sd_states := update_where (\<lambda>r. sy_account r = account) f (sd_states db)\<rparr>)"
proof -
  have "check_sync_state (f r)" if "r \<in> set (sd_states db)" "sy_account r = account" for r
    using state_row_member [of db r] assms that by (auto simp: sync_db_ok_def)
  then show ?thesis by (simp add: update_state_def list_all_iff)
qed

lemma ensure_then_update_one:
  assumes "sync_db_ok c codec db" and "state_row account db = Some s" and "check_sync_state (f s)"
  shows "ensure_then_update c codec account now f db =
    (Inr (), db\<lparr>sd_states := update_where (\<lambda>r. sy_account r = account) f (sd_states db)\<rparr>)"
proof -
  have "state_row_ok c codec s"
    using assms(1) state_row_Some [OF assms(2)] by (auto simp: sync_db_ok_def list_all_iff)
  then obtain st where "state_of_row c codec account s = Inr st" by (rule state_of_row_ok)
  then have "ensure_state c codec account now db = Inr (st, db)"
    using assms(2) by (simp add: ensure_state_def load_state_def transpose_opt_def)
  then show ?thesis
    using update_state_one [of c codec db account s f, OF assms] by (simp add: ensure_then_update_def)
qed

lemma filter_the_one: "\<lbrakk>distinct xs; x \<in> set xs\<rbrakk> \<Longrightarrow> filter (\<lambda>y. y = x) xs = [x]"
  by (induction xs) (auto simp: filter_empty_conv)

lemma pending_row_unique:
  assumes "sync_db_ok c codec db" and "r \<in> set (pending_rows account db)"
  shows "filter (accept_target account (ob_id r)) (sd_outbox db) = [r]"
proof -
  from assms(2) have r: "r \<in> set (sd_outbox db)" "ob_account r = account" by (simp_all add: pending_rows_def)
  note cases = accept_row_cases [OF _ assms(1) r(1) refl r(2)]
  have "filter (accept_target account (ob_id r)) (sd_outbox db) = filter (\<lambda>x. x = r) (sd_outbox db)"
    using cases r by (intro filter_cong) auto
  moreover have "distinct (sd_outbox db)"
    using assms(1) by (simp add: sync_db_ok_def distinct_map)
  ultimately show ?thesis
    using r(1) by (simp add: filter_the_one)
qed

text \<open>The database after the acceptance of one of its pending rows.\<close>

definition without_row :: "account_key \<Rightarrow> outbox_row \<Rightarrow> i64 \<Rightarrow> sync_db \<Rightarrow> sync_db" where
  "without_row account r t db =
     (let rows = filter (\<lambda>x. ob_id x \<noteq> ob_id r) (sd_outbox db)
      in \<lparr>sd_states = update_where (\<lambda>s. sy_account s = account)
            (accepted_state t (filter (\<lambda>x. ob_account x = account) rows = [])) (sd_states db),
          sd_outbox = rows\<rparr>)"

lemma accept_row_checked:
  assumes "check_outbox r" and "ob_status r = ''pending''" and "ob_created_at_ms r \<le> t"
  shows "check_outbox (accept_row t r)"
  using assms by (simp add: check_outbox_def accept_row_def)

lemma accept_loads:
  assumes ok: "sync_db_ok c codec db" and r: "r \<in> set (pending_rows account db)" and t: "ob_created_at_ms r \<le> t"
    and outbox: "sd_outbox db2 = update_where (accept_target account (ob_id r)) (accept_row t) (sd_outbox db)"
  obtains b where "load_batch account (ob_id r) db2 = Inr (Some b)"
proof -
  let ?p = "\<lambda>x. ob_id x = ob_id r \<and> ob_account x = account"
  from r have mem: "r \<in> set (sd_outbox db)" "ob_account r = account" "ob_status r = ''pending''"
    by (simp_all add: pending_rows_def)
  have "accept_row t r \<in> set (sd_outbox db2)"
    unfolding outbox update_where_def using mem by (auto simp: accept_target_def intro!: image_eqI [of _ _ r])
  moreover have "?p (accept_row t r)" using mem by (simp add: accept_row_def)
  ultimately have "find ?p (sd_outbox db2) \<noteq> None"
    unfolding find_None_iff by blast
  then obtain x where found: "find ?p (sd_outbox db2) = Some x" by auto
  then have "x \<in> set (sd_outbox db2)" "ob_id x = ob_id r" "ob_account x = account"
    by (auto dest: find_Some_member)
  then obtain y where y: "y \<in> set (sd_outbox db)" "ob_id y = ob_id r"
      "x = (if accept_target account (ob_id r) y then accept_row t y else y)"
    unfolding outbox update_where_def by (auto simp: accept_row_def split: if_splits)
  from accept_row_cases(2) [OF y(1) ok mem(1) refl mem(2)] y(2) have "y = r" by simp
  with y(3) mem have "x = accept_row t r" by (simp add: accept_target_def)
  moreover have "check_outbox r"
    using ok mem(1) by (auto simp: sync_db_ok_def list_all_iff outbox_row_ok_def)
  ultimately have "check_outbox x" "ob_status x \<in> {''pending'', ''accepted''}"
    using accept_row_checked mem(3) t by (simp_all add: accept_row_def)
  then obtain b where "map_outbox_row account x = Inr b" by (rule map_outbox_row_checked)
  with found show thesis by (intro that) (simp add: load_batch_def transpose_opt_def)
qed

lemma accept_succeeds:
  assumes ok: "sync_db_ok c codec db" and r: "r \<in> set (pending_rows account db)"
    and s: "state_row account db = Some s"
    and t: "ob_created_at_ms r \<le> t" "sy_created_at_ms s \<le> t"
  shows "\<exists>b. mark_batch_accepted account (ob_id r) t db = (Inr b, without_row account r t db)"
proof -
  let ?target = "accept_target account (ob_id r)"
  define rows where "rows = update_where ?target (accept_row t) (sd_outbox db)"
  define db1 where "db1 = db\<lparr>sd_outbox := rows\<rparr>"
  define f where "f = accepted_state t (pending_rows account db1 = [])"
  define db2 where "db2 = db1\<lparr>sd_states := update_where (\<lambda>x. sy_account x = account) f (sd_states db1)\<rparr>"
  from r have mem: "r \<in> set (sd_outbox db)" "ob_account r = account" by (simp_all add: pending_rows_def)
  note one = pending_row_unique [OF ok r]
  note cases = accept_row_cases [OF _ ok mem(1) refl mem(2)]
  have checked: "check_outbox r" "ob_status r = ''pending''"
    using ok mem(1) by (auto simp: sync_db_ok_def list_all_iff outbox_row_ok_def)
  have "check_outbox (accept_row t x)" if "x \<in> set (sd_outbox db)" "?target x" for x
    using cases(2) [OF that(1)] that(2) accept_row_checked [OF checked t(1)] by (simp add: accept_target_def)
  then have fine: "\<not> list_ex (\<lambda>x. ?target x \<and> \<not> check_outbox (accept_row t x)) (sd_outbox db)"
    by (auto simp: list_ex_iff)
  have "sy_created_at_ms s \<ge> 0" "check_sync_state s"
    using ok state_row_Some [OF s] by (auto simp: sync_db_ok_def list_all_iff state_row_ok_def check_sync_state_def)
  then have "check_sync_state (f s)"
    using t(2) by (simp add: check_sync_state_def f_def accepted_state_def non_negative_def)
  then have "check_sync_state (f x)" if "x \<in> set (sd_states db1)" "sy_account x = account" for x
    using state_row_member [of db x] ok s that by (auto simp: sync_db_ok_def db1_def)
  then have upd: "update_state account f db1 = Inr db2"
    by (simp add: update_state_def list_all_iff db2_def)
  have out2: "sd_outbox db2 = rows" by (simp add: db2_def db1_def)
  obtain b where load: "load_batch account (ob_id r) db2 = Inr (Some b)"
    by (rule accept_loads [OF ok r t(1), of db2]) (simp_all add: out2 rows_def)
  have removed: "filter (\<lambda>x. \<not> delete_target account (ob_id r) x) rows =
      filter (\<lambda>x. ob_id x \<noteq> ob_id r) (sd_outbox db)"
    unfolding rows_def update_where_def
    by (rule filter_map_same)
       (use cases in \<open>auto simp: delete_target_def accept_row_def accept_target_def mem split: if_splits\<close>)
  have pending: "\<forall>x \<in> set (sd_outbox db). ob_status x = ''pending''"
    using ok by (auto simp: sync_db_ok_def list_all_iff outbox_row_ok_def)
  have "pending_rows account db1 = filter (\<lambda>x. ob_account x = account \<and> ob_id x \<noteq> ob_id r) (sd_outbox db)"
  proof -
    have "filter (\<lambda>x. ob_account x = account \<and> ob_status x = ''pending'') rows =
        filter (\<lambda>x. ob_account x = account \<and> ob_id x \<noteq> ob_id r) (sd_outbox db)"
      unfolding rows_def update_where_def
      by (rule filter_map_same) (use cases pending in \<open>auto simp: accept_row_def split: if_splits\<close>)
    then show ?thesis by (simp add: pending_rows_def db1_def)
  qed
  then have f: "accepted_state t (filter (\<lambda>x. ob_id x \<noteq> ob_id r \<and> ob_account x = account) (sd_outbox db) = []) = f"
    by (simp add: f_def conj_commute)
  have "accept_in_transaction account (ob_id r) t db =
      Inr (b, db2\<lparr>sd_outbox := filter (\<lambda>x. \<not> delete_target account (ob_id r) x) (sd_outbox db2)\<rparr>)"
    unfolding accept_in_transaction_def Let_def rows_def [symmetric] db1_def [symmetric] f_def [symmetric]
    using fine one upd load by (simp add: ok_or_def)
  moreover have "db2\<lparr>sd_outbox := filter (\<lambda>x. \<not> delete_target account (ob_id r) x) (sd_outbox db2)\<rparr> =
      without_row account r t db"
    by (simp add: out2 removed without_row_def Let_def f db2_def db1_def)
  ultimately show ?thesis by (simp add: mark_batch_accepted_def transact_def)
qed

section \<open>An account ready to be drained\<close>

definition account_ready :: "'w collect_sync \<Rightarrow> account_key \<Rightarrow> i64 \<Rightarrow> sync_db \<Rightarrow> bool" where
  "account_ready p account t0 db \<longleftrightarrow>
     (\<exists>s. state_row account db = Some s \<and> sy_pending_scope_json s = None \<and>
        sy_device_metadata_fingerprint s = Some (device_fingerprint p) \<and>
        sy_device_registered_revision s \<noteq> None \<and> sy_created_at_ms s \<le> t0 \<and>
        sy_baseline_status s \<noteq> ''none'') \<and>
     (\<forall>r \<in> set (pending_rows account db). ob_created_at_ms r \<le> t0) \<and>
     length (pending_rows account db) < 2 ^ 32"

text \<open>The database after a batch was sent: accepted, the baseline completed with the last one, noted.\<close>

definition state_updated :: "account_key \<Rightarrow> (sync_state_row \<Rightarrow> sync_state_row) \<Rightarrow> sync_db \<Rightarrow> sync_db" where
  "state_updated account f db =
     db\<lparr>sd_states := update_where (\<lambda>r. sy_account r = account) f (sd_states db)\<rparr>"

definition completed_row :: "i64 \<Rightarrow> sync_state_row \<Rightarrow> sync_state_row" where
  "completed_row t r = r\<lparr>sy_baseline_status := ''complete'', sy_updated_at_ms := t\<rparr>"

definition attempted_row :: "i64 \<Rightarrow> sync_state_row \<Rightarrow> sync_state_row" where
  "attempted_row t r =
     r\<lparr>sy_last_attempt_at_ms := Some t, sy_last_error_code := None, sy_last_error_message := None,
       sy_last_error_retryable := None, sy_updated_at_ms := t\<rparr>"

lemma pending_state_updated [simp]:
  "pending_rows account (state_updated account' f db) = pending_rows account db"
  "sd_outbox (state_updated account' f db) = sd_outbox db"
  by (simp_all add: state_updated_def pending_rows_def)

lemma pending_without_row:
  assumes "sync_db_ok c codec db"
  shows "pending_rows account (without_row account r t db) =
    filter (\<lambda>x. ob_id x \<noteq> ob_id r) (pending_rows account db)"
    and "sd_outbox (without_row account r t db) = filter (\<lambda>x. ob_id x \<noteq> ob_id r) (sd_outbox db)"
  by (simp_all add: without_row_def Let_def pending_rows_def conj_ac)

lemma ready_state_updated:
  assumes "account_ready p account t0 db"
    and "\<And>r. sy_account (f r) = sy_account r" "\<And>r. sy_pending_scope_json (f r) = sy_pending_scope_json r"
      "\<And>r. sy_device_metadata_fingerprint (f r) = sy_device_metadata_fingerprint r"
      "\<And>r. sy_device_registered_revision (f r) = sy_device_registered_revision r"
      "\<And>r. sy_created_at_ms (f r) = sy_created_at_ms r"
      "\<And>r. sy_baseline_status (f r) = sy_baseline_status r \<or> sy_baseline_status (f r) = ''complete''"
  shows "account_ready p account t0 (state_updated account f db)"
proof -
  from assms(1) obtain s where s: "state_row account db = Some s" "sy_pending_scope_json s = None"
    "sy_device_metadata_fingerprint s = Some (device_fingerprint p)" "sy_device_registered_revision s \<noteq> None"
    "sy_created_at_ms s \<le> t0" "sy_baseline_status s \<noteq> ''none''"
    by (auto simp: account_ready_def)
  have "state_row account (state_updated account f db) = Some (f s)"
    unfolding state_updated_def using s(1) assms(2) by (rule update_where_state_row)
  moreover have "sy_baseline_status (f s) \<noteq> ''none''"
    using s(6) assms(7) [of s] by auto
  ultimately show ?thesis
    using s(2-5) assms(1,3-6) by (simp add: account_ready_def)
qed

lemma accepted_state_fields [simp]:
  "sy_account (accepted_state t b r) = sy_account r"
  "sy_pending_scope_json (accepted_state t b r) = sy_pending_scope_json r"
  "sy_device_metadata_fingerprint (accepted_state t b r) = sy_device_metadata_fingerprint r"
  "sy_device_registered_revision (accepted_state t b r) = sy_device_registered_revision r"
  "sy_created_at_ms (accepted_state t b r) = sy_created_at_ms r"
  "sy_baseline_status (accepted_state t b r) = sy_baseline_status r"
  by (simp_all add: accepted_state_def)

lemma ready_checked:
  assumes "sync_db_ok c codec db" and "account_ready p account t0 db" and "state_row account db = Some s"
    and "t0 \<le> t"
  shows "check_sync_state (completed_row t s)" "check_sync_state (attempted_row t s)"
proof -
  have "sy_created_at_ms s \<le> t0" using assms(2,3) by (auto simp: account_ready_def)
  moreover have "check_sync_state s"
    using assms(1) state_row_Some [OF assms(3)] by (auto simp: sync_db_ok_def list_all_iff state_row_ok_def)
  ultimately show "check_sync_state (completed_row t s)" "check_sync_state (attempted_row t s)"
    using assms(4) by (simp_all add: check_sync_state_def completed_row_def attempted_row_def non_negative_def)
qed

lemma ready_updates:
  assumes "sync_db_ok c codec db" and "account_ready p account t0 db" and "t0 \<le> t"
  shows "mark_baseline_complete c codec account t db = (Inr (), state_updated account (completed_row t) db)"
    and "record_attempt_result c codec account t None None None db =
      (Inr (), state_updated account (attempted_row t) db)"
proof -
  from assms(2) obtain s where s: "state_row account db = Some s" by (auto simp: account_ready_def)
  note checked = ready_checked [OF assms(1,2) s assms(3)]
  have "completed_row t = (\<lambda>r. r\<lparr>sy_baseline_status := ''complete'', sy_updated_at_ms := t\<rparr>)"
    by (rule ext) (rule completed_row_def)
  then show "mark_baseline_complete c codec account t db = (Inr (), state_updated account (completed_row t) db)"
    using ensure_then_update_one [of c codec db account s "completed_row t", OF assms(1) s checked(1)]
    unfolding mark_baseline_complete_def state_updated_def by simp
  have "attempted_row t = (\<lambda>r. r\<lparr>sy_last_attempt_at_ms := Some t, sy_last_error_code := None,
      sy_last_error_message := None, sy_last_error_retryable := map_option (\<lambda>b. if b then 1 else 0) None,
      sy_updated_at_ms := t\<rparr>)"
    by (rule ext) (simp add: attempted_row_def)
  then show "record_attempt_result c codec account t None None None db =
      (Inr (), state_updated account (attempted_row t) db)"
    using ensure_then_update_one [of c codec db account s "attempted_row t", OF assms(1) s checked(2)]
    unfolding record_attempt_result_def state_updated_def by simp
qed

definition baseline_settled :: "account_key \<Rightarrow> sync_db \<Rightarrow> bool" where
  "baseline_settled account db \<longleftrightarrow>
     (pending_rows account db = [] \<longrightarrow>
        (\<exists>s. state_row account db = Some s \<and> sy_baseline_status s = ''complete''))"

text \<open>The world answers at once, in order, and never before \<open>t0\<close>; the remote accepts.\<close>

definition responsive :: "'w collect_sync \<Rightarrow> ('w \<Rightarrow> (string \<times> string) list) \<Rightarrow> i64 \<Rightarrow> bool" where
  "responsive p sent t0 \<longleftrightarrow>
     (\<forall>w. \<exists>t rest. cp_now p w = (t, w\<lparr>cw_rest := rest\<rparr>) \<and> t0 \<le> t \<and> sent rest = sent (cw_rest w)) \<and>
     (\<forall>w snapshot. \<exists>rest. cp_on_status_changed p snapshot w = w\<lparr>cw_rest := rest\<rparr> \<and>
        sent rest = sent (cw_rest w)) \<and>
     (\<forall>w request. \<exists>answer rest. cp_push_daily_usage p request w = (Inr answer, w\<lparr>cw_rest := rest\<rparr>) \<and>
        sent rest = sent (cw_rest w) @ [(pq_idempotency_key request, pq_request_body request)])"

lemma ready_without_row:
  assumes ok: "sync_db_ok c codec db" and ready: "account_ready p account t0 db"
  shows "account_ready p account t0 (without_row account r t db)"
proof -
  define db1 where "db1 = db\<lparr>sd_outbox := filter (\<lambda>x. ob_id x \<noteq> ob_id r) (sd_outbox db)\<rparr>"
  have "pending_rows account db1 = filter (\<lambda>x. ob_id x \<noteq> ob_id r) (pending_rows account db)"
    by (simp add: db1_def pending_rows_def conj_ac)
  moreover have "state_row account db1 = state_row account db" by (simp add: db1_def state_row_def)
  ultimately have "account_ready p account t0 db1"
    using ready by (auto simp: account_ready_def intro: le_less_trans [OF length_filter_le])
  then have "account_ready p account t0 (state_updated account (accepted_state t b) db1)" for b
    by (rule ready_state_updated) simp_all
  moreover have "without_row account r t db = state_updated account (accepted_state t
      (filter (\<lambda>x. ob_account x = account) (filter (\<lambda>x. ob_id x \<noteq> ob_id r) (sd_outbox db)) = [])) db1"
    by (cases db) (simp add: without_row_def Let_def db1_def state_updated_def)
  ultimately show ?thesis by simp
qed

lemma stored_state_ready:
  assumes "upload_ok p w" and "account_ready p account t0 (cw_db w)"
  obtains s state where "state_row account (cw_db w) = Some s" "stored_state p account w = Some state"
    "load_state (cp_chrono p) (cp_scope_codec p) account (cw_db w) = Inr (Some state)"
    "baseline_parse (sy_baseline_status s) = Some (cs_baseline_status state)"
    "cs_pending_scope state = None" "device_registered p state" "sy_baseline_status s \<noteq> ''none''"
proof -
  from assms(2) obtain s where s: "state_row account (cw_db w) = Some s" "sy_pending_scope_json s = None"
    "sy_device_metadata_fingerprint s = Some (device_fingerprint p)" "sy_device_registered_revision s \<noteq> None"
    "sy_baseline_status s \<noteq> ''none''"
    by (auto simp: account_ready_def)
  have "state_row_ok (cp_chrono p) (cp_scope_codec p) s"
    using assms(1) state_row_Some [OF s(1)] by (auto simp: upload_ok_def sync_db_ok_def list_all_iff)
  then obtain state where state: "state_of_row (cp_chrono p) (cp_scope_codec p) account s = Inr state"
    by (rule state_of_row_ok)
  then have load: "load_state (cp_chrono p) (cp_scope_codec p) account (cw_db w) = Inr (Some state)"
    using s(1) by (simp add: load_state_def transpose_opt_def)
  moreover have "cs_device_metadata_fingerprint state = sy_device_metadata_fingerprint s"
    using state by (auto simp: state_of_row_def bind_res_Inr ok_or_Inr)
  moreover note state_of_row_fields [OF state]
  ultimately show thesis
    using s by (intro that) (auto simp: stored_state_def device_registered_def transpose_opt_def)
qed

lemma count_pending_ready:
  assumes "account_ready p account t0 db"
  obtains n where "count_pending_batches account db = Inr n" "n = 0 \<longleftrightarrow> pending_rows account db = []"
proof -
  let ?n = "word_of_nat (length (pending_rows account db)) :: u32"
  from assms have less: "length (pending_rows account db) < 2 ^ 32" by (simp add: account_ready_def)
  then have "unat ?n = length (pending_rows account db)" by (simp add: unat_of_nat)
  then have "?n = 0 \<longleftrightarrow> pending_rows account db = []"
    by (metis length_0_conv unat_eq_zero)
  moreover from less have "count_pending_batches account db = Inr ?n"
    by (simp add: count_pending_batches_def u32_of_nat_def)
  ultimately show thesis by (intro that)
qed

section \<open>Sending one batch\<close>

text \<open>The world after a batch was sent.\<close>

definition sent_world ::
  "'w collect_sync \<Rightarrow> ('w \<Rightarrow> (string \<times> string) list) \<Rightarrow> account_key \<Rightarrow> i64 \<Rightarrow> outbox_row
   \<Rightarrow> (string \<times> string) list \<Rightarrow> 'w collect_world \<Rightarrow> 'w collect_world \<Rightarrow> bool" where
  "sent_world p sent account t0 r sends w w' \<longleftrightarrow>
     (\<exists>db rest. w' = w\<lparr>cw_db := db, cw_rest := rest\<rparr> \<and> sent rest = sent (cw_rest w) @ sends \<and>
        sync_db_ok (cp_chrono p) (cp_scope_codec p) db \<and> account_ready p account t0 db \<and>
        baseline_settled account db \<and>
        sd_outbox db = filter (\<lambda>x. ob_id x \<noteq> ob_id r) (sd_outbox (cw_db w)))"

lemma responsive_now:
  assumes "responsive p sent t0"
  obtains t rest where "cp_now p w = (t, w\<lparr>cw_rest := rest\<rparr>)" "t0 \<le> t" "sent rest = sent (cw_rest w)"
  using assms unfolding responsive_def by meson

lemma responsive_publish:
  assumes "responsive p sent t0"
  obtains rest where "publish_status p w = w\<lparr>cw_rest := rest\<rparr>" "sent rest = sent (cw_rest w)"
  using assms unfolding responsive_def publish_status_def by meson

lemma settled_attempt:
  assumes "baseline_settled account db"
  shows "baseline_settled account (state_updated account (attempted_row t) db)"
proof -
  have "state_row account (state_updated account (attempted_row t) db) = Some (attempted_row t s)"
    if "state_row account db = Some s" for s
    using that unfolding state_updated_def
    by (rule update_where_state_row) (simp add: attempted_row_def)
  with assms show ?thesis by (force simp: baseline_settled_def attempted_row_def)
qed

text \<open>The baseline is completed with the last batch.\<close>

lemma baseline_step:
  assumes ok: "upload_ok p w" and ready: "account_ready p account t0 (cw_db w)" and t: "t0 \<le> t"
    and n: "n = 0 \<longleftrightarrow> pending_rows account (cw_db w) = []"
  obtains db where "(if n = (0::u32) then
       (case stored_state p account w of
          Some state \<Rightarrow> if cs_baseline_status state = BaselineInProgress
            then baseline_completed p account t w else w
        | None \<Rightarrow> w) else w) = w\<lparr>cw_db := db\<rparr>"
    "sync_db_ok (cp_chrono p) (cp_scope_codec p) db" "account_ready p account t0 db"
    "baseline_settled account db" "sd_outbox db = sd_outbox (cw_db w)"
proof -
  let ?c = "cp_chrono p" and ?codec = "cp_scope_codec p"
  from ok have db_ok: "sync_db_ok ?c ?codec (cw_db w)" by (simp add: upload_ok_def)
  obtain s state where state: "state_row account (cw_db w) = Some s" "stored_state p account w = Some state"
    "baseline_parse (sy_baseline_status s) = Some (cs_baseline_status state)" "sy_baseline_status s \<noteq> ''none''"
    by (rule stored_state_ready [OF ok ready]) blast
  show thesis
  proof (cases "n = 0 \<and> cs_baseline_status state = BaselineInProgress")
    case True
    let ?db = "state_updated account (completed_row t) (cw_db w)"
    note marked = ready_updates(1) [OF db_ok ready t]
    have "sync_db_ok ?c ?codec (snd (mark_baseline_complete ?c ?codec account t (cw_db w)))"
      unfolding mark_baseline_complete_def by (rule ensure_then_update_keeps [OF db_ok]) simp_all
    moreover have "account_ready p account t0 ?db"
      by (rule ready_state_updated [OF ready]) (simp_all add: completed_row_def)
    moreover have "state_row account ?db = Some (completed_row t s)"
      unfolding state_updated_def using state(1)
      by (rule update_where_state_row) (simp add: completed_row_def)
    ultimately show thesis
      using True state(2) marked
      by (intro that [of ?db])
         (simp_all add: baseline_completed_def store_ignoring_world baseline_settled_def completed_row_def)
  next
    case False
    with state n have "baseline_settled account (cw_db w)"
      by (auto simp: baseline_settled_def baseline_parse_def split: if_splits)
    with False state(2) db_ok ready show thesis by (intro that [of "cw_db w"]) auto
  qed
qed

lemma responsive_push:
  assumes "responsive p sent t0"
  obtains answer rest where "cp_push_daily_usage p request w = (Inr answer, w\<lparr>cw_rest := rest\<rparr>)"
    "sent rest = sent (cw_rest w) @ [(pq_idempotency_key request, pq_request_body request)]"
  using assms unfolding responsive_def by meson

lemma batch_accepted_sends:
  assumes resp: "responsive p sent t0" and ok: "upload_ok p w" and ready: "account_ready p account t0 (cw_db w)"
    and r: "r \<in> set (pending_rows account (cw_db w))" and id: "xb_id batch = ob_id r"
  obtains w' where "batch_accepted p account batch w = (StepContinue, w')"
    "sent_world p sent account t0 r [] w w'"
proof -
  let ?c = "cp_chrono p" and ?codec = "cp_scope_codec p"
  from ok have db_ok: "sync_db_ok ?c ?codec (cw_db w)" by (simp add: upload_ok_def)
  obtain t rest where now: "cp_now p w = (t, w\<lparr>cw_rest := rest\<rparr>)" and t: "t0 \<le> t"
    and rest: "sent rest = sent (cw_rest w)" by (rule responsive_now [OF resp])
  from ready obtain s where s: "state_row account (cw_db w) = Some s" "sy_created_at_ms s \<le> t0"
    by (auto simp: account_ready_def)
  define db1 where "db1 = without_row account r t (cw_db w)"
  from ready r t have "ob_created_at_ms r \<le> t" by (auto simp: account_ready_def)
  with accept_succeeds [OF db_ok r s(1), of t] s(2) t obtain b where
    mark: "mark_batch_accepted account (ob_id r) t (cw_db w) = (Inr b, db1)" by (auto simp: db1_def)
  define w2 where "w2 = w\<lparr>cw_rest := rest, cw_db := db1\<rparr>"
  have store: "on_store (mark_batch_accepted account (ob_id r) t) (w\<lparr>cw_rest := rest\<rparr>) = (Inr b, w2)"
    by (simp add: on_store_def mark w2_def)
  have db2: "cw_db w2 = db1" by (simp add: w2_def)
  from mark_batch_accepted_keeps [OF db_ok, of account "ob_id r" t] mark ok
  have ok2: "upload_ok p w2" by (simp add: upload_ok_def w2_def)
  have ready2: "account_ready p account t0 (cw_db w2)"
    unfolding db2 db1_def by (rule ready_without_row [OF db_ok ready])
  obtain n where n: "count_pending_batches account (cw_db w2) = Inr n"
    "n = 0 \<longleftrightarrow> pending_rows account (cw_db w2) = []" by (rule count_pending_ready [OF ready2])
  obtain db3 where w3: "(if n = 0 then
       (case stored_state p account w2 of
          Some state \<Rightarrow> if cs_baseline_status state = BaselineInProgress
            then baseline_completed p account t w2 else w2
        | None \<Rightarrow> w2) else w2) = w2\<lparr>cw_db := db3\<rparr>"
    and db3: "sync_db_ok ?c ?codec db3" "account_ready p account t0 db3" "baseline_settled account db3"
      "sd_outbox db3 = sd_outbox db1"
    by (rule baseline_step [OF ok2 ready2 t n(2)]) (simp only: db2)
  define db4 where "db4 = state_updated account (attempted_row t) db3"
  note noted = ready_updates(2) [OF db3(1,2) t]
  have "sync_db_ok ?c ?codec (snd (record_attempt_result ?c ?codec account t None None None db3))"
    unfolding record_attempt_result_def by (rule ensure_then_update_keeps [OF db3(1)]) simp_all
  with noted have ok4: "sync_db_ok ?c ?codec db4" by (simp add: db4_def)
  have ready4: "account_ready p account t0 db4"
    unfolding db4_def by (rule ready_state_updated [OF db3(2)]) (simp_all add: attempted_row_def)
  have w4: "attempt_result p account t None None None (w2\<lparr>cw_db := db3\<rparr>) = w2\<lparr>cw_db := db4\<rparr>"
    using noted by (simp add: attempt_result_def store_ignoring_world db4_def w2_def)
  have out4: "sd_outbox db4 = filter (\<lambda>x. ob_id x \<noteq> ob_id r) (sd_outbox (cw_db w))"
    using db3(4) pending_without_row(2) [OF db_ok] by (simp add: db4_def db1_def)
  have settled: "baseline_settled account db4"
    unfolding db4_def by (rule settled_attempt [OF db3(3)])
  obtain rest' where pub: "publish_status p (w2\<lparr>cw_db := db4\<rparr>) = w2\<lparr>cw_db := db4, cw_rest := rest'\<rparr>"
    "sent rest' = sent rest"
    by (rule responsive_publish [OF resp, of "w2\<lparr>cw_db := db4\<rparr>"]) (auto simp: w2_def)
  have "batch_accepted p account batch w = (StepContinue, w2\<lparr>cw_db := db4, cw_rest := rest'\<rparr>)"
    by (simp add: batch_accepted_def now id store n(1) w3 w4 pub Let_def split del: if_split)
  moreover have "sent_world p sent account t0 r [] w (w2\<lparr>cw_db := db4, cw_rest := rest'\<rparr>)"
    unfolding sent_world_def
    by (intro exI [of _ db4] exI [of _ rest'])
       (simp add: w2_def pub rest ok4 ready4 settled out4)
  ultimately show thesis by (rule that)
qed

end
