(* ===== verification/CollectSyncDrain.thy ===== *)
theory CollectSyncDrain
  imports CollectSyncSend
begin

text \<open>
  Progress of the upload worker: with a remote that accepts, it sends the pending batches of the
  account in revision order and stops; with a remote that never knows the device it does not return.
\<close>

section \<open>Draining the outbox\<close>

definition sends_of :: "outbox_row list \<Rightarrow> (string \<times> string) list" where
  "sends_of rows = map (\<lambda>r. (ob_idempotency_key r, ob_request_body r)) rows"

abbreviation queue :: "account_key \<Rightarrow> 'w collect_world \<Rightarrow> outbox_row list" where
  "queue account w \<equiv> sort_key ob_client_revision (pending_rows account (cw_db w))"

text \<open>The worker of this epoch runs for the account.\<close>

definition working :: "'w collect_sync \<Rightarrow> account_key \<Rightarrow> u64 \<Rightarrow> 'w collect_world \<Rightarrow> bool" where
  "working p account epoch w \<longleftrightarrow>
     \<not> stopped epoch w \<and> account_key_matching_epoch p epoch w = Some account \<and> cw_next_retry w = None"

lemma working_rest [simp]:
  "working p account epoch (w\<lparr>cw_db := db\<rparr>) = working p account epoch w"
  "working p account epoch (w\<lparr>cw_rest := rest\<rparr>) = working p account epoch w"
  by (simp_all add: working_def stopped_def account_key_matching_epoch_def collect_account_key_def)

lemma upload_ok_rest [simp]: "upload_ok p (w\<lparr>cw_rest := rest\<rparr>) = upload_ok p w"
  by (simp add: upload_ok_def)

lemma working_account: "working p account epoch w \<Longrightarrow> collect_account_key p w = Some account"
  by (auto simp: working_def account_key_matching_epoch_def bind_eq_Some_conv split: if_splits)

lemma pending_listed:
  assumes "sync_db_ok c codec db" and "sort_key ob_client_revision (pending_rows account db) = r # rs"
  obtains batch rest where "list_pending_batches account db = Inr (batch # rest)"
    "map_outbox_row account r = Inr batch"
proof -
  have "\<exists>b. map_outbox_row account x = Inr b" if "x \<in> set (pending_rows account db)" for x
  proof -
    from that assms(1) have "check_outbox x" "ob_status x \<in> {''pending'', ''accepted''}"
      by (auto simp: pending_rows_def sync_db_ok_def list_all_iff outbox_row_ok_def)
    then show ?thesis by (rule map_outbox_row_checked) blast
  qed
  then obtain f where f: "\<forall>x \<in> set (pending_rows account db). map_outbox_row account x = Inr (f x)"
    by metis
  then have "list_all2 (\<lambda>x b. map_outbox_row account x = Inr b)
      (sort_key ob_client_revision (pending_rows account db))
      (map f (sort_key ob_client_revision (pending_rows account db)))"
    by (simp add: list_all2_map2 list_all2_same)
  then have "list_pending_batches account db = Inr (map f (sort_key ob_client_revision (pending_rows account db)))"
    by (simp only: list_pending_batches_def collect_res_Inr)
  moreover have "r \<in> set (pending_rows account db)"
    using assms(2) by (metis list.set_intros(1) set_sort)
  ultimately show thesis using assms(2) f by (intro that [of "f r" "map f rs"]) simp_all
qed

lemma queue_tail:
  assumes "sync_db_ok c codec db" and "sort_key ob_client_revision (pending_rows account db) = r # rs"
    and "sd_outbox db' = filter (\<lambda>x. ob_id x \<noteq> ob_id r) (sd_outbox db)"
  shows "sort_key ob_client_revision (pending_rows account db') = rs"
proof -
  have "pending_rows account db' = filter (\<lambda>x. ob_id x \<noteq> ob_id r) (pending_rows account db)"
    by (simp add: pending_rows_def assms(3) conj_ac)
  then have "sort_key ob_client_revision (pending_rows account db') =
      filter (\<lambda>x. ob_id x \<noteq> ob_id r) (sort_key ob_client_revision (pending_rows account db))"
    by (simp only: filter_sort)
  moreover have "distinct (map ob_id (sort_key ob_client_revision (pending_rows account db)))"
    using assms(1) by (simp add: sync_db_ok_def distinct_map pending_rows_def inj_on_def)
  ultimately show ?thesis
    using assms(2) by (auto simp: filter_id_conv image_iff)
qed

lemma iteration_sends:
  assumes resp: "responsive p sent t0" and ok: "upload_ok p w" and work: "working p account epoch w"
    and ready: "account_ready p account t0 (cw_db w)" and first: "queue account w = r # rs"
  obtains w' where "worker_iteration p epoch w = (None, w')"
    "sent_world p sent account t0 r (sends_of [r]) w w'"
proof -
  from ok have db_ok: "sync_db_ok (cp_chrono p) (cp_scope_codec p) (cw_db w)" by (simp add: upload_ok_def)
  obtain batch others where batch: "list_pending_batches account (cw_db w) = Inr (batch # others)"
    "map_outbox_row account r = Inr batch" by (rule pending_listed [OF db_ok first])
  note named = map_outbox_row_id [OF batch(2)]
  have pending: "r \<in> set (pending_rows account (cw_db w))"
    using first by (metis list.set_intros(1) set_sort)
  obtain t1 rest1 where now1: "cp_now p w = (t1, w\<lparr>cw_rest := rest1\<rparr>)" "sent rest1 = sent (cw_rest w)"
    by (rule responsive_now [OF resp])
  define w1 where "w1 = w\<lparr>cw_rest := rest1\<rparr>"
  obtain t2 rest2 where now2: "cp_now p w1 = (t2, w1\<lparr>cw_rest := rest2\<rparr>)" "sent rest2 = sent (cw_rest w1)"
    by (rule responsive_now [OF resp])
  define w2 where "w2 = w1\<lparr>cw_rest := rest2\<rparr>"
  obtain state where state: "stored_state p account w2 = Some state" "device_registered p state"
    by (rule stored_state_ready [of p w2 account t0]) (simp_all add: ok ready w2_def w1_def)
  obtain answer rest3 where push: "cp_push_daily_usage p (push_request_of account batch) w2 =
      (Inr answer, w2\<lparr>cw_rest := rest3\<rparr>)" "sent rest3 = sent (cw_rest w2) @ sends_of [r]"
    by (rule responsive_push [OF resp, of "push_request_of account batch" w2])
       (simp add: named push_request_of_def sends_of_def)
  define w3 where "w3 = w2\<lparr>cw_rest := rest3\<rparr>"
  obtain w4 where accepted: "batch_accepted p account batch w3 = (StepContinue, w4)"
    "sent_world p sent account t0 r [] w3 w4"
    by (rule batch_accepted_sends [OF resp, of w3 account r batch])
       (simp_all add: w3_def w2_def w1_def ok ready pending named)
  have work1: "working p account epoch w1" using work by (simp add: w1_def)
  have running: "\<not> (cw_epoch w1 \<noteq> epoch \<or> cw_cancel w1)"
    using work1 by (simp add: working_def stopped_def)
  have "push_batch p account epoch t2 batch w2 = (StepContinue, w4)"
    by (simp add: push_batch_def push(1) accepted(1) [unfolded w3_def])
  then have "send_batch p account epoch batch w1 = (StepContinue, w4)"
    using running working_account [OF work1]
    by (simp add: send_batch_def now2(1) [folded w2_def] state ensure_device_registered_def return_eff_def)
  then have step: "collect_step p account epoch w = (StepContinue, w4)"
    using now1 batch by (simp add: collect_step_def w1_def)
  from accepted(2) obtain db rest where w4: "w4 = w\<lparr>cw_db := db, cw_rest := rest\<rparr>"
    by (auto simp: sent_world_def w3_def w2_def w1_def)
  have "\<not> stopped epoch w4" using work by (simp add: w4 working_def stopped_def)
  with step work have "worker_iteration p epoch w = (None, w4)"
    by (simp add: worker_iteration_def working_def retry_deadline_def note_backoff_def)
  moreover have "sent_world p sent account t0 r (sends_of [r]) w w4"
    using accepted(2) now1 now2 push by (auto simp: sent_world_def w3_def w2_def w1_def)
  ultimately show thesis by (rule that)
qed

lemma iteration_quiescent:
  assumes resp: "responsive p sent t0" and ok: "upload_ok p w" and work: "working p account epoch w"
    and ready: "account_ready p account t0 (cw_db w)" and settled: "baseline_settled account (cw_db w)"
    and none: "queue account w = []"
  obtains rest where "worker_iteration p epoch w = (Some ExitQuiescent, w\<lparr>cw_rest := rest\<rparr>)"
    "sent rest = sent (cw_rest w)"
proof -
  have empty: "pending_rows account (cw_db w) = []"
    using none by (metis set_sort set_empty)
  obtain t rest where now: "cp_now p w = (t, w\<lparr>cw_rest := rest\<rparr>)" "sent rest = sent (cw_rest w)"
    by (rule responsive_now [OF resp])
  obtain s state where state: "state_row account (cw_db w) = Some s"
    "load_state (cp_chrono p) (cp_scope_codec p) account (cw_db w) = Inr (Some state)"
    "baseline_parse (sy_baseline_status s) = Some (cs_baseline_status state)" "cs_pending_scope state = None"
    by (rule stored_state_ready [OF ok ready]) blast
  from settled empty state(1,3) have "cs_baseline_status state = BaselineComplete"
    by (auto simp: baseline_settled_def baseline_parse_def)
  with state(4) have "next_scope state = None" by (simp add: next_scope_def baseline_open_def)
  moreover have "list_pending_batches account (cw_db w) = Inr []"
    by (simp add: list_pending_batches_def empty collect_res_Inr)
  ultimately have "collect_step p account epoch w = (StepQuiescent, w\<lparr>cw_rest := rest\<rparr>)"
    using now state(2) by (simp add: collect_step_def)
  with work have "worker_iteration p epoch w = (Some ExitQuiescent, w\<lparr>cw_rest := rest\<rparr>)"
    by (simp add: worker_iteration_def working_def retry_deadline_def note_backoff_def stopped_def)
  with now(2) show thesis by (intro that)
qed

lemma worker_loop_unfold:
  "worker_iteration p epoch w = (Some exit, w') \<Longrightarrow> worker_loop p epoch w = Some (exit, w')"
  "worker_iteration p epoch w = (None, w') \<Longrightarrow> worker_loop p epoch w = worker_loop p epoch w'"
  by (simp_all add: worker_loop.simps [of p epoch w])

lemma queue_outbox:
  assumes "sync_db_ok c codec db" and "sort_key ob_client_revision (pending_rows account db) = []"
  shows "filter (\<lambda>x. ob_account x \<noteq> account) (sd_outbox db) = sd_outbox db"
proof -
  have "pending_rows account db = []" using assms(2) by (metis set_sort set_empty)
  then show ?thesis by (auto simp: pending_rows_ok [OF assms(1)] filter_empty_conv filter_id_conv)
qed

lemma worker_loop_drains:
  assumes resp: "responsive p sent t0"
  shows "\<lbrakk>upload_ok p w; working p account epoch w; account_ready p account t0 (cw_db w);
      baseline_settled account (cw_db w); queue account w = rows\<rbrakk>
    \<Longrightarrow> \<exists>w'. worker_loop p epoch w = Some (ExitQuiescent, w') \<and> pending_rows account (cw_db w') = [] \<and>
      sd_outbox (cw_db w') = filter (\<lambda>r. ob_account r \<noteq> account) (sd_outbox (cw_db w)) \<and>
      sent (cw_rest w') = sent (cw_rest w) @ sends_of rows"
proof (induction rows arbitrary: w)
  case Nil
  from Nil(1) have ok: "sync_db_ok (cp_chrono p) (cp_scope_codec p) (cw_db w)" by (simp add: upload_ok_def)
  obtain rest where "worker_iteration p epoch w = (Some ExitQuiescent, w\<lparr>cw_rest := rest\<rparr>)"
    "sent rest = sent (cw_rest w)" by (rule iteration_quiescent [OF resp Nil])
  moreover have "pending_rows account (cw_db w) = []" using Nil(5) by (metis set_sort set_empty)
  ultimately show ?case
    using queue_outbox [OF ok Nil(5)] by (auto dest!: worker_loop_unfold simp: sends_of_def)
next
  case (Cons r rs)
  from Cons.prems(1) have ok: "sync_db_ok (cp_chrono p) (cp_scope_codec p) (cw_db w)" by (simp add: upload_ok_def)
  obtain w1 where iter: "worker_iteration p epoch w = (None, w1)"
    and sent: "sent_world p sent account t0 r (sends_of [r]) w w1"
    by (rule iteration_sends [OF resp Cons.prems(1-3,5)])
  from sent obtain db rest where w1: "w1 = w\<lparr>cw_db := db, cw_rest := rest\<rparr>"
    and log: "sent rest = sent (cw_rest w) @ sends_of [r]"
    and db: "sync_db_ok (cp_chrono p) (cp_scope_codec p) db" "account_ready p account t0 db"
      "baseline_settled account db" "sd_outbox db = filter (\<lambda>x. ob_id x \<noteq> ob_id r) (sd_outbox (cw_db w))"
    by (auto simp: sent_world_def)
  have "queue account w1 = rs" using queue_tail [OF ok Cons.prems(5) db(4)] by (simp add: w1)
  with Cons.IH [of w1] db Cons.prems obtain w' where w':
    "worker_loop p epoch w1 = Some (ExitQuiescent, w')" "pending_rows account (cw_db w') = []"
    "sd_outbox (cw_db w') = filter (\<lambda>r. ob_account r \<noteq> account) (sd_outbox db)"
    "sent (cw_rest w') = sent rest @ sends_of rs"
    by (auto simp: w1 upload_ok_def)
  have "r \<in> set (pending_rows account (cw_db w))"
    using Cons.prems(5) by (metis list.set_intros(1) set_sort)
  then have "r \<in> set (sd_outbox (cw_db w))" "ob_account r = account" by (simp_all add: pending_rows_def)
  then have "\<forall>x \<in> set (sd_outbox (cw_db w)). ob_account x \<noteq> account \<longrightarrow> ob_id x \<noteq> ob_id r"
    using ok by (auto simp: sync_db_ok_def distinct_map dest: inj_onD)
  then have "filter (\<lambda>x. ob_account x \<noteq> account) (sd_outbox db) =
      filter (\<lambda>x. ob_account x \<noteq> account) (sd_outbox (cw_db w))"
    by (auto simp: db(4) intro: filter_cong)
  with w' log worker_loop_unfold(2) [OF iter] show ?case by (auto simp: sends_of_def)
qed

text \<open>
  C8: The worker drains the outbox. With a remote that accepts what it is sent and a clock that does
  not read earlier than the rows were created, a worker of the current epoch, for a signed-in account
  whose device is registered and that has no pending scope, returns: it sends every pending batch of
  the account once, in revision order, with its stored body and idempotency key, leaves the rows of
  the other accounts and exits quiescent.
\<close>
theorem worker_drains_outbox:
  assumes "responsive p sent t0" and "upload_ok p w" and "working p account epoch w"
    and "account_ready p account t0 (cw_db w)" and "baseline_settled account (cw_db w)"
  shows "\<exists>w'. collect_run_worker p epoch w = Some (ExitQuiescent, w') \<and>
    sd_outbox (cw_db w') = filter (\<lambda>r. ob_account r \<noteq> account) (sd_outbox (cw_db w)) \<and>
    sent (cw_rest w') = sent (cw_rest w) @ map (\<lambda>r. (ob_idempotency_key r, ob_request_body r))
      (sort_key ob_client_revision (pending_rows account (cw_db w)))"
proof -
  obtain rest where pub: "publish_status p w = w\<lparr>cw_rest := rest\<rparr>" "sent rest = sent (cw_rest w)"
    by (rule responsive_publish [OF assms(1)])
  from worker_loop_drains [OF assms(1), of "w\<lparr>cw_rest := rest\<rparr>" account epoch] assms(2-5)
  obtain w' where "worker_loop p epoch (w\<lparr>cw_rest := rest\<rparr>) = Some (ExitQuiescent, w')"
    "sd_outbox (cw_db w') = filter (\<lambda>r. ob_account r \<noteq> account) (sd_outbox (cw_db w))"
    "sent (cw_rest w') = sent rest @ sends_of (queue account w)"
    by auto
  with pub show ?thesis by (simp add: collect_run_worker_def sends_of_def)
qed

section \<open>A remote that never knows the device\<close>

definition forgetful :: "'w collect_sync \<Rightarrow> bool" where
  "forgetful p \<longleftrightarrow>
     (\<forall>w. \<exists>t rest. cp_now p w = (t, w\<lparr>cw_rest := rest\<rparr>)) \<and>
     (\<forall>w snapshot. \<exists>rest. cp_on_status_changed p snapshot w = w\<lparr>cw_rest := rest\<rparr>) \<and>
     (\<forall>w device. \<exists>snapshot rest. cp_upsert_device p device w = (Inr snapshot, w\<lparr>cw_rest := rest\<rparr>)) \<and>
     (\<forall>w request. \<exists>message rest.
        cp_push_daily_usage p request w = (Inl (RemoteDeviceNotFound message), w\<lparr>cw_rest := rest\<rparr>))"

text \<open>What registering the device changes: the state of the account, nothing of its queue.\<close>

definition registering ::
  "'w collect_sync \<Rightarrow> account_key \<Rightarrow> 'w collect_world \<Rightarrow> 'w collect_world \<Rightarrow> bool" where
  "registering p account w w' \<longleftrightarrow>
     (\<exists>db rest. w' = w\<lparr>cw_db := db, cw_rest := rest\<rparr> \<and> upload_ok p w' \<and>
        sd_outbox db = sd_outbox (cw_db w) \<and> state_row account db \<noteq> None)"

lemma registering_rest:
  "\<lbrakk>upload_ok p w; state_row account (cw_db w) \<noteq> None\<rbrakk> \<Longrightarrow> registering p account w (w\<lparr>cw_rest := rest\<rparr>)"
  by (auto simp: registering_def intro!: exI [of _ "cw_db w"])

lemma registering_trans:
  "\<lbrakk>registering p account w1 w2; registering p account w2 w3\<rbrakk> \<Longrightarrow> registering p account w1 w3"
  unfolding registering_def by (elim exE conjE) (auto intro!: exI)

lemma ensure_then_update_row:
  assumes "sync_db_ok c codec db" and "state_row account db \<noteq> None" and "\<And>r. sy_account (f r) = sy_account r"
  shows "state_row account (snd (ensure_then_update c codec account' now f db)) \<noteq> None"
proof (cases "ensure_state c codec account' now db")
  case (Inr x)
  obtain s db1 where "x = (s, db1)" by (cases x)
  with Inr have ensured: "ensure_state c codec account' now db = Inr (s, db1)" by simp
  from ensure_state_Inr(4) [OF this assms(1)] assms(2)
  have row1: "account \<in> sy_account ` set (sd_states db1)" by (auto simp: state_row_None)
  show ?thesis
  proof (cases "update_state account' f db1")
    case upd: (Inr db2)
    have "sy_account ` set (sd_states db2) = sy_account ` set (sd_states db1)"
      using update_state_frame [OF upd] assms(3) update_where_map
      by (metis list.set_map)
    with row1 upd ensured show ?thesis by (simp add: ensure_then_update_def state_row_None)
  qed (use row1 ensured in \<open>simp add: ensure_then_update_def state_row_None\<close>)
qed (use assms(2) in \<open>simp add: ensure_then_update_def\<close>)

lemma registering_device:
  assumes "upload_ok p w" and "state_row account (cw_db w) \<noteq> None"
  shows "registering p account w (store_ignoring (register_device p account fingerprint n now) w)"
proof -
  let ?m = "register_device p account fingerprint n now"
  let ?db = "snd (?m (cw_db w))"
  from assms(1) have ok: "sync_db_ok (cp_chrono p) (cp_scope_codec p) (cw_db w)"
    and codec: "scope_reads_back (cp_chrono p) (cp_scope_codec p)" by (simp_all add: upload_ok_def)
  have "sync_db_ok (cp_chrono p) (cp_scope_codec p) ?db"
    using keeps_register_device ok codec unfolding keeps_rows_def by blast
  moreover have "sd_outbox ?db = sd_outbox (cw_db w)"
    unfolding register_device_def set_device_registration_def by (rule ensure_then_update_outbox [OF ok])
  moreover have "state_row account ?db \<noteq> None"
    unfolding register_device_def set_device_registration_def
    by (rule ensure_then_update_row [OF ok assms(2)]) simp
  ultimately show ?thesis
    unfolding registering_def
    by (intro exI [of _ ?db] exI [of _ "cw_rest w"]) (simp add: store_ignoring_world upload_ok_def codec)
qed

lemma registering_keeps:
  assumes "registering p account w w'"
  shows "upload_ok p w'" "state_row account (cw_db w') \<noteq> None" "pending_rows a (cw_db w') = pending_rows a (cw_db w)"
    "working p account' epoch w' = working p account' epoch w" "cw_epoch w' = cw_epoch w"
  using assms by (auto simp: registering_def pending_rows_def)

lemma force_registers:
  assumes "forgetful p" and "upload_ok p w" and "state_row account (cw_db w) \<noteq> None" and "cw_epoch w = epoch"
  obtains w' where "force_device_register p account epoch now w = (Inr (), w')" "registering p account w w'"
proof -
  obtain snapshot rest where upsert:
    "cp_upsert_device p (upsert_request p account) w = (Inr snapshot, w\<lparr>cw_rest := rest\<rparr>)"
    using assms(1) unfolding forgetful_def by meson
  let ?w1 = "w\<lparr>cw_rest := rest\<rparr>"
  note first = registering_rest [OF assms(2,3)]
  have "registering p account ?w1
      (store_ignoring (register_device p account (device_fingerprint p) 1 now) ?w1)"
    by (rule registering_device) (simp_all add: assms)
  from registering_trans [OF first this] show thesis
    using upsert assms(4) by (intro that) (simp_all add: force_device_register_def bind_eff_def modify_eff_def)
qed

text \<open>The worker that cannot get its batch through.\<close>

definition stuck :: "'w collect_sync \<Rightarrow> account_key \<Rightarrow> u64 \<Rightarrow> 'w collect_world \<Rightarrow> bool" where
  "stuck p account epoch w \<longleftrightarrow>
     upload_ok p w \<and> working p account epoch w \<and> state_row account (cw_db w) \<noteq> None \<and>
     pending_rows account (cw_db w) \<noteq> []"

lemma stuck_registering: "\<lbrakk>stuck p account epoch w; registering p account w w'\<rbrakk> \<Longrightarrow> stuck p account epoch w'"
  using registering_keeps by (metis stuck_def)

lemma stuck_rest: "stuck p account epoch w \<Longrightarrow> registering p account w (w\<lparr>cw_rest := rest\<rparr>)"
  by (simp add: stuck_def registering_rest)

lemma stuck_state:
  assumes "stuck p account epoch w"
  obtains state where "stored_state p account w = Some state"
proof -
  from assms obtain s where s: "state_row account (cw_db w) = Some s" by (auto simp: stuck_def)
  with assms have "state_row_ok (cp_chrono p) (cp_scope_codec p) s"
    using state_row_Some [OF s] by (auto simp: stuck_def upload_ok_def sync_db_ok_def list_all_iff)
  then obtain state where "state_of_row (cp_chrono p) (cp_scope_codec p) account s = Inr state"
    by (rule state_of_row_ok)
  with s show thesis by (intro that) (simp add: stored_state_def load_state_def transpose_opt_def)
qed

lemma stuck_push:
  assumes forget: "forgetful p" and stuck: "stuck p account epoch w"
  obtains w' where "push_batch p account epoch now batch w = (StepContinue, w')" "stuck p account epoch w'"
proof -
  obtain message rest where push: "cp_push_daily_usage p (push_request_of account batch) w =
      (Inl (RemoteDeviceNotFound message), w\<lparr>cw_rest := rest\<rparr>)"
    using forget unfolding forgetful_def by meson
  define w1 where "w1 = w\<lparr>cw_rest := rest\<rparr>"
  have s1: "stuck p account epoch w1"
    unfolding w1_def by (rule stuck_registering [OF stuck stuck_rest [OF stuck]])
  obtain state where state: "stored_state p account w1 = Some state" by (rule stuck_state [OF s1])
  define w2 where "w2 = store_ignoring (register_device p account ''invalidate'' 0 now) w1"
  have "registering p account w1 w2"
    unfolding w2_def using s1 by (intro registering_device) (simp_all add: stuck_def)
  note s2 = stuck_registering [OF s1 this]
  obtain w3 where w3: "force_device_register p account epoch now w2 = (Inr (), w3)" "registering p account w2 w3"
    by (rule force_registers [OF forget, of w2 account epoch now])
       (use s2 in \<open>simp_all add: stuck_def working_def stopped_def\<close>)
  have "push_batch p account epoch now batch w = (StepContinue, w3)"
    by (simp add: push_batch_def push register_again_def state [unfolded w1_def] w3(1) [unfolded w2_def w1_def])
  with stuck_registering [OF s2 w3(2)] show thesis by (intro that)
qed

lemma stuck_iteration:
  assumes forget: "forgetful p" and stuck: "stuck p account epoch w"
  obtains w' where "worker_iteration p epoch w = (None, w')" "stuck p account epoch w'"
proof -
  from stuck obtain r rs where "queue account w = r # rs"
    by (metis list.exhaust set_sort set_empty stuck_def)
  moreover from stuck have "sync_db_ok (cp_chrono p) (cp_scope_codec p) (cw_db w)"
    by (simp add: stuck_def upload_ok_def)
  ultimately obtain batch others where batch: "list_pending_batches account (cw_db w) = Inr (batch # others)"
    by (auto elim: pending_listed)
  obtain t1 rest1 where now1: "cp_now p w = (t1, w\<lparr>cw_rest := rest1\<rparr>)"
    using forget unfolding forgetful_def by meson
  define w1 where "w1 = w\<lparr>cw_rest := rest1\<rparr>"
  have s1: "stuck p account epoch w1"
    unfolding w1_def by (rule stuck_registering [OF stuck stuck_rest [OF stuck]])
  obtain t2 rest2 where now2: "cp_now p w1 = (t2, w1\<lparr>cw_rest := rest2\<rparr>)"
    using forget unfolding forgetful_def by meson
  define w2 where "w2 = w1\<lparr>cw_rest := rest2\<rparr>"
  have s2: "stuck p account epoch w2"
    unfolding w2_def by (rule stuck_registering [OF s1 stuck_rest [OF s1]])
  obtain state where state: "stored_state p account w2 = Some state" by (rule stuck_state [OF s2])
  have "\<exists>w3. ensure_device_registered p account epoch state t2 w2 = (Inr (), w3) \<and> stuck p account epoch w3"
  proof (cases "device_registered p state")
    case False
    obtain w3 where "force_device_register p account epoch t2 w2 = (Inr (), w3)" "registering p account w2 w3"
      by (rule force_registers [OF forget, of w2 account epoch t2])
         (use s2 in \<open>simp_all add: stuck_def working_def stopped_def\<close>)
    with False stuck_registering [OF s2] show ?thesis by (auto simp: ensure_device_registered_def)
  qed (use s2 in \<open>simp add: ensure_device_registered_def return_eff_def\<close>)
  then obtain w3 where w3: "ensure_device_registered p account epoch state t2 w2 = (Inr (), w3)"
    "stuck p account epoch w3" by blast
  obtain w4 where w4: "push_batch p account epoch t2 batch w3 = (StepContinue, w4)" "stuck p account epoch w4"
    by (rule stuck_push [OF forget w3(2)])
  have work: "working p account epoch w1" using s1 by (simp add: stuck_def)
  have "send_batch p account epoch batch w1 = (StepContinue, w4)"
    using work working_account [OF work]
    by (simp add: send_batch_def now2(1) [folded w2_def] state w3(1) w4(1) working_def stopped_def)
  then have "collect_step p account epoch w = (StepContinue, w4)"
    using now1 batch by (simp add: collect_step_def w1_def)
  with stuck w4(2) have "worker_iteration p epoch w = (None, w4)"
    by (simp add: worker_iteration_def stuck_def working_def retry_deadline_def note_backoff_def)
  with w4(2) show thesis by (intro that)
qed

text \<open>
  C39: A device the remote never knows is registered without a pause. When the remote accepts every
  registration but answers each push with device not found, a worker with a pending batch never
  returns: the step continues at once instead of backing off, so it registers and pushes in a loop.
\<close>
theorem unknown_device_never_backs_off:
  assumes "forgetful p" and "stuck p account epoch w"
  shows "collect_run_worker p epoch w = None"
proof -
  obtain rest where pub: "publish_status p w = w\<lparr>cw_rest := rest\<rparr>"
    using assms(1) unfolding forgetful_def publish_status_def by meson
  have "\<not> stuck p account epoch v" if "worker_loop p epoch v = Some result" for v result
  proof -
    have "p = p \<longrightarrow> epoch = epoch \<longrightarrow> \<not> stuck p account epoch v"
    proof (rule worker_loop.raw_induct [of "\<lambda>q e v _. q = p \<longrightarrow> e = epoch \<longrightarrow> \<not> stuck p account epoch v"])
      fix loop :: "'a collect_sync \<Rightarrow> u64 \<Rightarrow> 'a collect_world \<Rightarrow> (worker_exit \<times> 'a collect_world) option"
        and q e v y
      assume IH: "\<And>e v q y. loop e v q = Some y \<Longrightarrow> e = p \<longrightarrow> v = epoch \<longrightarrow> \<not> stuck p account epoch q"
        and run: "(case worker_iteration q e v of (None, w1) \<Rightarrow> loop q e w1
          | (Some exit, w1) \<Rightarrow> Some (exit, w1)) = Some y"
      show "q = p \<longrightarrow> e = epoch \<longrightarrow> \<not> stuck p account epoch v"
      proof (intro impI notI)
        assume "q = p" "e = epoch" "stuck p account epoch v"
        moreover from stuck_iteration [OF assms(1) this(3)] obtain v' where
          "worker_iteration p epoch v = (None, v')" "stuck p account epoch v'" .
        ultimately show False using run IH [of p epoch v' y] by simp
      qed
    qed (fact that)
    then show ?thesis by simp
  qed
  moreover have "stuck p account epoch (w\<lparr>cw_rest := rest\<rparr>)"
    by (rule stuck_registering [OF assms(2) stuck_rest [OF assms(2)]])
  ultimately have "worker_loop p epoch (w\<lparr>cw_rest := rest\<rparr>) \<noteq> Some y" for y by blast
  then have "worker_loop p epoch (w\<lparr>cw_rest := rest\<rparr>) = None"
    by (cases "worker_loop p epoch (w\<lparr>cw_rest := rest\<rparr>)") auto
  then show ?thesis by (simp add: collect_run_worker_def pub)
qed

end
