(* ===== verification/CollectSyncOnSqlite.thy ===== *)
theory CollectSyncOnSqlite
  imports CollectSyncDrain
begin

text \<open>
  The upload service on the SQLite stores, as an interpretation of what the worker relies on, the
  safety of its outbox and the witnesses of the worker's properties.
\<close>

section \<open>The service on SQLite\<close>

text \<open>
  The ports of a service whose export reads the usage database, whose clock and UUIDs are read by a
  counter and whose remote is any function of its own state; nothing else acts meanwhile.
\<close>

record 'r upload_rest =
  ur_usage :: database
  ur_ticks :: nat
  ur_accepted :: "(string \<times> string) list"
  ur_remote :: 'r

definition tick :: "'r upload_rest collect_world \<Rightarrow> 'r upload_rest collect_world" where
  "tick w = w\<lparr>cw_rest := (cw_rest w)\<lparr>ur_ticks := Suc (ur_ticks (cw_rest w))\<rparr>\<rparr>"

definition push_to ::
  "(push_daily_usage_request \<Rightarrow> 'r \<Rightarrow> (collect_sync_remote_error + daily_usage_push_result) \<times> 'r)
   \<Rightarrow> push_daily_usage_request
   \<Rightarrow> ('r upload_rest collect_world, collect_sync_remote_error, daily_usage_push_result) eff" where
  "push_to push request w =
     (case push request (ur_remote (cw_rest w)) of
        (Inl e, r) \<Rightarrow> (Inl e, w\<lparr>cw_rest := (cw_rest w)\<lparr>ur_remote := r\<rparr>\<rparr>)
      | (Inr answer, r) \<Rightarrow>
          (Inr answer, w\<lparr>cw_rest := (cw_rest w)\<lparr>ur_remote := r, ur_accepted :=
             ur_accepted (cw_rest w) @ [(pq_idempotency_key request, pq_request_body request)]\<rparr>\<rparr>))"

definition upload_on_sqlite ::
  "collect_sync_config \<Rightarrow> chrono \<Rightarrow> scope_codec \<Rightarrow> wire_codec \<Rightarrow> (nat \<Rightarrow> i64)
   \<Rightarrow> (upsert_sync_device_request \<Rightarrow> 'r \<Rightarrow> (collect_sync_remote_error + sync_device_snapshot) \<times> 'r)
   \<Rightarrow> (push_daily_usage_request \<Rightarrow> 'r \<Rightarrow> (collect_sync_remote_error + daily_usage_push_result) \<times> 'r)
   \<Rightarrow> 'r upload_rest collect_sync" where
  "upload_on_sqlite cfg c codec wire clock upsert push =
     \<lparr>cp_config = cfg, cp_chrono = c, cp_scope_codec = codec, cp_wire_codec = wire,
      cp_now = (\<lambda>w. (clock (ur_ticks (cw_rest w)), tick w)),
      cp_uuid = (\<lambda>w. (wc_uuid wire (ur_ticks (cw_rest w)), tick w)),
      cp_batch_uuids = (\<lambda>w. (\<lambda>n. wc_uuid wire (ur_ticks (cw_rest w) + n), tick w)),
      cp_export = (\<lambda>query w. (export_daily_facts c query (ur_usage (cw_rest w)), w)),
      cp_upsert_device = (\<lambda>device w.
        case upsert device (ur_remote (cw_rest w)) of (answer, r) \<Rightarrow>
          (answer, w\<lparr>cw_rest := (cw_rest w)\<lparr>ur_remote := r\<rparr>\<rparr>)),
      cp_push_daily_usage = push_to push,
      cp_on_status_changed = (\<lambda>_ w. w),
      cp_spawn = (\<lambda>w. (True, w))\<rparr>"

definition remote_accepted :: "'r upload_rest \<Rightarrow> string \<Rightarrow> string \<Rightarrow> bool" where
  "remote_accepted rest key body \<longleftrightarrow> (key, body) \<in> set (ur_accepted rest)"

lemma quiet_rest:
  "(\<And>key body. remote_accepted (cw_rest w) key body \<Longrightarrow> remote_accepted rest key body)
   \<Longrightarrow> quiet_for p remote_accepted w (w\<lparr>cw_rest := rest\<rparr>)"
  by (simp add: quiet_for_def)

interpretation on_sqlite:
  upload_environment "upload_on_sqlite cfg c codec wire clock upsert push" remote_accepted
proof unfold_locales
  fix device request w answer w'
  let ?p = "upload_on_sqlite cfg c codec wire clock upsert push"
  show "quiet_for ?p remote_accepted w (snd (cp_upsert_device ?p device w))"
    by (auto simp: upload_on_sqlite_def remote_accepted_def split: prod.splits intro: quiet_rest)
  show "quiet_for ?p remote_accepted w (snd (cp_push_daily_usage ?p request w))"
    by (auto simp: upload_on_sqlite_def push_to_def remote_accepted_def split: prod.splits sum.splits
        intro: quiet_rest)
  assume "cp_push_daily_usage ?p request w = (Inr answer, w')"
  then show "remote_accepted (cw_rest w') (pq_idempotency_key request) (pq_request_body request)"
    by (auto simp: upload_on_sqlite_def push_to_def remote_accepted_def split: prod.splits sum.splits)
qed (auto simp: upload_on_sqlite_def tick_def quiet_for_def remote_accepted_def upload_ok_def)

text \<open>
  C7: No batch is lost. Whatever the other threads do while the worker waits, as long as they leave
  the outbox to it, a row leaves the outbox only after the remote accepted its exact body under its
  idempotency key: over one iteration of the worker and over its whole run.
\<close>
theorem outbox_rows_leave_only_when_accepted:
  assumes "upload_environment p accepted" and "upload_ok p w"
    and "worker_iteration p epoch w = (result, w') \<or> collect_run_worker p epoch w = Some (exit, w')"
  shows "upload_ok p w' \<and>
    (\<forall>r. r \<in> set (sd_outbox (cw_db w)) - set (sd_outbox (cw_db w')) \<longrightarrow>
       accepted (cw_rest w') (ob_idempotency_key r) (ob_request_body r))"
proof -
  have "delivers p accepted w w'"
    using assms(3) upload_environment.worker_iteration_delivers [OF assms(1)]
      upload_environment.run_worker_delivers [OF assms(1)] by blast
  with assms(2) show ?thesis by (auto simp: delivers_def)
qed

text \<open>Witnesses: one signed-in account with one batch in its outbox.\<close>

definition demo_sync_config :: collect_sync_config where
  "demo_sync_config =
     \<lparr>cf_device_id = ''device'', cf_device_name = ''desk'', cf_app_version = ''1'', cf_platform = SyncLinux,
      cf_reporting_timezone = ''UTC''\<rparr>"

definition demo_service ::
  "(push_daily_usage_request \<Rightarrow> unit \<Rightarrow> (collect_sync_remote_error + daily_usage_push_result) \<times> unit)
   \<Rightarrow> unit upload_rest collect_sync" where
  "demo_service =
     upload_on_sqlite demo_sync_config gregorian demo_scope_codec
       \<lparr>wc_to_json = (\<lambda>_. Some ''{}''), wc_sha256 = (\<lambda>s. s), wc_uuid = (\<lambda>_. ''uuid'')\<rparr> (\<lambda>_. 500)
       (\<lambda>_ r. (Inr \<lparr>sd_client_device_id = ''device'', sd_display_name = None, sd_platform = ''linux'',
                   sd_app_version = ''1'', sd_reporting_timezone = ''UTC'', sd_last_sync_at = None,
                   sd_created_at = [], sd_updated_at = []\<rparr>, r))"

definition demo_answer :: daily_usage_push_result where
  "demo_answer =
     \<lparr>pp_client_device_id = ''device'', pp_accepted_at = [], pp_client_revision = 1,
      pp_window_start = [], pp_window_end = [], pp_window_scope = WireFull,
      pp_counts = \<lparr>pc_received = 1, pc_upserted = 1, pc_removed = 0, pc_unchanged = 0, pc_rejected = 0\<rparr>\<rparr>"

definition accepting :: "push_daily_usage_request \<Rightarrow> unit \<Rightarrow> (collect_sync_remote_error + daily_usage_push_result) \<times> unit" where
  "accepting request r = (Inr demo_answer, r)"

definition forgetting :: "push_daily_usage_request \<Rightarrow> unit \<Rightarrow> (collect_sync_remote_error + daily_usage_push_result) \<times> unit" where
  "forgetting request r = (Inl (RemoteDeviceNotFound []), r)"

definition demo_sync_row :: sync_state_row where
  "demo_sync_row =
     (fresh_state_row demo_account 400)
       \<lparr>sy_next_client_revision := 2, sy_baseline_status := ''in_progress'',
        sy_active_generation_id := Some ''gen'',
        sy_device_metadata_fingerprint := Some ''desk|linux|1|UTC'', sy_device_registered_revision := Some 1\<rparr>"

definition demo_sync_world :: "unit upload_rest collect_world" where
  "demo_sync_world =
     \<lparr>cw_db = \<lparr>sd_states = [demo_sync_row], sd_outbox = [demo_row]\<rparr>,
      cw_session = Some (SessionActive
        \<lparr>tk_access_token = ''a'', tk_refresh_token = ''r'', tk_access_expires_at_ms = None\<rparr>
        \<lparr>su_user_id = ''user'', su_email = ''mail''\<rparr>),
      cw_running = True, cw_cancel = False, cw_terminal_blocked_epoch = - 1, cw_epoch = 1,
      cw_active_user_id = Some ''user'', cw_next_retry = None, cw_workers = [1], cw_retries = [],
      cw_rest = \<lparr>ur_usage = empty_database, ur_ticks = 0, ur_accepted = [], ur_remote = ()\<rparr>\<rparr>"

lemma demo_sync_ports:
  "cp_chrono (demo_service push) = gregorian" "cp_scope_codec (demo_service push) = demo_scope_codec"
  "device_fingerprint (demo_service push) = ''desk|linux|1|UTC''"
  "cp_config (demo_service push) = demo_sync_config"
  by (simp_all add: demo_service_def upload_on_sqlite_def device_fingerprint_def demo_sync_config_def)

lemma demo_row_fields:
  "ob_account demo_row = demo_account" "ob_status demo_row = ''pending''" "ob_created_at_ms demo_row = 400"
  "ob_client_revision demo_row = 1" "ob_generation_id demo_row = ''gen''"
  "ob_idempotency_key demo_row = ''uuid''" "ob_request_body demo_row = ''{}''"
  by (simp_all add: demo_row_def row_of_batch_def demo_batch_def)

lemma demo_pending: "pending_rows demo_account (cw_db demo_sync_world) = [demo_row]"
  by (simp add: pending_rows_def demo_sync_world_def demo_row_fields)

lemma demo_sync_state: "state_row demo_account (cw_db demo_sync_world) = Some demo_sync_row"
  by (simp add: state_row_def demo_sync_world_def demo_sync_row_def fresh_state_row_def)

lemma demo_sync_ok: "upload_ok (demo_service push) demo_sync_world"
proof -
  have "check_sync_state demo_sync_row"
    by (simp add: check_sync_state_def demo_sync_row_def fresh_state_row_def demo_checked non_negative_def)
  then have "state_row_ok gregorian demo_scope_codec demo_sync_row"
    by (simp add: state_row_ok_def demo_sync_row_def fresh_state_row_def)
  moreover have "outbox_row_ok [demo_sync_row] demo_row"
    using demo_row_ok demo_row_fields
    by (simp add: outbox_row_ok_def outbox_fits_def demo_sync_row_def fresh_state_row_def)
  ultimately show ?thesis
    by (simp add: upload_ok_def demo_sync_ports demo_scope_reads_back sync_db_ok_def demo_sync_world_def)
qed

lemma demo_device_trim: "str_trim ''device'' = ''device''"
  by code_simp

lemma demo_working: "working (demo_service push) demo_account 1 demo_sync_world"
  by (simp add: working_def stopped_def account_key_matching_epoch_def collect_account_key_def
      demo_sync_ports session_snapshot_of_def demo_sync_world_def demo_sync_config_def demo_account_def
      demo_device_trim Let_def)

lemma demo_ready: "account_ready (demo_service push) demo_account 400 (cw_db demo_sync_world)"
  by (simp add: account_ready_def demo_pending demo_sync_state demo_row_fields demo_sync_ports
      demo_sync_row_def fresh_state_row_def)

lemma demo_responsive: "responsive (demo_service accepting) ur_accepted 400"
  unfolding responsive_def
proof (intro conjI allI)
  fix w :: "unit upload_rest collect_world" and snapshot request
  show "\<exists>t rest. cp_now (demo_service accepting) w = (t, w\<lparr>cw_rest := rest\<rparr>) \<and> 400 \<le> t \<and>
      ur_accepted rest = ur_accepted (cw_rest w)"
    by (intro exI [of _ 500] exI [of _ "(cw_rest w)\<lparr>ur_ticks := Suc (ur_ticks (cw_rest w))\<rparr>"])
       (simp add: demo_service_def upload_on_sqlite_def tick_def)
  show "\<exists>rest. cp_on_status_changed (demo_service accepting) snapshot w = w\<lparr>cw_rest := rest\<rparr> \<and>
      ur_accepted rest = ur_accepted (cw_rest w)"
    by (intro exI [of _ "cw_rest w"]) (simp add: demo_service_def upload_on_sqlite_def)
  show "\<exists>answer rest. cp_push_daily_usage (demo_service accepting) request w =
      (Inr answer, w\<lparr>cw_rest := rest\<rparr>) \<and>
      ur_accepted rest = ur_accepted (cw_rest w) @ [(pq_idempotency_key request, pq_request_body request)]"
    by (intro exI [of _ demo_answer] exI [of _ "(cw_rest w)\<lparr>ur_remote := (), ur_accepted :=
          ur_accepted (cw_rest w) @ [(pq_idempotency_key request, pq_request_body request)]\<rparr>"])
       (simp add: demo_service_def upload_on_sqlite_def push_to_def accepting_def)
qed

lemma demo_forgetful: "forgetful (demo_service forgetting)"
  unfolding forgetful_def
proof (intro conjI allI)
  fix w :: "unit upload_rest collect_world" and snapshot device request
  show "\<exists>t rest. cp_now (demo_service forgetting) w = (t, w\<lparr>cw_rest := rest\<rparr>)"
    by (intro exI) (simp add: demo_service_def upload_on_sqlite_def tick_def)
  show "\<exists>rest. cp_on_status_changed (demo_service forgetting) snapshot w = w\<lparr>cw_rest := rest\<rparr>"
    by (intro exI [of _ "cw_rest w"]) (simp add: demo_service_def upload_on_sqlite_def)
  show "\<exists>snapshot rest. cp_upsert_device (demo_service forgetting) device w =
      (Inr snapshot, w\<lparr>cw_rest := rest\<rparr>)"
    by (intro exI) (simp add: demo_service_def upload_on_sqlite_def)
  show "\<exists>message rest. cp_push_daily_usage (demo_service forgetting) request w =
      (Inl (RemoteDeviceNotFound message), w\<lparr>cw_rest := rest\<rparr>)"
    by (intro exI) (simp add: demo_service_def upload_on_sqlite_def push_to_def forgetting_def)
qed

theorem worker_drains_outbox_witness:
  "\<exists>w'. collect_run_worker (demo_service accepting) 1 demo_sync_world = Some (ExitQuiescent, w') \<and>
     sd_outbox (cw_db w') = [] \<and> ur_accepted (cw_rest w') = [(''uuid'', ''{}'')]"
proof -
  have "baseline_settled demo_account (cw_db demo_sync_world)" by (simp add: baseline_settled_def demo_pending)
  from worker_drains_outbox [OF demo_responsive demo_sync_ok demo_working demo_ready this]
  show ?thesis
    by (simp add: demo_pending demo_row_fields) (simp add: demo_sync_world_def demo_row_fields)
qed

theorem unknown_device_never_backs_off_witness:
  "collect_run_worker (demo_service forgetting) 1 demo_sync_world = None"
  by (rule unknown_device_never_backs_off [OF demo_forgetful, where account = demo_account])
     (simp add: stuck_def demo_sync_ok demo_working demo_sync_state demo_pending)

theorem outbox_rows_leave_only_when_accepted_witness:
  "upload_ok (demo_service accepting) (snd (worker_iteration (demo_service accepting) 1 demo_sync_world))"
proof -
  have env: "upload_environment (demo_service accepting) remote_accepted"
    unfolding demo_service_def by (rule on_sqlite.upload_environment_axioms)
  obtain result w' where "worker_iteration (demo_service accepting) 1 demo_sync_world = (result, w')"
    by fastforce
  with outbox_rows_leave_only_when_accepted [OF env demo_sync_ok, of 1 result w'] show ?thesis by simp
qed

end
