(* ===== verification/TraySummary.thy ===== *)
theory TraySummary
  imports Tables
begin

text \<open>
  The summary shown in the tray: \<open>src/src-tauri/src/application/usage/tray_summary.rs\<close> over the read
  adapter \<open>infrastructure/database/tray_summary_store.rs\<close>, on the tables of \<open>Tables\<close>.
\<close>

section \<open>The read model\<close>

datatype persisted_refresh_status =
  PersistedCancelled | PersistedSucceeded | PersistedPartial | PersistedFailed

datatype overview_data_status = DataCurrent | DataStale | DataEmpty

datatype tray_summary_data_quality = SummaryComplete | SummaryPartial

record tray_summary_scope =
  ts_today :: naive_date
  ts_yesterday :: naive_date
  ts_week_start :: naive_date
  ts_week_end :: naive_date
  ts_month_start :: naive_date
  ts_month_end :: naive_date
  ts_aggregation_timezone :: string

record tray_summary_period_metric =
  pm_start_date :: naive_date
  pm_end_date :: naive_date
  pm_total_tokens :: u64

datatype trend_direction = Increased | Decreased | Flat

record tray_summary_trend =
  tt_direction :: trend_direction
  tt_basis_points :: u32

record tray_summary_model_row =
  tm_model_name :: string
  tm_agent_label :: string
  tm_total_tokens :: u64
  tm_trend :: "tray_summary_trend option"

record tray_summary_read_model =
  tr_today :: tray_summary_period_metric
  tr_week :: tray_summary_period_metric
  tr_month :: tray_summary_period_metric
  tr_models :: "tray_summary_model_row list"
  tr_as_of_ms :: i64
  tr_last_successful_refresh_at_ms :: "i64 option"
  tr_data_status :: overview_data_status
  tr_data_quality :: tray_summary_data_quality
  tr_latest_refresh_status :: "persisted_refresh_status option"

record tray_summary_store_model_usage =
  um_model_name :: string
  um_source :: source_key
  um_total_tokens :: u64

record tray_summary_store_result =
  tq_today_total_tokens :: u64
  tq_week_total_tokens :: u64
  tq_month_total_tokens :: u64
  tq_today_models :: "tray_summary_store_model_usage list"
  tq_yesterday_models :: "tray_summary_store_model_usage list"
  tq_has_partial_data :: bool
  tq_latest_refresh_status :: "persisted_refresh_status option"
  tq_last_successful_refresh_at_ms :: "i64 option"

datatype tray_summary_store_error = SummaryValueOutOfRange | SummaryBackend

datatype tray_summary_query_error =
  EmptyAggregationTimezone | InvalidAggregationTimezone | InvalidSummaryTimestamp
| SummaryStorage tray_summary_store_error

section \<open>Reading the tables\<close>

text \<open>
  SQLite's \<open>SUM\<close> of integers fails when it leaves the range of a 64-bit integer; the columns summed
  here are never negative, so no partial sum leaves it before the whole does.
\<close>

definition sql_sum :: "int list \<Rightarrow> tray_summary_store_error + int" where
  "sql_sum xs = (if in_i64 (sum_list xs) then Inr (sum_list xs) else Inl SummaryBackend)"

definition summary_row :: "string \<Rightarrow> string \<Rightarrow> string \<Rightarrow> daily_row \<Rightarrow> bool" where
  "summary_row s e tz r \<longleftrightarrow>
     s \<le> du_usage_date r \<and> du_usage_date r \<le> e \<and> du_aggregation_timezone r = tz \<and>
     fc_record_state (du_facts r) \<noteq> ''removed''"

definition read_period_total ::
  "chrono \<Rightarrow> naive_date \<Rightarrow> naive_date \<Rightarrow> string \<Rightarrow> database \<Rightarrow> tray_summary_store_error + u64" where
  "read_period_total c s e tz db =
     bind_res (sql_sum (map (\<lambda>r. tc_total (fc_tokens (du_facts r)))
       (filter (summary_row (date_to_string c s) (date_to_string c e) tz) (db_daily_usage db)))) (\<lambda>value.
       ok_or SummaryValueOutOfRange (u64_of_i64 value))"

text \<open>The joined rows: the name of the model, the key of the source, the tokens.\<close>

definition model_name_of :: "database \<Rightarrow> model_usage_row \<Rightarrow> string" where
  "model_name_of db mu =
     (case find (\<lambda>sm. sm_id sm = mu_model_id mu) (db_source_models db) of
        None \<Rightarrow> ''Unknown''
      | Some sm \<Rightarrow> (case sm_display_name sm of Some name \<Rightarrow> name | None \<Rightarrow> sm_raw_model_id sm))"

definition model_usage_rows ::
  "string \<Rightarrow> string \<Rightarrow> database \<Rightarrow> ((string \<times> string) \<times> int) list" where
  "model_usage_rows day tz db =
     concat (map (\<lambda>mu.
       concat (map (\<lambda>du.
         map (\<lambda>so. ((model_name_of db mu, so_source_key so), tc_total (mu_tokens mu)))
           (filter (\<lambda>so. so_id so = du_source_id du) (db_sources db)))
         (filter (\<lambda>du. du_id du = mu_parent_id mu \<and> summary_row day day tz du) (db_daily_usage db))))
       (db_daily_model_usage db))"

definition group_sums ::
  "((string \<times> string) \<times> int) list \<Rightarrow> tray_summary_store_error + ((string \<times> string) \<times> int) list" where
  "group_sums rows =
     collect_res (\<lambda>g. map_ok (Pair g) (sql_sum (map snd (filter (\<lambda>r. fst r = g) rows))))
       (remdups (map fst rows))"

definition model_usage_from_row ::
  "(string \<times> string) \<times> int \<Rightarrow> tray_summary_store_error + tray_summary_store_model_usage" where
  "model_usage_from_row row =
     (case row of ((name, key), tokens) \<Rightarrow>
        bind_res (ok_or SummaryValueOutOfRange (u64_of_i64 tokens)) (\<lambda>total_tokens.
        bind_res (ok_or SummaryBackend (source_key_from_storage key)) (\<lambda>source.
          Inr \<lparr>um_model_name = name, um_source = source, um_total_tokens = total_tokens\<rparr>)))"

definition usage_order :: "(string \<times> string) \<times> int \<Rightarrow> int \<times> string \<times> string" where
  "usage_order row = (case row of ((name, key), tokens) \<Rightarrow> (- tokens, name, key))"

definition read_model_usage ::
  "chrono \<Rightarrow> naive_date \<Rightarrow> string \<Rightarrow> database
   \<Rightarrow> tray_summary_store_error + tray_summary_store_model_usage list" where
  "read_model_usage c date tz db =
     bind_res (group_sums (model_usage_rows (date_to_string c date) tz db)) (\<lambda>groups.
       collect_res model_usage_from_row (sort_key usage_order groups))"

definition read_has_partial_today :: "chrono \<Rightarrow> naive_date \<Rightarrow> string \<Rightarrow> database \<Rightarrow> bool" where
  "read_has_partial_today c date tz db =
     list_ex (\<lambda>r. summary_row (date_to_string c date) (date_to_string c date) tz r \<and>
         (fc_data_quality (du_facts r) \<noteq> ''complete'' \<or> fc_record_state (du_facts r) = ''missing''))
       (db_daily_usage db)"

definition summary_refresh_status :: "string \<Rightarrow> tray_summary_store_error + persisted_refresh_status" where
  "summary_refresh_status value =
     (if value = ''succeeded'' then Inr PersistedSucceeded
      else if value = ''partial'' then Inr PersistedPartial
      else if value = ''failed'' then Inr PersistedFailed
      else if value = ''cancelled'' then Inr PersistedCancelled else Inl SummaryBackend)"

text \<open>\<open>ORDER BY id DESC LIMIT 1\<close> and \<open>MAX(finished_at_ms)\<close>, which skips nulls.\<close>

definition latest_ended :: "refresh_run_row list \<Rightarrow> refresh_run_row option" where
  "latest_ended rows =
     (case sort_key (\<lambda>r. - rr_id r)
         (filter (\<lambda>r. rr_status r \<in> {''succeeded'', ''partial'', ''failed'', ''cancelled''}) rows) of
        [] \<Rightarrow> None | r # _ \<Rightarrow> Some r)"

definition sql_max :: "int option list \<Rightarrow> int option" where
  "sql_max xs = (case map the (filter (\<lambda>x. x \<noteq> None) xs) of [] \<Rightarrow> None | y # ys \<Rightarrow> Some (foldl max y ys))"

definition read_refresh_history ::
  "database \<Rightarrow> tray_summary_store_error + persisted_refresh_status option \<times> i64 option" where
  "read_refresh_history db =
     map_ok (\<lambda>latest. (latest, sql_max (map rr_finished_at_ms
         (filter (\<lambda>r. rr_status r = ''succeeded'') (db_refresh_runs db)))))
       (transpose_opt summary_refresh_status (map_option rr_status (latest_ended (db_refresh_runs db))))"

definition read_tray_summary ::
  "chrono \<Rightarrow> tray_summary_scope \<Rightarrow> database \<Rightarrow> tray_summary_store_error + tray_summary_store_result" where
  "read_tray_summary c scope db =
     (let tz = ts_aggregation_timezone scope
      in bind_res (read_period_total c (ts_today scope) (ts_today scope) tz db) (\<lambda>today.
         bind_res (read_period_total c (ts_week_start scope) (ts_week_end scope) tz db) (\<lambda>week.
         bind_res (read_period_total c (ts_month_start scope) (ts_month_end scope) tz db) (\<lambda>month.
         bind_res (read_model_usage c (ts_today scope) tz db) (\<lambda>today_models.
         bind_res (read_model_usage c (ts_yesterday scope) tz db) (\<lambda>yesterday_models.
         bind_res (read_refresh_history db) (\<lambda>(latest, succeeded_at).
           Inr \<lparr>tq_today_total_tokens = today, tq_week_total_tokens = week,
                tq_month_total_tokens = month, tq_today_models = today_models,
                tq_yesterday_models = yesterday_models,
                tq_has_partial_data = read_has_partial_today c (ts_today scope) tz db,
                tq_latest_refresh_status = latest,
                tq_last_successful_refresh_at_ms = succeeded_at\<rparr>)))))))"

section \<open>The scope\<close>

text \<open>What the query asks of \<open>chrono\<close> and \<open>chrono_tz\<close> beside the operations of \<open>Prelude\<close>.\<close>

record calendar =
  cl_year :: "naive_date \<Rightarrow> int"
  cl_month :: "naive_date \<Rightarrow> nat"
  cl_days_from_monday :: "naive_date \<Rightarrow> u64"
  cl_checked_add_days :: "naive_date \<Rightarrow> u64 \<Rightarrow> naive_date option"
  cl_timezone_known :: "string \<Rightarrow> bool"

definition scope_for_date ::
  "chrono \<Rightarrow> calendar \<Rightarrow> naive_date \<Rightarrow> string \<Rightarrow> tray_summary_query_error + tray_summary_scope" where
  "scope_for_date c cl today tz =
     (let ok = ok_or InvalidSummaryTimestamp
      in bind_res (ok (checked_sub_days c today 1)) (\<lambda>yesterday.
         bind_res (ok (checked_sub_days c today (cl_days_from_monday cl today))) (\<lambda>week_start.
         bind_res (ok (cl_checked_add_days cl week_start 6)) (\<lambda>week_end.
         bind_res (ok (from_ymd_opt c (cl_year cl today) (cl_month cl today) 1)) (\<lambda>month_start.
         bind_res (ok (if cl_month cl today = 12 then from_ymd_opt c (cl_year cl today + 1) 1 1
                       else from_ymd_opt c (cl_year cl today) (cl_month cl today + 1) 1)) (\<lambda>next_month.
         bind_res (ok (checked_sub_days c next_month 1)) (\<lambda>month_end.
           Inr \<lparr>ts_today = today, ts_yesterday = yesterday, ts_week_start = week_start,
                ts_week_end = week_end, ts_month_start = month_start, ts_month_end = month_end,
                ts_aggregation_timezone = tz\<rparr>)))))))"

definition scope_for_instant ::
  "chrono \<Rightarrow> calendar \<Rightarrow> i64 \<Rightarrow> string \<Rightarrow> tray_summary_query_error + tray_summary_scope" where
  "scope_for_instant c cl now tz =
     (if blank tz then Inl EmptyAggregationTimezone
      else if \<not> cl_timezone_known cl tz then Inl InvalidAggregationTimezone
      else bind_res (ok_or InvalidSummaryTimestamp (from_timestamp_millis c now)) (\<lambda>instant.
           bind_res (ok_or InvalidAggregationTimezone (zoned_date c instant tz)) (\<lambda>today.
             scope_for_date c cl today tz)))"

section \<open>The rows of the models\<close>

fun source_label :: "source_key \<Rightarrow> string" where
  "source_label ClaudeCode = ''Claude Code''"
| "source_label Codex = ''Codex''"
| "source_label OpenCode = ''OpenCode''"
| "source_label Pi = ''Pi''"
| "source_label Cline = ''Cline''"
| "source_label ZCode = ''ZCode''"
| "source_label Antigravity = ''Antigravity''"
| "source_label GrokBuild = ''Grok Build''"
| "source_label CommandCode = ''Command Code''"
| "source_label DeepSeekHarness = ''DeepSeek Harness''"
| "source_label Zed = ''Zed''"

definition u64_saturating_mul :: "u64 \<Rightarrow> u64 \<Rightarrow> u64" where
  "u64_saturating_mul a b = (case u64_checked_mul a b of None \<Rightarrow> - 1 | Some x \<Rightarrow> x)"

definition trend :: "u64 \<Rightarrow> u64 \<Rightarrow> tray_summary_trend option" where
  "trend today yesterday =
     (if yesterday = 0
      then (if today = 0 then Some \<lparr>tt_direction = Flat, tt_basis_points = 0\<rparr> else None)
      else let direction = (if yesterday < today then Increased
                            else if today < yesterday then Decreased else Flat);
               difference = (if yesterday < today then today - yesterday else yesterday - today);
               basis_points = min (u64_saturating_mul difference 10000 div yesterday) 0xFFFFFFFF
           in Some \<lparr>tt_direction = direction, tt_basis_points = ucast basis_points\<rparr>)"

text \<open>The nested hash map of yesterday's tokens by model and source.\<close>

definition yesterday_map ::
  "tray_summary_store_model_usage list \<Rightarrow> string \<Rightarrow> (source_key \<rightharpoonup> u64) option" where
  "yesterday_map usages =
     fold (\<lambda>m by_model. by_model(um_model_name m \<mapsto>
         (case by_model (um_model_name m) of None \<Rightarrow> Map.empty | Some by_source \<Rightarrow> by_source)
           (um_source m \<mapsto> um_total_tokens m)))
       usages Map.empty"

definition tray_model_row ::
  "(string \<Rightarrow> (source_key \<rightharpoonup> u64) option) \<Rightarrow> tray_summary_store_model_usage \<Rightarrow> tray_summary_model_row" where
  "tray_model_row yesterday m =
     \<lparr>tm_model_name = um_model_name m, tm_agent_label = source_label (um_source m),
      tm_total_tokens = um_total_tokens m,
      tm_trend = Option.bind (yesterday (um_model_name m)) (\<lambda>by_source.
                 Option.bind (by_source (um_source m)) (trend (um_total_tokens m)))\<rparr>"

definition tray_row_order :: "tray_summary_store_model_usage \<Rightarrow> int \<times> string \<times> string" where
  "tray_row_order m = (- uint (um_total_tokens m), um_model_name m, source_label (um_source m))"

definition tray_model_rows ::
  "tray_summary_store_model_usage list \<Rightarrow> (string \<Rightarrow> (source_key \<rightharpoonup> u64) option)
   \<Rightarrow> tray_summary_model_row list" where
  "tray_model_rows today yesterday = map (tray_model_row yesterday) (sort_key tray_row_order today)"

definition summary_data_status :: "u64 \<Rightarrow> tray_summary_model_row list \<Rightarrow> overview_data_status" where
  "summary_data_status total_today models =
     (if total_today = 0 \<and> models = [] then DataEmpty else DataCurrent)"

definition summary_data_quality :: "bool \<Rightarrow> tray_summary_data_quality" where
  "summary_data_quality partial = (if partial then SummaryPartial else SummaryComplete)"

definition period_metric :: "naive_date \<Rightarrow> naive_date \<Rightarrow> u64 \<Rightarrow> tray_summary_period_metric" where
  "period_metric s e n = \<lparr>pm_start_date = s, pm_end_date = e, pm_total_tokens = n\<rparr>"

definition tray_read_model ::
  "tray_summary_scope \<Rightarrow> tray_summary_store_result \<Rightarrow> i64 \<Rightarrow> tray_summary_read_model" where
  "tray_read_model scope result as_of =
     (let models = tray_model_rows (tq_today_models result) (yesterday_map (tq_yesterday_models result))
      in \<lparr>tr_today = period_metric (ts_today scope) (ts_today scope) (tq_today_total_tokens result),
          tr_week = period_metric (ts_week_start scope) (ts_week_end scope) (tq_week_total_tokens result),
          tr_month = period_metric (ts_month_start scope) (ts_month_end scope) (tq_month_total_tokens result),
          tr_models = models, tr_as_of_ms = as_of,
          tr_last_successful_refresh_at_ms = tq_last_successful_refresh_at_ms result,
          tr_data_status = summary_data_status (tq_today_total_tokens result) models,
          tr_data_quality = summary_data_quality (tq_has_partial_data result),
          tr_latest_refresh_status = tq_latest_refresh_status result\<rparr>)"

text \<open>The query reads the clock twice: for the scope, and for the time of the summary.\<close>

definition tray_summary_get ::
  "chrono \<Rightarrow> calendar \<Rightarrow> string \<Rightarrow> i64 \<Rightarrow> i64 \<Rightarrow> database
   \<Rightarrow> tray_summary_query_error + tray_summary_read_model" where
  "tray_summary_get c cl tz now as_of db =
     bind_res (scope_for_instant c cl now tz) (\<lambda>scope.
     bind_res (map_err SummaryStorage (read_tray_summary c scope db)) (\<lambda>result.
       Inr (tray_read_model scope result as_of)))"

end
