(* ===== verification/Spec2Isabelle.thy ===== *)
theory Spec2Isabelle
  imports Prelude Gregorian Domain Collection Runs Planning Tables UsageStore DemoData
    UsageIntegrity DailyLedger RunStoreDb RunStoreFacts Cost CostFacts Diagnostics Effects
    Execution ExecutionFacts RefreshContract RefreshOnSqlite Coordinator CoordinatorFacts
    UploadScope UploadBatch UploadBatchFacts CollectSyncStore CollectSyncStoreFacts
    CloudSession CloudSessionFacts CollectSync CollectSyncFacts CollectSyncSend CollectSyncDrain CollectSyncOnSqlite
    TraySummary TraySummaryFacts
begin

text \<open>
  A model of Burnly, a desktop application that reads the usage logs of coding agents, reconciles them
  into a local SQLite database, prices them, and uploads daily facts to a cloud account. The theories
  model the Rust backend under \<open>src/src-tauri/src\<close> and the schema under \<open>src/src-tauri/migrations\<close>.

  \<^bold>\<open>How the program works.\<close> The scheduler and the user interface ask the refresh coordinator for a
  refresh. The coordinator runs one at a time on a worker thread. A refresh plans a collection request
  for every target (a source with a projection, daily or session), asks the collector of the target for
  candidates, prices what the collector left without a cost, and gives the candidates to the usage
  store, which reconciles them with the stored rows inside one transaction: observed rows become
  active, rows a complete import does not mention any more go from active to missing to removed. Runs
  are rows of their own tables, so that the planner knows the last successful import of a source and a
  start after a crash can close what was interrupted. Failures become diagnostic events. What a refresh
  committed is handed to the upload service as a scope, which is merged durably with the scope still
  pending; its worker exports the daily facts of the scope, cuts them into batches, stores the batches
  in an outbox with their exact bodies and idempotency keys, and pushes them one after the other.

  \<^bold>\<open>Theories, in the order of their imports.\<close>

  \<^item> \<open>Prelude\<close>: machine integers, results, UTF-8 strings, dates, and the record \<open>chrono\<close> of the
    calendar functions the code calls. \<open>Gregorian\<close> is an instance of that record, for the witnesses.
  \<^item> \<open>Domain\<close> (\<open>domain/\<close>): source keys, token usage and its checked sum, costs, identity keys,
    settings vocabulary. \<open>Collection\<close> (\<open>application/collection/\<close>): the collector contract. \<open>Runs\<close>
    (\<open>application/reconciliation/\<close>, \<open>application/ports/run_store.rs\<close>, \<open>usage_store.rs\<close>,
    \<open>baseline_repair.rs\<close>): identifiers, specifications and errors of runs and reconciliations.
  \<^item> \<open>Planning\<close> (\<open>application/refresh/planner.rs\<close>, \<open>target.rs\<close>, \<open>request_plan.rs\<close>, \<open>outcome.rs\<close>,
    \<open>state.rs\<close>): scopes of refreshes, targets, requests and the aggregate outcome.
  \<^item> \<open>Tables\<close> (\<open>migrations/0001_initial.sql\<close>, \<open>infrastructure/database/reconciliation/mapping.rs\<close>):
    rows, column checks, column mapping. \<open>UsageStore\<close> (\<open>reconciliation/store.rs\<close>, \<open>daily.rs\<close>,
    \<open>session.rs\<close>, \<open>identity.rs\<close>): the two reconciliation transactions. \<open>RunStoreDb\<close>
    (\<open>reconciliation/runs.rs\<close>): run lifecycle, recovery, latest import, expiry.
  \<^item> \<open>UsageIntegrity\<close>: every operation of the usage store keeps \<open>database_ok\<close>, all keys, checks and
    foreign keys of the schema. \<open>DailyLedger\<close>: the daily reconciliation refines \<open>ledger_after\<close>, the
    abstract ledger of a source. \<open>RunStoreFacts\<close>: the run store keeps the schema, a completed import is
    what the next lookup finds, recovery closes exactly the open runs, expiry is invisible to the
    planner. \<open>DemoData\<close>: a database for witnesses.
  \<^item> \<open>Cost\<close> and \<open>CostFacts\<close> (\<open>application/cost/\<close>): price lookup, pricing in IEEE doubles (a dyadic
    rational rounded half to even after every operation) with its error bound, gap-filling.
  \<^item> \<open>Diagnostics\<close> (\<open>application/diagnostics.rs\<close>, \<open>infrastructure/database/diagnostics_store.rs\<close>,
    \<open>migrations/0004_diagnostic_events.sql\<close>): the event log, run reports, health.
  \<^item> \<open>Effects\<close>: operations that change a world and may fail, with rules for what they ensure.
    \<open>Execution\<close> (\<open>application/refresh/execution.rs\<close>): a refresh over its ports. \<open>ExecutionFacts\<close>: what
    it reports, for any ports. \<open>RefreshContract\<close>: the locale \<open>refresh_stores\<close>, what the execution relies
    on, and the closing of its runs. \<open>RefreshOnSqlite\<close>: the modelled stores discharge the contract.
  \<^item> \<open>Coordinator\<close> and \<open>CoordinatorFacts\<close> (\<open>application/refresh/coordinator.rs\<close>, \<open>scheduler.rs\<close>): the
    step relation of the coordinator over its shared state, its reachable states, the end of every
    accepted refresh, the balance of its announcements and ends, the scheduler over the observations
    of its condition variable.
  \<^item> \<open>UploadScope\<close>, \<open>UploadBatch\<close>, \<open>UploadBatchFacts\<close> (\<open>application/collect_sync/scope.rs\<close>, \<open>dto.rs\<close>,
    \<open>export.rs\<close>, \<open>batch.rs\<close>, \<open>infrastructure/database/daily_usage_export_store.rs\<close>): scopes, the
    export of facts from SQLite, the batches.
  \<^item> \<open>CollectSyncStore\<close> and \<open>CollectSyncStoreFacts\<close> (\<open>infrastructure/database/collect_sync_store.rs\<close>,
    \<open>application/ports/collect_sync_store.rs\<close>, \<open>migrations/0008_collect_sync.sql\<close>): the state of an
    account and the outbox, and the invariant \<open>sync_db_ok\<close> between them.
  \<^item> \<open>CloudSession\<close> and \<open>CloudSessionFacts\<close> (\<open>application/cloud_session.rs\<close>): the signed-in session
    and its token refresh against interference.
  \<^item> \<open>CollectSync\<close> (\<open>application/collect_sync/service.rs\<close>): the upload worker. \<open>CollectSyncFacts\<close>: the
    locale \<open>upload_environment\<close> and the proof that no row of the outbox is lost. \<open>CollectSyncSend\<close> and
    \<open>CollectSyncDrain\<close>: the worker drains the outbox, or loops on a device the remote never knows.
    \<open>CollectSyncOnSqlite\<close>: the service on the modelled stores, and the witnesses.
  \<^item> \<open>TraySummary\<close> and \<open>TraySummaryFacts\<close> (\<open>application/usage/tray_summary.rs\<close>,
    \<open>infrastructure/database/tray_summary_store.rs\<close>): the summary in the tray, its sums and trends.

  \<^bold>\<open>Correspondence.\<close> A Rust \<open>struct\<close> is a record with prefixed fields, an \<open>enum\<close> a datatype, \<open>Result\<close>
  the sum with the error on the left, \<open>Option\<close> is \<open>option\<close>, a panic is \<open>None\<close>. Unsigned integers are
  words; an \<open>i64\<close> is an \<open>int\<close> whose operations write out overflow, saturation or the checked bound. A
  table is the list of its rows by ascending primary key; a statement is refused as a whole when it
  breaks a check or a unique key, and \<open>transact\<close> rolls a failed transaction back. SQL comparisons of
  text are bytewise, \<open>trim\<close> and \<open>length\<close> are SQLite's. Names follow the source; where the source uses
  one name twice (a port method and the SQL function behind it) the method has a prefix.

  \<^bold>\<open>Threads.\<close> The coordinator is an inductive relation whose steps are the sections under its lock
  and, apart from them, the publications and the work outside it. The upload worker calls its ports
  (clock, export, UUIDs, remote, status sink, thread start) on the whole world, so a port may also do
  what other threads do meanwhile; between two calls it runs alone. The session calls its token store
  under its lock and its remote without it.

  \<^bold>\<open>Loops and bounds.\<close> Loops over lists are structural recursions; \<open>chunks\<close> and the scheduler have a
  termination proof. The loop of the upload worker may run for ever: \<open>worker_loop\<close> is a partial
  function whose value is \<open>None\<close> then, and that it returns is proved where it does. No model uses
  fuel. The bounds of the code are kept: 500 characters of a run error, 1000 imports per expiry and 14
  days of retention, 1000 facts per batch and 100 models per fact, 500 diagnostic events of at most 14 days.

  \<^bold>\<open>What is an argument.\<close> The calendar library, the collectors, the budget evaluation, the baseline
  repair, the JSON serializers (\<open>wire_codec\<close>, \<open>scope_codec\<close>), SHA-256, UUIDs, clocks, the remote
  service, the token store and the generated price snapshot are arguments of the definitions. Where a
  property needs one of them to behave it says so: a serializer reads back what it wrote, a clock does
  not read earlier than the start, a remote answers.

  \<^bold>\<open>Not modelled.\<close>

  \<^item> The collectors of the single products (\<open>infrastructure/collectors/\<close>) and the stores of their
    caches and repairs (\<open>opencode_usage_ledger_store.rs\<close>, \<open>antigravity_*.rs\<close>, \<open>grok_*.rs\<close>): readers of
    the files and databases of single products, left out for their extent. They enter as the port that
    answers a request with candidates.
  \<^item> The read-only queries of the usage integrity report and of the sources of a health report, and
    the JSON redaction of event contexts.
  \<^item> The settings service and the account service, which wire the session and the stores together, and
    the HTTP clients under \<open>infrastructure/cloud/\<close>.
  \<^item> The Tauri shell, commands, tray, windows, notifications and \<open>bootstrap.rs\<close>: glue to the platform.
  \<^item> Failures of SQLite other than a refused statement (I/O, a full disk, more than 32766 bound
    parameters in one export), poisoned locks, and hooks replaced while a coordinator runs.
\<close>

end
